(* ===== verification/Prelude.thy ===== *)
theory Prelude
  imports
    Main
    "HOL-Library.State_Monad"
    "HOL-Library.Finite_Map"
    "HOL-Library.Char_ord"
    "HOL-Library.List_Lexorder"
    "HOL-Library.Sublist"
begin

text \<open>
  Shared vocabulary of the development: Go's machine integers and durations, Go maps and slices,
  the weakest-precondition calculus used for every effectful routine, the Go \<^verbatim>\<open>for range\<close>
  loop, and the contract of the retry helpers of client-go, which are parameters of the model.

  Effectful code is written in the state monad.  What the program reads from the outside world
  (the API server, the clock, the mount table) is answered by a record of functions that see the
  whole interaction history so far; each call is recorded in that history.  A theorem that
  quantifies over this record therefore holds for every behaviour of the outside world.
\<close>

section \<open>Machine integers and durations\<close>

text \<open>Two's complement wrap-around of \<^verbatim>\<open>int64\<close>, and Go's truncating division.\<close>

definition i64 :: "int \<Rightarrow> int" where
  "i64 x = (x + 2 ^ 63) mod 2 ^ 64 - 2 ^ 63"

definition in_i64 :: "int \<Rightarrow> bool" where
  "in_i64 x \<longleftrightarrow> - (2 ^ 63) \<le> x \<and> x < 2 ^ 63"

definition go_div :: "int \<Rightarrow> int \<Rightarrow> int" where
  "go_div a b = sgn a * sgn b * (\<bar>a\<bar> div \<bar>b\<bar>)"

definition go_mod :: "int \<Rightarrow> int \<Rightarrow> int" where
  "go_mod a b = a - b * go_div a b"

lemma i64_id [simp]: "in_i64 x \<Longrightarrow> i64 x = x"
  unfolding i64_def in_i64_def by simp

lemma i64_in [simp]: "in_i64 (i64 x)"
proof -
  have "0 \<le> (x + 2 ^ 63) mod 2 ^ 64" "(x + 2 ^ 63) mod 2 ^ 64 < (2 ^ 64 :: int)"
    by simp_all
  then show ?thesis unfolding i64_def in_i64_def by simp
qed

lemma i64_add_left [simp]: "i64 (i64 x + y) = i64 (x + y)"
proof -
  have "((x + 2 ^ 63) mod 2 ^ 64 - 2 ^ 63 + y + 2 ^ 63) mod 2 ^ 64 = ((x + 2 ^ 63) mod 2 ^ 64 + y) mod (2 ^ 64 :: int)"
    by (simp add: algebra_simps)
  also have "\<dots> = (x + y + 2 ^ 63) mod 2 ^ 64"
    by (simp add: mod_simps algebra_simps)
  finally show ?thesis by (simp add: i64_def)
qed

lemma i64_diff_left [simp]: "i64 (i64 x - y) = i64 (x - y)"
  using i64_add_left [of x "- y"] by simp

lemma i64_minus_period: "i64 (x - 2 ^ 64) = i64 x"
proof -
  have "x - 2 ^ 64 + 2 ^ 63 = x + 2 ^ 63 - (2 ^ 64 :: int)" by simp
  then show ?thesis unfolding i64_def by (metis minus_mod_self2)
qed

lemma go_div_nonneg [simp]: "0 \<le> a \<Longrightarrow> 0 < b \<Longrightarrow> go_div a b = a div b"
  unfolding go_div_def by (cases "a = 0") auto

lemma go_mod_nonneg [simp]: "0 \<le> a \<Longrightarrow> 0 < b \<Longrightarrow> go_mod a b = a mod b"
  unfolding go_mod_def by (simp add: minus_mult_div_eq_mod)

text \<open>
  \<^verbatim>\<open>time.Time\<close> is the number of nanoseconds since Go's zero time, so that
  \<^verbatim>\<open>IsZero\<close> is comparison with 0; \<^verbatim>\<open>Sub\<close> saturates at the bounds of
  \<^verbatim>\<open>time.Duration\<close>.
\<close>

type_synonym time = int
type_synonym duration = int

definition time_Sub :: "time \<Rightarrow> time \<Rightarrow> duration" where
  "time_Sub t u = max (- (2 ^ 63)) (min (2 ^ 63 - 1) (t - u))"

definition time_IsZero :: "time \<Rightarrow> bool" where
  "time_IsZero t \<longleftrightarrow> t = 0"

definition time_Second :: duration where
  "time_Second = 1000000000"

lemma time_Sub_self [simp]: "time_Sub t t = 0"
  by (simp add: time_Sub_def)

lemma time_Sub_in [simp]: "in_i64 (time_Sub t u)"
  by (auto simp: time_Sub_def in_i64_def)

lemma time_Sub_less_iff:
  assumes "d \<le> 2 ^ 63 - 1" "- (2 ^ 63) < d"
  shows "time_Sub t u < d \<longleftrightarrow> t - u < d"
  using assms by (auto simp: time_Sub_def)

section \<open>Maps and slices\<close>

text \<open>A Go map read at an absent key yields the zero value of its element type.\<close>

type_synonym strmap = "(string, string) fmap"

definition mget :: "strmap \<Rightarrow> string \<Rightarrow> string" where
  "mget m k = (case fmlookup m k of None \<Rightarrow> '''' | Some v \<Rightarrow> v)"

lemma mget_upd [simp]: "mget (fmupd k v m) k' = (if k = k' then v else mget m k')"
  by (simp add: mget_def)

lemma mget_empty [simp]: "mget fmempty k = ''''"
  by (simp add: mget_def)

definition addTo :: "'k \<Rightarrow> int \<Rightarrow> ('k, int) fmap \<Rightarrow> ('k, int) fmap" where
  "addTo k d m = fmupd k (case fmlookup m k of None \<Rightarrow> d | Some v \<Rightarrow> v + d) m"

definition iget :: "('k, int) fmap \<Rightarrow> 'k \<Rightarrow> int" where
  "iget m k = (case fmlookup m k of None \<Rightarrow> 0 | Some v \<Rightarrow> v)"

lemma iget_addTo [simp]: "iget (addTo k d m) k' = (if k = k' then iget m k' + d else iget m k')"
  by (simp add: iget_def addTo_def split: option.splits)

lemma iget_empty [simp]: "iget fmempty k = 0"
  by (simp add: iget_def)

text \<open>\<^verbatim>\<open>slices.Contains\<close> and \<^verbatim>\<open>slices.DeleteFunc\<close>.\<close>

definition slices_Contains :: "'a list \<Rightarrow> 'a \<Rightarrow> bool" where
  "slices_Contains xs x = List.member xs x"

definition slices_DeleteFunc :: "'a list \<Rightarrow> ('a \<Rightarrow> bool) \<Rightarrow> 'a list" where
  "slices_DeleteFunc xs del = filter (\<lambda>x. \<not> del x) xs"

lemma slices_Contains_iff [simp]: "slices_Contains xs x \<longleftrightarrow> x \<in> set xs"
  by (simp add: slices_Contains_def)

lemma set_slices_DeleteFunc [simp]: "set (slices_DeleteFunc xs del) = {x \<in> set xs. \<not> del x}"
  by (simp add: slices_DeleteFunc_def)

section \<open>Weakest preconditions in the state monad\<close>

named_theorems wp_rules

definition wp :: "('s, 'a) state \<Rightarrow> ('a \<Rightarrow> 's \<Rightarrow> bool) \<Rightarrow> 's \<Rightarrow> bool" where
  "wp m Q s = (case run_state m s of (a, s') \<Rightarrow> Q a s')"

text \<open>The rules for the primitives leave out the initial state, so that they also apply under a binder.\<close>

lemma wp_return [simp, wp_rules]: "wp (State_Monad.return x) Q = Q x"
  by (rule ext) (simp add: wp_def State_Monad.return_def)

lemma wp_bind [simp, wp_rules]:
  "wp (State_Monad.bind m f) Q = wp m (\<lambda>a. wp (f a) Q)"
proof
  fix s
  show "wp (State_Monad.bind m f) Q s = wp m (\<lambda>a. wp (f a) Q) s"
    by (cases "run_state m s") (simp add: wp_def State_Monad.bind_def)
qed

lemma wp_get [simp, wp_rules]: "wp State_Monad.get Q = (\<lambda>s. Q s s)"
  by (rule ext) (simp add: wp_def State_Monad.get_def)

lemma wp_set [simp, wp_rules]: "wp (State_Monad.set s') Q = (\<lambda>s. Q () s')"
  by (rule ext) (simp add: wp_def State_Monad.set_def)

lemma wp_update [simp, wp_rules]: "wp (State_Monad.update f) Q = (\<lambda>s. Q () (f s))"
  by (rule ext) (simp add: State_Monad.update_def)

lemma wp_State: "wp (State f) Q s = (case f s of (a, s') \<Rightarrow> Q a s')"
  by (simp add: wp_def)

lemma wp_if [wp_rules]:
  "wp (if b then m else n) Q s = (if b then wp m Q s else wp n Q s)"
  by simp

lemma wp_case_option [wp_rules]:
  "wp (case x of None \<Rightarrow> m | Some a \<Rightarrow> f a) Q s =
   (case x of None \<Rightarrow> wp m Q s | Some a \<Rightarrow> wp (f a) Q s)"
  by (cases x) auto

lemma wp_case_sum [wp_rules]:
  "wp (case x of Inl e \<Rightarrow> f e | Inr a \<Rightarrow> g a) Q s =
   (case x of Inl e \<Rightarrow> wp (f e) Q s | Inr a \<Rightarrow> wp (g a) Q s)"
  by (cases x) auto

lemma wp_case_prod [wp_rules]:
  "wp (case x of (a, b) \<Rightarrow> f a b) Q s = (case x of (a, b) \<Rightarrow> wp (f a b) Q s)"
  by (cases x) auto

lemma wp_mono: "wp m P s \<Longrightarrow> (\<And>a s'. P a s' \<Longrightarrow> Q a s') \<Longrightarrow> wp m Q s"
  by (auto simp: wp_def split: prod.splits)

lemma wp_conj: "wp m P s \<Longrightarrow> wp m Q s \<Longrightarrow> wp m (\<lambda>a s'. P a s' \<and> Q a s') s"
  by (auto simp: wp_def split: prod.splits)

lemma wp_run: "wp m Q s \<longleftrightarrow> Q (fst (run_state m s)) (snd (run_state m s))"
  by (simp add: wp_def split: prod.splits)

lemma wp_runD: "wp m Q s \<Longrightarrow> run_state m s = (a, s') \<Longrightarrow> Q a s'"
  by (simp add: wp_def)

lemma wp_trivial [simp]: "wp m (\<lambda>_ _. True) s"
  by (simp add: wp_def split: prod.splits)

section \<open>The \<^verbatim>\<open>for range\<close> loop\<close>

text \<open>
  A loop over a slice with local variables \<^term>\<open>acc\<close>: the body runs once per element, in order.
\<close>

primrec foldM :: "('x \<Rightarrow> 'acc \<Rightarrow> ('s, 'acc) state) \<Rightarrow> 'x list \<Rightarrow> 'acc \<Rightarrow> ('s, 'acc) state" where
  "foldM f [] acc = State_Monad.return acc"
| "foldM f (x # xs) acc = State_Monad.bind (f x acc) (foldM f xs)"

lemma wp_foldM:
  assumes "I acc s"
    and "\<And>x acc s. x \<in> set xs \<Longrightarrow> I acc s \<Longrightarrow> wp (f x acc) I s"
  shows "wp (foldM f xs acc) I s"
  using assms
proof (induction xs arbitrary: acc s)
  case (Cons x xs)
  have "wp (f x acc) I s" using Cons.prems by simp
  then show ?case
    unfolding foldM.simps wp_bind
    by (rule wp_mono) (rule Cons.IH, auto intro: Cons.prems(2))
qed simp

text \<open>The same rule with the elements already visited in view of the invariant.\<close>

lemma wp_foldM_prefix:
  assumes "I [] acc s"
    and "\<And>done x rest acc s. xs = done @ x # rest \<Longrightarrow> I done acc s \<Longrightarrow> wp (f x acc) (I (done @ [x])) s"
  shows "wp (foldM f xs acc) (I xs) s"
proof -
  have "wp (foldM f rest acc) (I (done @ rest)) s"
    if "xs = done @ rest" "I done acc s" for "done" rest acc s
    using that
  proof (induction rest arbitrary: "done" acc s)
    case (Cons x rest)
    have "wp (f x acc) (I (done @ [x])) s"
      using Cons.prems assms(2) by blast
    then show ?case
      unfolding foldM.simps wp_bind
      by (rule wp_mono) (use Cons.IH [of "done @ [x]"] Cons.prems in auto)
  qed simp
  from this [of "[]" xs] assms(1) show ?thesis by simp
qed

text \<open>A loop that stops at the first error, \<^verbatim>\<open>if err != nil { return err }\<close>.\<close>

primrec foldE :: "('x \<Rightarrow> 'acc \<Rightarrow> 'e + 'acc) \<Rightarrow> 'x list \<Rightarrow> 'acc \<Rightarrow> 'e + 'acc" where
  "foldE f [] acc = Inr acc"
| "foldE f (x # xs) acc = (case f x acc of Inl e \<Rightarrow> Inl e | Inr acc' \<Rightarrow> foldE f xs acc')"

text \<open>
  A loop refines a loop over an abstraction of its local variables that fails exactly when it does.
\<close>

lemma foldE_refines:
  assumes "\<And>x acc. x \<in> set xs \<Longrightarrow> I acc \<Longrightarrow> case f x acc of
      Inl _ \<Rightarrow> g x (view acc) = None | Inr acc' \<Rightarrow> I acc' \<and> g x (view acc) = Some (view acc')"
    and "I acc"
  shows "case foldE f xs acc of
      Inl _ \<Rightarrow> fold (\<lambda>x m. Option.bind m (g x)) xs (Some (view acc)) = None
    | Inr acc' \<Rightarrow> I acc' \<and> fold (\<lambda>x m. Option.bind m (g x)) xs (Some (view acc)) = Some (view acc')"
  using assms
proof (induction xs arbitrary: acc)
  case (Cons x xs)
  have none: "fold (\<lambda>x m. Option.bind m (g x)) ys None = None" for ys
    by (induction ys) simp_all
  show ?case
  proof (cases "f x acc")
    case (Inl e)
    then show ?thesis using Cons.prems(1) [of x acc] Cons.prems(2) none by simp
  next
    case (Inr acc')
    have "case foldE f xs acc' of
      Inl _ \<Rightarrow> fold (\<lambda>x m. Option.bind m (g x)) xs (Some (view acc')) = None
    | Inr r \<Rightarrow> I r \<and> fold (\<lambda>x m. Option.bind m (g x)) xs (Some (view acc')) = Some (view r)" if "I acc'"
      using Cons.IH [OF Cons.prems(1) that] by simp
    then show ?thesis
      using Inr Cons.prems(1) [of x acc] Cons.prems(2) by (auto split: sum.splits)
  qed
qed simp

text \<open>What each round keeps, with the elements already visited in view, holds after a loop that ends well.\<close>

lemma foldE_invariant:
  assumes "foldE f xs acc = Inr r" "I [] acc"
    and step: "\<And>done x rest acc acc'. xs = done @ x # rest \<Longrightarrow> I done acc \<Longrightarrow> f x acc = Inr acc' \<Longrightarrow> I (done @ [x]) acc'"
  shows "I xs r"
proof -
  have "I (done @ rest) r" if "xs = done @ rest" "I done acc" "foldE f rest acc = Inr r" for "done" rest acc
    using that
  proof (induction rest arbitrary: "done" acc)
    case (Cons x rest)
    then obtain acc' where acc': "f x acc = Inr acc'" "foldE f rest acc' = Inr r"
      by (auto split: sum.splits)
    show ?case
      using Cons.IH [of "done @ [x]" acc'] step [OF Cons.prems(1,2) acc'(1)] Cons.prems(1) acc'(2) by simp
  qed simp
  from this [of "[]" xs] assms(1,2) show ?thesis by simp
qed

text \<open>A loop whose body may abort it, and what every round keeps.\<close>

primrec forEach :: "('x \<Rightarrow> ('s, 'e option) state) \<Rightarrow> 'x list \<Rightarrow> ('s, 'e option) state" where
  "forEach f [] = State_Monad.return None"
| "forEach f (x # xs) = State_Monad.bind (f x)
     (\<lambda>r. case r of Some e \<Rightarrow> State_Monad.return (Some e) | None \<Rightarrow> forEach f xs)"

lemma wp_forEach:
  assumes "I s" and step: "\<And>x s. x \<in> set xs \<Longrightarrow> I s \<Longrightarrow> wp (f x) (\<lambda>_. I) s"
  shows "wp (forEach f xs) (\<lambda>_. I) s"
  using assms
proof (induction xs arbitrary: s)
  case (Cons x xs)
  have "wp (f x) (\<lambda>_. I) s" using Cons.prems by simp
  then show ?case
    unfolding forEach.simps wp_bind
    by (rule wp_mono) (use Cons in \<open>simp add: wp_rules split: option.split\<close>)
qed simp

section \<open>Retry helpers\<close>

text \<open>
  The contract of \<^verbatim>\<open>retry.OnError\<close> and \<^verbatim>\<open>retry.RetryOnConflict\<close> (client-go): the
  action runs at least once, is run again only after a retriable error, and the error returned is
  the one of its last run.
\<close>

inductive attempts ::
  "('e \<Rightarrow> bool) \<Rightarrow> ('s, 'e option) state \<Rightarrow> 's \<Rightarrow> 'e option \<Rightarrow> 's \<Rightarrow> bool" for p fn where
  attempts_last: "run_state fn s = (r, s') \<Longrightarrow> attempts p fn s r s'"
| attempts_again: "run_state fn s = (Some e, s1) \<Longrightarrow> p e \<Longrightarrow> attempts p fn s1 r s2 \<Longrightarrow> attempts p fn s r s2"

type_synonym ('s, 'e) retrier =
  "('e \<Rightarrow> bool) \<Rightarrow> ('s, 'e option) state \<Rightarrow> ('s, 'e option) state"

definition retry_ok :: "('s, 'e) retrier \<Rightarrow> bool" where
  "retry_ok retry \<longleftrightarrow>
     (\<forall>p fn s. attempts p fn s (fst (run_state (retry p fn) s)) (snd (run_state (retry p fn) s)))"

text \<open>A concrete retrier: at most \<^term>\<open>n\<close> further runs after the first.\<close>

primrec retry_steps :: "nat \<Rightarrow> ('s, 'e) retrier" where
  "retry_steps 0 p fn = fn"
| "retry_steps (Suc n) p fn = State_Monad.bind fn (\<lambda>r. case r of
      None \<Rightarrow> State_Monad.return None
    | Some e \<Rightarrow> if p e then retry_steps n p fn else State_Monad.return (Some e))"

lemma attempts_retry_steps:
  "attempts p fn s (fst (run_state (retry_steps n p fn) s)) (snd (run_state (retry_steps n p fn) s))"
proof (induction n arbitrary: s)
  case 0
  show ?case by (rule attempts_last) simp
next
  case (Suc n)
  obtain r s1 where run: "run_state fn s = (r, s1)" by fastforce
  show ?case
  proof (cases "\<exists>e. r = Some e \<and> p e")
    case True
    then obtain e where "r = Some e" "p e" by blast
    with run Suc.IH [of s1] show ?thesis
      by (auto simp: State_Monad.bind_def intro: attempts_again)
  next
    case False
    with run show ?thesis
      by (auto simp: State_Monad.bind_def State_Monad.return_def split: option.splits intro: attempts_last)
  qed
qed

lemma retry_ok_steps [simp]: "retry_ok (retry_steps n)"
  by (simp add: retry_ok_def attempts_retry_steps)

text \<open>What every single run guarantees on leaving, starting from an invariant, the whole retry guarantees.\<close>

lemma attempts_invariant:
  assumes "attempts p fn s r s'" "I s"
    and "\<And>s. I s \<Longrightarrow> wp fn (\<lambda>r s'. Q r s' \<and> ((\<exists>e. r = Some e \<and> p e) \<longrightarrow> I s')) s"
  shows "Q r s'"
  using assms(1,2)
proof (induction rule: attempts.induct)
  case (attempts_last s r s')
  then show ?case using assms(3) [of s] by (auto simp: wp_def)
next
  case (attempts_again s e s1 r s2)
  then show ?case using assms(3) [of s] by (auto simp: wp_def)
qed

lemma wp_retry:
  assumes "retry_ok retry" "I s"
    and "\<And>s. I s \<Longrightarrow> wp fn (\<lambda>r s'. Q r s' \<and> ((\<exists>e. r = Some e \<and> p e) \<longrightarrow> I s')) s"
  shows "wp (retry p fn) Q s"
proof -
  have "attempts p fn s (fst (run_state (retry p fn) s)) (snd (run_state (retry p fn) s))"
    using assms(1) unfolding retry_ok_def by blast
  then show ?thesis
    unfolding wp_run by (rule attempts_invariant [where I = I, OF _ assms(2)]) (rule assms(3))
qed

lemma wp_retry_inv:
  assumes "retry_ok retry" "I s" and step: "\<And>s. I s \<Longrightarrow> wp fn (\<lambda>_. I) s"
  shows "wp (retry p fn) (\<lambda>_. I) s"
proof (rule wp_retry [where I = I, OF assms(1,2)])
  fix s assume "I s"
  from step [OF this] show "wp fn (\<lambda>r s'. I s' \<and> ((\<exists>e. r = Some e \<and> p e) \<longrightarrow> I s')) s"
    by (rule wp_mono) simp
qed

text \<open>An action that succeeds on its first run is run exactly once.\<close>

lemma retry_first_success:
  assumes "retry_ok retry" "run_state fn s = (None, s')"
  shows "run_state (retry p fn) s = (None, s')"
proof -
  have "attempts p fn s r s2 \<Longrightarrow> r = None \<and> s2 = s'" for r s2
    using assms(2) by (auto elim: attempts.cases)
  then show ?thesis
    using assms(1) unfolding retry_ok_def by (metis prod.collapse)
qed

end
