(* ===== verification/Kube_Types.thy ===== *)
theory Kube_Types
  imports Prelude
begin

text \<open>
  The Kubernetes objects the module reads and writes, with the fields its code uses.  Go's embedded
  \<^verbatim>\<open>metav1.ObjectMeta\<close> is the record \<^verbatim>\<open>objmeta\<close>, which every resource extends, so that the
  accessors of \<^verbatim>\<open>client.Object\<close> are functions on \<^verbatim>\<open>'a objmeta_scheme\<close>.  A pointer field is an
  option, a nil map is \<^term>\<open>None\<close>.  A \<^verbatim>\<open>resource.Quantity\<close> of which the code only reads the
  \<^verbatim>\<open>Value()\<close> is that number; one that the code also prints is the pair of its \<^verbatim>\<open>Value()\<close> and its
  \<^verbatim>\<open>String()\<close>.
\<close>

section \<open>Errors of the API server\<close>

text \<open>The reasons that \<^verbatim>\<open>k8s.io/apimachinery/pkg/api/errors\<close> and \<^verbatim>\<open>meta.IsNoMatchError\<close> tell apart.\<close>

datatype kerr =
    NotFound
  | Conflict
  | AlreadyExists
  | TooManyRequests
  | ServerTimeout
  | InternalError
  | Timeout
  | NoKindMatch
  | Forbidden
  | OtherErr string

section \<open>Object metadata\<close>

record objmeta =
  Name :: string
  Namespace :: string
  UID :: string
  ResourceVersion :: string
  Generation :: int
  Labels :: "strmap option"
  Annotations :: "strmap option"
  Finalizers :: "string list"
  DeletionTimestamp :: "time option"
  ManagedFields :: "string list"

definition nilmap :: "('k, 'v) fmap option \<Rightarrow> ('k, 'v) fmap" where
  "nilmap m = (case m of None \<Rightarrow> fmempty | Some x \<Rightarrow> x)"

lemma nilmap_simps [simp]: "nilmap None = fmempty" "nilmap (Some m) = m"
  by (simp_all add: nilmap_def)

abbreviation labels_of :: "'a objmeta_scheme \<Rightarrow> strmap" where
  "labels_of o1 \<equiv> nilmap (Labels o1)"

abbreviation annotations_of :: "'a objmeta_scheme \<Rightarrow> strmap" where
  "annotations_of o1 \<equiv> nilmap (Annotations o1)"

definition meta0 :: "string \<Rightarrow> objmeta" where
  "meta0 n = \<lparr>Name = n, Namespace = '''', UID = '''', ResourceVersion = '''', Generation = 0,
     Labels = None, Annotations = None, Finalizers = [], DeletionTimestamp = None,
     ManagedFields = []\<rparr>"

text \<open>The key of an object: namespace and name.\<close>

type_synonym okey = "string \<times> string"

definition ObjectKeyFromObject :: "'a objmeta_scheme \<Rightarrow> okey" where
  "ObjectKeyFromObject o1 = (Namespace o1, Name o1)"

section \<open>The driver's name\<close>

definition LocalStorageClassProvisioner :: string where
  "LocalStorageClassProvisioner = ''local.csi.storage.deckhouse.io''"

section \<open>Resources of sds-node-configurator\<close>

record llv_status =
  Phase :: string
  ActualSize :: int
  llv_Reason :: string

record llv_source =
  source_Kind :: string
  source_Name :: string

record LLV = objmeta +
  ActualLVNameOnTheNode :: string
  llv_Type :: string
  llv_Size :: string
  LVMVolumeGroupName :: string
  llv_Source :: "llv_source option"
  llv_Thin :: "string option"
  llv_Thick :: "bool option option"
  llv_VolumeCleanup :: "string option"
  llv_Status :: "llv_status option"

record quantity =
  q_Value :: int
  q_String :: string

record llvs_status =
  llvs_Phase :: string
  llvs_Size :: quantity
  UsedSize :: int
  NodeName :: string
  llvs_ActualVGNameOnTheNode :: string
  llvs_Reason :: string

record LLVS = objmeta +
  ActualSnapshotNameOnTheNode :: string
  LVMLogicalVolumeName :: string
  llvs_Status :: "llvs_status option"

text \<open>
  An \<^verbatim>\<open>LVMVolumeGroup\<close>: its status names the nodes it lives on, its free space and the thin pools
  it has (the pool's name and its available space).
\<close>

record thin_pool =
  tp_Name :: string
  AvailableSpace :: int

record LVG = objmeta +
  ActualVGNameOnTheNode :: string
  Local_NodeName :: string
  spec_ThinPools :: "string list"
  lvg_Nodes :: "string list"
  VGSize :: int
  VGFree :: int
  AllocatedSize :: int
  ExtentSize :: int
  status_ThinPools :: "thin_pool list"

section \<open>Persistent volumes and snapshot contents\<close>

text \<open>
  Of \<^verbatim>\<open>spec.csi\<close> the code reads the driver and the handle; \<^verbatim>\<open>csi_Rest\<close>, \<^verbatim>\<open>pv_SpecRest\<close> and
  \<^verbatim>\<open>pv_Status\<close> stand for all remaining fields, of which only "zero value or not" matters.
\<close>

record csi_source =
  Driver :: string
  VolumeHandle :: string
  csi_Rest :: string

record PV = objmeta +
  CSI :: "csi_source option"
  pv_SpecRest :: string
  pv_Status :: string

text \<open>An unstructured object.\<close>

datatype json = JStr string | JObj "(string \<times> json) list" | JOther

end
