(* ===== verification/Monitoring.thy ===== *)
theory Monitoring
  imports Kube_Types
begin

text \<open>
  \<^verbatim>\<open>images/controller/pkg/monitoring/monitoring.go\<close>: the picture one sweep publishes and the label
  values it is made of.  A byte count, a \<^verbatim>\<open>float64\<close> of an integral quantity in the source, is an
  integer here.
\<close>

section \<open>Label values\<close>

definition KindLVMLogicalVolume :: string where
  "KindLVMLogicalVolume = ''LVMLogicalVolume''"

definition KindLVMLogicalVolumeSnapshot :: string where
  "KindLVMLogicalVolumeSnapshot = ''LVMLogicalVolumeSnapshot''"

definition ResultSuccess :: string where
  "ResultSuccess = ''success''"

definition ResultError :: string where
  "ResultError = ''error''"

definition ResultRequeue :: string where
  "ResultRequeue = ''requeue''"

definition ResultNoop :: string where
  "ResultNoop = ''noop''"

definition OrphanStateActive :: string where
  "OrphanStateActive = ''active''"

definition OrphanStateRetained :: string where
  "OrphanStateRetained = ''retained''"

definition OrphanStateTerminating :: string where
  "OrphanStateTerminating = ''terminating''"

definition OrphanStateBlocked :: string where
  "OrphanStateBlocked = ''blocked''"

definition BlockReasonSnapshotsPresent :: string where
  "BlockReasonSnapshotsPresent = ''snapshots_present''"

definition BlockReasonAgentFinalizerAbsent :: string where
  "BlockReasonAgentFinalizerAbsent = ''agent_finalizer_absent''"

definition BlockReasonPersistentVolumeExists :: string where
  "BlockReasonPersistentVolumeExists = ''persistent_volume_exists''"

definition BlockReasonVolumeSnapshotContentExists :: string where
  "BlockReasonVolumeSnapshotContentExists = ''volume_snapshot_content_exists''"

definition BlockReasonSuccessorInPlace :: string where
  "BlockReasonSuccessorInPlace = ''successor_in_place''"

definition BlockReasonAPIError :: string where
  "BlockReasonAPIError = ''api_error''"

definition BlockReasonRemovalFailed :: string where
  "BlockReasonRemovalFailed = ''removal_failed''"

definition PhaseUnknown :: string where
  "PhaseUnknown = ''Unknown''"

definition TypeUnknown :: string where
  "TypeUnknown = ''Unknown''"

lemmas kind_defs = KindLVMLogicalVolume_def KindLVMLogicalVolumeSnapshot_def

lemmas result_defs = ResultSuccess_def ResultError_def ResultRequeue_def ResultNoop_def

lemmas orphan_state_defs =
  OrphanStateActive_def OrphanStateRetained_def OrphanStateTerminating_def OrphanStateBlocked_def

lemmas block_reason_defs =
  BlockReasonSnapshotsPresent_def BlockReasonAgentFinalizerAbsent_def
  BlockReasonPersistentVolumeExists_def BlockReasonVolumeSnapshotContentExists_def
  BlockReasonSuccessorInPlace_def BlockReasonAPIError_def BlockReasonRemovalFailed_def

lemma kinds_distinct [simp]:
  "KindLVMLogicalVolume \<noteq> KindLVMLogicalVolumeSnapshot"
  "KindLVMLogicalVolumeSnapshot \<noteq> KindLVMLogicalVolume"
  by (simp_all add: kind_defs)

lemma orphan_states_distinct [simp]:
  "OrphanStateActive \<noteq> OrphanStateBlocked" "OrphanStateBlocked \<noteq> OrphanStateActive"
  "OrphanStateRetained \<noteq> OrphanStateBlocked" "OrphanStateBlocked \<noteq> OrphanStateRetained"
  "OrphanStateTerminating \<noteq> OrphanStateBlocked" "OrphanStateBlocked \<noteq> OrphanStateTerminating"
  "OrphanStateActive \<noteq> OrphanStateTerminating" "OrphanStateTerminating \<noteq> OrphanStateActive"
  "OrphanStateRetained \<noteq> OrphanStateTerminating" "OrphanStateTerminating \<noteq> OrphanStateRetained"
  "OrphanStateActive \<noteq> OrphanStateRetained" "OrphanStateRetained \<noteq> OrphanStateActive"
  by (simp_all add: orphan_state_defs)

lemma block_reasons_nonempty [simp]:
  "BlockReasonSnapshotsPresent \<noteq> ''''" "BlockReasonAgentFinalizerAbsent \<noteq> ''''"
  "BlockReasonPersistentVolumeExists \<noteq> ''''" "BlockReasonVolumeSnapshotContentExists \<noteq> ''''"
  "BlockReasonSuccessorInPlace \<noteq> ''''" "BlockReasonAPIError \<noteq> ''''"
  "BlockReasonRemovalFailed \<noteq> ''''"
  by (simp_all add: block_reason_defs)

lemma results_distinct [simp]:
  "ResultSuccess \<noteq> ResultError" "ResultError \<noteq> ResultSuccess"
  "ResultSuccess \<noteq> ResultNoop" "ResultNoop \<noteq> ResultSuccess"
  "ResultError \<noteq> ResultNoop" "ResultNoop \<noteq> ResultError"
  by (simp_all add: result_defs)

section \<open>Outcome of a reconcile\<close>

record reconcile_Result =
  Requeue :: bool
  RequeueAfter :: duration

definition noRequeue :: reconcile_Result where
  "noRequeue = \<lparr>Requeue = False, RequeueAfter = 0\<rparr>"

definition reconcileResult :: "reconcile_Result option \<Rightarrow> 'e option \<Rightarrow> string" where
  "reconcileResult res err =
     (if err \<noteq> None then ResultError
      else case res of
        Some r \<Rightarrow> if Requeue r \<or> RequeueAfter r > 0 then ResultRequeue else ResultSuccess
      | None \<Rightarrow> ResultSuccess)"

section \<open>The picture of one sweep\<close>

record PhaseAndType =
  key_Phase :: string
  key_Type :: string

record OrphanedLVMLogicalVolume =
  orphan_Name :: string
  orphan_LVMVolumeGroup :: string
  orphan_Type :: string
  orphan_State :: string
  orphan_Reason :: string
  AllocatedBytes :: int

record OrphanedLVMLogicalVolumeSnapshot =
  osnap_Name :: string
  osnap_LVMLogicalVolume :: string
  osnap_State :: string
  osnap_Reason :: string
  UsedBytes :: int

record LVMLogicalVolumeSweep =
  CountBy :: "(PhaseAndType, int) fmap"
  AllocatedBytesBy :: "(PhaseAndType, int) fmap"
  Orphans :: "OrphanedLVMLogicalVolume list"
  OrphanedSnapshots :: "OrphanedLVMLogicalVolumeSnapshot list"
  AwaitingAgentByKind :: "(string, int) fmap"

definition emptySweep :: LVMLogicalVolumeSweep where
  "emptySweep = \<lparr>CountBy = fmempty, AllocatedBytesBy = fmempty, Orphans = [],
     OrphanedSnapshots = [], AwaitingAgentByKind = fmempty\<rparr>"

end
