(* ===== verification/GC_Model.thy ===== *)
theory GC_Model
  imports Monitoring
begin

text \<open>
  \<^verbatim>\<open>images/controller/pkg/controller/lvm_logical_volume_gc.go\<close>: the garbage collector that takes
  the CSI finalizer off LVMLogicalVolumes and LVMLogicalVolumeSnapshots whose deletion was requested.

  The API server, seen through the manager cache (\<^verbatim>\<open>Cached\<close>) and directly (\<^verbatim>\<open>Live\<close>), the clock, the
  context and \<^verbatim>\<open>retry.OnError\<close> are the function fields of \<^verbatim>\<open>gc_env\<close>; every call is recorded, newest
  first, in the history of the state.  The remaining fields of the state are the mutable Go values one
  sweep threads through its calls: the collector's \<^verbatim>\<open>lastSweep\<close>, the live confirmation, the reclaim
  budget, the picture being filled in, and the \<^verbatim>\<open>removed\<close> variable the retried closure captures.
\<close>

section \<open>Constants\<close>

definition SDSLocalVolumeCSIFinalizer :: string where
  "SDSLocalVolumeCSIFinalizer = ''storage.deckhouse.io/sds-local-volume-csi''"

definition SDSNodeConfiguratorFinalizer :: string where
  "SDSNodeConfiguratorFinalizer = ''storage.deckhouse.io/sds-node-configurator''"

definition RetainAcknowledgedAnnotation :: string where
  "RetainAcknowledgedAnnotation = ''storage.deckhouse.io/retain-acknowledged''"

definition LVMLogicalVolumeGCCtrlName :: string where
  "LVMLogicalVolumeGCCtrlName = ''lvm-logical-volume-gc-controller''"

definition minSweepInterval :: duration where
  "minSweepInterval = 5 * time_Second"

definition maxReclaimsPerSweep :: int where
  "maxReclaimsPerSweep = 50"

definition reclaimBacklogRequeue :: duration where
  "reclaimBacklogRequeue = time_Second"

definition liveConfirmationMaxAge :: duration where
  "liveConfirmationMaxAge = time_Second"

lemma finalizers_distinct [simp]:
  "SDSLocalVolumeCSIFinalizer \<noteq> SDSNodeConfiguratorFinalizer"
  "SDSNodeConfiguratorFinalizer \<noteq> SDSLocalVolumeCSIFinalizer"
  by (simp_all add: SDSLocalVolumeCSIFinalizer_def SDSNodeConfiguratorFinalizer_def)

section \<open>Errors\<close>

text \<open>
  An error of the API server handed on as it is, one wrapped with the list call it came from, and
  the collector's own sentinels and refusals.
\<close>

datatype gc_err =
    API kerr
  | ListErr string kerr
  | AgentFinalizerAbsent
  | LiveObjectIsASuccessor
  | NotBeingDeleted
  | SweepThrottled

fun retriableWrite :: "gc_err \<Rightarrow> bool" where
  "retriableWrite (API e) = (e \<in> {Conflict, TooManyRequests, ServerTimeout, InternalError, Timeout})"
| "retriableWrite (ListErr _ e) = (e \<in> {Conflict, TooManyRequests, ServerTimeout, InternalError, Timeout})"
| "retriableWrite _ = False"

section \<open>State and environment\<close>

datatype reader = Cached | Live

datatype gc_event =
    ENow time
  | EListLLV "kerr + LLV list"
  | EListLLVS reader "kerr + LLVS list"
  | EListPV reader "kerr + PV list"
  | EListVSC reader "kerr + json list"
  | EGet string okey "kerr + objmeta"
  | EPatch string objmeta objmeta "kerr option"
  | ECtxErr bool
  | EObserveRemoval string string
  | ESetSweep LVMLogicalVolumeSweep
  | EObserveReconcile string string

type_synonym strset = "(string, unit) fmap"

record pvReference =
  ref_Name :: string
  ref_Driver :: string

record liveConfirmation =
  readAt :: time
  referenced :: "(string, pvReference) fmap"
  snapshotted :: strset
  snapshotContents :: strset

record reclaimBudget =
  remaining :: int
  deferred :: int
  exhausted :: bool

record gc_state =
  hist :: "gc_event list"
  lastSweep :: time
  live :: liveConfirmation
  budget :: reclaimBudget
  picture :: LVMLogicalVolumeSweep
  removed :: bool

type_synonym 'a gc = "(gc_state, 'a) state"

record gc_env =
  cl_List_LLV :: "gc_event list \<Rightarrow> kerr + LLV list"
  List_LLVS :: "reader \<Rightarrow> gc_event list \<Rightarrow> kerr + LLVS list"
  List_PV :: "reader \<Rightarrow> gc_event list \<Rightarrow> kerr + PV list"
  List_VSC :: "reader \<Rightarrow> gc_event list \<Rightarrow> kerr + json list"
  liveReader_Get :: "string \<Rightarrow> okey \<Rightarrow> gc_event list \<Rightarrow> kerr + objmeta"
  cl_Patch :: "string \<Rightarrow> objmeta \<Rightarrow> objmeta \<Rightarrow> gc_event list \<Rightarrow> kerr option"
  g_now :: "gc_event list \<Rightarrow> time"
  ctx_Err :: "gc_event list \<Rightarrow> bool"
  NestedString :: "json \<Rightarrow> string list \<Rightarrow> string \<times> bool"
  retry_OnError :: "(gc_state, gc_err) retrier"
  gracePeriod :: duration
  minInterval :: duration
  maxReclaims :: int

text \<open>One interaction: the answer may depend on everything that happened before, and is recorded.\<close>

definition ask :: "(gc_event list \<Rightarrow> 'a) \<Rightarrow> ('a \<Rightarrow> gc_event) \<Rightarrow> 'a gc" where
  "ask q ev = State (\<lambda>s. let a = q (hist s) in (a, s\<lparr>hist := ev a # hist s\<rparr>))"

definition emit :: "gc_event \<Rightarrow> unit gc" where
  "emit e = State (\<lambda>s. ((), s\<lparr>hist := e # hist s\<rparr>))"

lemma wp_ask [simp, wp_rules]:
  "wp (ask q ev) Q = (\<lambda>s. Q (q (hist s)) (s\<lparr>hist := ev (q (hist s)) # hist s\<rparr>))"
  by (rule ext) (simp add: ask_def wp_State Let_def)

lemma wp_emit [simp, wp_rules]: "wp (emit e) Q = (\<lambda>s. Q () (s\<lparr>hist := e # hist s\<rparr>))"
  by (rule ext) (simp add: emit_def wp_State)

definition now :: "gc_env \<Rightarrow> time gc" where
  "now g = ask (g_now g) ENow"

section \<open>What refers to a volume or a snapshot\<close>

definition keep ::
  "string \<Rightarrow> pvReference \<Rightarrow> (string, pvReference) fmap \<Rightarrow> (string, pvReference) fmap" where
  "keep key ref m = (case fmlookup m key of None \<Rightarrow> fmupd key ref m | Some _ \<Rightarrow> m)"

definition referencePV :: "PV \<Rightarrow> (string, pvReference) fmap \<Rightarrow> (string, pvReference) fmap" where
  "referencePV pv m =
    (let ref = \<lparr>ref_Name = Name pv,
                ref_Driver = (case CSI pv of None \<Rightarrow> '''' | Some c \<Rightarrow> Driver c)\<rparr>;
         m1 = keep (Name pv) ref m
     in case CSI pv of
          None \<Rightarrow> m1
        | Some c \<Rightarrow>
            if Driver c = LocalStorageClassProvisioner \<and> VolumeHandle c \<noteq> ''''
            then keep (VolumeHandle c) ref m1 else m1)"

definition referencesOf :: "PV list \<Rightarrow> (string, pvReference) fmap" where
  "referencesOf pvs = fold referencePV pvs fmempty"

definition referencingPersistentVolumes ::
  "gc_env \<Rightarrow> reader \<Rightarrow> (gc_err + (string, pvReference) fmap) gc" where
  "referencingPersistentVolumes g rd = do {
     r \<leftarrow> ask (List_PV g rd) (EListPV rd);
     State_Monad.return (case r of
       Inl e \<Rightarrow> Inl (ListErr ''PersistentVolumes'' e)
     | Inr pvs \<Rightarrow> Inr (referencesOf pvs))
   }"

definition contentHandles :: "(json \<Rightarrow> string list \<Rightarrow> string \<times> bool) \<Rightarrow> json \<Rightarrow> string list" where
  "contentHandles nested content =
    (if fst (nested content [''spec'', ''driver'']) \<noteq> LocalStorageClassProvisioner then []
     else map (fst \<circ> nested content)
       (filter (\<lambda>path. snd (nested content path) \<and> fst (nested content path) \<noteq> '''')
          [[''status'', ''snapshotHandle''], [''spec'', ''source'', ''snapshotHandle'']]))"

definition setOf :: "string list \<Rightarrow> strset" where
  "setOf xs = fold (\<lambda>x. fmupd x ()) xs fmempty"

definition snapshotContentHandles :: "gc_env \<Rightarrow> reader \<Rightarrow> (gc_err + strset) gc" where
  "snapshotContentHandles g rd = do {
     r \<leftarrow> ask (List_VSC g rd) (EListVSC rd);
     State_Monad.return (case r of
       Inl e \<Rightarrow> if e = NoKindMatch \<or> e = NotFound then Inr fmempty
                else Inl (ListErr ''VolumeSnapshotContents'' e)
     | Inr items \<Rightarrow> Inr (setOf (concat (map (contentHandles (NestedString g)) items))))
   }"

definition snapshottedVolumeNames :: "LLVS list \<Rightarrow> strset" where
  "snapshottedVolumeNames snapshots =
     setOf (filter (\<lambda>n. n \<noteq> '''') (map LVMLogicalVolumeName snapshots))"

section \<open>The live confirmation\<close>

definition emptyConfirmation :: liveConfirmation where
  "emptyConfirmation =
     \<lparr>readAt = 0, referenced = fmempty, snapshotted = fmempty, snapshotContents = fmempty\<rparr>"

definition liveReload :: "gc_env \<Rightarrow> gc_err option gc" where
  "liveReload g = do {
     r \<leftarrow> referencingPersistentVolumes g Live;
     (case r of
       Inl e \<Rightarrow> State_Monad.return (Some e)
     | Inr refd \<Rightarrow> do {
         l \<leftarrow> ask (List_LLVS g Live) (EListLLVS Live);
         (case l of
           Inl e \<Rightarrow> State_Monad.return (Some (ListErr ''LVMLogicalVolumeSnapshots'' e))
         | Inr items \<Rightarrow> do {
             h \<leftarrow> snapshotContentHandles g Live;
             (case h of
               Inl e \<Rightarrow> State_Monad.return (Some e)
             | Inr contents \<Rightarrow> do {
                 t \<leftarrow> now g;
                 State_Monad.update (\<lambda>s. s\<lparr>live :=
                   \<lparr>readAt = t, referenced = refd, snapshotted = snapshottedVolumeNames items,
                    snapshotContents = contents\<rparr>\<rparr>);
                 State_Monad.return None
               })
           })
       })
   }"

definition load :: "gc_env \<Rightarrow> gc_err option gc" where
  "load g = do {
     s \<leftarrow> State_Monad.get;
     fresh \<leftarrow>
       (if time_IsZero (readAt (live s)) then State_Monad.return False
        else do {
          t \<leftarrow> now g;
          State_Monad.return (time_Sub t (readAt (live s)) < liveConfirmationMaxAge)
        });
     if fresh then State_Monad.return None else liveReload g
   }"

section \<open>The budget\<close>

definition spend :: "bool gc" where
  "spend = do {
     s \<leftarrow> State_Monad.get;
     let b = budget s;
     if remaining b \<le> 0 then do {
       State_Monad.set (s\<lparr>budget := b\<lparr>exhausted := True, deferred := deferred b + 1\<rparr>\<rparr>);
       State_Monad.return False
     } else do {
       State_Monad.set (s\<lparr>budget := b\<lparr>remaining := remaining b - 1\<rparr>\<rparr>);
       State_Monad.return True
     }
   }"

section \<open>Removing the finalizer\<close>

definition removeAttempt :: "gc_env \<Rightarrow> string \<Rightarrow> 'a objmeta_scheme \<Rightarrow> gc_err option gc" where
  "removeAttempt g kind cached = do {
     State_Monad.update (\<lambda>s. s\<lparr>removed := False\<rparr>);
     r \<leftarrow> ask (liveReader_Get g kind (ObjectKeyFromObject cached)) (EGet kind (ObjectKeyFromObject cached));
     (case r of
       Inl e \<Rightarrow> State_Monad.return (if e = NotFound then None else Some (API e))
     | Inr base \<Rightarrow>
         if UID base \<noteq> UID cached then State_Monad.return (Some LiveObjectIsASuccessor)
         else if DeletionTimestamp base = None then State_Monad.return (Some NotBeingDeleted)
         else if \<not> slices_Contains (Finalizers base) SDSLocalVolumeCSIFinalizer
           then State_Monad.return None
         else if \<not> slices_Contains (Finalizers base) SDSNodeConfiguratorFinalizer
           then State_Monad.return (Some AgentFinalizerAbsent)
         else do {
           let patched = base\<lparr>Finalizers :=
             slices_DeleteFunc (Finalizers base) (\<lambda>f. f = SDSLocalVolumeCSIFinalizer)\<rparr>;
           p \<leftarrow> ask (cl_Patch g kind base patched) (EPatch kind base patched);
           (case p of
             Some e \<Rightarrow> State_Monad.return (Some (API e))
           | None \<Rightarrow> do {
               State_Monad.update (\<lambda>s. s\<lparr>removed := True\<rparr>);
               State_Monad.return None
             })
         })
   }"

definition removeCSIFinalizer ::
  "gc_env \<Rightarrow> string \<Rightarrow> 'a objmeta_scheme \<Rightarrow> (bool \<times> gc_err option) gc" where
  "removeCSIFinalizer g kind cached = do {
     State_Monad.update (\<lambda>s. s\<lparr>removed := False\<rparr>);
     err \<leftarrow> retry_OnError g retriableWrite (removeAttempt g kind cached);
     s \<leftarrow> State_Monad.get;
     State_Monad.return (removed s, err)
   }"

text \<open>
  The outcome of one object: the state and the block reason to report and the requeue delay.
  \<^verbatim>\<open>reportRemoval\<close> is the switch on the result of \<^verbatim>\<open>removeCSIFinalizer\<close>, which \<^verbatim>\<open>reclaim\<close> and
  \<^verbatim>\<open>reclaimSnapshot\<close> contain in the same words.
\<close>

type_synonym verdict = "string \<times> string \<times> duration"

definition reportRemoval :: "gc_env \<Rightarrow> string \<Rightarrow> bool \<times> gc_err option \<Rightarrow> verdict gc" where
  "reportRemoval g kind result = (case result of (rem, err) \<Rightarrow>
     (case err of
       Some AgentFinalizerAbsent \<Rightarrow>
         State_Monad.return (OrphanStateBlocked, BlockReasonAgentFinalizerAbsent, 0)
     | Some LiveObjectIsASuccessor \<Rightarrow>
         State_Monad.return (OrphanStateBlocked, BlockReasonSuccessorInPlace, 0)
     | Some _ \<Rightarrow> do {
         cancelled \<leftarrow> ask (ctx_Err g) ECtxErr;
         if cancelled then State_Monad.return (OrphanStateTerminating, '''', 0)
         else do {
           emit (EObserveRemoval kind ResultError);
           State_Monad.return (OrphanStateBlocked, BlockReasonRemovalFailed, 0)
         }
       }
     | None \<Rightarrow> do {
         emit (EObserveRemoval kind (if rem then ResultSuccess else ResultNoop));
         State_Monad.return (OrphanStateTerminating, '''', 0)
       }))"

section \<open>Deciding about one object\<close>

definition retainAcknowledged :: "LLV \<Rightarrow> bool" where
  "retainAcknowledged llv \<longleftrightarrow> mget (annotations_of llv) RetainAcknowledgedAnnotation = ''true''"

definition mapHas :: "('k, 'v) fmap \<Rightarrow> 'k \<Rightarrow> bool" where
  "mapHas m k \<longleftrightarrow> fmlookup m k \<noteq> None"

definition reclaimConfirmed :: "gc_env \<Rightarrow> LLV \<Rightarrow> verdict gc" where
  "reclaimConfirmed g llv = do {
     err \<leftarrow> load g;
     (case err of
       Some _ \<Rightarrow> State_Monad.return (OrphanStateBlocked, BlockReasonAPIError, 0)
     | None \<Rightarrow> do {
         s \<leftarrow> State_Monad.get;
         if mapHas (referenced (live s)) (Name llv)
           then State_Monad.return (OrphanStateBlocked, BlockReasonPersistentVolumeExists, 0)
         else if mapHas (snapshotted (live s)) (Name llv)
           then State_Monad.return (OrphanStateBlocked, BlockReasonSnapshotsPresent, 0)
         else do {
           result \<leftarrow> removeCSIFinalizer g KindLVMLogicalVolume llv;
           reportRemoval g KindLVMLogicalVolume result
         }
       })
   }"

definition reclaim :: "gc_env \<Rightarrow> LLV \<Rightarrow> strset \<Rightarrow> verdict gc" where
  "reclaim g llv cachedSnapshotted =
    (case DeletionTimestamp llv of
       None \<Rightarrow> State_Monad.return
         (if retainAcknowledged llv then OrphanStateRetained else OrphanStateActive, '''', 0)
     | Some deleted \<Rightarrow>
         if mapHas cachedSnapshotted (Name llv)
           then State_Monad.return (OrphanStateBlocked, BlockReasonSnapshotsPresent, 0)
         else if \<not> slices_Contains (Finalizers llv) SDSNodeConfiguratorFinalizer
           then State_Monad.return (OrphanStateBlocked, BlockReasonAgentFinalizerAbsent, 0)
         else do {
           t \<leftarrow> now g;
           let waited = time_Sub t deleted;
           if waited < gracePeriod g
             then State_Monad.return (OrphanStateTerminating, '''', i64 (gracePeriod g - waited))
           else do {
             ok \<leftarrow> spend;
             if \<not> ok then State_Monad.return (OrphanStateTerminating, '''', reclaimBacklogRequeue)
             else reclaimConfirmed g llv
           }
         })"

definition reclaimSnapshotConfirmed :: "gc_env \<Rightarrow> LLVS \<Rightarrow> verdict gc" where
  "reclaimSnapshotConfirmed g llvs = do {
     err \<leftarrow> load g;
     (case err of
       Some _ \<Rightarrow> State_Monad.return (OrphanStateBlocked, BlockReasonAPIError, 0)
     | None \<Rightarrow> do {
         s \<leftarrow> State_Monad.get;
         if mapHas (snapshotContents (live s)) (Name llvs)
           then State_Monad.return (OrphanStateBlocked, BlockReasonVolumeSnapshotContentExists, 0)
         else do {
           result \<leftarrow> removeCSIFinalizer g KindLVMLogicalVolumeSnapshot llvs;
           reportRemoval g KindLVMLogicalVolumeSnapshot result
         }
       })
   }"

text \<open>
  \<^verbatim>\<open>reclaimSnapshot\<close> dereferences the deletion timestamp, which its only caller has checked; the
  argument \<^term>\<open>deleted\<close> is that timestamp.
\<close>

definition reclaimSnapshot :: "gc_env \<Rightarrow> LLVS \<Rightarrow> time \<Rightarrow> verdict gc" where
  "reclaimSnapshot g llvs deleted =
    (if \<not> slices_Contains (Finalizers llvs) SDSNodeConfiguratorFinalizer
       then State_Monad.return (OrphanStateBlocked, BlockReasonAgentFinalizerAbsent, 0)
     else do {
       t \<leftarrow> now g;
       let waited = time_Sub t deleted;
       if waited < gracePeriod g
         then State_Monad.return (OrphanStateTerminating, '''', i64 (gracePeriod g - waited))
       else do {
         ok \<leftarrow> spend;
         if \<not> ok then State_Monad.return (OrphanStateTerminating, '''', reclaimBacklogRequeue)
         else reclaimSnapshotConfirmed g llvs
       }
     })"

section \<open>The two halves of a sweep\<close>

definition llvPhase :: "LLV \<Rightarrow> string" where
  "llvPhase llv = (case llv_Status llv of
     None \<Rightarrow> PhaseUnknown
   | Some st \<Rightarrow> if Phase st = '''' then PhaseUnknown else Phase st)"

definition llvType :: "LLV \<Rightarrow> string" where
  "llvType llv = (if llv_Type llv = '''' then TypeUnknown else llv_Type llv)"

definition llvAllocatedBytes :: "LLV \<Rightarrow> int" where
  "llvAllocatedBytes llv = (case llv_Status llv of None \<Rightarrow> 0 | Some st \<Rightarrow> ActualSize st)"

definition llvsUsedBytes :: "LLVS \<Rightarrow> int" where
  "llvsUsedBytes llvs = (case llvs_Status llvs of None \<Rightarrow> 0 | Some st \<Rightarrow> UsedSize st)"

definition soonest :: "duration \<Rightarrow> duration \<Rightarrow> duration" where
  "soonest a b = (if a \<le> 0 then b else if b \<le> 0 then a else min a b)"

definition upd_picture :: "(LVMLogicalVolumeSweep \<Rightarrow> LVMLogicalVolumeSweep) \<Rightarrow> unit gc" where
  "upd_picture f = State_Monad.update (\<lambda>s. s\<lparr>picture := f (picture s)\<rparr>)"

definition volumeKey :: "LLV \<Rightarrow> PhaseAndType" where
  "volumeKey llv = \<lparr>key_Phase = llvPhase llv, key_Type = llvType llv\<rparr>"

definition countVolume :: "LLV \<Rightarrow> LVMLogicalVolumeSweep \<Rightarrow> LVMLogicalVolumeSweep" where
  "countVolume llv sw = sw\<lparr>
     CountBy := addTo (volumeKey llv) 1 (CountBy sw),
     AllocatedBytesBy := addTo (volumeKey llv) (llvAllocatedBytes llv) (AllocatedBytesBy sw)\<rparr>"

definition awaitAgent :: "string \<Rightarrow> LVMLogicalVolumeSweep \<Rightarrow> LVMLogicalVolumeSweep" where
  "awaitAgent kind sw = sw\<lparr>AwaitingAgentByKind := addTo kind 1 (AwaitingAgentByKind sw)\<rparr>"

definition sweepVolume ::
  "gc_env \<Rightarrow> strset \<Rightarrow> (string, pvReference) fmap \<Rightarrow> LLV \<Rightarrow> duration \<Rightarrow> duration gc" where
  "sweepVolume g cachedSnapshotted cachedReferenced llv nextSweep = do {
     upd_picture (countVolume llv);
     if \<not> slices_Contains (Finalizers llv) SDSLocalVolumeCSIFinalizer then do {
       (if DeletionTimestamp llv \<noteq> None \<and> slices_Contains (Finalizers llv) SDSNodeConfiguratorFinalizer
        then upd_picture (awaitAgent KindLVMLogicalVolume) else State_Monad.return ());
       State_Monad.return nextSweep
     } else if mapHas cachedReferenced (Name llv) then State_Monad.return nextSweep
     else do {
       v \<leftarrow> reclaim g llv cachedSnapshotted;
       (case v of (st, reason, requeueAfter) \<Rightarrow> do {
          upd_picture (\<lambda>sw. sw\<lparr>Orphans := Orphans sw @
            [\<lparr>orphan_Name = Name llv, orphan_LVMVolumeGroup = LVMVolumeGroupName llv,
              orphan_Type = llvType llv, orphan_State = st, orphan_Reason = reason,
              AllocatedBytes = llvAllocatedBytes llv\<rparr>]\<rparr>);
          State_Monad.return (soonest nextSweep requeueAfter)
        })
     }
   }"

definition sweepVolumes ::
  "gc_env \<Rightarrow> LLV list \<Rightarrow> LLVS list \<Rightarrow> (string, pvReference) fmap \<Rightarrow> duration gc" where
  "sweepVolumes g llvs snapshots cachedReferenced =
     foldM (sweepVolume g (snapshottedVolumeNames snapshots) cachedReferenced) llvs 0"

definition sweepSnapshot :: "gc_env \<Rightarrow> LLVS \<Rightarrow> duration \<Rightarrow> duration gc" where
  "sweepSnapshot g llvs nextSweep =
    (if \<not> slices_Contains (Finalizers llvs) SDSLocalVolumeCSIFinalizer then do {
       (if DeletionTimestamp llvs \<noteq> None \<and> slices_Contains (Finalizers llvs) SDSNodeConfiguratorFinalizer
        then upd_picture (awaitAgent KindLVMLogicalVolumeSnapshot) else State_Monad.return ());
       State_Monad.return nextSweep
     } else case DeletionTimestamp llvs of
       None \<Rightarrow> State_Monad.return nextSweep
     | Some deleted \<Rightarrow> do {
         v \<leftarrow> reclaimSnapshot g llvs deleted;
         (case v of (st, reason, requeueAfter) \<Rightarrow> do {
            upd_picture (\<lambda>sw. sw\<lparr>OrphanedSnapshots := OrphanedSnapshots sw @
              [\<lparr>osnap_Name = Name llvs, osnap_LVMLogicalVolume = LVMLogicalVolumeName llvs,
                osnap_State = st, osnap_Reason = reason, UsedBytes = llvsUsedBytes llvs\<rparr>]\<rparr>);
            State_Monad.return (soonest nextSweep requeueAfter)
          })
       })"

definition sweepSnapshots :: "gc_env \<Rightarrow> LLVS list \<Rightarrow> duration gc" where
  "sweepSnapshots g snapshots = foldM (sweepSnapshot g) snapshots 0"

section \<open>The sweep\<close>

definition sweepLists ::
  "gc_env \<Rightarrow> (gc_err + LLV list \<times> LLVS list \<times> (string, pvReference) fmap) gc" where
  "sweepLists g = do {
     l1 \<leftarrow> ask (cl_List_LLV g) EListLLV;
     (case l1 of
       Inl e \<Rightarrow> State_Monad.return (Inl (ListErr ''LVMLogicalVolumes'' e))
     | Inr llvs \<Rightarrow> do {
         l2 \<leftarrow> ask (List_LLVS g Cached) (EListLLVS Cached);
         (case l2 of
           Inl e \<Rightarrow> State_Monad.return (Inl (ListErr ''LVMLogicalVolumeSnapshots'' e))
         | Inr snaps \<Rightarrow> do {
             r \<leftarrow> referencingPersistentVolumes g Cached;
             State_Monad.return (case r of Inl e \<Rightarrow> Inl e | Inr refd \<Rightarrow> Inr (llvs, snaps, refd))
           })
       })
   }"

definition sweepBody ::
  "gc_env \<Rightarrow> LLV list \<Rightarrow> LLVS list \<Rightarrow> (string, pvReference) fmap \<Rightarrow> duration gc" where
  "sweepBody g llvs snaps refd = do {
     State_Monad.update (\<lambda>s. s\<lparr>live := emptyConfirmation, picture := emptySweep,
       budget := \<lparr>remaining = maxReclaims g, deferred = 0, exhausted = False\<rparr>\<rparr>);
     snapshotsNext \<leftarrow> sweepSnapshots g snaps;
     volumesNext \<leftarrow> sweepVolumes g llvs snaps refd;
     s \<leftarrow> State_Monad.get;
     emit (ESetSweep (picture s));
     t \<leftarrow> now g;
     State_Monad.update (\<lambda>s. s\<lparr>lastSweep := t\<rparr>);
     let nextSweep = soonest volumesNext snapshotsNext;
     State_Monad.return
       (if exhausted (budget s) then soonest nextSweep reclaimBacklogRequeue else nextSweep)
   }"

definition throttled :: "gc_env \<Rightarrow> duration option gc" where
  "throttled g = do {
     s \<leftarrow> State_Monad.get;
     if time_IsZero (lastSweep s) then State_Monad.return None
     else do {
       t \<leftarrow> now g;
       let since = time_Sub t (lastSweep s);
       State_Monad.return
         (if since < minInterval g then Some (i64 (minInterval g - since)) else None)
     }
   }"

definition sweepRun :: "gc_env \<Rightarrow> (LVMLogicalVolumeSweep \<times> duration \<times> gc_err option) gc" where
  "sweepRun g = do {
     l \<leftarrow> sweepLists g;
     (case l of
       Inl e \<Rightarrow> State_Monad.return (emptySweep, 0, Some e)
     | Inr found \<Rightarrow> (case found of (llvs, snaps, refd) \<Rightarrow> do {
         again \<leftarrow> sweepBody g llvs snaps refd;
         s \<leftarrow> State_Monad.get;
         State_Monad.return (picture s, again, None)
       }))
   }"

definition sweep :: "gc_env \<Rightarrow> (LVMLogicalVolumeSweep \<times> duration \<times> gc_err option) gc" where
  "sweep g = do {
     th \<leftarrow> throttled g;
     (case th of
       Some wait \<Rightarrow> State_Monad.return (emptySweep, wait, Some SweepThrottled)
     | None \<Rightarrow> sweepRun g)
   }"

section \<open>The reconciler and its predicates\<close>

definition gcReconcile ::
  "gc_env \<Rightarrow> duration \<Rightarrow> (reconcile_Result \<times> gc_err option) gc" where
  "gcReconcile g sweepInterval = do {
     out \<leftarrow> sweep g;
     (case out of (_, requeueAfter, err) \<Rightarrow>
       if err = Some SweepThrottled
         then State_Monad.return (\<lparr>Requeue = False, RequeueAfter = requeueAfter\<rparr>, None)
       else do {
         let result =
           (if err \<noteq> None then (\<lparr>Requeue = False, RequeueAfter = 0\<rparr>, err)
            else (\<lparr>Requeue = False, RequeueAfter =
              (if requeueAfter \<le> 0 \<or> requeueAfter > sweepInterval then sweepInterval
               else requeueAfter)\<rparr>, None));
         emit (EObserveReconcile LVMLogicalVolumeGCCtrlName
                 (reconcileResult (Some (fst result)) (snd result)));
         State_Monad.return result
       })
   }"

definition llvSweepInputChanged :: "LLV \<Rightarrow> LLV \<Rightarrow> bool" where
  "llvSweepInputChanged oldLLV newLLV \<longleftrightarrow>
     (if (DeletionTimestamp oldLLV = None) \<noteq> (DeletionTimestamp newLLV = None) then True
      else if Finalizers oldLLV \<noteq> Finalizers newLLV then True
      else if retainAcknowledged oldLLV \<noteq> retainAcknowledged newLLV then True
      else if LVMVolumeGroupName oldLLV \<noteq> LVMVolumeGroupName newLLV \<or>
              llv_Type oldLLV \<noteq> llv_Type newLLV then True
      else llvPhase oldLLV \<noteq> llvPhase newLLV \<or>
           llvAllocatedBytes oldLLV \<noteq> llvAllocatedBytes newLLV)"

definition llvsSweepInputChanged :: "LLVS \<Rightarrow> LLVS \<Rightarrow> bool" where
  "llvsSweepInputChanged oldLLVS newLLVS \<longleftrightarrow>
     (if (DeletionTimestamp oldLLVS = None) \<noteq> (DeletionTimestamp newLLVS = None) then True
      else if Finalizers oldLLVS \<noteq> Finalizers newLLVS then True
      else LVMLogicalVolumeName oldLLVS \<noteq> LVMLogicalVolumeName newLLVS \<or>
           llvsUsedBytes oldLLVS \<noteq> llvsUsedBytes newLLVS)"

text \<open>
  The cache transformer.  Anything that is not a PersistentVolume is passed through.
\<close>

datatype 'o cacheItem = ItemPV PV | ItemOther 'o

definition stripPV :: "PV \<Rightarrow> PV" where
  "stripPV pv = pv\<lparr>
     CSI := (case CSI pv of
       None \<Rightarrow> None
     | Some c \<Rightarrow> Some \<lparr>Driver = Driver c, VolumeHandle = VolumeHandle c, csi_Rest = ''''\<rparr>),
     pv_SpecRest := '''', pv_Status := '''', ManagedFields := [], Annotations := None, Labels := None\<rparr>"

fun StripPersistentVolume :: "'o cacheItem \<Rightarrow> 'o cacheItem" where
  "StripPersistentVolume (ItemPV pv) = ItemPV (stripPV pv)"
| "StripPersistentVolume (ItemOther x) = ItemOther x"

end
