(* ===== verification/GC_History.thy ===== *)
theory GC_History
  imports GC_Model
begin

text \<open>
  What a history of the collector says: the cached lists of the current sweep, the most recent
  complete uncached picture, the clock readings, and the criterion a finalizer write has to meet.
  The criterion is stated over the recorded answers of the API server alone, independently of the
  maps the collector builds from them.
\<close>

section \<open>Reference relations\<close>

definition refers :: "PV \<Rightarrow> string \<Rightarrow> bool" where
  "refers pv n \<longleftrightarrow> Name pv = n \<or>
     (case CSI pv of None \<Rightarrow> False
      | Some c \<Rightarrow> Driver c = LocalStorageClassProvisioner \<and> VolumeHandle c = n \<and> n \<noteq> '''')"

definition referenceOf :: "PV \<Rightarrow> pvReference" where
  "referenceOf pv = \<lparr>ref_Name = Name pv,
     ref_Driver = (case CSI pv of None \<Rightarrow> '''' | Some c \<Rightarrow> Driver c)\<rparr>"

definition snapshotOf :: "LLVS \<Rightarrow> string \<Rightarrow> bool" where
  "snapshotOf snap n \<longleftrightarrow> LVMLogicalVolumeName snap = n \<and> n \<noteq> ''''"

lemma fmlookup_referencePV:
  "fmlookup (referencePV pv m) n =
     (case fmlookup m n of Some r \<Rightarrow> Some r | None \<Rightarrow> if refers pv n then Some (referenceOf pv) else None)"
  by (auto simp: referencePV_def keep_def refers_def referenceOf_def Let_def split: option.splits)

lemma fmlookup_fold_referencePV:
  "fmlookup (fold referencePV pvs m) n =
     (case fmlookup m n of Some r \<Rightarrow> Some r
      | None \<Rightarrow> map_option referenceOf (find (\<lambda>pv. refers pv n) pvs))"
  by (induction pvs arbitrary: m) (auto simp: fmlookup_referencePV split: option.splits)

lemma fmlookup_referencesOf:
  "fmlookup (referencesOf pvs) n = map_option referenceOf (find (\<lambda>pv. refers pv n) pvs)"
  by (simp add: referencesOf_def fmlookup_fold_referencePV)

lemma mapHas_referencesOf [simp]: "mapHas (referencesOf pvs) n \<longleftrightarrow> (\<exists>pv\<in>set pvs. refers pv n)"
  by (auto simp: mapHas_def fmlookup_referencesOf find_None_iff find_Some_iff)

lemma mapHas_fold_upd: "mapHas (fold (\<lambda>x. fmupd x ()) xs m) n \<longleftrightarrow> n \<in> set xs \<or> mapHas m n"
  by (induction xs arbitrary: m) (auto simp: mapHas_def)

lemma mapHas_setOf [simp]: "mapHas (setOf xs) n \<longleftrightarrow> n \<in> set xs"
  by (simp add: setOf_def mapHas_fold_upd) (simp add: mapHas_def)

lemma mapHas_snapshottedVolumeNames [simp]:
  "mapHas (snapshottedVolumeNames snaps) n \<longleftrightarrow> (\<exists>sn\<in>set snaps. snapshotOf sn n)"
  by (auto simp: snapshottedVolumeNames_def snapshotOf_def)

lemma mapHas_empty [simp]: "\<not> mapHas fmempty n"
  by (simp add: mapHas_def)

section \<open>Reading a history\<close>

text \<open>Every function below looks back to the list of LVMLogicalVolumes that opened the sweep.\<close>

primrec cachedVolumes :: "gc_event list \<Rightarrow> LLV list" where
  "cachedVolumes [] = []"
| "cachedVolumes (e # h) = (case e of
     EListLLV (Inr xs) \<Rightarrow> xs | EListLLV (Inl _) \<Rightarrow> [] | _ \<Rightarrow> cachedVolumes h)"

primrec cachedSnapshots :: "gc_event list \<Rightarrow> LLVS list" where
  "cachedSnapshots [] = []"
| "cachedSnapshots (e # h) = (case e of
     EListLLVS Cached (Inr xs) \<Rightarrow> xs | EListLLV _ \<Rightarrow> [] | _ \<Rightarrow> cachedSnapshots h)"

primrec cachedPVs :: "gc_event list \<Rightarrow> PV list" where
  "cachedPVs [] = []"
| "cachedPVs (e # h) = (case e of
     EListPV Cached (Inr xs) \<Rightarrow> xs | EListLLV _ \<Rightarrow> [] | _ \<Rightarrow> cachedPVs h)"

primrec readings :: "gc_event list \<Rightarrow> time list" where
  "readings [] = []"
| "readings (e # h) = (case e of ENow t \<Rightarrow> t # readings h | EListLLV _ \<Rightarrow> [] | _ \<Rightarrow> readings h)"

text \<open>
  Three uncached lists that succeeded one right after the other; a cluster that does not serve
  VolumeSnapshotContents has none.  Together with the clock reading that follows they are a picture.
\<close>

definition confirm :: "gc_event list \<Rightarrow> (PV list \<times> LLVS list \<times> json list) option" where
  "confirm h = (case h of
     EListVSC Live v # EListLLVS Live (Inr ss) # EListPV Live (Inr pvs) # _ \<Rightarrow>
       (case v of
         Inr cs \<Rightarrow> Some (pvs, ss, cs)
       | Inl e \<Rightarrow> if e = NoKindMatch \<or> e = NotFound then Some (pvs, ss, []) else None)
   | _ \<Rightarrow> None)"

primrec livePicture :: "gc_event list \<Rightarrow> (time \<times> PV list \<times> LLVS list \<times> json list) option" where
  "livePicture [] = None"
| "livePicture (e # h) = (case e of
     ENow t \<Rightarrow> (case confirm h of Some p \<Rightarrow> Some (t, p) | None \<Rightarrow> livePicture h)
   | EListLLV _ \<Rightarrow> None
   | _ \<Rightarrow> livePicture h)"

definition isOkPatch :: "string \<Rightarrow> gc_event \<Rightarrow> bool" where
  "isOkPatch kind e \<longleftrightarrow> (case e of EPatch k _ _ None \<Rightarrow> k = kind | _ \<Rightarrow> False)"

definition isAnyOkPatch :: "gc_event \<Rightarrow> bool" where
  "isAnyOkPatch e \<longleftrightarrow> (case e of EPatch _ _ _ None \<Rightarrow> True | _ \<Rightarrow> False)"

definition isSuccess :: "string \<Rightarrow> gc_event \<Rightarrow> bool" where
  "isSuccess kind e \<longleftrightarrow> e = EObserveRemoval kind ResultSuccess"

primrec sinceStart :: "(gc_event \<Rightarrow> bool) \<Rightarrow> gc_event list \<Rightarrow> int" where
  "sinceStart P [] = 0"
| "sinceStart P (e # h) = (case e of
     EListLLV _ \<Rightarrow> 0 | _ \<Rightarrow> (if P e then 1 else 0) + sinceStart P h)"

section \<open>When a finalizer may be written off\<close>

definition cachedObjects :: "string \<Rightarrow> gc_event list \<Rightarrow> objmeta list" where
  "cachedObjects kind h =
    (if kind = KindLVMLogicalVolume then map objmeta.truncate (cachedVolumes h)
     else if kind = KindLVMLogicalVolumeSnapshot then map objmeta.truncate (cachedSnapshots h)
     else [])"

text \<open>Nothing in the cached and in the uncached picture holds the object back.\<close>

definition clearedToGo ::
  "(json \<Rightarrow> string list \<Rightarrow> string \<times> bool) \<Rightarrow> string \<Rightarrow> string \<Rightarrow> gc_event list \<Rightarrow> bool" where
  "clearedToGo nested kind n h \<longleftrightarrow> (case livePicture h of
     None \<Rightarrow> False
   | Some (t, pvs, ss, cs) \<Rightarrow>
       readings h \<noteq> [] \<and> time_Sub (hd (readings h)) t < liveConfirmationMaxAge \<and>
       (if kind = KindLVMLogicalVolume
        then (\<forall>pv\<in>set (cachedPVs h) \<union> set pvs. \<not> refers pv n) \<and>
             (\<forall>sn\<in>set (cachedSnapshots h) \<union> set ss. \<not> snapshotOf sn n)
        else (\<forall>c\<in>set cs. n \<notin> set (contentHandles nested c))))"

text \<open>The cached object: somebody asked to delete it, the agent owns it, and the grace period is over.\<close>

definition deletionDue :: "duration \<Rightarrow> objmeta \<Rightarrow> gc_event list \<Rightarrow> bool" where
  "deletionDue grace c h \<longleftrightarrow>
     SDSLocalVolumeCSIFinalizer \<in> set (Finalizers c) \<and>
     SDSNodeConfiguratorFinalizer \<in> set (Finalizers c) \<and>
     (case DeletionTimestamp c of
        None \<Rightarrow> False
      | Some d \<Rightarrow> \<exists>t\<in>set (readings h). grace \<le> time_Sub t d)"

text \<open>The live object read immediately before the write.\<close>

definition liveDeletable :: "objmeta \<Rightarrow> objmeta \<Rightarrow> bool" where
  "liveDeletable c base \<longleftrightarrow>
     UID base = UID c \<and> DeletionTimestamp base \<noteq> None \<and>
     SDSLocalVolumeCSIFinalizer \<in> set (Finalizers base) \<and>
     SDSNodeConfiguratorFinalizer \<in> set (Finalizers base)"

definition patchJustified ::
  "gc_env \<Rightarrow> string \<Rightarrow> objmeta \<Rightarrow> objmeta \<Rightarrow> gc_event list \<Rightarrow> bool" where
  "patchJustified g kind base patched h \<longleftrightarrow>
     (\<exists>c\<in>set (cachedObjects kind h).
        h \<noteq> [] \<and> hd h = EGet kind (ObjectKeyFromObject c) (Inr base) \<and>
        liveDeletable c base \<and>
        deletionDue (gracePeriod g) c h \<and>
        clearedToGo (NestedString g) kind (Name c) h) \<and>
     patched = base\<lparr>Finalizers := filter (\<lambda>f. f \<noteq> SDSLocalVolumeCSIFinalizer) (Finalizers base)\<rparr>"

primrec safeHist :: "gc_env \<Rightarrow> gc_event list \<Rightarrow> bool" where
  "safeHist g [] = True"
| "safeHist g (e # h) = (safeHist g h \<and>
     (case e of
        EGet kind key r \<Rightarrow> liveReader_Get g kind key h = r
      | EPatch kind base patched r \<Rightarrow> cl_Patch g kind base patched h = r \<and> patchJustified g kind base patched h
      | _ \<Rightarrow> True))"

section \<open>The writes of one removal leave everything else alone\<close>

definition isWrite :: "gc_event \<Rightarrow> bool" where
  "isWrite e \<longleftrightarrow> (case e of EGet _ _ _ \<Rightarrow> True | EPatch _ _ _ _ \<Rightarrow> True | _ \<Rightarrow> False)"

lemma isWrite_simps [simp]:
  "isWrite (EGet k key r)" "isWrite (EPatch k b p w)"
  by (simp_all add: isWrite_def)

lemma quiet_event:
  assumes "isWrite e"
  shows "cachedVolumes (e # h) = cachedVolumes h" "cachedSnapshots (e # h) = cachedSnapshots h"
    "cachedPVs (e # h) = cachedPVs h" "readings (e # h) = readings h"
    "livePicture (e # h) = livePicture h" "confirm (e # h) = None"
  using assms by (cases e; simp add: isWrite_def confirm_def)+

lemma quiet_cleared:
  assumes "isWrite e"
  shows "clearedToGo nested kind n (e # h) = clearedToGo nested kind n h"
    "deletionDue grace c (e # h) = deletionDue grace c h"
    "cachedObjects kind (e # h) = cachedObjects kind h"
  unfolding clearedToGo_def deletionDue_def cachedObjects_def
  by (simp_all only: quiet_event [OF assms])

end
