(* ===== verification/GC_Safety.thy ===== *)
theory GC_Safety
  imports GC_History
begin

text \<open>
  The invariant of a sweep and that every routine of the collector keeps it, for every behaviour of
  the API server and the clock and every retrier that honours its contract.
\<close>

section \<open>One removal\<close>

text \<open>
  A successful patch is not retried, so the captured variable \<^verbatim>\<open>removed\<close> counts it exactly.
\<close>

definition patchCount :: "string \<Rightarrow> gc_event list \<Rightarrow> int" where
  "patchCount kind h = sinceStart (isOkPatch kind) h"

definition successCount :: "string \<Rightarrow> gc_event list \<Rightarrow> int" where
  "successCount kind h = sinceStart (isSuccess kind) h"

definition allPatches :: "gc_event list \<Rightarrow> int" where
  "allPatches h = sinceStart isAnyOkPatch h"

lemma counts_Cons [simp]:
  "patchCount kind (EGet k key r # h) = patchCount kind h"
  "patchCount kind (EPatch k b p w # h) = (if w = None \<and> k = kind then 1 else 0) + patchCount kind h"
  "patchCount kind (EObserveRemoval k res # h) = patchCount kind h"
  "patchCount kind (ENow t # h) = patchCount kind h"
  "patchCount kind (EListPV rd l1 # h) = patchCount kind h"
  "patchCount kind (EListLLVS rd l2 # h) = patchCount kind h"
  "patchCount kind (EListVSC rd l3 # h) = patchCount kind h"
  "patchCount kind (ECtxErr cx # h) = patchCount kind h"
  "patchCount kind (ESetSweep sw # h) = patchCount kind h"
  "patchCount kind (EListLLV l4 # h) = 0"
  "successCount kind (EGet k key r # h) = successCount kind h"
  "successCount kind (EPatch k b p w # h) = successCount kind h"
  "successCount kind (EObserveRemoval k res # h) =
     (if k = kind \<and> res = ResultSuccess then 1 else 0) + successCount kind h"
  "successCount kind (ENow t # h) = successCount kind h"
  "successCount kind (EListPV rd l1 # h) = successCount kind h"
  "successCount kind (EListLLVS rd l2 # h) = successCount kind h"
  "successCount kind (EListVSC rd l3 # h) = successCount kind h"
  "successCount kind (ECtxErr cx # h) = successCount kind h"
  "successCount kind (ESetSweep sw # h) = successCount kind h"
  "successCount kind (EListLLV l4 # h) = 0"
  "allPatches (EGet k key r # h) = allPatches h"
  "allPatches (EPatch k b p w # h) = (if w = None then 1 else 0) + allPatches h"
  "allPatches (EObserveRemoval k res # h) = allPatches h"
  "allPatches (ENow t # h) = allPatches h"
  "allPatches (EListPV rd l1 # h) = allPatches h"
  "allPatches (EListLLVS rd l2 # h) = allPatches h"
  "allPatches (EListVSC rd l3 # h) = allPatches h"
  "allPatches (ECtxErr cx # h) = allPatches h"
  "allPatches (ESetSweep sw # h) = allPatches h"
  "allPatches (EListLLV l4 # h) = 0"
  by (simp_all add: patchCount_def successCount_def allPatches_def isOkPatch_def isAnyOkPatch_def
      isSuccess_def
      split: option.splits)

text \<open>What may happen to the state while one finalizer is being removed.\<close>

definition sameView :: "gc_event list \<Rightarrow> gc_event list \<Rightarrow> bool" where
  "sameView h h0 \<longleftrightarrow> livePicture h = livePicture h0 \<and> readings h = readings h0 \<and>
     cachedVolumes h = cachedVolumes h0 \<and> cachedSnapshots h = cachedSnapshots h0 \<and>
     cachedPVs h = cachedPVs h0"

definition others :: "gc_state \<Rightarrow> gc_state \<Rightarrow> bool" where
  "others s s0 \<longleftrightarrow> live s = live s0 \<and> budget s = budget s0 \<and> picture s = picture s0 \<and>
     lastSweep s = lastSweep s0"

definition removing ::
  "gc_env \<Rightarrow> string \<Rightarrow> objmeta \<Rightarrow> gc_state \<Rightarrow> gc_state \<Rightarrow> bool" where
  "removing g kind c s0 s \<longleftrightarrow>
     (let h0 = hist s0; h = hist s; d = (if removed s then 1 else 0) in
      others s s0 \<and>
      safeHist g h \<and> confirm h = None \<and> sameView h h0 \<and>
      (\<forall>k. successCount k h = successCount k h0) \<and>
      (\<forall>k. patchCount k h = patchCount k h0 + (if k = kind then d else 0)) \<and>
      allPatches h = allPatches h0 + d)"

definition mayRemove :: "gc_env \<Rightarrow> string \<Rightarrow> objmeta \<Rightarrow> gc_event list \<Rightarrow> bool" where
  "mayRemove g kind c h \<longleftrightarrow> c \<in> set (cachedObjects kind h) \<and>
     deletionDue (gracePeriod g) c h \<and> clearedToGo (NestedString g) kind (Name c) h"

lemma mayRemove_view: "sameView h h0 \<Longrightarrow> mayRemove g kind c h = mayRemove g kind c h0"
  unfolding mayRemove_def deletionDue_def clearedToGo_def cachedObjects_def sameView_def
  by (simp only:)

lemma mayRemove_removing:
  assumes "removing g kind c s0 s" "mayRemove g kind c (hist s0)"
  shows "mayRemove g kind c (hist s)"
  using assms mayRemove_view [of "hist s" "hist s0" g kind c] unfolding removing_def Let_def by blast

lemma sameView_refl [simp]: "sameView h h"
  by (simp add: sameView_def)

lemma sameView_quiet [simp]: "isWrite e \<Longrightarrow> sameView (e # h) h0 = sameView h h0"
  by (cases e; simp add: isWrite_def sameView_def)

lemma patch_is_justified:
  assumes "mayRemove g kind (objmeta.truncate c) h" "liveDeletable (objmeta.truncate c) base"
  shows "patchJustified g kind base
     (base\<lparr>Finalizers := filter (\<lambda>f. f \<noteq> SDSLocalVolumeCSIFinalizer) (Finalizers base)\<rparr>)
     (EGet kind (ObjectKeyFromObject c) (Inr base) # h)"
proof -
  have "ObjectKeyFromObject c = ObjectKeyFromObject (objmeta.truncate c)"
    by (simp add: ObjectKeyFromObject_def objmeta.truncate_def)
  with assms show ?thesis
    unfolding patchJustified_def mayRemove_def by (auto simp: quiet_cleared)
qed

lemma truncate_simps [simp]:
  "Name (objmeta.truncate c) = Name c" "UID (objmeta.truncate c) = UID c"
  "Namespace (objmeta.truncate c) = Namespace c"
  "Finalizers (objmeta.truncate c) = Finalizers c"
  "DeletionTimestamp (objmeta.truncate c) = DeletionTimestamp c"
  by (simp_all add: objmeta.truncate_def)

lemma removeAttempt_removing:
  fixes c :: "'a objmeta_scheme"
  assumes start: "removing g kind (objmeta.truncate c) s0 s" "\<not> removed s"
    and may: "mayRemove g kind (objmeta.truncate c) (hist s0)"
  shows "wp (removeAttempt g kind c)
     (\<lambda>r s'. removing g kind (objmeta.truncate c) s0 s' \<and> (removed s' \<longrightarrow> r = None)) s"
proof -
  note may' = mayRemove_removing [OF start(1) may]
  have just: "patchJustified g kind base
       (base\<lparr>Finalizers := filter (\<lambda>f. f \<noteq> SDSLocalVolumeCSIFinalizer) (Finalizers base)\<rparr>)
       (EGet kind (ObjectKeyFromObject c) (Inr base) # hist s)"
    if "UID base = UID c" "DeletionTimestamp base = Some y"
      "SDSLocalVolumeCSIFinalizer \<in> set (Finalizers base)"
      "SDSNodeConfiguratorFinalizer \<in> set (Finalizers base)" for base y
    using that by (intro patch_is_justified may') (simp add: liveDeletable_def)
  have step: "removing g kind (objmeta.truncate c) s0 s'"
    if "others s' s" "hist s' = EGet kind key r # hist s" "\<not> removed s'" "liveReader_Get g kind key (hist s) = r"
    for s' key r
    using start that unfolding removing_def others_def Let_def by (simp add: quiet_event)
  have patch: "removing g kind (objmeta.truncate c) s0 s'"
    if "others s' s" "hist s' = EPatch kind base p w # EGet kind key r # hist s"
      "removed s' = (w = None)" "patchJustified g kind base p (EGet kind key r # hist s)"
      "liveReader_Get g kind key (hist s) = r" "cl_Patch g kind base p (EGet kind key r # hist s) = w"
    for s' base p w key r
    using start that unfolding removing_def others_def Let_def by (simp add: quiet_event)
  show ?thesis
    unfolding removeAttempt_def
    by (auto simp: wp_rules others_def slices_DeleteFunc_def Let_def split: sum.splits option.splits
        intro: step patch just)
qed

lemma removeCSIFinalizer_removing:
  fixes c :: "'a objmeta_scheme"
  assumes "retry_ok (retry_OnError g)" "safeHist g (hist s)" "confirm (hist s) = None"
    and may: "mayRemove g kind (objmeta.truncate c) (hist s)"
  shows "wp (removeCSIFinalizer g kind c)
     (\<lambda>(rem, err) s'. removing g kind (objmeta.truncate c) s s' \<and> removed s' = rem \<and>
        (rem \<longrightarrow> err = None)) s"
proof -
  let ?I = "\<lambda>s'. removing g kind (objmeta.truncate c) s s' \<and> \<not> removed s'"
  have "wp (retry_OnError g retriableWrite (removeAttempt g kind c))
     (\<lambda>r s'. removing g kind (objmeta.truncate c) s s' \<and> (removed s' \<longrightarrow> r = None))
     (s\<lparr>removed := False\<rparr>)"
  proof (rule wp_retry [where I = ?I, OF assms(1)])
    show "?I (s\<lparr>removed := False\<rparr>)"
      using assms unfolding removing_def others_def Let_def by simp
  next
    fix s' assume "?I s'"
    then have "wp (removeAttempt g kind c)
       (\<lambda>r s''. removing g kind (objmeta.truncate c) s s'' \<and> (removed s'' \<longrightarrow> r = None)) s'"
      using removeAttempt_removing may by blast
    then show "wp (removeAttempt g kind c)
       (\<lambda>r s''. (removing g kind (objmeta.truncate c) s s'' \<and> (removed s'' \<longrightarrow> r = None)) \<and>
          ((\<exists>e. r = Some e \<and> retriableWrite e) \<longrightarrow> ?I s'')) s'"
      by (rule wp_mono) auto
  qed
  then show ?thesis
    unfolding removeCSIFinalizer_def by (simp add: wp_rules)
qed

section \<open>The invariant of a sweep\<close>

text \<open>The confirmation the collector keeps is exactly what the last complete picture says.\<close>

definition confirmationOf ::
  "gc_env \<Rightarrow> (time \<times> PV list \<times> LLVS list \<times> json list) option \<Rightarrow> liveConfirmation" where
  "confirmationOf g p = (case p of
     None \<Rightarrow> emptyConfirmation
   | Some (t, pvs, ss, cs) \<Rightarrow>
       \<lparr>readAt = t, referenced = referencesOf pvs, snapshotted = snapshottedVolumeNames ss,
        snapshotContents = setOf (concat (map (contentHandles (NestedString g)) cs))\<rparr>)"

text \<open>
  \<^term>\<open>slack\<close> is the number of writes already paid for with the budget and not yet performed.
\<close>

definition gcInv :: "gc_env \<Rightarrow> LLV list \<times> LLVS list \<times> PV list \<Rightarrow> int \<Rightarrow> gc_state \<Rightarrow> bool" where
  "gcInv g cached slack s \<longleftrightarrow>
     safeHist g (hist s) \<and> confirm (hist s) = None \<and>
     live s = confirmationOf g (livePicture (hist s)) \<and>
     (cachedVolumes (hist s), cachedSnapshots (hist s), cachedPVs (hist s)) = cached \<and>
     (\<forall>k. patchCount k (hist s) = successCount k (hist s)) \<and>
     allPatches (hist s) + slack \<le> maxReclaims g - remaining (budget s) \<and>
     (0 \<le> remaining (budget s) \<or> remaining (budget s) = maxReclaims g)"

definition freshPicture :: "gc_event list \<Rightarrow> bool" where
  "freshPicture h \<longleftrightarrow> (\<exists>t pvs ss cs. livePicture h = Some (t, pvs, ss, cs) \<and> readings h \<noteq> [] \<and>
     time_Sub (hd (readings h)) t < liveConfirmationMaxAge)"

lemma gcInv_cong:
  assumes "gcInv g cached k s" "hist s' = hist s" "live s' = live s" "budget s' = budget s"
  shows "gcInv g cached k s'"
  using assms unfolding gcInv_def by simp

lemma confirm_simps [simp]:
  "confirm (ENow t # h) = None" "confirm (EListPV rd l1 # h) = None"
  "confirm (EListLLVS rd l2 # h) = None" "confirm (EListLLV l4 # h) = None"
  "confirm (ECtxErr b # h) = None" "confirm (EObserveRemoval k r # h) = None"
  "confirm (ESetSweep sw # h) = None" "confirm (EListVSC Cached l3 # h) = None"
  "confirm (EListVSC Live v # EListLLVS Live (Inr ss) # EListPV Live (Inr pvs) # h) =
     (case v of Inr cs \<Rightarrow> Some (pvs, ss, cs)
      | Inl e \<Rightarrow> if e = NoKindMatch \<or> e = NotFound then Some (pvs, ss, []) else None)"
  by (simp_all add: confirm_def)

lemma gcInv_now:
  assumes "gcInv g cached k s"
  shows "gcInv g cached k (s\<lparr>hist := ENow t # hist s\<rparr>)"
  using assms unfolding gcInv_def by simp

lemma wp_now:
  "wp (now g) Q = (\<lambda>s. Q (g_now g (hist s)) (s\<lparr>hist := ENow (g_now g (hist s)) # hist s\<rparr>))"
  by (simp add: now_def)

text \<open>Relation between the states before and after a load.\<close>

definition loading :: "gc_state \<Rightarrow> gc_state \<Rightarrow> bool" where
  "loading s s' \<longleftrightarrow> budget s' = budget s \<and> picture s' = picture s \<and>
     set (readings (hist s)) \<subseteq> set (readings (hist s'))"

lemma liveReload_inv:
  assumes "gcInv g cached k s"
  shows "wp (liveReload g) (\<lambda>r s'. gcInv g cached k s' \<and> loading s s' \<and>
     (r = None \<longrightarrow> freshPicture (hist s'))) s"
  using assms
  unfolding liveReload_def referencingPersistentVolumes_def snapshotContentHandles_def
  by (auto simp: wp_rules wp_now gcInv_def loading_def freshPicture_def confirmationOf_def
      liveConfirmationMaxAge_def time_Second_def setOf_def split: sum.splits)

lemma load_inv:
  assumes "gcInv g cached k s"
  shows "wp (load g) (\<lambda>r s'. gcInv g cached k s' \<and> loading s s' \<and>
     (r = None \<longrightarrow> freshPicture (hist s'))) s"
proof (cases "time_IsZero (readAt (live s))")
  case True
  then show ?thesis
    unfolding load_def using liveReload_inv [OF assms] by (simp add: wp_rules)
next
  case False
  let ?s = "s\<lparr>hist := ENow (g_now g (hist s)) # hist s\<rparr>"
  from assms have live_s: "live s = confirmationOf g (livePicture (hist s))" "confirm (hist s) = None"
    unfolding gcInv_def by auto
  with False have fresh: "freshPicture (hist ?s)"
    if "time_Sub (g_now g (hist s)) (readAt (live s)) < liveConfirmationMaxAge"
    using that unfolding freshPicture_def
    by (auto simp: confirmationOf_def emptyConfirmation_def time_IsZero_def split: option.splits)
  have "wp (liveReload g) (\<lambda>r s'. gcInv g cached k s' \<and> loading s s' \<and>
     (r = None \<longrightarrow> freshPicture (hist s'))) ?s"
    by (rule wp_mono [OF liveReload_inv [OF gcInv_now [OF assms]]]) (auto simp: loading_def)
  with False fresh gcInv_now [OF assms] show ?thesis
    unfolding load_def by (auto simp: wp_rules wp_now loading_def)
qed

end
