(* ===== verification/GC_Sweep.thy ===== *)
theory GC_Sweep
  imports GC_Safety
begin

text \<open>
  From one removal to a whole sweep.  The two halves of a sweep, over snapshots and over volumes,
  promise the same things of the object they are handed; the locale \<^verbatim>\<open>sweep_half\<close> states that
  contract and derives what the loop over a whole list guarantees.
\<close>

section \<open>Removing and reporting\<close>

text \<open>A reason is reported exactly for a blocked object, and only a terminating one can be blocked.\<close>

definition verdictOk :: "bool \<Rightarrow> verdict \<Rightarrow> bool" where
  "verdictOk terminating v \<longleftrightarrow> (case v of (st, reason, _) \<Rightarrow>
     (reason \<noteq> '''' \<longleftrightarrow> st = OrphanStateBlocked) \<and>
     st \<in> (if terminating then {OrphanStateTerminating, OrphanStateBlocked}
           else {OrphanStateActive, OrphanStateRetained}))"

definition reporting :: "gc_env \<Rightarrow> LLV list \<times> LLVS list \<times> PV list \<Rightarrow> bool \<Rightarrow> gc_state \<Rightarrow>
    verdict \<Rightarrow> gc_state \<Rightarrow> bool" where
  "reporting g cached terminating s v s' \<longleftrightarrow>
     gcInv g cached 0 s' \<and> picture s' = picture s \<and> verdictOk terminating v"

lemma livePicture_inert [simp]:
  "livePicture (ECtxErr b # h) = livePicture h"
  "livePicture (EObserveRemoval k r # h) = livePicture h"
  by simp_all

lemma reportRemoval_inv:
  assumes rem: "removing g kind c s0 s" "removed s = rem" "rem \<longrightarrow> err = None"
    and inv: "gcInv g cached 1 s0"
  shows "wp (reportRemoval g kind (rem, err)) (reporting g cached True s0) s"
proof -
  let ?cx = "ECtxErr (ctx_Err g (hist s))"
  have counts: "allPatches (hist s) \<le> maxReclaims g - remaining (budget s)"
    "patchCount k (hist s) = successCount k (hist s) + (if rem \<and> k = kind then 1 else 0)" for k
    using rem inv unfolding removing_def gcInv_def Let_def others_def by (auto split: if_splits)
  have rest: "safeHist g (hist s)" "confirm (hist s) = None" "picture s = picture s0"
    "live s = confirmationOf g (livePicture (hist s))"
    "(cachedVolumes (hist s), cachedSnapshots (hist s), cachedPVs (hist s)) = cached"
    "0 \<le> remaining (budget s) \<or> remaining (budget s) = maxReclaims g"
    using rem(1) inv unfolding removing_def gcInv_def Let_def others_def sameView_def by auto
  have ok: "gcInv g cached 0 (s\<lparr>hist := EObserveRemoval kind ResultSuccess # hist s\<rparr>)" if "rem"
    using that counts rest unfolding gcInv_def by simp
  have same: "gcInv g cached 0 (s\<lparr>hist := es @ hist s\<rparr>)"
    if "\<not> rem" "es \<in> {[], [?cx], [EObserveRemoval kind ResultNoop],
      [EObserveRemoval kind ResultError, ?cx]}" for es
    using that counts rest unfolding gcInv_def by auto
  show ?thesis
    using ok same [of "[]"] same [of "[?cx]"] same [of "[EObserveRemoval kind ResultNoop]"]
      same [of "[EObserveRemoval kind ResultError, ?cx]"] rem(3) rest(3)
    by (cases "err"; cases "the err")
      (auto simp: reportRemoval_def reporting_def verdictOk_def wp_rules split: if_splits)
qed

lemma remove_and_report:
  assumes "retry_ok (retry_OnError g)" "gcInv g cached 1 s"
    and "mayRemove g kind (objmeta.truncate c) (hist s)"
  shows "wp (State_Monad.bind (removeCSIFinalizer g kind c) (reportRemoval g kind))
     (reporting g cached True s) s"
proof -
  have "safeHist g (hist s)" "confirm (hist s) = None"
    using assms(2) unfolding gcInv_def by auto
  from removeCSIFinalizer_removing [OF assms(1) this assms(3)] show ?thesis
    unfolding wp_bind by (rule wp_mono) (auto intro: reportRemoval_inv assms(2))
qed

section \<open>Deciding about one volume\<close>

lemma gcInv_slack: "gcInv g cached k s \<Longrightarrow> j \<le> k \<Longrightarrow> gcInv g cached j s"
  unfolding gcInv_def by auto

lemma spend_inv:
  assumes "gcInv g cached 0 s"
  shows "wp spend (\<lambda>ok s'. gcInv g cached (if ok then 1 else 0) s' \<and> hist s' = hist s \<and>
     picture s' = picture s) s"
  using assms unfolding spend_def gcInv_def by (auto simp: Let_def)

lemma deletionDue_mono:
  "deletionDue grace c h \<Longrightarrow> set (readings h) \<subseteq> set (readings h') \<Longrightarrow> deletionDue grace c h'"
  unfolding deletionDue_def by (auto split: option.splits)

lemma live_freshPicture:
  assumes "gcInv g cached k s" "freshPicture (hist s)"
  obtains t pvs ss cs where "livePicture (hist s) = Some (t, pvs, ss, cs)"
    "readings (hist s) \<noteq> []" "time_Sub (hd (readings (hist s))) t < liveConfirmationMaxAge"
    "referenced (live s) = referencesOf pvs" "snapshotted (live s) = snapshottedVolumeNames ss"
    "snapshotContents (live s) = setOf (concat (map (contentHandles (NestedString g)) cs))"
  using assms unfolding freshPicture_def gcInv_def confirmationOf_def by auto

lemma volume_cleared:
  assumes "gcInv g (llvs, snaps, pvs) k s" "freshPicture (hist s)"
    and "\<not> mapHas (referenced (live s)) n" "\<not> mapHas (snapshotted (live s)) n"
    and "\<forall>pv\<in>set pvs. \<not> refers pv n" "\<forall>sn\<in>set snaps. \<not> snapshotOf sn n"
  shows "clearedToGo nested KindLVMLogicalVolume n (hist s)"
  using assms(1) by (rule live_freshPicture [OF _ assms(2)])
    (use assms in \<open>auto simp: clearedToGo_def gcInv_def\<close>)

lemma snapshot_cleared:
  assumes "gcInv g cached k s" "freshPicture (hist s)"
    and "\<not> mapHas (snapshotContents (live s)) n"
  shows "clearedToGo (NestedString g) KindLVMLogicalVolumeSnapshot n (hist s)"
  using assms(1) by (rule live_freshPicture [OF _ assms(2)])
    (use assms in \<open>auto simp: clearedToGo_def\<close>)

lemma reclaimConfirmed_inv:
  assumes "retry_ok (retry_OnError g)" "gcInv g (llvs, snaps, pvs) 1 s" "llv \<in> set llvs"
    and "deletionDue (gracePeriod g) (objmeta.truncate llv) (hist s)"
    and "\<forall>pv\<in>set pvs. \<not> refers pv (Name llv)" "\<forall>sn\<in>set snaps. \<not> snapshotOf sn (Name llv)"
  shows "wp (reclaimConfirmed g llv) (reporting g (llvs, snaps, pvs) True s) s"
proof -
  have tail: "wp (State_Monad.bind (removeCSIFinalizer g KindLVMLogicalVolume llv)
        (reportRemoval g KindLVMLogicalVolume)) (reporting g (llvs, snaps, pvs) True s) s1"
    if "gcInv g (llvs, snaps, pvs) 1 s1" "loading s s1" "freshPicture (hist s1)"
      "\<not> mapHas (referenced (live s1)) (Name llv)" "\<not> mapHas (snapshotted (live s1)) (Name llv)" for s1
  proof -
    have "mayRemove g KindLVMLogicalVolume (objmeta.truncate llv) (hist s1)"
      using that assms volume_cleared [OF that(1,3-5) assms(5,6)]
      by (auto simp: mayRemove_def cachedObjects_def loading_def gcInv_def intro: deletionDue_mono)
    from remove_and_report [OF assms(1) that(1) this] show ?thesis
      by (rule wp_mono) (use that(2) in \<open>auto simp: reporting_def loading_def\<close>)
  qed
  show ?thesis
    unfolding reclaimConfirmed_def wp_bind
    by (rule wp_mono [OF load_inv [OF assms(2)]])
      (use tail in \<open>auto simp: wp_rules reporting_def verdictOk_def loading_def
         intro: gcInv_slack split: option.splits\<close>)
qed

lemma deletionDue_now:
  assumes "slices_Contains (Finalizers c) SDSNodeConfiguratorFinalizer"
    "slices_Contains (Finalizers c) SDSLocalVolumeCSIFinalizer"
    "DeletionTimestamp c = Some d" "\<not> time_Sub t d < grace" "t \<in> set (readings h)"
  shows "deletionDue grace (objmeta.truncate c) h"
  using assms unfolding deletionDue_def by (auto intro!: bexI [of _ t])

lemma grace_and_budget:
  assumes "gcInv g cached 0 s" "slices_Contains (Finalizers c) SDSNodeConfiguratorFinalizer"
    "slices_Contains (Finalizers c) SDSLocalVolumeCSIFinalizer" "DeletionTimestamp c = Some d"
    and confirmed: "\<And>s1. gcInv g cached 1 s1 \<Longrightarrow> picture s1 = picture s \<Longrightarrow>
      deletionDue (gracePeriod g) (objmeta.truncate c) (hist s1) \<Longrightarrow>
      wp body (reporting g cached True s) s1"
  shows "wp (do {
       t \<leftarrow> now g;
       let waited = time_Sub t d;
       if waited < gracePeriod g
         then State_Monad.return (OrphanStateTerminating, '''', i64 (gracePeriod g - waited))
       else do {
         ok \<leftarrow> spend;
         if \<not> ok then State_Monad.return (OrphanStateTerminating, '''', reclaimBacklogRequeue)
         else body
       }
     }) (reporting g cached True s) s"
proof -
  let ?t = "g_now g (hist s)"
  let ?s = "s\<lparr>hist := ENow ?t # hist s\<rparr>"
  have inv: "gcInv g cached 0 ?s" by (rule gcInv_now [OF assms(1)])
  have "wp spend (\<lambda>ok. wp (if \<not> ok
      then State_Monad.return (OrphanStateTerminating, '''', reclaimBacklogRequeue) else body)
      (reporting g cached True s)) ?s" if "\<not> time_Sub ?t d < gracePeriod g"
  proof (rule wp_mono [OF spend_inv [OF inv]])
    fix ok s1
    assume *: "gcInv g cached (if ok then 1 else 0) s1 \<and> hist s1 = hist ?s \<and> picture s1 = picture ?s"
    then have "deletionDue (gracePeriod g) (objmeta.truncate c) (hist s1)"
      using deletionDue_now [OF assms(2-4) that] by simp
    with * confirmed [of s1] show "wp (if \<not> ok
      then State_Monad.return (OrphanStateTerminating, '''', reclaimBacklogRequeue) else body)
      (reporting g cached True s) s1"
      by (auto simp: reporting_def verdictOk_def)
  qed
  then show ?thesis
    using inv by (auto simp: wp_now Let_def reporting_def verdictOk_def)
qed

lemma reclaim_inv:
  assumes "retry_ok (retry_OnError g)" "gcInv g (llvs, snaps, pvs) 0 s" "llv \<in> set llvs"
    and "slices_Contains (Finalizers llv) SDSLocalVolumeCSIFinalizer"
    and "\<not> mapHas (referencesOf pvs) (Name llv)"
  shows "wp (reclaim g llv (snapshottedVolumeNames snaps))
     (reporting g (llvs, snaps, pvs) (DeletionTimestamp llv \<noteq> None) s) s"
proof (cases "DeletionTimestamp llv")
  case None
  with assms(2) show ?thesis
    unfolding reclaim_def by (auto simp: reporting_def verdictOk_def)
next
  case (Some d)
  show ?thesis
  proof (cases "mapHas (snapshottedVolumeNames snaps) (Name llv) \<or>
      \<not> slices_Contains (Finalizers llv) SDSNodeConfiguratorFinalizer")
    case True
    with Some assms(2) show ?thesis
      unfolding reclaim_def by (auto simp: reporting_def verdictOk_def)
  next
    case False
    have "wp (reclaimConfirmed g llv) (reporting g (llvs, snaps, pvs) True s) s1"
      if "gcInv g (llvs, snaps, pvs) 1 s1" "picture s1 = picture s"
        "deletionDue (gracePeriod g) (objmeta.truncate llv) (hist s1)" for s1
      by (rule wp_mono [OF reclaimConfirmed_inv [OF assms(1) that(1) assms(3) that(3)]])
        (use False assms(5) that(2) in \<open>auto simp: reporting_def\<close>)
    from grace_and_budget [OF assms(2) _ assms(4) Some this] False show ?thesis
      unfolding reclaim_def by (simp add: Some del: wp_bind)
  qed
qed

section \<open>Deciding about one snapshot\<close>

lemma reclaimSnapshotConfirmed_inv:
  assumes "retry_ok (retry_OnError g)" "gcInv g (llvs, snaps, pvs) 1 s" "snap \<in> set snaps"
    and "deletionDue (gracePeriod g) (objmeta.truncate snap) (hist s)"
  shows "wp (reclaimSnapshotConfirmed g snap) (reporting g (llvs, snaps, pvs) True s) s"
proof -
  have tail: "wp (State_Monad.bind (removeCSIFinalizer g KindLVMLogicalVolumeSnapshot snap)
        (reportRemoval g KindLVMLogicalVolumeSnapshot)) (reporting g (llvs, snaps, pvs) True s) s1"
    if "gcInv g (llvs, snaps, pvs) 1 s1" "loading s s1" "freshPicture (hist s1)"
      "\<not> mapHas (snapshotContents (live s1)) (Name snap)" for s1
  proof -
    have "mayRemove g KindLVMLogicalVolumeSnapshot (objmeta.truncate snap) (hist s1)"
      using that assms snapshot_cleared [OF that(1,3,4)]
      by (auto simp: mayRemove_def cachedObjects_def loading_def gcInv_def intro: deletionDue_mono)
    from remove_and_report [OF assms(1) that(1) this] show ?thesis
      by (rule wp_mono) (use that(2) in \<open>auto simp: reporting_def loading_def\<close>)
  qed
  show ?thesis
    unfolding reclaimSnapshotConfirmed_def wp_bind
    by (rule wp_mono [OF load_inv [OF assms(2)]])
      (use tail in \<open>auto simp: wp_rules reporting_def verdictOk_def loading_def
         intro: gcInv_slack split: option.splits\<close>)
qed

lemma reclaimSnapshot_inv:
  assumes "retry_ok (retry_OnError g)" "gcInv g (llvs, snaps, pvs) 0 s" "snap \<in> set snaps"
    and "slices_Contains (Finalizers snap) SDSLocalVolumeCSIFinalizer"
    and d: "DeletionTimestamp snap = Some d"
  shows "wp (reclaimSnapshot g snap d) (reporting g (llvs, snaps, pvs) True s) s"
proof (cases "slices_Contains (Finalizers snap) SDSNodeConfiguratorFinalizer")
  case False
  with assms(2) show ?thesis
    unfolding reclaimSnapshot_def by (auto simp: reporting_def verdictOk_def)
next
  case True
  have "wp (reclaimSnapshotConfirmed g snap) (reporting g (llvs, snaps, pvs) True s) s1"
    if "gcInv g (llvs, snaps, pvs) 1 s1" "picture s1 = picture s"
      "deletionDue (gracePeriod g) (objmeta.truncate snap) (hist s1)" for s1
    by (rule wp_mono [OF reclaimSnapshotConfirmed_inv [OF assms(1) that(1) assms(3) that(3)]])
      (use that(2) in \<open>auto simp: reporting_def\<close>)
  from grace_and_budget [OF assms(2) True assms(4) d this] True show ?thesis
    unfolding reclaimSnapshot_def by (simp del: wp_bind)
qed

section \<open>One half of a sweep\<close>

text \<open>The pictures a list of objects takes one picture to, one effect per object.\<close>

primrec effects :: "('o \<Rightarrow> 'p \<Rightarrow> 'p \<Rightarrow> bool) \<Rightarrow> 'o list \<Rightarrow> 'p \<Rightarrow> 'p \<Rightarrow> bool" where
  "effects R [] p p' \<longleftrightarrow> p' = p"
| "effects R (x # xs) p p' \<longleftrightarrow> (\<exists>q. R x p q \<and> effects R xs q p')"

lemma effects_append: "effects R (xs @ ys) p p' \<longleftrightarrow> (\<exists>q. effects R xs p q \<and> effects R ys q p')"
  by (induction xs arbitrary: p) auto

lemma effects_list:
  assumes "effects R xs p p'"
    and "\<And>x p p'. x \<in> set xs \<Longrightarrow> R x p p' \<Longrightarrow>
      \<exists>es. view p' = view p @ es \<and> list_all2 Q (filter P [x]) es"
  shows "\<exists>es. view p' = view p @ es \<and> list_all2 Q (filter P xs) es"
  using assms
proof (induction xs arbitrary: p)
  case (Cons x xs)
  then obtain q where q: "R x p q" "effects R xs q p'" by auto
  obtain es where "view q = view p @ es" "list_all2 Q (filter P [x]) es"
    using Cons.prems(2) [OF _ q(1)] by auto
  moreover obtain es' where "view p' = view q @ es'" "list_all2 Q (filter P xs) es'"
    using Cons.IH [OF q(2)] Cons.prems(2) by auto
  ultimately have "view p' = view p @ (es @ es')" "list_all2 Q (filter P [x] @ filter P xs) (es @ es')"
    by (simp, intro list_all2_appendI)
  moreover have "filter P (x # xs) = filter P [x] @ filter P xs" by simp
  ultimately show ?case by metis
qed simp

lemma effects_sum:
  assumes "effects R xs p p'"
    and "\<And>x p p'. x \<in> set xs \<Longrightarrow> R x p p' \<Longrightarrow> f p' = f p + (w x :: int)"
  shows "f p' = f p + sum_list (map w xs)"
  using assms by (induction xs arbitrary: p) fastforce+

lemma effects_keep:
  assumes "effects R xs p p'" and "\<And>x p p'. x \<in> set xs \<Longrightarrow> R x p p' \<Longrightarrow> f p' = f p"
  shows "f p' = f p"
  using assms by (induction xs arbitrary: p) fastforce+

locale sweep_half =
  fixes step :: "gc_env \<Rightarrow> 'c \<Rightarrow> 'o \<Rightarrow> duration \<Rightarrow> duration gc"
    and within :: "LLV list \<times> LLVS list \<times> PV list \<Rightarrow> 'c \<Rightarrow> 'o list \<Rightarrow> bool"
    and effect :: "'c \<Rightarrow> 'o \<Rightarrow> LVMLogicalVolumeSweep \<Rightarrow> LVMLogicalVolumeSweep \<Rightarrow> bool"
  assumes step_ok: "\<lbrakk>retry_ok (retry_OnError g); gcInv g cached 0 s; within cached c xs; x \<in> set xs\<rbrakk> \<Longrightarrow>
    wp (step g c x d) (\<lambda>_ s'. gcInv g cached 0 s' \<and> effect c x (picture s) (picture s')) s"
begin

lemma loop_ok:
  assumes "retry_ok (retry_OnError g)" "gcInv g cached 0 s" "within cached c xs"
  shows "wp (foldM (step g c) xs d)
     (\<lambda>_ s'. gcInv g cached 0 s' \<and> effects (effect c) xs (picture s) (picture s')) s"
proof (rule wp_foldM_prefix [where I = "\<lambda>ys _ s'. gcInv g cached 0 s' \<and>
      effects (effect c) ys (picture s) (picture s')"])
  fix ys x rest acc s'
  assume "xs = ys @ x # rest"
    and s': "gcInv g cached 0 s' \<and> effects (effect c) ys (picture s) (picture s')"
  then have "wp (step g c x acc) (\<lambda>_ s''. gcInv g cached 0 s'' \<and> effect c x (picture s') (picture s'')) s'"
    using step_ok assms by auto
  then show "wp (step g c x acc) (\<lambda>_ s''. gcInv g cached 0 s'' \<and>
      effects (effect c) (ys @ [x]) (picture s) (picture s'')) s'"
    by (rule wp_mono) (use s' in \<open>auto simp: effects_append\<close>)
qed (use assms in simp)

end

subsection \<open>The volume half\<close>

definition ownedByCSI :: "'a objmeta_scheme \<Rightarrow> bool" where
  "ownedByCSI o1 \<longleftrightarrow> SDSLocalVolumeCSIFinalizer \<in> set (Finalizers o1)"

definition awaitsAgent :: "'a objmeta_scheme \<Rightarrow> bool" where
  "awaitsAgent o1 \<longleftrightarrow> \<not> ownedByCSI o1 \<and> DeletionTimestamp o1 \<noteq> None \<and>
     SDSNodeConfiguratorFinalizer \<in> set (Finalizers o1)"

definition volumeEntry :: "LLV \<Rightarrow> OrphanedLVMLogicalVolume \<Rightarrow> bool" where
  "volumeEntry llv e \<longleftrightarrow> orphan_Name e = Name llv \<and>
     orphan_LVMVolumeGroup e = LVMVolumeGroupName llv \<and> orphan_Type e = llvType llv \<and>
     AllocatedBytes e = llvAllocatedBytes llv \<and>
     verdictOk (DeletionTimestamp llv \<noteq> None) (orphan_State e, orphan_Reason e, 0)"

definition volumeEffect :: "strset \<times> (string, pvReference) fmap \<Rightarrow> LLV \<Rightarrow>
    LVMLogicalVolumeSweep \<Rightarrow> LVMLogicalVolumeSweep \<Rightarrow> bool" where
  "volumeEffect c llv p p' \<longleftrightarrow> (let q = countVolume llv p in
     if ownedByCSI llv \<and> \<not> mapHas (snd c) (Name llv)
     then \<exists>e. volumeEntry llv e \<and> p' = q\<lparr>Orphans := Orphans q @ [e]\<rparr>
     else p' = (if awaitsAgent llv then awaitAgent KindLVMLogicalVolume q else q))"

definition volumeWithin ::
  "LLV list \<times> LLVS list \<times> PV list \<Rightarrow> strset \<times> (string, pvReference) fmap \<Rightarrow> LLV list \<Rightarrow> bool" where
  "volumeWithin cached c xs \<longleftrightarrow> (case cached of (llvs, snaps, pvs) \<Rightarrow>
     xs = llvs \<and> c = (snapshottedVolumeNames snaps, referencesOf pvs))"

lemma gcInv_picture [simp]: "gcInv g cached k (s\<lparr>picture := p\<rparr>) = gcInv g cached k s"
  unfolding gcInv_def by simp

lemma wp_upd_picture [simp, wp_rules]: "wp (upd_picture f) Q = (\<lambda>s. Q () (s\<lparr>picture := f (picture s)\<rparr>))"
  by (simp add: upd_picture_def)

lemma volumeEntryI:
  "verdictOk (DeletionTimestamp llv \<noteq> None) (st, reason, r) \<Longrightarrow>
   volumeEntry llv \<lparr>orphan_Name = Name llv, orphan_LVMVolumeGroup = LVMVolumeGroupName llv,
     orphan_Type = llvType llv, orphan_State = st, orphan_Reason = reason,
     AllocatedBytes = llvAllocatedBytes llv\<rparr>"
  by (simp add: volumeEntry_def verdictOk_def)

lemma volumeEffectI:
  "\<lbrakk>ownedByCSI llv; \<not> mapHas (snd c) (Name llv); volumeEntry llv e\<rbrakk> \<Longrightarrow>
   volumeEffect c llv p ((countVolume llv p)\<lparr>Orphans := Orphans (countVolume llv p) @ [e]\<rparr>)"
  by (auto simp: volumeEffect_def Let_def)

interpretation volumes: sweep_half "\<lambda>g c. sweepVolume g (fst c) (snd c)" volumeWithin volumeEffect
proof
  fix g cached s c xs d and x :: LLV
  assume asm: "retry_ok (retry_OnError g)" "gcInv g cached 0 s" "volumeWithin cached c xs" "x \<in> set xs"
  obtain llvs snaps pvs where cached: "cached = (llvs, snaps, pvs)" by (cases cached)
  have c: "c = (snapshottedVolumeNames snaps, referencesOf pvs)" and x: "x \<in> set llvs"
    using asm(3,4) by (auto simp: volumeWithin_def cached)
  let ?s = "s\<lparr>picture := countVolume x (picture s)\<rparr>"
  have inv: "gcInv g (llvs, snaps, pvs) 0 ?s" using asm(2) by (simp add: cached)
  show "wp (sweepVolume g (fst c) (snd c) x d)
     (\<lambda>_ s'. gcInv g cached 0 s' \<and> volumeEffect c x (picture s) (picture s')) s"
  proof (cases "ownedByCSI x \<and> \<not> mapHas (referencesOf pvs) (Name x)")
    case True
    have "wp (reclaim g x (snapshottedVolumeNames snaps))
       (reporting g (llvs, snaps, pvs) (DeletionTimestamp x \<noteq> None) ?s) ?s"
      using True by (intro reclaim_inv asm(1) inv x) (auto simp: ownedByCSI_def)
    then show ?thesis
      using True unfolding sweepVolume_def
      by (simp add: c wp_rules ownedByCSI_def) (erule wp_mono, auto simp: c cached wp_rules
          reporting_def ownedByCSI_def intro!: volumeEffectI volumeEntryI)
  next
    case False
    then show ?thesis
      using asm(2) unfolding sweepVolume_def
      by (auto simp: c cached wp_rules ownedByCSI_def awaitsAgent_def volumeEffect_def Let_def)
  qed
qed

subsection \<open>The snapshot half\<close>

definition snapshotEntry :: "LLVS \<Rightarrow> OrphanedLVMLogicalVolumeSnapshot \<Rightarrow> bool" where
  "snapshotEntry llvs e \<longleftrightarrow> osnap_Name e = Name llvs \<and>
     osnap_LVMLogicalVolume e = LVMLogicalVolumeName llvs \<and> UsedBytes e = llvsUsedBytes llvs \<and>
     verdictOk True (osnap_State e, osnap_Reason e, 0)"

definition snapshotEffect :: "unit \<Rightarrow> LLVS \<Rightarrow>
    LVMLogicalVolumeSweep \<Rightarrow> LVMLogicalVolumeSweep \<Rightarrow> bool" where
  "snapshotEffect c llvs p p' \<longleftrightarrow>
    (if ownedByCSI llvs \<and> DeletionTimestamp llvs \<noteq> None
     then \<exists>e. snapshotEntry llvs e \<and> p' = p\<lparr>OrphanedSnapshots := OrphanedSnapshots p @ [e]\<rparr>
     else p' = (if awaitsAgent llvs then awaitAgent KindLVMLogicalVolumeSnapshot p else p))"

definition snapshotWithin :: "LLV list \<times> LLVS list \<times> PV list \<Rightarrow> unit \<Rightarrow> LLVS list \<Rightarrow> bool" where
  "snapshotWithin cached c xs \<longleftrightarrow> xs = fst (snd cached)"

lemma snapshotEntryI:
  "verdictOk True (st, reason, r) \<Longrightarrow>
   snapshotEntry llvs \<lparr>osnap_Name = Name llvs, osnap_LVMLogicalVolume = LVMLogicalVolumeName llvs,
     osnap_State = st, osnap_Reason = reason, UsedBytes = llvsUsedBytes llvs\<rparr>"
  by (simp add: snapshotEntry_def verdictOk_def)

lemma snapshotEffectI:
  "\<lbrakk>ownedByCSI llvs; DeletionTimestamp llvs = Some t; snapshotEntry llvs e\<rbrakk> \<Longrightarrow>
   snapshotEffect c llvs p (p\<lparr>OrphanedSnapshots := OrphanedSnapshots p @ [e]\<rparr>)"
  by (auto simp: snapshotEffect_def)

interpretation snapshots: sweep_half "\<lambda>g c. sweepSnapshot g" snapshotWithin snapshotEffect
proof
  fix g cached s c xs d and x :: LLVS
  assume asm: "retry_ok (retry_OnError g)" "gcInv g cached 0 s" "snapshotWithin cached c xs" "x \<in> set xs"
  obtain llvs snaps pvs where cached: "cached = (llvs, snaps, pvs)" by (cases cached)
  have x: "x \<in> set snaps"
    using asm(3,4) by (auto simp: snapshotWithin_def cached)
  show "wp (sweepSnapshot g x d)
     (\<lambda>_ s'. gcInv g cached 0 s' \<and> snapshotEffect c x (picture s) (picture s')) s"
  proof (cases "\<exists>t. ownedByCSI x \<and> DeletionTimestamp x = Some t")
    case True
    then obtain t where t: "ownedByCSI x" "DeletionTimestamp x = Some t" by blast
    have "wp (reclaimSnapshot g x t) (reporting g (llvs, snaps, pvs) True s) s"
      using t by (intro reclaimSnapshot_inv asm(1) x) (use asm(2) cached in \<open>auto simp: ownedByCSI_def\<close>)
    then show ?thesis
      using t unfolding sweepSnapshot_def
      by (simp add: wp_rules ownedByCSI_def) (erule wp_mono, auto simp: cached wp_rules
          reporting_def ownedByCSI_def intro!: snapshotEffectI [OF t] snapshotEntryI)
  next
    case False
    then show ?thesis
      using asm(2) unfolding sweepSnapshot_def
      by (auto simp: wp_rules ownedByCSI_def awaitsAgent_def snapshotEffect_def split: option.splits)
  qed
qed

section \<open>The whole sweep\<close>

definition sweepEffect :: "LLV list \<times> LLVS list \<times> PV list \<Rightarrow> LVMLogicalVolumeSweep \<Rightarrow> bool" where
  "sweepEffect cached p' \<longleftrightarrow> (case cached of (llvs, snaps, pvs) \<Rightarrow>
     \<exists>q. effects (snapshotEffect ()) snaps emptySweep q \<and>
         effects (volumeEffect (snapshottedVolumeNames snaps, referencesOf pvs)) llvs q p')"

lemma gcInv_start:
  assumes "safeHist g (hist s)" "confirm (hist s) = None" "livePicture (hist s) = None"
    and "(cachedVolumes (hist s), cachedSnapshots (hist s), cachedPVs (hist s)) = cached"
    and "\<forall>k. patchCount k (hist s) = 0 \<and> successCount k (hist s) = 0" "allPatches (hist s) = 0"
  shows "gcInv g cached 0 (s\<lparr>live := emptyConfirmation, picture := p,
     budget := \<lparr>remaining = maxReclaims g, deferred = 0, exhausted = False\<rparr>\<rparr>)"
  using assms unfolding gcInv_def confirmationOf_def by simp

lemma halves_ok:
  assumes "retry_ok (retry_OnError g)" "gcInv g (llvs, snaps, pvs) 0 s" "picture s = emptySweep"
  shows "wp (sweepSnapshots g snaps) (\<lambda>_. wp (sweepVolumes g llvs snaps (referencesOf pvs))
     (\<lambda>_ s'. gcInv g (llvs, snaps, pvs) 0 s' \<and> sweepEffect (llvs, snaps, pvs) (picture s'))) s"
  unfolding sweepSnapshots_def
proof (rule wp_mono [OF snapshots.loop_ok [OF assms(1,2), of "()"]])
  show "snapshotWithin (llvs, snaps, pvs) () snaps" by (simp add: snapshotWithin_def)
next
  fix d s1
  assume s1: "gcInv g (llvs, snaps, pvs) 0 s1 \<and>
    effects (snapshotEffect ()) snaps (picture s) (picture s1)"
  let ?c = "(snapshottedVolumeNames snaps, referencesOf pvs)"
  have "wp (foldM (sweepVolume g (fst ?c) (snd ?c)) llvs 0)
     (\<lambda>_ s'. gcInv g (llvs, snaps, pvs) 0 s' \<and> effects (volumeEffect ?c) llvs (picture s1) (picture s')) s1"
    using s1 by (intro volumes.loop_ok assms(1)) (auto simp: volumeWithin_def)
  then show "wp (sweepVolumes g llvs snaps (referencesOf pvs))
     (\<lambda>_ s'. gcInv g (llvs, snaps, pvs) 0 s' \<and> sweepEffect (llvs, snaps, pvs) (picture s')) s1"
    unfolding sweepVolumes_def fst_conv snd_conv
    by (rule wp_mono) (use s1 assms(3) in \<open>auto simp: sweepEffect_def\<close>)
qed

definition sweepDone :: "gc_env \<Rightarrow> LVMLogicalVolumeSweep \<Rightarrow> gc_event list \<Rightarrow> bool" where
  "sweepDone g pic h \<longleftrightarrow>
     sweepEffect (cachedVolumes h, cachedSnapshots h, cachedPVs h) pic \<and>
     (\<forall>k. patchCount k h = successCount k h) \<and> allPatches h \<le> max 0 (maxReclaims g) \<and>
     (\<exists>t h'. h = ENow t # ESetSweep pic # h')"

lemma body_start:
  assumes "safeHist g h0" "h = EListPV Cached (Inr pvs) # EListLLVS Cached (Inr snaps) # EListLLV (Inr llvs) # h0"
  shows "gcInv g (llvs, snaps, pvs) 0 (s\<lparr>hist := h, live := emptyConfirmation, picture := p,
     budget := \<lparr>remaining = maxReclaims g, deferred = 0, exhausted = False\<rparr>\<rparr>)"
proof -
  have "gcInv g (llvs, snaps, pvs) 0 ((s\<lparr>hist := h\<rparr>)\<lparr>live := emptyConfirmation, picture := p,
     budget := \<lparr>remaining = maxReclaims g, deferred = 0, exhausted = False\<rparr>\<rparr>)"
    by (rule gcInv_start) (use assms in auto)
  then show ?thesis by simp
qed

lemma sweepBody_ok:
  assumes "retry_ok (retry_OnError g)" "safeHist g h0"
    and h: "hist s = EListPV Cached (Inr pvs) # EListLLVS Cached (Inr snaps) # EListLLV (Inr llvs) # h0"
  shows "wp (sweepBody g llvs snaps (referencesOf pvs))
     (\<lambda>_ s'. safeHist g (hist s') \<and> sweepDone g (picture s') (hist s')) s"
proof -
  let ?s = "s\<lparr>live := emptyConfirmation, picture := emptySweep,
     budget := \<lparr>remaining = maxReclaims g, deferred = 0, exhausted = False\<rparr>\<rparr>"
  have inv: "gcInv g (llvs, snaps, pvs) 0 ?s"
    using body_start [OF assms(2) h, where s = s] by simp
  have "wp (sweepSnapshots g snaps) (\<lambda>_. wp (sweepVolumes g llvs snaps (referencesOf pvs))
     (\<lambda>_ s'. gcInv g (llvs, snaps, pvs) 0 s' \<and> sweepEffect (llvs, snaps, pvs) (picture s'))) ?s"
    by (rule halves_ok [OF assms(1) inv]) simp
  then show ?thesis
    unfolding sweepBody_def
    by (simp add: wp_now Let_def) (erule wp_mono, erule wp_mono,
        auto simp: gcInv_def sweepDone_def)
qed

lemma sweepLists_ok:
  "wp (sweepLists g) (\<lambda>r s'. live s' = live s \<and> lastSweep s' = lastSweep s \<and>
     (case r of
       Inl _ \<Rightarrow> safeHist g (hist s') = safeHist g (hist s) \<and>
         filter isWrite (hist s') = filter isWrite (hist s)
     | Inr (llvs, snaps, refd) \<Rightarrow> \<exists>pvs. refd = referencesOf pvs \<and>
         hist s' = EListPV Cached (Inr pvs) # EListLLVS Cached (Inr snaps) # EListLLV (Inr llvs) # hist s)) s"
  unfolding sweepLists_def referencingPersistentVolumes_def
  by (auto simp: wp_rules isWrite_def split: sum.splits)

lemma wp_throttled:
  "wp (throttled g) Q s =
    (if lastSweep s = 0 then Q None s
     else let t = g_now g (hist s); since = time_Sub t (lastSweep s) in
       Q (if since < minInterval g then Some (i64 (minInterval g - since)) else None)
         (s\<lparr>hist := ENow t # hist s\<rparr>))"
  unfolding throttled_def by (simp add: wp_now Let_def time_IsZero_def)

definition sweepPost :: "gc_env \<Rightarrow> gc_state \<Rightarrow>
    LVMLogicalVolumeSweep \<times> duration \<times> gc_err option \<Rightarrow> gc_state \<Rightarrow> bool" where
  "sweepPost g s out s' \<longleftrightarrow> (case out of (pic, _, err) \<Rightarrow> safeHist g (hist s') \<and>
     (if err = None then sweepDone g pic (hist s')
      else lastSweep s' = lastSweep s \<and> filter isWrite (hist s') = filter isWrite (hist s)))"

lemma sweepRun_ok:
  assumes "retry_ok (retry_OnError g)" "safeHist g (hist s)"
  shows "wp (sweepRun g) (sweepPost g s) s"
proof -
  have body: "wp (sweepBody g llvs snaps (referencesOf pvs))
     (\<lambda>again s'. sweepPost g s (picture s', again, None) s') s2"
    if "hist s2 = EListPV Cached (Inr pvs) # EListLLVS Cached (Inr snaps) # EListLLV (Inr llvs) # hist s"
    for llvs snaps pvs s2
    by (rule wp_mono [OF sweepBody_ok [OF assms that]]) (simp add: sweepPost_def)
  show ?thesis
    unfolding sweepRun_def wp_bind
    by (rule wp_mono [OF sweepLists_ok [of g s]])
      (use body assms(2) in \<open>auto simp: wp_rules sweepPost_def split: sum.splits prod.splits\<close>)
qed

lemma sweep_ok:
  assumes "retry_ok (retry_OnError g)" "safeHist g (hist s)"
  shows "wp (sweep g) (sweepPost g s) s"
proof -
  let ?s = "s\<lparr>hist := ENow (g_now g (hist s)) # hist s\<rparr>"
  have "wp (sweepRun g) (sweepPost g ?s) ?s"
    by (rule sweepRun_ok) (use assms in auto)
  then have "wp (sweepRun g) (sweepPost g s) ?s"
    by (rule wp_mono) (auto simp: sweepPost_def isWrite_def split: prod.splits if_splits)
  then show ?thesis
    unfolding sweep_def using sweepRun_ok [OF assms] assms(2)
    by (auto simp: wp_throttled Let_def sweepPost_def isWrite_def)
qed

end
