(* ===== verification/GC_Properties.thy ===== *)
theory GC_Properties
  imports GC_Sweep
begin

text \<open>
  What the garbage collector guarantees, stated over whole sweeps and over single routines, and
  a concrete cluster on which the statements are exercised.
\<close>

section \<open>Runs of the collector\<close>

definition gcStart :: gc_state where
  "gcStart = \<lparr>hist = [], lastSweep = 0, live = emptyConfirmation,
     budget = \<lparr>remaining = 0, deferred = 0, exhausted = False\<rparr>, picture = emptySweep, removed = False\<rparr>"

primrec reconciles :: "gc_env \<Rightarrow> duration \<Rightarrow> nat \<Rightarrow> gc_state" where
  "reconciles g sweepInterval 0 = gcStart"
| "reconciles g sweepInterval (Suc n) =
     snd (run_state (gcReconcile g sweepInterval) (reconciles g sweepInterval n))"

lemma reconcile_safe:
  assumes "retry_ok (retry_OnError g)" "safeHist g (hist s)"
  shows "safeHist g (hist (snd (run_state (gcReconcile g interval) s)))"
proof -
  have "wp (gcReconcile g interval) (\<lambda>_ s'. safeHist g (hist s')) s"
    unfolding gcReconcile_def wp_bind
    by (rule wp_mono [OF sweep_ok [OF assms]])
      (auto simp: wp_rules sweepPost_def Let_def split: prod.splits)
  then show ?thesis by (simp add: wp_run)
qed

section \<open>A concrete cluster\<close>

text \<open>One orphaned volume whose deletion was requested, one that a PersistentVolume still uses.\<close>

definition demoMeta :: "string \<Rightarrow> string list \<Rightarrow> time option \<Rightarrow> objmeta" where
  "demoMeta n fins del = (meta0 n)\<lparr>UID := n @ ''-uid'', Finalizers := fins, DeletionTimestamp := del\<rparr>"

definition demoLLV :: "string \<Rightarrow> time option \<Rightarrow> LLV" where
  "demoLLV n del = objmeta.extend
     (demoMeta n [SDSLocalVolumeCSIFinalizer, SDSNodeConfiguratorFinalizer] del)
     \<lparr>ActualLVNameOnTheNode = n, llv_Type = ''Thick'', llv_Size = ''1Gi'',
      LVMVolumeGroupName = ''vg'', llv_Source = None, llv_Thin = None, llv_Thick = None,
      llv_VolumeCleanup = None, llv_Status = None\<rparr>"

definition demoPV :: "string \<Rightarrow> PV" where
  "demoPV n = objmeta.extend (meta0 n) \<lparr>CSI = None, pv_SpecRest = '''', pv_Status = ''''\<rparr>"

definition demoEnv :: gc_env where
  "demoEnv = \<lparr>
     cl_List_LLV = (\<lambda>h. Inr [demoLLV ''a'' (Some 1), demoLLV ''b'' (Some 1)]),
     List_LLVS = (\<lambda>rd h. Inr []),
     List_PV = (\<lambda>rd h. Inr [demoPV ''b'']),
     List_VSC = (\<lambda>rd h. Inl NoKindMatch),
     liveReader_Get = (\<lambda>kind key h. Inr (demoMeta (snd key)
        [SDSLocalVolumeCSIFinalizer, SDSNodeConfiguratorFinalizer] (Some 1))),
     cl_Patch = (\<lambda>kind base patched h. None),
     g_now = (\<lambda>h. 60 * time_Second),
     ctx_Err = (\<lambda>h. False),
     NestedString = (\<lambda>c path. ('''', False)),
     retry_OnError = retry_steps 4,
     gracePeriod = 30 * time_Second, minInterval = 5 * time_Second, maxReclaims = 50\<rparr>"

lemma demo_retry [simp]: "retry_ok (retry_OnError demoEnv)"
  by (simp add: demoEnv_def)

section \<open>Safety of the finalizer writes\<close>

text \<open>C1: However the API server, the cache and the clock behave, after any number of reconciles every
  finalizer write of the collector is justified: it follows immediately on an uncached read of the same
  object (same UID as an object the sweep listed), which is being deleted and carries both finalizers;
  the write removes only the CSI finalizer; the listed object's grace period is over by a clock reading
  of this sweep; and the last complete uncached picture, younger than one second, and the cached lists
  show no PersistentVolume, snapshot or VolumeSnapshotContent that refers to it.\<close>

theorem finalizer_writes_justified:
  assumes "retry_ok (retry_OnError g)"
  shows "safeHist g (hist (reconciles g interval n))"
  by (induction n) (simp_all add: gcStart_def reconcile_safe [OF assms])

theorem finalizer_writes_justified_witness:
  "safeHist demoEnv (hist (reconciles demoEnv (300 * time_Second) 1)) \<and>
   length (filter isWrite (hist (reconciles demoEnv (300 * time_Second) 1))) = 2"
proof
  show "safeHist demoEnv (hist (reconciles demoEnv (300 * time_Second) 1))"
    by (rule finalizer_writes_justified) simp
  show "length (filter isWrite (hist (reconciles demoEnv (300 * time_Second) 1))) = 2"
    by code_simp
qed

section \<open>Budget and metrics of a sweep\<close>

lemma sweep_done:
  assumes "retry_ok (retry_OnError g)" "safeHist g (hist s)"
    and "run_state (sweep g) s = ((pic, d, None), s')"
  shows "sweepDone g pic (hist s')"
  using wp_runD [OF sweep_ok [OF assms(1,2)] assms(3)] by (simp add: sweepPost_def)

text \<open>C8: A sweep that ends without an error has written at most \<^verbatim>\<open>maxReclaims\<close> finalizers, and for each
  of the two kinds the success counter was incremented exactly once per finalizer written.\<close>

theorem sweep_within_budget:
  assumes "retry_ok (retry_OnError g)" "safeHist g (hist s)"
    and "run_state (sweep g) s = ((pic, d, None), s')"
  shows "allPatches (hist s') \<le> max 0 (maxReclaims g) \<and>
    (\<forall>kind. patchCount kind (hist s') = successCount kind (hist s'))"
  using sweep_done [OF assms] by (simp add: sweepDone_def)

definition demoOut :: "(LVMLogicalVolumeSweep \<times> duration \<times> gc_err option) \<times> gc_state" where
  "demoOut = run_state (sweep demoEnv) gcStart"

lemma demo_run:
  "run_state (sweep demoEnv) gcStart =
     ((fst (fst demoOut), fst (snd (fst demoOut)), None), snd demoOut)"
proof -
  have "snd (snd (fst demoOut)) = None" by code_simp
  then show ?thesis by (simp add: demoOut_def prod_eq_iff)
qed

theorem sweep_within_budget_witness:
  "allPatches (hist (snd demoOut)) \<le> 50 \<and>
   patchCount KindLVMLogicalVolume (hist (snd demoOut)) =
   successCount KindLVMLogicalVolume (hist (snd demoOut)) \<and>
   allPatches (hist (snd demoOut)) = 1"
proof -
  have "safeHist demoEnv (hist gcStart)" by (simp add: gcStart_def)
  from sweep_within_budget [OF demo_retry this demo_run]
  have "allPatches (hist (snd demoOut)) \<le> 50 \<and>
    patchCount KindLVMLogicalVolume (hist (snd demoOut)) =
    successCount KindLVMLogicalVolume (hist (snd demoOut))"
    by (simp add: demoEnv_def)
  moreover have "allPatches (hist (snd demoOut)) = 1" by code_simp
  ultimately show ?thesis by simp
qed

section \<open>What a sweep publishes\<close>

lemma orphans_of_volumes:
  assumes "effects (volumeEffect (sn, referencesOf pvs)) llvs p p'"
  shows "\<exists>es. Orphans p' = Orphans p @ es \<and> list_all2 volumeEntry
     (filter (\<lambda>llv. ownedByCSI llv \<and> \<not> (\<exists>pv\<in>set pvs. refers pv (Name llv))) llvs) es"
  using assms
  by (rule effects_list [where view = Orphans])
    (auto simp: volumeEffect_def countVolume_def awaitAgent_def Let_def split: if_splits)

lemma snapshots_of_snapshots:
  assumes "effects (snapshotEffect ()) snaps p p'"
  shows "\<exists>es. OrphanedSnapshots p' = OrphanedSnapshots p @ es \<and> list_all2 snapshotEntry
     (filter (\<lambda>sn. ownedByCSI sn \<and> DeletionTimestamp sn \<noteq> None) snaps) es"
  using assms
  by (rule effects_list [where view = OrphanedSnapshots])
    (auto simp: snapshotEffect_def awaitAgent_def split: if_splits)

lemma snapshots_keep_orphans:
  assumes "effects (snapshotEffect ()) snaps p p'"
  shows "Orphans p' = Orphans p \<and> CountBy p' = CountBy p \<and> AllocatedBytesBy p' = AllocatedBytesBy p"
proof -
  have "(Orphans p', CountBy p', AllocatedBytesBy p') = (Orphans p, CountBy p, AllocatedBytesBy p)"
    using assms by (rule effects_keep [where f = "\<lambda>p. (Orphans p, CountBy p, AllocatedBytesBy p)"])
      (auto simp: snapshotEffect_def awaitAgent_def split: if_splits)
  then show ?thesis by simp
qed

lemma volumes_keep_snapshots:
  assumes "effects (volumeEffect c) llvs p p'"
  shows "OrphanedSnapshots p' = OrphanedSnapshots p"
  using assms
  by (rule effects_keep [where f = OrphanedSnapshots])
    (auto simp: volumeEffect_def countVolume_def awaitAgent_def Let_def split: if_splits)

lemma volumes_counted:
  assumes "effects (volumeEffect c) llvs p p'"
  shows "iget (CountBy p') key = iget (CountBy p) key + (\<Sum>llv\<leftarrow>llvs. if volumeKey llv = key then 1 else 0)"
    and "iget (AllocatedBytesBy p') key = iget (AllocatedBytesBy p) key +
      (\<Sum>llv\<leftarrow>llvs. if volumeKey llv = key then llvAllocatedBytes llv else 0)"
  using assms
  by (rule effects_sum [where f = "\<lambda>p. iget (CountBy p) key"]
      effects_sum [where f = "\<lambda>p. iget (AllocatedBytesBy p) key"],
      auto simp: volumeEffect_def countVolume_def awaitAgent_def Let_def split: if_splits)+

lemma awaiting_counted:
  assumes "effects (snapshotEffect ()) snaps p q" "effects (volumeEffect c) llvs q p'"
  shows "iget (AwaitingAgentByKind p') KindLVMLogicalVolume =
      iget (AwaitingAgentByKind p) KindLVMLogicalVolume + (\<Sum>llv\<leftarrow>llvs. if awaitsAgent llv then 1 else 0)"
    and "iget (AwaitingAgentByKind p') KindLVMLogicalVolumeSnapshot =
      iget (AwaitingAgentByKind p) KindLVMLogicalVolumeSnapshot +
        (\<Sum>sn\<leftarrow>snaps. if awaitsAgent sn then 1 else 0)"
proof -
  let ?v = "\<lambda>p. iget (AwaitingAgentByKind p) KindLVMLogicalVolume"
  let ?s = "\<lambda>p. iget (AwaitingAgentByKind p) KindLVMLogicalVolumeSnapshot"
  have "?v q = ?v p"
    by (rule effects_keep [OF assms(1)]) (auto simp: snapshotEffect_def awaitAgent_def split: if_splits)
  moreover have "?s q = ?s p + (\<Sum>sn\<leftarrow>snaps. if awaitsAgent sn then 1 else 0)"
    by (rule effects_sum [OF assms(1)])
      (auto simp: snapshotEffect_def awaitAgent_def awaitsAgent_def split: if_splits)
  moreover have "?s p' = ?s q"
    by (rule effects_keep [OF assms(2)])
      (auto simp: volumeEffect_def countVolume_def awaitAgent_def Let_def split: if_splits)
  moreover have "?v p' = ?v q + (\<Sum>llv\<leftarrow>llvs. if awaitsAgent llv then 1 else 0)"
    by (rule effects_sum [OF assms(2)])
      (auto simp: volumeEffect_def countVolume_def awaitAgent_def awaitsAgent_def Let_def split: if_splits)
  ultimately show "?v p' = ?v p + (\<Sum>llv\<leftarrow>llvs. if awaitsAgent llv then 1 else 0)"
    "?s p' = ?s p + (\<Sum>sn\<leftarrow>snaps. if awaitsAgent sn then 1 else 0)" by simp_all
qed

text \<open>C5: The picture a successful sweep returns is the one it published last, and it is complete: it
  lists, in list order, exactly the volumes that carry the CSI finalizer and that no listed
  PersistentVolume refers to, and exactly the snapshots with that finalizer whose deletion was requested,
  each with its own data, with a state that fits its deletion timestamp, and with a reason exactly if
  it is blocked; every listed volume is counted under its phase and type, whoever owns it.\<close>

theorem sweep_picture_complete:
  assumes "retry_ok (retry_OnError g)" "safeHist g (hist s)"
    and "run_state (sweep g) s = ((pic, d, None), s')"
  shows "(\<exists>t h. hist s' = ENow t # ESetSweep pic # h) \<and>
    list_all2 volumeEntry
      (filter (\<lambda>llv. ownedByCSI llv \<and> \<not> (\<exists>pv\<in>set (cachedPVs (hist s')). refers pv (Name llv)))
        (cachedVolumes (hist s'))) (Orphans pic) \<and>
    list_all2 snapshotEntry
      (filter (\<lambda>sn. ownedByCSI sn \<and> DeletionTimestamp sn \<noteq> None) (cachedSnapshots (hist s')))
      (OrphanedSnapshots pic) \<and>
    iget (CountBy pic) key = (\<Sum>llv\<leftarrow>cachedVolumes (hist s'). if volumeKey llv = key then 1 else 0) \<and>
    iget (AllocatedBytesBy pic) key =
      (\<Sum>llv\<leftarrow>cachedVolumes (hist s'). if volumeKey llv = key then llvAllocatedBytes llv else 0) \<and>
    iget (AwaitingAgentByKind pic) KindLVMLogicalVolume =
      (\<Sum>llv\<leftarrow>cachedVolumes (hist s'). if awaitsAgent llv then 1 else 0) \<and>
    iget (AwaitingAgentByKind pic) KindLVMLogicalVolumeSnapshot =
      (\<Sum>sn\<leftarrow>cachedSnapshots (hist s'). if awaitsAgent sn then 1 else 0)"
proof -
  let ?c = "(snapshottedVolumeNames (cachedSnapshots (hist s')), referencesOf (cachedPVs (hist s')))"
  from sweep_done [OF assms] obtain q where
    q: "effects (snapshotEffect ()) (cachedSnapshots (hist s')) emptySweep q"
      "effects (volumeEffect ?c) (cachedVolumes (hist s')) q pic"
    and pub: "\<exists>t h. hist s' = ENow t # ESetSweep pic # h"
    by (auto simp: sweepDone_def sweepEffect_def)
  have q0: "Orphans q = []" "CountBy q = fmempty" "AllocatedBytesBy q = fmempty"
    using snapshots_keep_orphans [OF q(1)] by (simp_all add: emptySweep_def)
  show ?thesis
    using pub orphans_of_volumes [OF q(2)] snapshots_of_snapshots [OF q(1)]
      volumes_keep_snapshots [OF q(2)] volumes_counted [OF q(2), of key] awaiting_counted [OF q]
    by (simp add: q0 emptySweep_def)
qed

theorem sweep_picture_complete_witness:
  "map orphan_Name (Orphans (fst (fst demoOut))) = [''a''] \<and>
   list_all2 volumeEntry
      (filter (\<lambda>llv. ownedByCSI llv \<and> \<not> (\<exists>pv\<in>set (cachedPVs (hist (snd demoOut))). refers pv (Name llv)))
        (cachedVolumes (hist (snd demoOut)))) (Orphans (fst (fst demoOut)))"
proof
  show "map orphan_Name (Orphans (fst (fst demoOut))) = [''a'']" by code_simp
  have "safeHist demoEnv (hist gcStart)" by (simp add: gcStart_def)
  from sweep_picture_complete [OF demo_retry this demo_run] show "list_all2 volumeEntry
      (filter (\<lambda>llv. ownedByCSI llv \<and> \<not> (\<exists>pv\<in>set (cachedPVs (hist (snd demoOut))). refers pv (Name llv)))
        (cachedVolumes (hist (snd demoOut)))) (Orphans (fst (fst demoOut)))"
    by blast
qed

section \<open>Sweeps that do not run\<close>

text \<open>C9: A sweep that ends with an error has read and written no object it could have reclaimed, and
  leaves \<^verbatim>\<open>lastSweep\<close> as it was, so that its retry is not throttled.\<close>

theorem failed_sweep_writes_nothing:
  assumes "retry_ok (retry_OnError g)" "safeHist g (hist s)"
    and "run_state (sweep g) s = ((pic, d, Some e), s')"
  shows "filter isWrite (hist s') = filter isWrite (hist s) \<and> lastSweep s' = lastSweep s"
  using wp_runD [OF sweep_ok [OF assms(1,2)] assms(3)] by (simp add: sweepPost_def)

definition demoDown :: gc_env where
  "demoDown = demoEnv\<lparr>List_PV := \<lambda>rd h. Inl ServerTimeout\<rparr>"

theorem failed_sweep_writes_nothing_witness:
  "filter isWrite (hist (snd (run_state (sweep demoDown) gcStart))) = filter isWrite (hist gcStart) \<and>
   lastSweep (snd (run_state (sweep demoDown) gcStart)) = lastSweep gcStart"
proof (rule failed_sweep_writes_nothing)
  show "retry_ok (retry_OnError demoDown)" by (simp add: demoDown_def)
  show "safeHist demoDown (hist gcStart)" by (simp add: gcStart_def)
  show "run_state (sweep demoDown) gcStart = ((fst (fst (run_state (sweep demoDown) gcStart)), 0,
      Some (ListErr ''PersistentVolumes'' ServerTimeout)), snd (run_state (sweep demoDown) gcStart))"
  proof -
    have "snd (fst (run_state (sweep demoDown) gcStart)) =
      (0, Some (ListErr ''PersistentVolumes'' ServerTimeout))" by code_simp
    then show ?thesis by (simp add: prod_eq_iff)
  qed
qed

lemma throttled_run:
  assumes "lastSweep s \<noteq> 0" "time_Sub (g_now g (hist s)) (lastSweep s) < minInterval g"
  shows "run_state (gcReconcile g interval) s =
    ((\<lparr>Requeue = False, RequeueAfter = i64 (minInterval g - time_Sub (g_now g (hist s)) (lastSweep s))\<rparr>, None),
     s\<lparr>hist := ENow (g_now g (hist s)) # hist s\<rparr>)"
proof -
  have "wp (gcReconcile g interval) (\<lambda>r s'. (r, s') =
    ((\<lparr>Requeue = False, RequeueAfter = i64 (minInterval g - time_Sub (g_now g (hist s)) (lastSweep s))\<rparr>, None),
     s\<lparr>hist := ENow (g_now g (hist s)) # hist s\<rparr>)) s"
    using assms unfolding gcReconcile_def sweep_def by (simp add: wp_throttled Let_def wp_rules)
  then show ?thesis by (simp add: wp_run prod_eq_iff)
qed

text \<open>A reconcile asked for sooner than \<^verbatim>\<open>minInterval\<close> after the previous sweep reads the clock once,
  does nothing else (no list, no metric, not even a reconcile observation), reports no error and asks to
  be run again after exactly the remaining wait.\<close>

theorem throttled_reconcile_is_idle:
  assumes "lastSweep s \<noteq> 0" "time_Sub (g_now g (hist s)) (lastSweep s) < minInterval g"
  shows "run_state (gcReconcile g interval) s =
    ((\<lparr>Requeue = False, RequeueAfter = i64 (minInterval g - time_Sub (g_now g (hist s)) (lastSweep s))\<rparr>, None),
     s\<lparr>hist := ENow (g_now g (hist s)) # hist s\<rparr>)"
  using assms by (rule throttled_run)

theorem throttled_reconcile_is_idle_witness:
  "RequeueAfter (fst (fst (run_state (gcReconcile demoEnv 7) (gcStart\<lparr>lastSweep := 58 * time_Second\<rparr>))))
     = 3 * time_Second"
  by (subst throttled_reconcile_is_idle)
    (simp_all add: gcStart_def demoEnv_def time_Second_def time_Sub_def i64_def)

section \<open>Requeueing\<close>

lemma sweepRun_not_throttled:
  "run_state (sweepRun g) s \<noteq> ((pic, d, Some SweepThrottled), s')"
proof -
  have "wp (sweepLists g) (\<lambda>r _. r \<noteq> Inl SweepThrottled) s"
    unfolding sweepLists_def referencingPersistentVolumes_def by (auto simp: wp_rules split: sum.splits)
  then have "wp (sweepRun g) (\<lambda>out _. snd (snd out) \<noteq> Some SweepThrottled) s"
    unfolding sweepRun_def wp_bind
    by (rule wp_mono) (auto simp: wp_rules wp_def split: sum.splits prod.splits)
  then show ?thesis by (auto dest: wp_runD)
qed

text \<open>A reconcile without error always asks to be run again, after a positive delay that is at most
  the sweep interval (the remaining throttle wait, at most \<^verbatim>\<open>minInterval\<close>, when it was throttled), provided
  that the clock does not run backwards across sweeps.\<close>

theorem reconcile_requeues:
  assumes "0 < interval" "in_i64 (minInterval g)" "lastSweep s \<le> g_now g (hist s)"
    and "run_state (gcReconcile g interval) s = ((res, None), s')"
  shows "0 < RequeueAfter res \<and> RequeueAfter res \<le> max interval (minInterval g)"
proof -
  have "wp (gcReconcile g interval) (\<lambda>(res, err) s'. err = None \<longrightarrow>
      0 < RequeueAfter res \<and> RequeueAfter res \<le> max interval (minInterval g)) s"
  proof (cases "lastSweep s \<noteq> 0 \<and> time_Sub (g_now g (hist s)) (lastSweep s) < minInterval g")
    case True
    then have "0 \<le> time_Sub (g_now g (hist s)) (lastSweep s)"
      "in_i64 (minInterval g - time_Sub (g_now g (hist s)) (lastSweep s))"
      using assms(2,3) by (auto simp: time_Sub_def in_i64_def)
    with True show ?thesis
      by (simp add: throttled_run wp_def)
  next
    case False
    then have "wp (throttled g) (\<lambda>r s'. r = None) s"
      by (auto simp: wp_throttled Let_def)
    then show ?thesis
      unfolding gcReconcile_def sweep_def wp_bind
      by (rule wp_mono) (use assms(1) in \<open>auto simp: wp_rules Let_def wp_def sweepRun_not_throttled
          split: prod.splits\<close>)
  qed
  from wp_runD [OF this assms(4)] show ?thesis by simp
qed

theorem reconcile_requeues_witness:
  "0 < RequeueAfter (fst (fst (run_state (gcReconcile demoEnv 7) gcStart)))"
proof -
  have "snd (fst (run_state (gcReconcile demoEnv 7) gcStart)) = None" by code_simp
  then have "run_state (gcReconcile demoEnv 7) gcStart =
    ((fst (fst (run_state (gcReconcile demoEnv 7) gcStart)), None),
     snd (run_state (gcReconcile demoEnv 7) gcStart))" by (simp add: prod_eq_iff)
  from reconcile_requeues [OF _ _ _ this] show ?thesis
    by (simp add: demoEnv_def gcStart_def in_i64_def time_Second_def)
qed

section \<open>An eligible orphan is reclaimed\<close>

lemma removeCSIFinalizer_success:
  fixes c :: "'a objmeta_scheme"
  assumes "retry_ok (retry_OnError g)"
    and "liveReader_Get g kind (ObjectKeyFromObject c) (hist s) = Inr base"
    and "liveDeletable (objmeta.truncate c) base" "\<And>p h. cl_Patch g kind base p h = None"
  shows "run_state (removeCSIFinalizer g kind c) s = ((True, None), s\<lparr>removed := True,
     hist := EPatch kind base (base\<lparr>Finalizers :=
         filter (\<lambda>f. f \<noteq> SDSLocalVolumeCSIFinalizer) (Finalizers base)\<rparr>) None #
       EGet kind (ObjectKeyFromObject c) (Inr base) # hist s\<rparr>)"
proof -
  let ?s = "s\<lparr>removed := True,
     hist := EPatch kind base (base\<lparr>Finalizers :=
         filter (\<lambda>f. f \<noteq> SDSLocalVolumeCSIFinalizer) (Finalizers base)\<rparr>) None #
       EGet kind (ObjectKeyFromObject c) (Inr base) # hist s\<rparr>"
  have "wp (removeAttempt g kind c) (\<lambda>r s'. r = None \<and> s' = ?s) (s\<lparr>removed := False\<rparr>)"
    using assms unfolding removeAttempt_def liveDeletable_def
    by (auto simp: wp_rules Let_def slices_DeleteFunc_def)
  then have "run_state (removeAttempt g kind c) (s\<lparr>removed := False\<rparr>) = (None, ?s)"
    by (simp add: wp_run prod_eq_iff)
  from retry_first_success [OF assms(1) this]
  have "wp (removeCSIFinalizer g kind c) (\<lambda>r s'. r = (True, None) \<and> s' = ?s) s"
    unfolding removeCSIFinalizer_def by (simp add: wp_def)
  then show ?thesis by (simp add: wp_run prod_eq_iff)
qed

lemma liveReload_success:
  assumes "\<And>h. List_PV g Live h = Inr pvs" "\<And>h. List_LLVS g Live h = Inr ss"
    "\<And>h. List_VSC g Live h = Inr cs"
  shows "wp (liveReload g) (\<lambda>r s'. r = None \<and> removed s' = removed s \<and>
     referenced (live s') = referencesOf pvs \<and> snapshotted (live s') = snapshottedVolumeNames ss) s"
  unfolding liveReload_def referencingPersistentVolumes_def snapshotContentHandles_def
  by (simp add: assms wp_rules wp_now)



section \<open>References\<close>

text \<open>A volume counts as referenced exactly if some listed PersistentVolume has its name, or is one
  of this driver with its name as a non-empty handle; the entry names the first such PersistentVolume in
  list order, and its driver.\<close>

theorem references_name_first_referrer:
  "fmlookup (referencesOf pvs) n = map_option referenceOf (find (\<lambda>pv. refers pv n) pvs)"
  by (rule fmlookup_referencesOf)

text \<open>Stripping PersistentVolumes before they enter the informer cache changes neither which volumes
  they refer to nor the entries built from them, keeps the deletion timestamp and the finalizers, is
  idempotent and leaves every other object alone.\<close>

theorem strip_keeps_references:
  "referencesOf (map stripPV pvs) = referencesOf pvs \<and>
   DeletionTimestamp (stripPV pv) = DeletionTimestamp pv \<and> Finalizers (stripPV pv) = Finalizers pv \<and>
   StripPersistentVolume (StripPersistentVolume item) = StripPersistentVolume item \<and>
   StripPersistentVolume (ItemOther x) = ItemOther x"
proof -
  have "referencePV (stripPV pv) = referencePV pv" for pv
    by (rule ext) (simp add: referencePV_def stripPV_def Let_def split: option.splits)
  then have "fold referencePV (map stripPV pvs) m = fold referencePV pvs m" for m
    by (induction pvs arbitrary: m) simp_all
  then show ?thesis
    by (cases item) (simp_all add: referencesOf_def stripPV_def split: option.splits)
qed

section \<open>The watch predicates\<close>

text \<open>An update of an LVMLogicalVolume that the predicate filters out cannot change what a sweep does
  with the volume: with name, namespace, UID and deletion timestamp unchanged, classifying the old
  and the new object is the same computation.\<close>

theorem filtered_llv_update_is_irrelevant:
  assumes "\<not> llvSweepInputChanged old new"
    and "ObjectKeyFromObject new = ObjectKeyFromObject old" "UID new = UID old"
    and "DeletionTimestamp new = DeletionTimestamp old"
  shows "sweepVolume g names refs new d = sweepVolume g names refs old d"
proof -
  have same: "Finalizers new = Finalizers old" "retainAcknowledged new = retainAcknowledged old"
    "LVMVolumeGroupName new = LVMVolumeGroupName old" "llv_Type new = llv_Type old"
    "llvPhase new = llvPhase old" "llvAllocatedBytes new = llvAllocatedBytes old" "Name new = Name old"
    using assms by (auto simp: llvSweepInputChanged_def ObjectKeyFromObject_def split: if_splits)
  then have keys: "llvType new = llvType old" "volumeKey new = volumeKey old"
    by (simp_all add: llvType_def volumeKey_def)
  have "removeCSIFinalizer g kind new = removeCSIFinalizer g kind old" for kind
    unfolding removeCSIFinalizer_def removeAttempt_def by (simp only: assms(2,3))
  then have "reclaim g new names = reclaim g old names"
    unfolding reclaim_def reclaimConfirmed_def by (simp only: assms(4) same)
  then show ?thesis
    unfolding sweepVolume_def countVolume_def by (simp only: same keys assms(4))
qed

theorem filtered_llv_update_is_irrelevant_witness:
  "sweepVolume demoEnv fmempty fmempty ((demoLLV ''a'' None)\<lparr>llv_Size := ''2Gi''\<rparr>) 0 =
   sweepVolume demoEnv fmempty fmempty (demoLLV ''a'' None) 0"
  by (rule filtered_llv_update_is_irrelevant)
    (simp_all add: llvSweepInputChanged_def ObjectKeyFromObject_def retainAcknowledged_def llvPhase_def
      llvAllocatedBytes_def)

end
