(* ===== verification/LSC_Model.thy ===== *)
theory LSC_Model
  imports Kube_Types
begin

text \<open>
  \<^verbatim>\<open>images/controller/pkg/controller/local_storage_class_watcher_func.go\<close>, the parts without effects:
  the LocalStorageClass and StorageClass resources, the resolution of the LVMVolumeGroup entries, the
  validation, and how the managed StorageClass is built from a LocalStorageClass and compared with it.

  Code outside the repository is a parameter: \<^verbatim>\<open>metav1.LabelSelectorAsSelector\<close> (\<^verbatim>\<open>asSelector\<close>, which
  returns an error or a predicate on label sets), \<^verbatim>\<open>yaml.Marshal\<close>, \<^verbatim>\<open>yaml.Unmarshal\<close>, and the order in
  which Go ranges over a map.  Messages are values of a datatype instead of rendered text.
\<close>

section \<open>Resources and constants\<close>

record labelSelector =
  matchLabels :: strmap
  matchExpressions :: "(string \<times> string \<times> string list) list"

type_synonym selectorParser = "labelSelector \<Rightarrow> string + (strmap \<Rightarrow> bool)"

text \<open>An entry of \<^verbatim>\<open>spec.lvm.lvmVolumeGroups\<close>; \<^verbatim>\<open>Thin\<close> is the pool name behind the pointer.\<close>

record LocalStorageClassLVG =
  le_Name :: string
  LabelSelector :: "labelSelector option"
  Thin :: "string option"

record LocalStorageClassLVMSpec =
  lvm_Type :: string
  Thick :: "bool option option"
  VolumeCleanup :: string
  LVMVolumeGroups :: "LocalStorageClassLVG list"

record condition =
  cond_Type :: string
  cond_Status :: bool
  cond_Reason :: string
  cond_Message :: string
  cond_ObservedGeneration :: int

record LocalStorageClassStatus =
  lsc_Phase :: string
  lsc_Reason :: string
  ObservedGeneration :: int
  Conditions :: "condition list"

record LocalStorageClass = objmeta +
  ReclaimPolicy :: string
  VolumeBindingMode :: string
  LVM :: "LocalStorageClassLVMSpec option"
  FSType :: string
  lsc_Status :: "LocalStorageClassStatus option"

record StorageClass = objmeta +
  Provisioner :: string
  Parameters :: strmap
  sc_ReclaimPolicy :: string
  AllowVolumeExpansion :: bool
  sc_VolumeBindingMode :: string

definition LVMThinType :: string where "LVMThinType = ''Thin''"
definition LVMThickType :: string where "LVMThickType = ''Thick''"
definition LocalStorageClassLvmType :: string where "LocalStorageClassLvmType = ''lvm''"
definition TypeParamKey :: string where "TypeParamKey = LocalStorageClassProvisioner @ ''/type''"
definition LVMTypeParamKey :: string where "LVMTypeParamKey = LocalStorageClassProvisioner @ ''/lvm-type''"
definition LVMVolumeBindingModeParamKey :: string where
  "LVMVolumeBindingModeParamKey = LocalStorageClassProvisioner @ ''/volume-binding-mode''"
definition LVMVolumeGroupsParamKey :: string where
  "LVMVolumeGroupsParamKey = LocalStorageClassProvisioner @ ''/lvm-volume-groups''"
definition LVMThickContiguousParamKey :: string where
  "LVMThickContiguousParamKey = LocalStorageClassProvisioner @ ''/lvm-thick-contiguous''"
definition LVMVolumeCleanupParamKey :: string where
  "LVMVolumeCleanupParamKey = LocalStorageClassProvisioner @ ''/lvm-volume-cleanup''"
definition FSTypeParamKey :: string where "FSTypeParamKey = ''csi.storage.k8s.io/fstype''"
definition DefaultFSType :: string where "DefaultFSType = ''ext4''"
definition LocalStorageClassFinalizerName :: string where
  "LocalStorageClassFinalizerName = ''storage.deckhouse.io/local-storage-class-controller''"
definition LocalStorageClassFinalizerNameOld :: string where
  "LocalStorageClassFinalizerNameOld = ''localstorageclass.storage.deckhouse.io''"
definition AllowVolumeExpansionDefaultValue :: bool where "AllowVolumeExpansionDefaultValue = True"
definition FailedStatusPhase :: string where "FailedStatusPhase = ''Failed''"
definition CreatedStatusPhase :: string where "CreatedStatusPhase = ''Created''"
definition SLVStorageClassCtrlName :: string where
  "SLVStorageClassCtrlName = ''d8-sds-local-volume-storage-class-controller''"
definition SLVStorageClassVolumeSnapshotClassAnnotationKey :: string where
  "SLVStorageClassVolumeSnapshotClassAnnotationKey = ''storage.deckhouse.io/volumesnapshotclass''"
definition SLVStorageClassVolumeSnapshotClassAnnotationValue :: string where
  "SLVStorageClassVolumeSnapshotClassAnnotationValue = ''sds-local-volume-snapshot-class''"
definition SLVStorageManagedLabelKey :: string where
  "SLVStorageManagedLabelKey = ''storage.deckhouse.io/managed-by''"

definition localStorageClassFinalizers :: "string list" where
  "localStorageClassFinalizers = [LocalStorageClassFinalizerName, LocalStorageClassFinalizerNameOld]"

lemmas param_key_defs = TypeParamKey_def LVMTypeParamKey_def LVMVolumeBindingModeParamKey_def
  LVMVolumeGroupsParamKey_def LVMThickContiguousParamKey_def LVMVolumeCleanupParamKey_def
  FSTypeParamKey_def LocalStorageClassProvisioner_def

section \<open>Resolving the LVMVolumeGroups\<close>

definition lscUsesLabelSelector :: "LocalStorageClass \<Rightarrow> bool" where
  "lscUsesLabelSelector lsc \<longleftrightarrow> (case LVM lsc of
     None \<Rightarrow> False
   | Some lvm \<Rightarrow> list_ex (\<lambda>entry. LabelSelector entry \<noteq> None) (LVMVolumeGroups lvm))"

definition sameThinPool :: "string option \<Rightarrow> string option \<Rightarrow> bool" where
  "sameThinPool a b = (case (a, b) of (Some p, Some q) \<Rightarrow> p = q | _ \<Rightarrow> a = None \<and> b = None)"

lemma sameThinPool_eq [simp]: "sameThinPool a b \<longleftrightarrow> a = b"
  by (auto simp: sameThinPool_def split: option.splits)

datatype resolve_err =
    ListedTwice string
  | DifferentThinPools string "string option" "string option"
  | InvalidSelector string

text \<open>The local variables \<^verbatim>\<open>seen\<close> and \<^verbatim>\<open>resolved\<close>.\<close>

type_synonym resolving = "(string, string option) fmap \<times> LocalStorageClassLVG list"

definition namedEntry :: "string \<Rightarrow> string option \<Rightarrow> LocalStorageClassLVG" where
  "namedEntry n thin = \<lparr>le_Name = n, LabelSelector = None, Thin = thin\<rparr>"

definition appendEntry ::
  "string \<Rightarrow> string option \<Rightarrow> bool \<Rightarrow> resolving \<Rightarrow> resolve_err + resolving" where
  "appendEntry name thin allowCollapse acc = (case acc of (seen, resolved) \<Rightarrow>
     (case fmlookup seen name of
       Some prev \<Rightarrow>
         if \<not> allowCollapse then Inl (ListedTwice name)
         else if \<not> sameThinPool prev thin then Inl (DifferentThinPools name prev thin)
         else Inr acc
     | None \<Rightarrow> Inr (fmupd name thin seen, resolved @ [namedEntry name thin])))"

definition resolveEntry ::
  "selectorParser \<Rightarrow> LVG list \<Rightarrow> LocalStorageClassLVG \<Rightarrow> resolving \<Rightarrow> resolve_err + resolving" where
  "resolveEntry asSelector lvgs entry acc = (case LabelSelector entry of
     None \<Rightarrow> appendEntry (le_Name entry) (Thin entry) False acc
   | Some sel \<Rightarrow> (case asSelector sel of
       Inl e \<Rightarrow> Inl (InvalidSelector e)
     | Inr matches \<Rightarrow>
         foldE (\<lambda>lvg acc. if \<not> matches (labels_of lvg) then Inr acc
                 else appendEntry (Name lvg) (Thin entry) True acc) lvgs acc))"

definition resolveEffectiveLVGs ::
  "selectorParser \<Rightarrow> LocalStorageClass \<Rightarrow> LVG list \<Rightarrow> resolve_err + LocalStorageClassLVG list" where
  "resolveEffectiveLVGs asSelector lsc lvgs = (case LVM lsc of
     None \<Rightarrow> Inr []
   | Some lvm \<Rightarrow>
       (case foldE (resolveEntry asSelector lvgs) (LVMVolumeGroups lvm) (fmempty, []) of
         Inl e \<Rightarrow> Inl e
       | Inr (seen, resolved) \<Rightarrow> Inr (sort_key le_Name resolved)))"

section \<open>Validation\<close>

datatype valMsg =
    UnmanagedSC string
  | NoVolumeGroups
  | NotExactlyOne nat
  | BadSelector nat string
  | SelectorMatchesNothing nat
  | ThinRequired nat
  | ThinForbidden nat
  | MixedEntries
  | SameNode "(string \<times> string list) list"
  | NonexistentLVGs "string list"
  | NonexistentThinPools "string list"
  | ThinPoolsThoughThick "string list"
  | UnknownType string

definition findUnmanagedDuplicatedSC :: "StorageClass list \<Rightarrow> LocalStorageClass \<Rightarrow> string" where
  "findUnmanagedDuplicatedSC scs lsc =
    (case find (\<lambda>sc. Name sc = Name lsc \<and> Provisioner sc \<noteq> LocalStorageClassProvisioner) scs of
       Some sc \<Rightarrow> Name sc | None \<Rightarrow> '''')"

definition findAnyThinPool :: "LocalStorageClassLVG list \<Rightarrow> string list" where
  "findAnyThinPool effective = map le_Name (filter (\<lambda>l. Thin l \<noteq> None) effective)"

text \<open>The map of the items by name: a later item of the same name replaces an earlier one.\<close>

definition lvgsByName :: "LVG list \<Rightarrow> string \<Rightarrow> LVG option" where
  "lvgsByName lvgs = map_of (rev (map (\<lambda>lvg. (Name lvg, lvg)) lvgs))"

definition findNonexistentThinPools :: "LVG list \<Rightarrow> LocalStorageClassLVG list \<Rightarrow> string list" where
  "findNonexistentThinPools lvgs effective = map le_Name (filter (\<lambda>l. case Thin l of
     None \<Rightarrow> True
   | Some pool \<Rightarrow> \<not> (case lvgsByName lvgs (le_Name l) of
       None \<Rightarrow> False
     | Some lvg \<Rightarrow> list_ex (\<lambda>tp. tp_Name tp = pool) (status_ThinPools lvg))) effective)"

definition countLVGsMatchingSelector :: "selectorParser \<Rightarrow> LVG list \<Rightarrow> labelSelector \<Rightarrow> nat" where
  "countLVGsMatchingSelector asSelector lvgs sel = (case asSelector sel of
     Inl _ \<Rightarrow> 0
   | Inr matches \<Rightarrow> length (filter (\<lambda>lvg. matches (labels_of lvg)) lvgs))"

definition findNonexistentLVGs :: "LVG list \<Rightarrow> LocalStorageClassLVG list \<Rightarrow> string list" where
  "findNonexistentLVGs lvgs effective =
     filter (\<lambda>n. n \<notin> set (map Name lvgs)) (map le_Name effective)"

text \<open>
  \<^verbatim>\<open>nodesWithLVGs\<close> as an association list; \<^term>\<open>rangeOrder\<close> is the order Go ranges over its keys.
\<close>

fun appendAt :: "'k \<Rightarrow> 'v \<Rightarrow> ('k \<times> 'v list) list \<Rightarrow> ('k \<times> 'v list) list" where
  "appendAt k v [] = [(k, [v])]"
| "appendAt k v ((k', vs) # m) = (if k' = k then (k', vs @ [v]) # m else (k', vs) # appendAt k v m)"

definition nodesWithLVGs :: "LVG list \<Rightarrow> LocalStorageClassLVG list \<Rightarrow> (string \<times> string list) list" where
  "nodesWithLVGs lvgs effective =
     fold (\<lambda>lvg m. if Name lvg \<in> set (map le_Name effective)
             then fold (\<lambda>node. appendAt node (Name lvg)) (lvg_Nodes lvg) m else m) lvgs []"

definition findLVMVolumeGroupsOnTheSameNode ::
  "(string list \<Rightarrow> string list) \<Rightarrow> LVG list \<Rightarrow> LocalStorageClassLVG list \<Rightarrow> (string \<times> string list) list" where
  "findLVMVolumeGroupsOnTheSameNode rangeOrder lvgs effective =
    (let m = nodesWithLVGs lvgs effective in
     filter (\<lambda>(node, names). length names > 1)
       (map (\<lambda>node. (node, case map_of m node of Some names \<Rightarrow> names | None \<Rightarrow> [])) (rangeOrder (map fst m))))"

definition validateEntry ::
  "selectorParser \<Rightarrow> LVG list \<Rightarrow> string \<Rightarrow> nat \<times> LocalStorageClassLVG \<Rightarrow> valMsg list" where
  "validateEntry asSelector lvgs lvmType ie = (case ie of (i, entry) \<Rightarrow>
     (let hasName = (le_Name entry \<noteq> ''''); hasSelector = (LabelSelector entry \<noteq> None) in
      (if hasName = hasSelector then [NotExactlyOne i]
       else (case LabelSelector entry of
         None \<Rightarrow> []
       | Some sel \<Rightarrow> (case asSelector sel of
           Inl e \<Rightarrow> [BadSelector i e]
         | Inr _ \<Rightarrow> if countLVGsMatchingSelector asSelector lvgs sel = 0
                    then [SelectorMatchesNothing i] else []))) @
      (if lvmType = LVMThinType
       then (if Thin entry = None \<or> Thin entry = Some '''' then [ThinRequired i] else [])
       else (if Thin entry \<noteq> None then [ThinForbidden i] else []))))"

definition validateLVM :: "selectorParser \<Rightarrow> (string list \<Rightarrow> string list) \<Rightarrow> LVG list \<Rightarrow>
    LocalStorageClassLVG list \<Rightarrow> LocalStorageClassLVMSpec \<Rightarrow> valMsg list" where
  "validateLVM asSelector rangeOrder lvgs effective lvm =
    (let entries = LVMVolumeGroups lvm;
         nameEntries = length (filter (\<lambda>e. le_Name e \<noteq> '''') entries);
         selectorEntries = length (filter (\<lambda>e. LabelSelector e \<noteq> None) entries);
         sameNode = findLVMVolumeGroupsOnTheSameNode rangeOrder lvgs effective;
         missing = findNonexistentLVGs lvgs effective;
         badPools = findNonexistentThinPools lvgs effective;
         anyPools = findAnyThinPool effective
     in (if entries = [] then [NoVolumeGroups] else []) @
        concat (map (validateEntry asSelector lvgs (lvm_Type lvm)) (List.enumerate 0 entries)) @
        (if nameEntries > 0 \<and> selectorEntries > 0 then [MixedEntries] else []) @
        (if sameNode \<noteq> [] then [SameNode sameNode] else []) @
        (if missing \<noteq> [] then [NonexistentLVGs missing] else []) @
        (if lvm_Type lvm = LVMThinType
         then (if badPools \<noteq> [] then [NonexistentThinPools badPools] else [])
         else (if anyPools \<noteq> [] then [ThinPoolsThoughThick anyPools] else [])))"

text \<open>
  Every message is written together with \<^verbatim>\<open>valid = false\<close>, and nothing else sets it.
\<close>

definition validateLocalStorageClass :: "selectorParser \<Rightarrow> (string list \<Rightarrow> string list) \<Rightarrow>
    StorageClass list \<Rightarrow> LocalStorageClass \<Rightarrow> LVG list \<Rightarrow> LocalStorageClassLVG list \<Rightarrow> bool \<times> valMsg list" where
  "validateLocalStorageClass asSelector rangeOrder scs lsc lvgs effective =
    (let dup = findUnmanagedDuplicatedSC scs lsc;
         msgs = (if dup \<noteq> '''' then [UnmanagedSC dup] else []) @
           (case LVM lsc of
              None \<Rightarrow> [UnknownType (Name lsc)]
            | Some lvm \<Rightarrow> validateLVM asSelector rangeOrder lvgs effective lvm)
     in (msgs = [], msgs))"

section \<open>The managed StorageClass\<close>

text \<open>
  Errors of the LocalStorageClass controller.  \<^verbatim>\<open>NilPointer\<close> is the run-time panic of a dereferenced
  nil pointer; \<^verbatim>\<open>Wrapped\<close> an error of the API server with text around it.
\<close>

datatype lsc_err =
    KErr kerr
  | Wrapped string kerr
  | WrappedErr string lsc_err
  | Joined lsc_err lsc_err
  | YamlErr string
  | ResolveErr resolve_err
  | ValidationFailed "valMsg list"
  | ThinPoolUnknown string
  | ForeignStorageClass string
  | NoStorageClass string
  | UnknownLSCType
  | NilPointer

definition isIgnoredLabelKey :: "string \<Rightarrow> string list \<Rightarrow> bool" where
  "isIgnoredLabelKey key ignored \<longleftrightarrow> list_ex (\<lambda>p. p \<noteq> '''' \<and> prefix p key) ignored"

definition filterLabelsForStorageClass :: "strmap option \<Rightarrow> string list \<Rightarrow> strmap option" where
  "filterLabelsForStorageClass lscLabels ignored =
    (if nilmap lscLabels = fmempty then None
     else Some (fmfilter (\<lambda>k. \<not> isIgnoredLabelKey k ignored) (nilmap lscLabels)))"

definition labelsMatchLSC :: "strmap option \<Rightarrow> strmap option \<Rightarrow> string list \<Rightarrow> bool" where
  "labelsMatchLSC scLabels lscLabels ignored \<longleftrightarrow>
     scLabels = Some (fmupd SLVStorageManagedLabelKey SLVStorageClassCtrlName
       (nilmap (filterLabelsForStorageClass lscLabels ignored)))"

record yamlLib =
  yaml_Marshal :: "LocalStorageClassLVG list \<Rightarrow> string + string"
  yaml_Unmarshal :: "string \<Rightarrow> string + LocalStorageClassLVG list"

definition configureParams :: "LocalStorageClass \<Rightarrow> LocalStorageClassLVMSpec \<Rightarrow> string \<Rightarrow> strmap" where
  "configureParams lsc lvm lvgsParam =
    (let fsType = (if FSType lsc = '''' then DefaultFSType else FSType lsc);
         params = fmupd FSTypeParamKey fsType
           (fmupd LVMVolumeGroupsParamKey lvgsParam
           (fmupd LVMVolumeBindingModeParamKey (VolumeBindingMode lsc)
           (fmupd LVMTypeParamKey (lvm_Type lvm)
           (fmupd TypeParamKey LocalStorageClassLvmType fmempty))));
         params1 = (if Thick lvm = Some (Some True)
                    then fmupd LVMThickContiguousParamKey ''true'' params else params)
     in if VolumeCleanup lvm \<noteq> '''' then fmupd LVMVolumeCleanupParamKey (VolumeCleanup lvm) params1
        else params1)"

definition configureLabels :: "LocalStorageClass \<Rightarrow> string list \<Rightarrow> strmap" where
  "configureLabels lsc ignored =
    (let filtered = nilmap (filterLabelsForStorageClass (Labels lsc) ignored) in
     if filtered \<noteq> fmempty then fmupd SLVStorageManagedLabelKey SLVStorageClassCtrlName filtered
     else fmupd SLVStorageManagedLabelKey SLVStorageClassCtrlName fmempty)"

definition configureStorageClass :: "yamlLib \<Rightarrow> LocalStorageClass \<Rightarrow> LocalStorageClassLVG list \<Rightarrow>
    string list \<Rightarrow> lsc_err + StorageClass" where
  "configureStorageClass yaml lsc effective ignored = (case LVM lsc of
     None \<Rightarrow> Inl UnknownLSCType
   | Some lvm \<Rightarrow> (case yaml_Marshal yaml effective of
       Inl e \<Rightarrow> Inl (YamlErr e)
     | Inr lvgsParam \<Rightarrow> Inr (objmeta.extend
         ((meta0 (Name lsc))\<lparr>Namespace := Namespace lsc,
            Annotations := Some (fmupd SLVStorageClassVolumeSnapshotClassAnnotationKey
              SLVStorageClassVolumeSnapshotClassAnnotationValue fmempty),
            Finalizers := [LocalStorageClassFinalizerName],
            Labels := Some (configureLabels lsc ignored)\<rparr>)
         \<lparr>Provisioner = LocalStorageClassProvisioner,
          Parameters = configureParams lsc lvm lvgsParam,
          sc_ReclaimPolicy = ReclaimPolicy lsc,
          AllowVolumeExpansion = AllowVolumeExpansionDefaultValue,
          sc_VolumeBindingMode = VolumeBindingMode lsc\<rparr>)))"

definition updateStorageClass :: "yamlLib \<Rightarrow> LocalStorageClass \<Rightarrow> StorageClass \<Rightarrow>
    LocalStorageClassLVG list \<Rightarrow> string list \<Rightarrow> lsc_err + StorageClass" where
  "updateStorageClass yaml lsc oldSC effective ignored =
    (case configureStorageClass yaml lsc effective ignored of
       Inl e \<Rightarrow> Inl e
     | Inr newSC \<Rightarrow> Inr (case Annotations oldSC of
         None \<Rightarrow> newSC
       | Some old \<Rightarrow> newSC\<lparr>Annotations := Some (fmadd old (annotations_of newSC))\<rparr>))"

section \<open>Comparing the StorageClass with the LocalStorageClass\<close>

definition getLVGFromSCParams :: "yamlLib \<Rightarrow> StorageClass \<Rightarrow> lsc_err + LocalStorageClassLVG list" where
  "getLVGFromSCParams yaml sc =
    (case yaml_Unmarshal yaml (mget (Parameters sc) LVMVolumeGroupsParamKey) of
       Inl e \<Rightarrow> Inl (YamlErr e) | Inr lvgs \<Rightarrow> Inr lvgs)"

definition effectiveByName :: "LocalStorageClassLVG list \<Rightarrow> string \<Rightarrow> string option option" where
  "effectiveByName effective = map_of (rev (map (\<lambda>l. (le_Name l, Thin l)) effective))"

fun diffLVGs :: "LocalStorageClassLVMSpec \<Rightarrow> (string \<Rightarrow> string option option) \<Rightarrow>
    LocalStorageClassLVG list \<Rightarrow> lsc_err + bool" where
  "diffLVGs lvm byName [] = Inr False"
| "diffLVGs lvm byName (cur # rest) = (case byName (le_Name cur) of
     None \<Rightarrow> Inr True
   | Some effThin \<Rightarrow>
       if lvm_Type lvm = LVMThinType then
         (case (Thin cur, effThin) of
            (None, None) \<Rightarrow> Inl (ThinPoolUnknown (le_Name cur))
          | (Some p, Some q) \<Rightarrow> if p \<noteq> q then Inr True else diffLVGs lvm byName rest
          | _ \<Rightarrow> Inr True)
       else diffLVGs lvm byName rest)"

definition hasSCDiff :: "yamlLib \<Rightarrow> StorageClass \<Rightarrow> LocalStorageClass \<Rightarrow>
    LocalStorageClassLVG list \<Rightarrow> string list \<Rightarrow> lsc_err + bool" where
  "hasSCDiff yaml sc lsc effective ignored = (case getLVGFromSCParams yaml sc of
     Inl e \<Rightarrow> Inl e
   | Inr current \<Rightarrow> (case LVM lsc of
       None \<Rightarrow> Inl NilPointer
     | Some lvm \<Rightarrow>
         if VolumeCleanup lvm \<noteq> mget (Parameters sc) LVMVolumeCleanupParamKey then Inr True
         else if \<not> labelsMatchLSC (Labels sc) (Labels lsc) ignored then Inr True
         else if length current \<noteq> length effective then Inr True
         else diffLVGs lvm (effectiveByName effective) current))"

section \<open>What a reconcile has to do\<close>

datatype reconcileType = CreateReconcile | UpdateReconcile | DeleteReconcile | NoReconcile

record condLib =
  IsStale :: "condition list \<Rightarrow> string \<Rightarrow> int \<Rightarrow> bool"
  IsTrue :: "condition list \<Rightarrow> string \<Rightarrow> bool"
  SetCond :: "condition list \<Rightarrow> condition \<Rightarrow> condition list"
  TruncateMessage :: "string \<Rightarrow> string"

definition ConditionTypeReady :: string where "ConditionTypeReady = ''Ready''"

definition shouldReconcileByDeleteFunc :: "LocalStorageClass \<Rightarrow> bool" where
  "shouldReconcileByDeleteFunc lsc \<longleftrightarrow> DeletionTimestamp lsc \<noteq> None"

definition shouldReconcileByCreateFunc :: "StorageClass list \<Rightarrow> LocalStorageClass \<Rightarrow> bool" where
  "shouldReconcileByCreateFunc scs lsc \<longleftrightarrow>
    (if DeletionTimestamp lsc \<noteq> None then False
     else \<not> list_ex (\<lambda>sc. Name sc = Name lsc) scs)"

definition shouldReconcileByUpdateFunc :: "yamlLib \<Rightarrow> condLib \<Rightarrow> StorageClass list \<Rightarrow>
    LocalStorageClass \<Rightarrow> LocalStorageClassLVG list \<Rightarrow> string list \<Rightarrow> lsc_err + bool" where
  "shouldReconcileByUpdateFunc yaml conds scs lsc effective ignored =
    (if DeletionTimestamp lsc \<noteq> None then Inr False
     else case find (\<lambda>sc. Name sc = Name lsc) scs of
       None \<Rightarrow> Inl (NoStorageClass (Name lsc))
     | Some sc \<Rightarrow>
         if Provisioner sc = LocalStorageClassProvisioner then
           (case hasSCDiff yaml sc lsc effective ignored of
              Inl e \<Rightarrow> Inl e
            | Inr diff \<Rightarrow>
                if diff then Inr True
                else Inr (case lsc_Status lsc of
                    None \<Rightarrow> True
                  | Some st \<Rightarrow> IsStale conds (Conditions st) ConditionTypeReady (Generation lsc) \<or>
                               \<not> IsTrue conds (Conditions st) ConditionTypeReady))
         else Inl (ForeignStorageClass (Name sc)))"

definition identifyReconcileFunc :: "yamlLib \<Rightarrow> condLib \<Rightarrow> StorageClass list \<Rightarrow>
    LocalStorageClass \<Rightarrow> LocalStorageClassLVG list \<Rightarrow> string list \<Rightarrow> lsc_err + reconcileType" where
  "identifyReconcileFunc yaml conds scs lsc effective ignored =
    (if shouldReconcileByDeleteFunc lsc then Inr DeleteReconcile
     else if shouldReconcileByCreateFunc scs lsc then Inr CreateReconcile
     else case shouldReconcileByUpdateFunc yaml conds scs lsc effective ignored of
       Inl e \<Rightarrow> Inl e
     | Inr should \<Rightarrow> Inr (if should then UpdateReconcile else NoReconcile))"

end
