(* ===== verification/CSI_Utils.thy ===== *)
theory CSI_Utils
  imports LSC_Model
begin

text \<open>
  The parts of the CSI driver without effects (\<^verbatim>\<open>images/sds-local-volume-csi/pkg/utils/func.go\<close>,
  \<^verbatim>\<open>internal/const.go\<close> and the helpers of \<^verbatim>\<open>driver/controller.go\<close>): the alignment of sizes to
  the extent of a volume group, the choice of the node and of the volume group, and the specification of the
  LVMLogicalVolume to create.

  \<^verbatim>\<open>Quantity.String()\<close> of a fresh binary quantity is the parameter \<^verbatim>\<open>fmt\<close>.  Sizes are
  \<^verbatim>\<open>int64\<close> and the arithmetic on them wraps around.  The error \<^verbatim>\<open>Panic\<close> is an index or a nil
  pointer out of range.
\<close>

section \<open>Constants and errors\<close>

definition TypeKey :: string where "TypeKey = ''local.csi.storage.deckhouse.io/type''"
definition Lvm :: string where "Lvm = ''lvm''"
definition LvmTypeKey :: string where "LvmTypeKey = ''local.csi.storage.deckhouse.io/lvm-type''"
definition BindingModeKey :: string where "BindingModeKey = ''local.csi.storage.deckhouse.io/volume-binding-mode''"
definition LVMVolumeGroupKey :: string where "LVMVolumeGroupKey = ''local.csi.storage.deckhouse.io/lvm-volume-groups''"
definition LVMVThickContiguousParamKey :: string where
  "LVMVThickContiguousParamKey = ''local.csi.storage.deckhouse.io/lvm-thick-contiguous''"
definition ActualNameOnTheNodeKey :: string where
  "ActualNameOnTheNodeKey = ''local.csi.storage.deckhouse.io/actualNameOnTheNode''"
definition TopologyKey :: string where "TopologyKey = ''topology.sds-local-volume-csi/node''"
definition SubPath :: string where "SubPath = ''subPath''"
definition VGNameKey :: string where "VGNameKey = ''vgname''"
definition ThinPoolNameKey :: string where "ThinPoolNameKey = ''thinPoolName''"
definition LVMTypeThin :: string where "LVMTypeThin = ''Thin''"
definition LVMTypeThick :: string where "LVMTypeThick = ''Thick''"
definition BindingModeWFFC :: string where "BindingModeWFFC = ''WaitForFirstConsumer''"
definition BindingModeI :: string where "BindingModeI = ''Immediate''"
definition csi_LVMVolumeCleanupParamKey :: string where
  "csi_LVMVolumeCleanupParamKey = ''local.csi.storage.deckhouse.io/lvm-volume-cleanup''"
definition sourceVolumeKindSnapshot :: string where "sourceVolumeKindSnapshot = ''LVMLogicalVolumeSnapshot''"
definition sourceVolumeKindVolume :: string where "sourceVolumeKindVolume = ''LVMLogicalVolume''"
definition LLVStatusCreated :: string where "LLVStatusCreated = ''Created''"
definition LLVStatusFailed :: string where "LLVStatusFailed = ''Failed''"
definition LLVSStatusCreated :: string where "LLVSStatusCreated = ''Created''"
definition LLVSStatusFailed :: string where "LLVSStatusFailed = ''Failed''"
definition KubernetesAPIRequestLimit :: nat where "KubernetesAPIRequestLimit = 3"
definition SDSLocalVolumeCSIFinalizer :: string where
  "SDSLocalVolumeCSIFinalizer = ''storage.deckhouse.io/sds-local-volume-csi''"

lemmas csi_key_defs = TypeKey_def LvmTypeKey_def BindingModeKey_def LVMVolumeGroupKey_def
  LVMVThickContiguousParamKey_def csi_LVMVolumeCleanupParamKey_def TopologyKey_def SubPath_def VGNameKey_def
  ThinPoolNameKey_def ActualNameOnTheNodeKey_def

text \<open>The codes of a gRPC status, and the errors an RPC returns; messages are left out.\<close>

datatype grpc_code = InvalidArgument | CodeNotFound | CodeInternal | FailedPrecondition | OutOfRange | Aborted

datatype csi_err =
    GStatus grpc_code
  | API kerr
  | CtxErr
  | BeingDeleted
  | NodeFailed string
  | BadExtent int
  | NoThinPool
  | NoLVG
  | BadYaml
  | Unsupported
  | AttemptsExhausted
  | Panic

definition statusErr :: "grpc_code \<Rightarrow> csi_err \<Rightarrow> csi_err" where
  "statusErr code e = (if e = Panic then Panic else GStatus code)"

section \<open>Sizes\<close>

definition NewQuantity :: "(int \<Rightarrow> string) \<Rightarrow> int \<Rightarrow> quantity" where
  "NewQuantity fmt n = \<lparr>q_Value = n, q_String = fmt n\<rparr>"

definition AlignSizeToExtent :: "(int \<Rightarrow> string) \<Rightarrow> quantity \<Rightarrow> int \<Rightarrow> csi_err + quantity" where
  "AlignSizeToExtent fmt sz extentBytes =
    (if extentBytes \<le> 0 then Inl (BadExtent extentBytes)
     else Inr (NewQuantity fmt
       (i64 (go_div (i64 (i64 (q_Value sz + extentBytes) - 1)) extentBytes * extentBytes))))"

definition lvmDefaultExtentSize :: int where "lvmDefaultExtentSize = 4 * 1024 * 1024"

definition SafeExtentSize :: "int \<Rightarrow> int" where
  "SafeExtentSize extentSize = (if extentSize > 0 then extentSize else lvmDefaultExtentSize)"

definition alignToLVGExtentOrStatusErr :: "(int \<Rightarrow> string) \<Rightarrow> quantity \<Rightarrow> LVG \<Rightarrow> csi_err + quantity" where
  "alignToLVGExtentOrStatusErr fmt sz lvg =
    (case AlignSizeToExtent fmt sz (SafeExtentSize (ExtentSize lvg)) of
       Inl e \<Rightarrow> Inl (GStatus CodeInternal)
     | Inr q \<Rightarrow> Inr q)"

definition fitsFreeSpace :: "string \<Rightarrow> string \<Rightarrow> quantity \<Rightarrow> int \<Rightarrow> bool" where
  "fitsFreeSpace bindingMode lvmType alignedSize freeSpace =
    (if bindingMode \<noteq> BindingModeI \<or> lvmType \<noteq> LVMTypeThick then True
     else q_Value alignedSize \<le> freeSpace)"

definition resolveCapacityBytes :: "LLV option \<Rightarrow> quantity \<Rightarrow> int \<times> bool" where
  "resolveCapacityBytes llv fallback = (case llv of
     Some l \<Rightarrow> (case llv_Status l of Some st \<Rightarrow> (ActualSize st, True) | None \<Rightarrow> (q_Value fallback, False))
   | None \<Rightarrow> (q_Value fallback, False))"

section \<open>Free space\<close>

text \<open>The sizes of a volume group are non-negative, so the difference does not leave \<^verbatim>\<open>int64\<close>.\<close>

definition GetLVMVolumeGroupFreeSpace :: "LVG \<Rightarrow> int" where
  "GetLVMVolumeGroupFreeSpace lvg = VGSize lvg - AllocatedSize lvg"

definition GetLVMThinPoolFreeSpace :: "LVG \<Rightarrow> string \<Rightarrow> csi_err + int" where
  "GetLVMThinPoolFreeSpace lvg thinPoolName =
    (case find (\<lambda>tp. tp_Name tp = thinPoolName) (status_ThinPools lvg) of
       None \<Rightarrow> Inl NoThinPool
     | Some tp \<Rightarrow> Inr (AvailableSpace tp))"

text \<open>
  The loop of \<^verbatim>\<open>GetNodeWithMaxFreeSpace\<close>: its variables are the node found so far, the free space
  looked at last, which an unknown LVM type leaves as it is, and the maximum.
\<close>

definition freeSpaceOf :: "strmap \<Rightarrow> string \<Rightarrow> int \<Rightarrow> LVG \<Rightarrow> csi_err + int" where
  "freeSpaceOf params lvmType prev lvg =
    (if lvmType = LVMTypeThick then Inr (VGFree lvg)
     else if lvmType = LVMTypeThin then
       (case fmlookup params (Name lvg) of
          None \<Rightarrow> Inl NoThinPool
        | Some thinPoolName \<Rightarrow> GetLVMThinPoolFreeSpace lvg thinPoolName)
     else Inr prev)"

definition maxFreeStep :: "strmap \<Rightarrow> string \<Rightarrow> LVG \<Rightarrow> string \<times> int \<times> int \<Rightarrow> csi_err + (string \<times> int \<times> int)" where
  "maxFreeStep params lvmType lvg acc = (case acc of (nodeName, freeSpace, maxFreeSpace) \<Rightarrow>
     (case freeSpaceOf params lvmType freeSpace lvg of
        Inl e \<Rightarrow> Inl e
      | Inr fs \<Rightarrow>
          if fs > maxFreeSpace
          then (case lvg_Nodes lvg of [] \<Rightarrow> Inl Panic | n # _ \<Rightarrow> Inr (n, fs, fs))
          else Inr (nodeName, fs, maxFreeSpace)))"

definition GetNodeWithMaxFreeSpace :: "LVG list \<Rightarrow> strmap \<Rightarrow> string \<Rightarrow> csi_err + (string \<times> int)" where
  "GetNodeWithMaxFreeSpace lvgs params lvmType =
    (case foldE (maxFreeStep params lvmType) lvgs ('''', 0, 0) of
       Inl e \<Rightarrow> Inl e
     | Inr (nodeName, _, maxFreeSpace) \<Rightarrow> Inr (nodeName, maxFreeSpace))"

section \<open>Choosing a volume group\<close>

record volume_group =
  vg_Name :: string
  vg_PoolName :: string

text \<open>The parameters of a storage class: later entries of the list overwrite earlier ones.\<close>

definition lvgParameters :: "volume_group list \<Rightarrow> strmap" where
  "lvgParameters vgs = fold (\<lambda>v m. fmupd (vg_Name v) (vg_PoolName v) m) vgs fmempty"

definition storageClassLVGs :: "strmap \<Rightarrow> LVG list \<Rightarrow> LVG list" where
  "storageClassLVGs params lvgs = filter (\<lambda>lvg. fmlookup params (Name lvg) \<noteq> None) lvgs"

definition SelectLVG :: "LVG list \<Rightarrow> string \<Rightarrow> csi_err + LVG" where
  "SelectLVG lvgs nodeName =
    (case find (\<lambda>lvg. case lvg_Nodes lvg of [] \<Rightarrow> False | n # _ \<Rightarrow> n = nodeName) lvgs of
       None \<Rightarrow> Inl NoLVG
     | Some lvg \<Rightarrow> Inr lvg)"

definition SelectLVGByName :: "LVG list \<Rightarrow> string \<Rightarrow> csi_err + LVG" where
  "SelectLVGByName lvgs name =
    (case find (\<lambda>lvg. Name lvg = name) lvgs of None \<Rightarrow> Inl NoLVG | Some lvg \<Rightarrow> Inr lvg)"

definition SelectLVGByActualNameOnTheNode :: "LVG list \<Rightarrow> string \<Rightarrow> string \<Rightarrow> csi_err + LVG" where
  "SelectLVGByActualNameOnTheNode lvgs nodeName actualNameOnTheNode =
    (case find (\<lambda>lvg. Local_NodeName lvg = nodeName \<and> ActualVGNameOnTheNode lvg = actualNameOnTheNode) lvgs of
       None \<Rightarrow> Inl NoLVG
     | Some lvg \<Rightarrow> Inr lvg)"

section \<open>The LVMLogicalVolume to create\<close>

definition IsContiguous :: "strmap \<Rightarrow> string \<Rightarrow> bool" where
  "IsContiguous parameters lvmType =
    (if lvmType = LVMTypeThin then False
     else (case fmlookup parameters LVMVThickContiguousParamKey of None \<Rightarrow> False | Some val \<Rightarrow> val = ''true''))"

text \<open>The specification is given as the LVMLogicalVolume that carries it, with empty metadata.\<close>

definition GetLLVSpec :: "string \<Rightarrow> LVG \<Rightarrow> strmap \<Rightarrow> string \<Rightarrow> quantity \<Rightarrow> bool \<Rightarrow> llv_source option \<Rightarrow> string \<Rightarrow> LLV" where
  "GetLLVSpec lvName selectedLVG params lvmType llvSize contiguous src volumeCleanup =
    objmeta.extend (meta0 '''')
      (LLV.fields lvName lvmType (q_String llvSize) (Name selectedLVG) src
        (if lvmType = LVMTypeThin then Some (mget params (Name selectedLVG)) else None)
        (if lvmType = LVMTypeThick \<and> contiguous then Some (Some contiguous) else None)
        (if volumeCleanup \<noteq> '''' then Some volumeCleanup else None) None)"

end
