(* ===== verification/CSI_Client.thy ===== *)
theory CSI_Client
  imports CSI_Utils
begin

text \<open>
  The routines of \<^verbatim>\<open>images/sds-local-volume-csi/pkg/utils/func.go\<close> that talk to the API server: creating,
  polling, deleting LVMLogicalVolumes and snapshots, and the lookups of the controller service.

  Every call is answered by a function of the environment that sees the history of the interaction so far
  (newest call first) and is recorded in it.  An update answers with the object as the server stored it, which
  the client decodes into the caller's object.  A polling loop runs with fuel, one unit a round; it gives
  \<^term>\<open>None\<close> when the fuel is used up.
\<close>

section \<open>Editions\<close>

text \<open>\<^verbatim>\<open>lib/go/common/pkg/feature\<close>: the constants of each build tag.\<close>

datatype edition = CE | SE | SEPlus | EE | CSEPro

primrec SnapshotsEnabled :: "edition \<Rightarrow> bool" where
  "SnapshotsEnabled CE = False"
| "SnapshotsEnabled SE = True"
| "SnapshotsEnabled SEPlus = True"
| "SnapshotsEnabled EE = True"
| "SnapshotsEnabled CSEPro = True"

primrec VolumeCleanupEnabled :: "edition \<Rightarrow> bool" where
  "VolumeCleanupEnabled CE = False"
| "VolumeCleanupEnabled SE = False"
| "VolumeCleanupEnabled SEPlus = False"
| "VolumeCleanupEnabled EE = True"
| "VolumeCleanupEnabled CSEPro = True"

section \<open>History and environment\<close>

text \<open>Of the remaining fields of a PersistentVolume the driver reads the name of its storage class.\<close>

record csiPV = PV +
  StorageClassName :: string

datatype csi_event =
    CGetLLV okey "kerr + LLV"
  | CGetLLVS okey "kerr + LLVS"
  | CGetPV okey "kerr + csiPV"
  | CGetLSC okey "kerr + LocalStorageClass"
  | CGetLVG okey "kerr + LVG"
  | CListLVG "kerr + LVG list"
  | CCreateLLV LLV "kerr option"
  | CCreateLLVS LLVS "kerr option"
  | CUpdateLLV LLV "kerr + LLV"
  | CUpdateLLVS LLVS "kerr + LLVS"
  | CDeleteLLV okey "kerr option"
  | CDeleteLLVS okey "kerr option"
  | CDone bool
  | CSleep duration
  | CNow int

type_synonym 'a csim = "(csi_event list, 'a) state"

record csi_env =
  ccl_Get_LLV :: "okey \<Rightarrow> csi_event list \<Rightarrow> kerr + LLV"
  ccl_Get_LLVS :: "okey \<Rightarrow> csi_event list \<Rightarrow> kerr + LLVS"
  ccl_Get_PV :: "okey \<Rightarrow> csi_event list \<Rightarrow> kerr + csiPV"
  ccl_Get_LSC :: "okey \<Rightarrow> csi_event list \<Rightarrow> kerr + LocalStorageClass"
  ccl_Get_LVG :: "okey \<Rightarrow> csi_event list \<Rightarrow> kerr + LVG"
  ccl_List_LVG :: "csi_event list \<Rightarrow> kerr + LVG list"
  ccl_Create_LLV :: "LLV \<Rightarrow> csi_event list \<Rightarrow> kerr option"
  ccl_Create_LLVS :: "LLVS \<Rightarrow> csi_event list \<Rightarrow> kerr option"
  ccl_Update_LLV :: "LLV \<Rightarrow> csi_event list \<Rightarrow> kerr + LLV"
  ccl_Update_LLVS :: "LLVS \<Rightarrow> csi_event list \<Rightarrow> kerr + LLVS"
  ccl_Delete_LLV :: "okey \<Rightarrow> csi_event list \<Rightarrow> kerr option"
  ccl_Delete_LLVS :: "okey \<Rightarrow> csi_event list \<Rightarrow> kerr option"
  ctx_Done :: "csi_event list \<Rightarrow> bool"
  time_Now_Unix :: "csi_event list \<Rightarrow> int"
  quantity_fmt :: "int \<Rightarrow> string"
  ParseQuantity :: "string \<Rightarrow> quantity option"
  yaml_VolumeGroups :: "string \<Rightarrow> volume_group list option"
  buildEdition :: edition
  publishInfoVolumeName :: string

definition cask :: "(csi_event list \<Rightarrow> 'a) \<Rightarrow> ('a \<Rightarrow> csi_event) \<Rightarrow> 'a csim" where
  "cask q ev = State (\<lambda>h. let a = q h in (a, ev a # h))"

definition cemit :: "csi_event \<Rightarrow> unit csim" where
  "cemit e = State (\<lambda>h. ((), e # h))"

lemma wp_cask [simp, wp_rules]: "wp (cask q ev) Q = (\<lambda>h. Q (q h) (ev (q h) # h))"
  by (rule ext) (simp add: cask_def wp_State Let_def)

lemma wp_cemit [simp, wp_rules]: "wp (cemit e) Q = (\<lambda>h. Q () (e # h))"
  by (rule ext) (simp add: cemit_def wp_State)

text \<open>\<^verbatim>\<open>if err != nil { return ..., err }\<close>\<close>

definition ebind :: "('s, 'e + 'a) state \<Rightarrow> ('a \<Rightarrow> ('s, 'e + 'b) state) \<Rightarrow> ('s, 'e + 'b) state" where
  "ebind m f = do { r \<leftarrow> m; (case r of Inl e \<Rightarrow> State_Monad.return (Inl e) | Inr a \<Rightarrow> f a) }"

definition raise :: "'e \<Rightarrow> ('s, 'e + 'a) state" where
  "raise e = State_Monad.return (Inl e)"

definition ok :: "'a \<Rightarrow> ('s, 'e + 'a) state" where
  "ok a = State_Monad.return (Inr a)"

lemma wp_ebind [simp, wp_rules]:
  "wp (ebind m f) Q = wp m (\<lambda>r s. case r of Inl e \<Rightarrow> Q (Inl e) s | Inr a \<Rightarrow> wp (f a) Q s)"
proof -
  have "(\<lambda>r. wp (case r of Inl e \<Rightarrow> State_Monad.return (Inl e) | Inr a \<Rightarrow> f a) Q) =
    (\<lambda>r s. case r of Inl e \<Rightarrow> Q (Inl e) s | Inr a \<Rightarrow> wp (f a) Q s)"
    by (intro ext) (simp split: sum.split)
  then show ?thesis by (simp add: ebind_def)
qed

lemma wp_raise [simp, wp_rules]: "wp (raise e) Q = Q (Inl e)" "wp (ok a) Q = Q (Inr a)"
  by (simp_all add: raise_def ok_def)

definition liftE :: "('e1 \<Rightarrow> 'e) \<Rightarrow> 'e1 + 'a \<Rightarrow> 'e + 'a" where
  "liftE f r = (case r of Inl e \<Rightarrow> Inl (f e) | Inr a \<Rightarrow> Inr a)"

lemma liftE_simps [simp]: "liftE f (Inl e) = Inl (f e)" "liftE f (Inr a) = Inr a"
  by (simp_all add: liftE_def)

lemma liftE_eq_Inr [simp]: "liftE f r = Inr a \<longleftrightarrow> r = Inr a"
  by (cases r) auto

section \<open>Removing the driver's finalizer\<close>

text \<open>
  \<^verbatim>\<open>removeLLVFinalizerIfExist\<close> and \<^verbatim>\<open>removeLLVSFinalizerIfExist\<close> are the same loop on the two
  kinds of object; it is stated once over the client's Get and Update of the kind.  The object is changed through
  the caller's pointer, so the routine also returns it.  The first argument counts the attempts left.
\<close>

primrec removeFinalizerLoop :: "csi_env \<Rightarrow> (okey \<Rightarrow> (kerr + 'a objmeta_scheme) csim) \<Rightarrow>
    ('a objmeta_scheme \<Rightarrow> (kerr + 'a objmeta_scheme) csim) \<Rightarrow> string \<Rightarrow> nat \<Rightarrow> 'a objmeta_scheme \<Rightarrow>
    ('a objmeta_scheme \<times> (csi_err + bool)) csim" where
  "removeFinalizerLoop v getObj updateObj fin 0 obj = State_Monad.return (obj, Inl AttemptsExhausted)"
| "removeFinalizerLoop v getObj updateObj fin (Suc n) obj =
    (if \<not> slices_Contains (Finalizers obj) fin then State_Monad.return (obj, Inr False)
     else do {
       let obj1 = obj\<lparr>Finalizers := remove1 fin (Finalizers obj)\<rparr>;
       r \<leftarrow> updateObj obj1;
       (case r of
         Inr stored \<Rightarrow> State_Monad.return (stored, Inr True)
       | Inl e \<Rightarrow>
           if e \<noteq> Conflict then State_Monad.return (obj1, Inl (API e))
           else if n = 0 then removeFinalizerLoop v getObj updateObj fin n obj1
           else do {
             expired \<leftarrow> cask (ctx_Done v) CDone;
             if expired then State_Monad.return (obj1, Inl CtxErr)
             else do {
               cemit (CSleep time_Second);
               g \<leftarrow> getObj ('''', Name obj1);
               (case g of
                 Inl e' \<Rightarrow> State_Monad.return (obj1, Inl (API e'))
               | Inr fresh \<Rightarrow> removeFinalizerLoop v getObj updateObj fin n fresh)
             }
           })
     })"

definition GetLVMLogicalVolume :: "csi_env \<Rightarrow> string \<Rightarrow> string \<Rightarrow> (kerr + LLV) csim" where
  "GetLVMLogicalVolume v name namespace =
    cask (ccl_Get_LLV v (namespace, name)) (CGetLLV (namespace, name))"

definition GetLVMLogicalVolumeSnapshot :: "csi_env \<Rightarrow> string \<Rightarrow> string \<Rightarrow> (kerr + LLVS) csim" where
  "GetLVMLogicalVolumeSnapshot v name namespace =
    cask (ccl_Get_LLVS v (namespace, name)) (CGetLLVS (namespace, name))"

definition updateLLV :: "csi_env \<Rightarrow> LLV \<Rightarrow> (kerr + LLV) csim" where
  "updateLLV v llv = cask (ccl_Update_LLV v llv) (CUpdateLLV llv)"

definition updateLLVS :: "csi_env \<Rightarrow> LLVS \<Rightarrow> (kerr + LLVS) csim" where
  "updateLLVS v llvs = cask (ccl_Update_LLVS v llvs) (CUpdateLLVS llvs)"

definition removeLLVFinalizerIfExist :: "csi_env \<Rightarrow> LLV \<Rightarrow> string \<Rightarrow> (LLV \<times> (csi_err + bool)) csim" where
  "removeLLVFinalizerIfExist v llv fin =
    removeFinalizerLoop v (\<lambda>key. GetLVMLogicalVolume v (snd key) (fst key)) (updateLLV v) fin
      KubernetesAPIRequestLimit llv"

definition removeLLVSFinalizerIfExist :: "csi_env \<Rightarrow> LLVS \<Rightarrow> string \<Rightarrow> (LLVS \<times> (csi_err + bool)) csim" where
  "removeLLVSFinalizerIfExist v llvs fin =
    removeFinalizerLoop v (\<lambda>key. GetLVMLogicalVolumeSnapshot v (snd key) (fst key)) (updateLLVS v) fin
      KubernetesAPIRequestLimit llvs"

section \<open>Creating and deleting\<close>

definition CreateLVMLogicalVolume :: "csi_env \<Rightarrow> string \<Rightarrow> LLV \<Rightarrow> kerr option csim" where
  "CreateLVMLogicalVolume v name spec = do {
     let llv = spec\<lparr>Name := name, Finalizers := [SDSLocalVolumeCSIFinalizer]\<rparr>;
     cask (ccl_Create_LLV v llv) (CCreateLLV llv)
   }"

definition CreateLVMLogicalVolumeSnapshot :: "csi_env \<Rightarrow> string \<Rightarrow> LLVS \<Rightarrow> kerr option csim" where
  "CreateLVMLogicalVolumeSnapshot v name spec = do {
     let llvs = spec\<lparr>Name := name, Finalizers := [SDSLocalVolumeCSIFinalizer]\<rparr>;
     cask (ccl_Create_LLVS v llvs) (CCreateLLVS llvs)
   }"

definition DeleteLVMLogicalVolume :: "csi_env \<Rightarrow> string \<Rightarrow> string \<Rightarrow> csi_err option csim" where
  "DeleteLVMLogicalVolume v name volumeCleanup = do {
     r \<leftarrow> GetLVMLogicalVolume v name '''';
     (case r of
       Inl e \<Rightarrow> State_Monad.return (Some (API e))
     | Inr llv \<Rightarrow> do {
         u \<leftarrow> updateLLV v (llv\<lparr>llv_VolumeCleanup := (if volumeCleanup \<noteq> '''' then Some volumeCleanup else None)\<rparr>);
         (case u of
           Inl e \<Rightarrow> State_Monad.return (Some (API e))
         | Inr llv1 \<Rightarrow> do {
             (llv2, removed) \<leftarrow> removeLLVFinalizerIfExist v llv1 SDSLocalVolumeCSIFinalizer;
             (case removed of
               Inl e \<Rightarrow> State_Monad.return (Some e)
             | Inr _ \<Rightarrow> do {
                 let key = ObjectKeyFromObject llv2;
                 d \<leftarrow> cask (ccl_Delete_LLV v key) (CDeleteLLV key);
                 State_Monad.return (map_option API d)
               })
           })
       })
   }"

definition DeleteLVMLogicalVolumeSnapshot :: "csi_env \<Rightarrow> string \<Rightarrow> csi_err option csim" where
  "DeleteLVMLogicalVolumeSnapshot v name = do {
     r \<leftarrow> GetLVMLogicalVolumeSnapshot v name '''';
     (case r of
       Inl e \<Rightarrow> State_Monad.return (Some (API e))
     | Inr llvs \<Rightarrow> do {
         (llvs1, removed) \<leftarrow> removeLLVSFinalizerIfExist v llvs SDSLocalVolumeCSIFinalizer;
         (case removed of
           Inl e \<Rightarrow> State_Monad.return (Some e)
         | Inr _ \<Rightarrow> do {
             let key = ObjectKeyFromObject llvs1;
             d \<leftarrow> cask (ccl_Delete_LLVS v key) (CDeleteLLVS key);
             State_Monad.return (map_option API d)
           })
       })
   }"

definition ExpandLVMLogicalVolume :: "csi_env \<Rightarrow> LLV \<Rightarrow> string \<Rightarrow> (kerr + LLV) csim" where
  "ExpandLVMLogicalVolume v llv newSize = updateLLV v (llv\<lparr>llv_Size := newSize\<rparr>)"

section \<open>Waiting for the node\<close>

definition pollInterval :: duration where "pollInterval = 500 * 1000000"

primrec waitLLV :: "csi_env \<Rightarrow> okey \<Rightarrow> int \<Rightarrow> nat \<Rightarrow> nat \<Rightarrow> ((csi_err + LLV) \<times> nat) option csim" where
  "waitLLV v key alignedSize 0 attemptCounter = State_Monad.return None"
| "waitLLV v key alignedSize (Suc fuel) attemptCounter = do {
     expired \<leftarrow> cask (ctx_Done v) CDone;
     if expired then State_Monad.return (Some (Inl CtxErr, Suc attemptCounter))
     else do {
       cemit (CSleep pollInterval);
       r \<leftarrow> GetLVMLogicalVolume v (snd key) (fst key);
       (case r of
         Inl e \<Rightarrow> State_Monad.return (Some (Inl (API e), Suc attemptCounter))
       | Inr llv \<Rightarrow>
           (case llv_Status llv of
             None \<Rightarrow> waitLLV v key alignedSize fuel (Suc attemptCounter)
           | Some st \<Rightarrow>
               if DeletionTimestamp llv \<noteq> None then State_Monad.return (Some (Inl BeingDeleted, Suc attemptCounter))
               else if Phase st = LLVStatusFailed then State_Monad.return (Some (Inl (NodeFailed (llv_Reason st)), Suc attemptCounter))
               else if Phase st = LLVStatusCreated \<and> ActualSize st \<ge> alignedSize
                 then State_Monad.return (Some (Inr llv, Suc attemptCounter))
               else waitLLV v key alignedSize fuel (Suc attemptCounter)))
     }
   }"

definition WaitForStatusUpdate ::
  "csi_env \<Rightarrow> nat \<Rightarrow> string \<Rightarrow> string \<Rightarrow> quantity \<Rightarrow> int \<Rightarrow> ((csi_err + LLV) \<times> nat) option csim" where
  "WaitForStatusUpdate v fuel name namespace llvSize extentSize =
    (case AlignSizeToExtent (quantity_fmt v) llvSize extentSize of
       Inl e \<Rightarrow> State_Monad.return (Some (Inl e, 0))
     | Inr alignedSize \<Rightarrow> waitLLV v (namespace, name) (q_Value alignedSize) fuel 0)"

primrec waitLLVS :: "csi_env \<Rightarrow> string \<Rightarrow> nat \<Rightarrow> nat \<Rightarrow> (csi_err option \<times> nat) option csim" where
  "waitLLVS v name 0 attemptCounter = State_Monad.return None"
| "waitLLVS v name (Suc fuel) attemptCounter = do {
     expired \<leftarrow> cask (ctx_Done v) CDone;
     if expired then State_Monad.return (Some (Some CtxErr, Suc attemptCounter))
     else do {
       cemit (CSleep pollInterval);
       r \<leftarrow> GetLVMLogicalVolumeSnapshot v name '''';
       (case r of
         Inl e \<Rightarrow> State_Monad.return (Some (Some (API e), Suc attemptCounter))
       | Inr llvs \<Rightarrow>
           (case llvs_Status llvs of
             None \<Rightarrow> waitLLVS v name fuel (Suc attemptCounter)
           | Some st \<Rightarrow>
               if DeletionTimestamp llvs \<noteq> None then State_Monad.return (Some (Some BeingDeleted, Suc attemptCounter))
               else if llvs_Phase st = LLVSStatusFailed then State_Monad.return (Some (Some (NodeFailed (llvs_Reason st)), Suc attemptCounter))
               else if llvs_Phase st = LLVSStatusCreated then State_Monad.return (Some (None, Suc attemptCounter))
               else waitLLVS v name fuel (Suc attemptCounter)))
     }
   }"

definition WaitForLLVSStatusUpdate :: "csi_env \<Rightarrow> nat \<Rightarrow> string \<Rightarrow> (csi_err option \<times> nat) option csim" where
  "WaitForLLVSStatusUpdate v fuel name = waitLLVS v name fuel 0"

section \<open>Lookups\<close>

definition GetLVMVolumeGroup :: "csi_env \<Rightarrow> string \<Rightarrow> (kerr + LVG) csim" where
  "GetLVMVolumeGroup v lvgName = cask (ccl_Get_LVG v ('''', lvgName)) (CGetLVG ('''', lvgName))"

definition GetLVGList :: "csi_env \<Rightarrow> (kerr + LVG list) csim" where
  "GetLVGList v = cask (ccl_List_LVG v) CListLVG"

definition GetStorageClassLVGsAndParameters :: "csi_env \<Rightarrow> string \<Rightarrow> (csi_err + LVG list \<times> strmap) csim" where
  "GetStorageClassLVGsAndParameters v text1 =
    (case yaml_VolumeGroups v text1 of
       None \<Rightarrow> raise BadYaml
     | Some vgs \<Rightarrow> do {
         r \<leftarrow> GetLVGList v;
         (case r of
           Inl e \<Rightarrow> raise (API e)
         | Inr lvgs \<Rightarrow> ok (storageClassLVGs (lvgParameters vgs) lvgs, lvgParameters vgs))
       })"

text \<open>A LocalStorageClass that does not exist is the zero value of its type.\<close>

definition zeroLSC :: LocalStorageClass where
  "zeroLSC = objmeta.extend (meta0 '''') (LocalStorageClass.fields '''' '''' None '''' None)"

definition GetLSCBeforeLLVDelete :: "csi_env \<Rightarrow> string \<Rightarrow> (csi_err + LocalStorageClass) csim" where
  "GetLSCBeforeLLVDelete v volumeID = do {
     r \<leftarrow> cask (ccl_Get_PV v ('''', volumeID)) (CGetPV ('''', volumeID));
     (case r of
       Inl e \<Rightarrow> raise (GStatus (if e = NotFound then CodeNotFound else CodeInternal))
     | Inr pv \<Rightarrow>
         if StorageClassName pv = '''' then raise (GStatus InvalidArgument)
         else do {
           l \<leftarrow> cask (ccl_Get_LSC v ('''', StorageClassName pv)) (CGetLSC ('''', StorageClassName pv));
           (case l of
             Inl e \<Rightarrow> if e = NotFound then ok zeroLSC else raise (GStatus CodeInternal)
           | Inr lsc \<Rightarrow> ok lsc)
         })
   }"

end
