(* ===== verification/CSI_Controller.thy ===== *)
theory CSI_Controller
  imports CSI_Client
begin

text \<open>
  The controller service of the CSI driver (\<^verbatim>\<open>images/sds-local-volume-csi/driver/controller.go\<close> and
  \<^verbatim>\<open>controller_snapshots_ee.go\<close>): creating, deleting and expanding volumes and snapshots.

  A request carries the fields the handlers read.  An RPC that waits for the node takes fuel and gives
  \<^term>\<open>None\<close> when the wait is still going on; otherwise it gives the error or the response.
\<close>

section \<open>Requests and responses\<close>

datatype content_source = SrcSnapshot string | SrcVolume string | SrcUnset

record CreateVolumeRequest =
  cv_Name :: string
  cv_Parameters :: strmap
  cv_VolumeCapabilities :: "string list option"
  cv_RequiredBytes :: "int option"
  cv_ContentSource :: "content_source option"
  cv_Preferred :: "strmap list option"

record csi_volume =
  CapacityBytes :: int
  VolumeId :: string
  VolumeContext :: strmap
  vol_ContentSource :: "content_source option"
  AccessibleTopology :: "strmap list"

definition getRequiredBytes :: "int option \<Rightarrow> int" where
  "getRequiredBytes r = (case r of None \<Rightarrow> 0 | Some n \<Rightarrow> n)"

text \<open>What the first half of \<^verbatim>\<open>CreateVolume\<close> decides: the group (nil for a content source of no known
  type), the size, the node and the source.\<close>

record plan =
  selectedLVG :: "LVG option"
  p_llvSize :: quantity
  preferredNode :: string
  sourceVolume :: "llv_source option"

section \<open>CreateVolume\<close>

definition checkCreateRequest :: "CreateVolumeRequest \<Rightarrow> csi_err option" where
  "checkCreateRequest req =
    (if mget (cv_Parameters req) TypeKey \<noteq> Lvm then Some (GStatus InvalidArgument)
     else if cv_Name req = '''' then Some (GStatus InvalidArgument)
     else if cv_VolumeCapabilities req = None then Some (GStatus InvalidArgument)
     else if mget (cv_Parameters req) LVMVolumeGroupKey = '''' then Some (GStatus InvalidArgument)
     else None)"

definition sizeForSource :: "csi_env \<Rightarrow> quantity \<Rightarrow> quantity \<Rightarrow> LVG \<Rightarrow> csi_err + quantity" where
  "sizeForSource v llvSize sourceSize lvg =
    (if q_Value llvSize = 0 then Inr sourceSize
     else (case alignToLVGExtentOrStatusErr (quantity_fmt v) llvSize lvg of
        Inl e \<Rightarrow> Inl e
      | Inr aligned \<Rightarrow>
          if q_Value aligned < q_Value sourceSize then Inl (GStatus OutOfRange) else Inr aligned))"

definition planFromSnapshot :: "csi_env \<Rightarrow> LVG list \<Rightarrow> strmap \<Rightarrow> quantity \<Rightarrow> string \<Rightarrow> (csi_err + plan) csim" where
  "planFromSnapshot v lvgs params llvSize snapshotId = do {
     r \<leftarrow> GetLVMLogicalVolumeSnapshot v snapshotId '''';
     (case r of
       Inl e \<Rightarrow> raise (GStatus CodeNotFound)
     | Inr sourceVol \<Rightarrow>
         (case llvs_Status sourceVol of
           None \<Rightarrow> raise (GStatus FailedPrecondition)
         | Some st \<Rightarrow>
             if llvs_Phase st \<noteq> LLVSStatusCreated then raise (GStatus FailedPrecondition)
             else (case SelectLVGByActualNameOnTheNode lvgs (NodeName st) (llvs_ActualVGNameOnTheNode st) of
               Inl e \<Rightarrow> raise (GStatus FailedPrecondition)
             | Inr lvg \<Rightarrow>
                 if fmlookup params (Name lvg) = None then raise (GStatus InvalidArgument)
                 else (case sizeForSource v llvSize (llvs_Size st) lvg of
                   Inl e \<Rightarrow> raise e
                 | Inr sz \<Rightarrow> ok \<lparr>selectedLVG = Some lvg, p_llvSize = sz, preferredNode = NodeName st,
                     sourceVolume = Some \<lparr>source_Kind = sourceVolumeKindSnapshot, source_Name = snapshotId\<rparr>\<rparr>))))
   }"

definition planFromVolume :: "csi_env \<Rightarrow> LVG list \<Rightarrow> strmap \<Rightarrow> quantity \<Rightarrow> string \<Rightarrow> (csi_err + plan) csim" where
  "planFromVolume v lvgs params llvSize volumeId = do {
     r \<leftarrow> GetLVMLogicalVolume v volumeId '''';
     (case r of
       Inl e \<Rightarrow> raise (GStatus CodeNotFound)
     | Inr sourceVol \<Rightarrow>
         if llv_Type sourceVol \<noteq> LVMTypeThin then raise (GStatus InvalidArgument)
         else (case ParseQuantity v (llv_Size sourceVol) of
           None \<Rightarrow> raise (GStatus CodeInternal)
         | Some sourceSizeQty \<Rightarrow>
             (case SelectLVGByName lvgs (LVMVolumeGroupName sourceVol) of
               Inl e \<Rightarrow> raise (GStatus CodeInternal)
             | Inr lvg \<Rightarrow>
                 if fmlookup params (Name lvg) = None then raise (GStatus InvalidArgument)
                 else (case sizeForSource v llvSize sourceSizeQty lvg of
                   Inl e \<Rightarrow> raise e
                 | Inr sz \<Rightarrow> ok \<lparr>selectedLVG = Some lvg, p_llvSize = sz, preferredNode = Local_NodeName lvg,
                     sourceVolume = Some \<lparr>source_Kind = sourceVolumeKindVolume, source_Name = volumeId\<rparr>\<rparr>))))
   }"

text \<open>Without a content source: the node by binding mode, then the group, the aligned size and the free space.\<close>

definition chooseNode :: "CreateVolumeRequest \<Rightarrow> LVG list \<Rightarrow> strmap \<Rightarrow> csi_err + (string \<times> int)" where
  "chooseNode req lvgs params =
    (let bindingMode = mget (cv_Parameters req) BindingModeKey;
         lvmType = mget (cv_Parameters req) LvmTypeKey
     in if bindingMode = BindingModeI then
          liftE (statusErr CodeInternal) (GetNodeWithMaxFreeSpace lvgs params lvmType)
        else if bindingMode = BindingModeWFFC then
          (case cv_Preferred req of
             None \<Rightarrow> Inl Panic
           | Some [] \<Rightarrow> Inr ('''', 0)
           | Some (t # _) \<Rightarrow> Inr (mget t TopologyKey, 0))
        else Inr ('''', 0))"

definition planPlain :: "csi_env \<Rightarrow> CreateVolumeRequest \<Rightarrow> LVG list \<Rightarrow> strmap \<Rightarrow> quantity \<Rightarrow> csi_err + plan" where
  "planPlain v req lvgs params llvSize =
    (case chooseNode req lvgs params of
       Inl e \<Rightarrow> Inl e
     | Inr (node, maxFreeSpace) \<Rightarrow>
         (case SelectLVG lvgs node of
            Inl e \<Rightarrow> Inl (GStatus CodeInternal)
          | Inr lvg \<Rightarrow>
              (case alignToLVGExtentOrStatusErr (quantity_fmt v) llvSize lvg of
                 Inl e \<Rightarrow> Inl e
               | Inr aligned \<Rightarrow>
                   if \<not> fitsFreeSpace (mget (cv_Parameters req) BindingModeKey)
                          (mget (cv_Parameters req) LvmTypeKey) aligned maxFreeSpace
                   then Inl (GStatus CodeInternal)
                   else Inr \<lparr>selectedLVG = Some lvg, p_llvSize = aligned, preferredNode = node, sourceVolume = None\<rparr>)))"

definition planVolume :: "csi_env \<Rightarrow> CreateVolumeRequest \<Rightarrow> LVG list \<Rightarrow> strmap \<Rightarrow> (csi_err + plan) csim" where
  "planVolume v req lvgs params =
    (let llvSize = NewQuantity (quantity_fmt v) (getRequiredBytes (cv_RequiredBytes req))
     in case cv_ContentSource req of
          Some src \<Rightarrow>
            if mget (cv_Parameters req) LvmTypeKey \<noteq> LVMTypeThin then raise (GStatus InvalidArgument)
            else (case src of
                SrcSnapshot snapshotId \<Rightarrow> planFromSnapshot v lvgs params llvSize snapshotId
              | SrcVolume volumeId \<Rightarrow> planFromVolume v lvgs params llvSize volumeId
              | SrcUnset \<Rightarrow> ok \<lparr>selectedLVG = None, p_llvSize = llvSize, preferredNode = '''',
                  sourceVolume = Some \<lparr>source_Kind = '''', source_Name = ''''\<rparr>\<rparr>)
        | None \<Rightarrow> State_Monad.return (planPlain v req lvgs params llvSize))"

definition volumeContextOf :: "CreateVolumeRequest \<Rightarrow> LVG \<Rightarrow> LLV \<Rightarrow> strmap" where
  "volumeContextOf req lvg llvSpec =
    fmupd ThinPoolNameKey
      (if llv_Type llvSpec = LVMTypeThin then (case llv_Thin llvSpec of Some p \<Rightarrow> p | None \<Rightarrow> '''') else '''')
      (fmupd VGNameKey (ActualVGNameOnTheNode lvg)
        (fmupd SubPath (cv_Name req) (cv_Parameters req)))"

definition waitAndReport :: "csi_env \<Rightarrow> nat \<Rightarrow> CreateVolumeRequest \<Rightarrow> LVG \<Rightarrow> plan \<Rightarrow> LLV \<Rightarrow> string \<Rightarrow>
    (csi_err + csi_volume) option csim" where
  "waitAndReport v fuel req lvg p llvSpec volumeCleanup = do {
     w \<leftarrow> WaitForStatusUpdate v fuel (cv_Name req) '''' (p_llvSize p) (SafeExtentSize (ExtentSize lvg));
     (case w of
       None \<Rightarrow> State_Monad.return None
     | Some (Inl e, _) \<Rightarrow> do {
         _ \<leftarrow> DeleteLVMLogicalVolume v (cv_Name req) volumeCleanup;
         State_Monad.return (Some (Inl e))
       }
     | Some (Inr createdLLV, _) \<Rightarrow>
         State_Monad.return (Some (Inr
           \<lparr>CapacityBytes = fst (resolveCapacityBytes (Some createdLLV) (p_llvSize p)),
            VolumeId = cv_Name req,
            VolumeContext = volumeContextOf req lvg llvSpec,
            vol_ContentSource = cv_ContentSource req,
            AccessibleTopology = [fmupd TopologyKey (preferredNode p) fmempty]\<rparr>)))
   }"

definition provision :: "csi_env \<Rightarrow> nat \<Rightarrow> CreateVolumeRequest \<Rightarrow> strmap \<Rightarrow> plan \<Rightarrow> (csi_err + csi_volume) option csim" where
  "provision v fuel req params p =
    (let volumeCleanup = mget (cv_Parameters req) csi_LVMVolumeCleanupParamKey;
         lvmType = mget (cv_Parameters req) LvmTypeKey
     in if \<not> VolumeCleanupEnabled (buildEdition v) \<and> volumeCleanup \<noteq> ''''
        then State_Monad.return (Some (Inl Unsupported))
        else (case selectedLVG p of
          None \<Rightarrow> State_Monad.return (Some (Inl Panic))
        | Some lvg \<Rightarrow> do {
            let llvSpec = GetLLVSpec (cv_Name req) lvg params lvmType (p_llvSize p)
                  (IsContiguous (cv_Parameters req) lvmType) (sourceVolume p) volumeCleanup;
            r \<leftarrow> CreateLVMLogicalVolume v (cv_Name req) llvSpec;
            (case r of
              None \<Rightarrow> waitAndReport v fuel req lvg p llvSpec volumeCleanup
            | Some e \<Rightarrow>
                if e = AlreadyExists then waitAndReport v fuel req lvg p llvSpec volumeCleanup
                else State_Monad.return (Some (Inl (API e))))
          }))"

definition CreateVolume :: "csi_env \<Rightarrow> nat \<Rightarrow> CreateVolumeRequest \<Rightarrow> (csi_err + csi_volume) option csim" where
  "CreateVolume v fuel req =
    (case checkCreateRequest req of
       Some e \<Rightarrow> State_Monad.return (Some (Inl e))
     | None \<Rightarrow> do {
         g \<leftarrow> GetStorageClassLVGsAndParameters v (mget (cv_Parameters req) LVMVolumeGroupKey);
         (case g of
           Inl e \<Rightarrow> State_Monad.return (Some (Inl (GStatus CodeInternal)))
         | Inr (lvgs, params) \<Rightarrow> do {
             p \<leftarrow> planVolume v req lvgs params;
             (case p of
               Inl e \<Rightarrow> State_Monad.return (Some (Inl e))
             | Inr p' \<Rightarrow> provision v fuel req params p')
           })
       })"

section \<open>DeleteVolume\<close>

definition cleanupOfVolume :: "csi_env \<Rightarrow> string \<Rightarrow> string csim" where
  "cleanupOfVolume v volumeID = do {
     r \<leftarrow> GetLSCBeforeLLVDelete v volumeID;
     State_Monad.return (case r of
       Inl _ \<Rightarrow> ''''
     | Inr lsc \<Rightarrow> (case LVM lsc of None \<Rightarrow> '''' | Some lvm \<Rightarrow> VolumeCleanup lvm))
   }"

definition DeleteVolume :: "csi_env \<Rightarrow> string \<Rightarrow> csi_err option csim" where
  "DeleteVolume v volumeID =
    (if volumeID = '''' then State_Monad.return (Some (GStatus InvalidArgument))
     else do {
       volumeCleanup \<leftarrow> cleanupOfVolume v volumeID;
       if volumeCleanup \<noteq> '''' \<and> \<not> VolumeCleanupEnabled (buildEdition v)
       then State_Monad.return (Some Unsupported)
       else DeleteLVMLogicalVolume v volumeID volumeCleanup
     })"

section \<open>ControllerExpandVolume\<close>

record expand_response =
  exp_CapacityBytes :: int
  NodeExpansionRequired :: bool

definition ControllerExpandVolume ::
  "csi_env \<Rightarrow> nat \<Rightarrow> string \<Rightarrow> int option \<Rightarrow> bool \<Rightarrow> (csi_err + expand_response) option csim" where
  "ControllerExpandVolume v fuel volumeID requiredBytes isBlock =
    (if volumeID = '''' then State_Monad.return (Some (Inl (GStatus InvalidArgument)))
     else do {
       r \<leftarrow> GetLVMLogicalVolume v volumeID '''';
       (case r of
         Inl e \<Rightarrow> State_Monad.return (Some (Inl (GStatus CodeInternal)))
       | Inr llv \<Rightarrow> do {
           g \<leftarrow> GetLVMVolumeGroup v (LVMVolumeGroupName llv);
           (case g of
             Inl e \<Rightarrow> State_Monad.return (Some (Inl (GStatus CodeInternal)))
           | Inr lvg \<Rightarrow>
               let requestCapacity = NewQuantity (quantity_fmt v) (getRequiredBytes requiredBytes)
               in (case alignToLVGExtentOrStatusErr (quantity_fmt v) requestCapacity lvg of
                 Inl e \<Rightarrow> State_Monad.return (Some (Inl e))
               | Inr aligned \<Rightarrow>
                   (case llv_Status llv of
                     None \<Rightarrow> State_Monad.return (Some (Inl Panic))
                   | Some st \<Rightarrow>
                       if ActualSize st \<ge> q_Value aligned
                       then State_Monad.return (Some (Inr \<lparr>exp_CapacityBytes = ActualSize st, NodeExpansionRequired = \<not> isBlock\<rparr>))
                       else if llv_Type llv = LVMTypeThick \<and>
                               GetLVMVolumeGroupFreeSpace lvg < i64 (q_Value aligned - ActualSize st)
                       then State_Monad.return (Some (Inl (GStatus CodeInternal)))
                       else do {
                         u \<leftarrow> ExpandLVMLogicalVolume v llv (q_String requestCapacity);
                         (case u of
                           Inl e \<Rightarrow> State_Monad.return (Some (Inl (GStatus CodeInternal)))
                         | Inr llv1 \<Rightarrow> do {
                             w \<leftarrow> WaitForStatusUpdate v fuel (Name llv1) (Namespace llv1) requestCapacity
                                   (SafeExtentSize (ExtentSize lvg));
                             State_Monad.return (case w of
                               None \<Rightarrow> None
                             | Some (Inl e, _) \<Rightarrow> Some (Inl e)
                             | Some (Inr updatedLLV, _) \<Rightarrow>
                                 Some (Inr \<lparr>exp_CapacityBytes = fst (resolveCapacityBytes (Some updatedLLV) aligned),
                                   NodeExpansionRequired = \<not> isBlock\<rparr>))
                           })
                       })))
         })
     })"

section \<open>The other calls of the controller service\<close>

datatype rpc_capability = CREATE_DELETE_VOLUME | CLONE_VOLUME | GET_CAPACITY | EXPAND_VOLUME
  | PUBLISH_UNPUBLISH_VOLUME | CREATE_DELETE_SNAPSHOT

definition ControllerGetCapabilities :: "csi_env \<Rightarrow> rpc_capability list" where
  "ControllerGetCapabilities v =
    [CREATE_DELETE_VOLUME, CLONE_VOLUME, GET_CAPACITY, EXPAND_VOLUME, PUBLISH_UNPUBLISH_VOLUME] @
    (if SnapshotsEnabled (buildEdition v) then [CREATE_DELETE_SNAPSHOT] else [])"

definition ControllerPublishVolume :: "csi_env \<Rightarrow> string \<Rightarrow> strmap" where
  "ControllerPublishVolume v volumeID = fmupd (publishInfoVolumeName v) volumeID fmempty"

definition GetCapacity :: int where "GetCapacity = 1000000"

text \<open>Calls that only answer: an empty response, or no response and no error.\<close>

datatype rpc_answer = EmptyResponse | NilResponse

definition ControllerUnpublishVolume :: rpc_answer where "ControllerUnpublishVolume = EmptyResponse"
definition ValidateVolumeCapabilities :: rpc_answer where "ValidateVolumeCapabilities = NilResponse"
definition ListVolumes :: rpc_answer where "ListVolumes = NilResponse"
definition ControllerGetVolume :: rpc_answer where "ControllerGetVolume = EmptyResponse"
definition ControllerModifyVolume :: rpc_answer where "ControllerModifyVolume = EmptyResponse"
definition ListSnapshots :: rpc_answer where "ListSnapshots = NilResponse"

section \<open>Snapshots\<close>

record csi_snapshot =
  SnapshotId :: string
  SourceVolumeId :: string
  SizeBytes :: int
  CreationTime :: int
  ReadyToUse :: bool

definition waitAndReportSnapshot :: "csi_env \<Rightarrow> nat \<Rightarrow> string \<Rightarrow> string \<Rightarrow> int \<Rightarrow> (csi_err + csi_snapshot) option csim" where
  "waitAndReportSnapshot v fuel name sourceVolumeId sizeBytes = do {
     w \<leftarrow> WaitForLLVSStatusUpdate v fuel name;
     (case w of
       None \<Rightarrow> State_Monad.return None
     | Some (Some e, _) \<Rightarrow> do {
         _ \<leftarrow> DeleteLVMLogicalVolumeSnapshot v name;
         State_Monad.return (Some (Inl e))
       }
     | Some (None, _) \<Rightarrow> do {
         now \<leftarrow> cask (time_Now_Unix v) CNow;
         State_Monad.return (Some (Inr \<lparr>SnapshotId = name, SourceVolumeId = sourceVolumeId, SizeBytes = sizeBytes,
           CreationTime = now, ReadyToUse = True\<rparr>))
       })
   }"

definition snapshotSpec :: "string \<Rightarrow> strmap \<Rightarrow> LLV \<Rightarrow> LLVS" where
  "snapshotSpec name parameters llv =
    objmeta.extend (meta0 '''') (LLVS.fields
      (let actual = mget parameters ActualNameOnTheNodeKey in if actual = '''' then name else actual)
      (Name llv) None)"

text \<open>The preconditions on the source volume and its pool; on success the size to report.\<close>

definition snapshotPrecondition :: "LLV \<Rightarrow> LVG \<Rightarrow> csi_err + int" where
  "snapshotPrecondition llv lvg =
    (case (llv_Status llv, llv_Thin llv) of
       (Some st, Some pool) \<Rightarrow>
         (case GetLVMThinPoolFreeSpace lvg pool of
            Inl e \<Rightarrow> Inl (GStatus CodeInternal)
          | Inr freeSpace \<Rightarrow> if freeSpace < ActualSize st then Inl (GStatus FailedPrecondition) else Inr (ActualSize st))
     | _ \<Rightarrow> Inl Panic)"

definition CreateSnapshot :: "csi_env \<Rightarrow> nat \<Rightarrow> string \<Rightarrow> string \<Rightarrow> strmap \<Rightarrow> (csi_err + csi_snapshot) option csim" where
  "CreateSnapshot v fuel name sourceVolumeId parameters = do {
     r \<leftarrow> GetLVMLogicalVolume v sourceVolumeId '''';
     (case r of
       Inl e \<Rightarrow> State_Monad.return (Some (Inl (GStatus CodeInternal)))
     | Inr llv \<Rightarrow>
         if llv_Type llv \<noteq> LVMTypeThin then State_Monad.return (Some (Inl (GStatus InvalidArgument)))
         else if (case llv_Status llv of None \<Rightarrow> True | Some st \<Rightarrow> ActualSize st = 0)
         then State_Monad.return (Some (Inl (GStatus FailedPrecondition)))
         else do {
           g \<leftarrow> GetLVMVolumeGroup v (LVMVolumeGroupName llv);
           (case g of
             Inl e \<Rightarrow> State_Monad.return (Some (Inl (GStatus CodeInternal)))
           | Inr lvg \<Rightarrow>
               (case snapshotPrecondition llv lvg of
                 Inl e \<Rightarrow> State_Monad.return (Some (Inl e))
               | Inr sizeBytes \<Rightarrow> do {
                   c \<leftarrow> CreateLVMLogicalVolumeSnapshot v name (snapshotSpec name parameters llv);
                   (case c of
                     None \<Rightarrow> waitAndReportSnapshot v fuel name sourceVolumeId sizeBytes
                   | Some e \<Rightarrow>
                       if e = AlreadyExists then waitAndReportSnapshot v fuel name sourceVolumeId sizeBytes
                       else State_Monad.return (Some (Inl (API e))))
                 }))
         })
   }"

definition DeleteSnapshot :: "csi_env \<Rightarrow> string \<Rightarrow> csi_err option csim" where
  "DeleteSnapshot v snapshotId =
    (if snapshotId = '''' then State_Monad.return (Some (GStatus InvalidArgument))
     else do {
       _ \<leftarrow> DeleteLVMLogicalVolumeSnapshot v snapshotId;
       State_Monad.return None
     })"

end
