(* ===== verification/CSI_Selection.thy ===== *)
theory CSI_Selection
  imports CSI_Utils
begin

text \<open>
  Correctness of the size alignment and of the choice of a node and a volume group by the CSI driver.
\<close>

section \<open>Alignment\<close>

lemma align_value:
  assumes "0 < ext" "0 \<le> q_Value sz" "q_Value sz + ext \<le> 2 ^ 63"
  shows "AlignSizeToExtent fmt sz ext = Inr (NewQuantity fmt ((q_Value sz + ext - 1) div ext * ext))"
proof -
  let ?s = "q_Value sz + ext - 1"
  have s: "0 \<le> ?s" "?s < 2 ^ 63" using assms by auto
  have d: "0 \<le> ?s div ext" using s(1) assms(1) by (simp add: pos_imp_zdiv_nonneg_iff)
  have m: "?s div ext * ext \<le> ?s" using div_mult_mod_eq [of ?s ext] assms(1) pos_mod_sign [of ext ?s] by linarith
  have "0 \<le> ?s div ext * ext" using d assms(1) by simp
  then have p: "in_i64 (?s div ext * ext)" using m s by (simp add: in_i64_def)
  have "in_i64 ?s" using s by (simp add: in_i64_def)
  then show ?thesis
    using assms(1) s p by (simp add: AlignSizeToExtent_def del: i64_add_left)
qed

lemma round_up_bounds:
  fixes v ext :: int
  assumes "0 < ext"
  defines "r \<equiv> (v + ext - 1) div ext * ext"
  shows "v \<le> r" "r < v + ext" "ext dvd r" "\<forall>m. ext dvd m \<and> v \<le> m \<longrightarrow> r \<le> m"
proof -
  have e: "r + (v + ext - 1) mod ext = v + ext - 1"
    unfolding r_def by (rule div_mult_mod_eq)
  have b: "0 \<le> (v + ext - 1) mod ext" "(v + ext - 1) mod ext < ext"
    using assms(1) by simp_all
  show le: "v \<le> r" and less: "r < v + ext" using e b by auto
  show "ext dvd r" by (simp add: r_def)
  show "\<forall>m. ext dvd m \<and> v \<le> m \<longrightarrow> r \<le> m"
  proof (intro allI impI, rule ccontr)
    fix m assume m: "ext dvd m \<and> v \<le> m" "\<not> r \<le> m"
    then obtain k where k: "m = k * ext" by (auto simp: dvd_def mult.commute)
    have "k < (v + ext - 1) div ext"
      using m(2) assms(1) unfolding r_def k by simp
    then have "(k + 1) * ext \<le> r"
      unfolding r_def using assms(1) by (intro mult_right_mono) auto
    then show False using m less k by (simp add: algebra_simps)
  qed
qed

lemma SafeExtentSize_pos [simp]: "0 < SafeExtentSize e"
  by (simp add: SafeExtentSize_def lvmDefaultExtentSize_def)

lemma align_lvg_ok: "\<exists>q. alignToLVGExtentOrStatusErr fmt sz lvg = Inr q"
  by (simp add: alignToLVGExtentOrStatusErr_def AlignSizeToExtent_def not_le)

lemma q_Value_NewQuantity [simp]: "q_Value (NewQuantity fmt n) = n" "q_String (NewQuantity fmt n) = fmt n"
  by (simp_all add: NewQuantity_def)

text \<open>C22: \<^verbatim>\<open>AlignSizeToExtent\<close> returns the least multiple of the extent that covers the size, and
  aligning the result again, as the wait for the volume does, changes nothing, provided the size leaves room for
  two extents below the bound of \<^verbatim>\<open>int64\<close>.\<close>

theorem align_is_least_multiple:
  assumes "0 < ext" "0 \<le> q_Value sz" "q_Value sz + 2 * ext \<le> 2 ^ 63"
  shows "\<exists>q. AlignSizeToExtent fmt sz ext = Inr q \<and> ext dvd q_Value q \<and> q_Value sz \<le> q_Value q \<and>
    (\<forall>m. ext dvd m \<and> q_Value sz \<le> m \<longrightarrow> q_Value q \<le> m) \<and> AlignSizeToExtent fmt q ext = Inr q"
proof -
  let ?r = "(q_Value sz + ext - 1) div ext * ext"
  note b = round_up_bounds [OF assms(1), of "q_Value sz"]
  have again: "(?r + ext - 1) div ext * ext = ?r"
    using round_up_bounds [OF assms(1), of ?r] b(3) by (intro antisym) auto
  have "AlignSizeToExtent fmt sz ext = Inr (NewQuantity fmt ?r)"
    by (rule align_value) (use assms in auto)
  moreover have "AlignSizeToExtent fmt (NewQuantity fmt ?r) ext = Inr (NewQuantity fmt ?r)"
    using align_value [of ext "NewQuantity fmt ?r" fmt] assms b(1,2) again by simp
  ultimately show ?thesis using b by auto
qed

lemma align_is_least_multiple_witness:
  "0 < (4194304 :: int) \<and> (\<exists>q. AlignSizeToExtent (\<lambda>_. '''') \<lparr>q_Value = 36700160, q_String = ''35Mi''\<rparr> 4194304 = Inr q \<and>
     q_Value q = 37748736)"
proof -
  let ?sz = "\<lparr>q_Value = 36700160, q_String = ''35Mi''\<rparr>"
  have "AlignSizeToExtent (\<lambda>_. '''') ?sz 4194304 = Inr (NewQuantity (\<lambda>_. '''') 37748736)"
    by code_simp
  then show ?thesis
    using align_is_least_multiple [of 4194304 ?sz "\<lambda>_. ''''"] by auto
qed

text \<open>C23: near the bound of \<^verbatim>\<open>int64\<close> the sum wraps around: the aligned size is then not positive, and
  every free space that is not negative passes for large enough.\<close>

theorem align_overflow_is_accepted:
  assumes "0 < ext" "ext < 2 ^ 63" "q_Value sz < 2 ^ 63" "2 ^ 63 < q_Value sz + ext" "0 \<le> freeSpace"
  shows "\<exists>q. AlignSizeToExtent fmt sz ext = Inr q \<and> q_Value q \<le> 0 \<and> q_Value q < q_Value sz \<and>
    fitsFreeSpace bindingMode lvmType q freeSpace"
proof -
  let ?s = "q_Value sz + ext - 1 - 2 ^ 64"
  have s: "- (2 ^ 63) \<le> ?s" "?s < 0" using assms by auto
  have "i64 (q_Value sz + ext - 1) = ?s"
  proof -
    have "i64 (q_Value sz + ext - 1) = i64 ?s" by (rule i64_minus_period [symmetric])
    also have "\<dots> = ?s" using s by (intro i64_id) (simp add: in_i64_def)
    finally show ?thesis .
  qed
  moreover have "go_div ?s ext = - (- ?s div ext)"
    using s assms(1) by (simp add: go_div_def)
  moreover have d: "0 \<le> - ?s div ext * ext" "- ?s div ext * ext \<le> - ?s"
  proof -
    show "0 \<le> - ?s div ext * ext" using s assms(1) by (simp add: pos_imp_zdiv_nonneg_iff)
    show "- ?s div ext * ext \<le> - ?s"
      using div_mult_mod_eq [of "- ?s" ext] pos_mod_sign [OF assms(1), of "- ?s"] by linarith
  qed
  moreover have "i64 (- (- ?s div ext) * ext) = - (- ?s div ext * ext)"
    using d s by (subst i64_id) (auto simp: in_i64_def)
  ultimately have "AlignSizeToExtent fmt sz ext = Inr (NewQuantity fmt (- (- ?s div ext * ext)))"
    using assms(1) by (simp add: AlignSizeToExtent_def)
  then show ?thesis
    using d(1) assms by (auto simp: fitsFreeSpace_def)
qed

lemma align_overflow_is_accepted_witness:
  "\<exists>q. AlignSizeToExtent (\<lambda>_. '''') \<lparr>q_Value = 9223372036854775807, q_String = ''''\<rparr> 4194304 = Inr q \<and>
     q_Value q \<le> 0 \<and> q_Value q < 9223372036854775807 \<and> fitsFreeSpace BindingModeI LVMTypeThick q 0"
  using align_overflow_is_accepted [of 4194304 "\<lparr>q_Value = 9223372036854775807, q_String = ''''\<rparr>" 0 "\<lambda>_. ''''"
    BindingModeI LVMTypeThick]
  by simp

section \<open>The node with the most free space\<close>

lemma freeSpaceOf_prev:
  "t = LVMTypeThick \<or> t = LVMTypeThin \<Longrightarrow> freeSpaceOf params t p lvg = freeSpaceOf params t 0 lvg"
  by (auto simp: freeSpaceOf_def)

text \<open>What the loop of \<^verbatim>\<open>GetNodeWithMaxFreeSpace\<close> knows of the groups it has visited.\<close>

definition maxFreeInv :: "strmap \<Rightarrow> string \<Rightarrow> LVG list \<Rightarrow> string \<times> int \<times> int \<Rightarrow> bool" where
  "maxFreeInv params t visited acc = (case acc of (node, _, free) \<Rightarrow>
     (\<forall>lvg \<in> set visited. \<exists>fs. freeSpaceOf params t 0 lvg = Inr fs \<and> fs \<le> free) \<and>
     (node = '''' \<and> free = 0 \<or>
      0 < free \<and> (\<exists>lvg \<in> set visited. freeSpaceOf params t 0 lvg = Inr free \<and>
        (\<exists>ns. lvg_Nodes lvg = node # ns))))"

lemma maxFreeStep_inv:
  assumes "t = LVMTypeThick \<or> t = LVMTypeThin" "maxFreeInv params t visited acc"
    "maxFreeStep params t lvg acc = Inr acc'"
  shows "maxFreeInv params t (visited @ [lvg]) acc'"
proof -
  obtain node p free where acc: "acc = (node, p, free)" by (cases acc)
  obtain fs where fs: "freeSpaceOf params t 0 lvg = Inr fs"
    using assms(3) freeSpaceOf_prev [OF assms(1), of params p lvg]
    by (auto simp: maxFreeStep_def acc split: sum.splits)
  have old: "\<forall>l \<in> set visited. \<exists>f. freeSpaceOf params t 0 l = Inr f \<and> f \<le> free" "0 \<le> free"
    using assms(2) by (auto simp: maxFreeInv_def acc)
  show ?thesis
  proof (cases "fs > free")
    case True
    then obtain n ns where "lvg_Nodes lvg = n # ns" "acc' = (n, fs, fs)"
      using assms(3) fs freeSpaceOf_prev [OF assms(1), of params p lvg]
      by (auto simp: maxFreeStep_def acc split: list.splits)
    then show ?thesis
      using True fs old by (fastforce simp: maxFreeInv_def)
  next
    case False
    then have "acc' = (node, fs, free)"
      using assms(3) fs freeSpaceOf_prev [OF assms(1), of params p lvg] by (simp add: maxFreeStep_def acc)
    then show ?thesis
      using False fs assms(2) by (auto simp: maxFreeInv_def acc)
  qed
qed

lemma GetNodeWithMaxFreeSpace_inv:
  assumes "t = LVMTypeThick \<or> t = LVMTypeThin" "GetNodeWithMaxFreeSpace lvgs params t = Inr (node, free)"
  shows "\<exists>p. maxFreeInv params t lvgs (node, p, free)"
proof -
  obtain p where "foldE (maxFreeStep params t) lvgs ('''', 0, 0) = Inr (node, p, free)"
    using assms(2) by (auto simp: GetNodeWithMaxFreeSpace_def split: sum.splits)
  then have "maxFreeInv params t lvgs (node, p, free)"
    by (rule foldE_invariant)
      (use assms(1) maxFreeStep_inv in \<open>auto simp: maxFreeInv_def [of _ _ "[]"]\<close>)
  then show ?thesis ..
qed

text \<open>The first node of a group, where it reports one.\<close>

definition firstNode :: "LVG \<Rightarrow> string option" where
  "firstNode lvg = (case lvg_Nodes lvg of [] \<Rightarrow> None | n # _ \<Rightarrow> Some n)"

definition onDistinctNodes :: "LVG list \<Rightarrow> bool" where
  "onDistinctNodes lvgs \<longleftrightarrow> distinct (map firstNode (filter (\<lambda>lvg. lvg_Nodes lvg \<noteq> []) lvgs))"

lemma SelectLVG_distinct:
  assumes "onDistinctNodes lvgs" "lvg \<in> set lvgs" "lvg_Nodes lvg = node # ns"
  shows "SelectLVG lvgs node = Inr lvg"
  using assms
proof (induction lvgs)
  case (Cons l lvgs)
  show ?case
  proof (cases "lvg_Nodes l")
    case Nil
    with Cons show ?thesis by (auto simp: SelectLVG_def onDistinctNodes_def)
  next
    case (Cons n rest)
    show ?thesis
    proof (cases "n = node")
      case True
      then have "firstNode l = firstNode lvg" using Cons Cons.prems(3) by (simp add: firstNode_def)
      moreover have "lvg_Nodes lvg \<noteq> []" using Cons.prems(3) by simp
      ultimately have "l = lvg"
        using Cons Cons.prems(1,2) by (force simp: onDistinctNodes_def)
      then show ?thesis using Cons True by (simp add: SelectLVG_def)
    next
      case False
      with Cons Cons.prems show ?thesis
        using Cons.IH by (auto simp: SelectLVG_def onDistinctNodes_def)
    qed
  qed
qed simp

text \<open>For \<^verbatim>\<open>Immediate\<close> binding the driver picks a volume group with the most free space: when
  \<^verbatim>\<open>GetNodeWithMaxFreeSpace\<close> finds room at all and the groups live on distinct nodes, the group
  \<^verbatim>\<open>SelectLVG\<close> takes on that node has exactly the reported free space, and no group has more.\<close>

theorem immediate_choice_has_most_free_space:
  assumes "t = LVMTypeThick \<or> t = LVMTypeThin" "onDistinctNodes lvgs"
    "GetNodeWithMaxFreeSpace lvgs params t = Inr (node, free)" "node \<noteq> ''''"
  shows "\<exists>lvg \<in> set lvgs. SelectLVG lvgs node = Inr lvg \<and> freeSpaceOf params t 0 lvg = Inr free \<and> 0 < free \<and>
    (\<forall>other \<in> set lvgs. \<exists>fs. freeSpaceOf params t 0 other = Inr fs \<and> fs \<le> free)"
proof -
  obtain p where inv: "maxFreeInv params t lvgs (node, p, free)"
    using GetNodeWithMaxFreeSpace_inv [OF assms(1,3)] ..
  then obtain lvg ns where lvg: "lvg \<in> set lvgs" "freeSpaceOf params t 0 lvg = Inr free" "0 < free"
    "lvg_Nodes lvg = node # ns"
    using assms(4) by (auto simp: maxFreeInv_def)
  then show ?thesis
    using SelectLVG_distinct [OF assms(2) lvg(1,4)] inv by (auto simp: maxFreeInv_def)
qed

definition demoLVG :: "string \<Rightarrow> string \<Rightarrow> int \<Rightarrow> LVG" where
  "demoLVG n node free = objmeta.extend (meta0 n)
     (LVG.fields ''vg'' node [] [node] 1000 free (1000 - free) 4 [])"

lemma immediate_choice_has_most_free_space_witness:
  "GetNodeWithMaxFreeSpace [demoLVG ''a'' ''n1'' 10, demoLVG ''b'' ''n2'' 30, demoLVG ''c'' ''n3'' 20] fmempty LVMTypeThick
     = Inr (''n2'', 30) \<and>
   (\<exists>lvg. SelectLVG [demoLVG ''a'' ''n1'' 10, demoLVG ''b'' ''n2'' 30, demoLVG ''c'' ''n3'' 20] ''n2'' = Inr lvg \<and>
     freeSpaceOf fmempty LVMTypeThick 0 lvg = Inr 30)"
proof -
  let ?l = "[demoLVG ''a'' ''n1'' 10, demoLVG ''b'' ''n2'' 30, demoLVG ''c'' ''n3'' 20]"
  have g: "GetNodeWithMaxFreeSpace ?l fmempty LVMTypeThick = Inr (''n2'', 30)" by code_simp
  have "onDistinctNodes ?l" by code_simp
  from immediate_choice_has_most_free_space [OF _ this g] g show ?thesis by auto
qed

section \<open>The groups of a storage class\<close>

lemma fmlookup_lvgParameters:
  "fmlookup (fold (\<lambda>v m. fmupd (vg_Name v) (vg_PoolName v) m) vgs m) n =
   (case find (\<lambda>v. vg_Name v = n) (rev vgs) of Some v \<Rightarrow> Some (vg_PoolName v) | None \<Rightarrow> fmlookup m n)"
proof (induction vgs rule: rev_induct)
  case (snoc v vgs)
  then show ?case by (simp split: option.splits)
qed simp

lemma storageClassLVGs_in_params:
  "lvg \<in> set (storageClassLVGs params lvgs) \<longleftrightarrow> lvg \<in> set lvgs \<and> fmlookup params (Name lvg) \<noteq> None"
  by (auto simp: storageClassLVGs_def)

lemma SelectLVG_member: "SelectLVG lvgs n = Inr lvg \<Longrightarrow> lvg \<in> set lvgs"
  by (auto simp: SelectLVG_def find_Some_iff split: option.splits)

lemma SelectLVGByName_member: "SelectLVGByName lvgs n = Inr lvg \<Longrightarrow> lvg \<in> set lvgs \<and> Name lvg = n"
  by (auto simp: SelectLVGByName_def find_Some_iff split: option.splits)

lemma SelectLVGByActualName_member:
  "SelectLVGByActualNameOnTheNode lvgs n a = Inr lvg \<Longrightarrow>
   lvg \<in> set lvgs \<and> Local_NodeName lvg = n \<and> ActualVGNameOnTheNode lvg = a"
  by (auto simp: SelectLVGByActualNameOnTheNode_def find_Some_iff split: option.splits)

end
