(* ===== verification/CSI_Effects.thy ===== *)
theory CSI_Effects
  imports CSI_Controller CSI_Selection
begin

text \<open>
  What the routines of the CSI driver do to the history of API calls: the finalizer loop, stated once for the
  client interface of one kind of object, the deletion of volumes and snapshots, and the polling loops.
\<close>

section \<open>The client of one kind of object\<close>

text \<open>
  The interface the finalizer loop relies on: a read and an update are one call each, and the call is recorded
  with its answer.
\<close>

locale object_client =
  fixes getObj :: "okey \<Rightarrow> (kerr + 'a objmeta_scheme) csim"
    and updateObj :: "'a objmeta_scheme \<Rightarrow> (kerr + 'a objmeta_scheme) csim"
    and getEv :: "okey \<Rightarrow> kerr + 'a objmeta_scheme \<Rightarrow> csi_event"
    and updEv :: "'a objmeta_scheme \<Rightarrow> kerr + 'a objmeta_scheme \<Rightarrow> csi_event"
  assumes get_recorded: "wp (getObj key) (\<lambda>r h'. h' = getEv key r # h) h"
    and update_recorded: "wp (updateObj obj) (\<lambda>r h'. h' = updEv obj r # h) h"
begin

text \<open>The calls the loop makes.\<close>

definition loopCall :: "string \<Rightarrow> csi_event \<Rightarrow> bool" where
  "loopCall fin e \<longleftrightarrow> (\<exists>k r. e = getEv k r) \<or> (\<exists>b. e = CDone b) \<or> e = CSleep time_Second \<or>
     (\<exists>obj r. e = updEv (obj\<lparr>Finalizers := remove1 fin (Finalizers obj)\<rparr>) r \<and> fin \<in> set (Finalizers obj))"

definition gotObj :: "'a objmeta_scheme \<Rightarrow> csi_event \<Rightarrow> bool" where
  "gotObj obj e \<longleftrightarrow> (\<exists>k. e = getEv k (Inr obj))"

definition storedWithout :: "string \<Rightarrow> 'a objmeta_scheme \<Rightarrow> csi_event \<Rightarrow> bool" where
  "storedWithout fin obj e \<longleftrightarrow> (\<exists>old. e = updEv (old\<lparr>Finalizers := remove1 fin (Finalizers old)\<rparr>) (Inr obj) \<and>
     fin \<in> set (Finalizers old))"

text \<open>
  How the loop leaves: with \<^term>\<open>True\<close> the last call stored an object from which one occurrence was removed,
  with \<^term>\<open>False\<close> the finalizer is absent from the object last read, or from the object it was given.
\<close>

definition loopPost :: "string \<Rightarrow> nat \<Rightarrow> 'a objmeta_scheme \<Rightarrow> csi_event list \<Rightarrow>
    'a objmeta_scheme \<times> (csi_err + bool) \<Rightarrow> csi_event list \<Rightarrow> bool" where
  "loopPost fin n obj h res h' = (case res of (obj', r) \<Rightarrow> \<exists>calls. h' = calls @ h \<and> length calls \<le> 4 * n \<and>
     (\<forall>e \<in> set calls. loopCall fin e) \<and>
     (r = Inr True \<longrightarrow> (\<exists>e rest. calls = e # rest \<and> storedWithout fin obj' e)) \<and>
     (r = Inr False \<longrightarrow> fin \<notin> set (Finalizers obj') \<and>
        (calls = [] \<and> obj' = obj \<or> (\<exists>e rest. calls = e # rest \<and> gotObj obj' e))))"

lemma loopCall_intros [simp]:
  "loopCall fin (getEv k r)" "loopCall fin (CDone b)" "loopCall fin (CSleep time_Second)"
  "fin \<in> set (Finalizers obj) \<Longrightarrow> loopCall fin (updEv (obj\<lparr>Finalizers := remove1 fin (Finalizers obj)\<rparr>) r1)"
  unfolding loopCall_def by blast+

lemma gotObj_intros [simp]: "gotObj obj (getEv k (Inr obj))"
  "fin \<in> set (Finalizers old) \<Longrightarrow>
   storedWithout fin obj (updEv (old\<lparr>Finalizers := remove1 fin (Finalizers old)\<rparr>) (Inr obj))"
  unfolding gotObj_def storedWithout_def by blast+

lemma loopPost_later:
  assumes "loopPost fin n fresh (getEv k (Inr fresh) # e1 # e2 # e3 # h) res h'"
    "loopCall fin e1" "loopCall fin e2" "loopCall fin e3"
  shows "loopPost fin (Suc n) obj h res h'"
proof -
  obtain obj' r where res: "res = (obj', r)" by (cases res)
  obtain calls where "h' = calls @ getEv k (Inr fresh) # e1 # e2 # e3 # h"
    "length calls \<le> 4 * n" "\<forall>e \<in> set calls. loopCall fin e"
    "r = Inr True \<longrightarrow> (\<exists>e rest. calls = e # rest \<and> storedWithout fin obj' e)"
    "r = Inr False \<longrightarrow> fin \<notin> set (Finalizers obj') \<and>
        (calls = [] \<and> obj' = fresh \<or> (\<exists>e rest. calls = e # rest \<and> gotObj obj' e))"
    using assms(1) unfolding loopPost_def res prod.case by blast
  then show ?thesis
    unfolding loopPost_def res prod.case using assms(2-4)
    by (intro exI [of _ "calls @ [getEv k (Inr fresh), e1, e2, e3]"]) auto
qed

lemma removeFinalizerLoop_post:
  "wp (removeFinalizerLoop v getObj updateObj fin n obj) (loopPost fin n obj h) h"
proof (induction n arbitrary: obj h)
  case 0
  show ?case by (simp add: loopPost_def)
next
  case (Suc n)
  let ?obj1 = "obj\<lparr>Finalizers := remove1 fin (Finalizers obj)\<rparr>"
  have last: "loopPost fin (Suc m) obj h (?obj1, Inl e) (updEv ?obj1 r # h)" if "fin \<in> set (Finalizers obj)" for m e r
    using that by (auto simp: loopPost_def)
  have expired: "loopPost fin (Suc m) obj h (?obj1, Inl CtxErr) (CDone b # updEv ?obj1 r # h)"
    if "fin \<in> set (Finalizers obj)" for m b r
    using that by (auto simp: loopPost_def)
  have unread: "loopPost fin (Suc m) obj h (?obj1, Inl e) (getEv k g # CSleep time_Second # CDone b # updEv ?obj1 r # h)"
    if "fin \<in> set (Finalizers obj)" for m k e g b r
    using that by (auto simp: loopPost_def)
  have stored: "loopPost fin (Suc m) obj h (s1, Inr True) (updEv ?obj1 (Inr s1) # h)"
    if "fin \<in> set (Finalizers obj)" for m s1
    using that by (auto simp: loopPost_def)
  show ?case
  proof (cases "fin \<in> set (Finalizers obj)")
    case False
    then show ?thesis by (auto simp: loopPost_def)
  next
    case True
    have read: "wp (getObj key) (\<lambda>g h'. wp (case g of
          Inl e' \<Rightarrow> State_Monad.return (?obj1, Inl (API e'))
        | Inr fresh \<Rightarrow> removeFinalizerLoop v getObj updateObj fin n fresh) (loopPost fin (Suc n) obj h) h')
        (CSleep time_Second # CDone b # updEv ?obj1 r # h)" for key b r
    proof (rule wp_mono [OF get_recorded])
      fix g h'
      assume h': "h' = getEv key g # CSleep time_Second # CDone b # updEv ?obj1 r # h"
      show "wp (case g of
          Inl e' \<Rightarrow> State_Monad.return (?obj1, Inl (API e'))
        | Inr fresh \<Rightarrow> removeFinalizerLoop v getObj updateObj fin n fresh) (loopPost fin (Suc n) obj h) h'"
      proof (cases g)
        case (Inl e)
        then show ?thesis using h' unread [OF True] by simp
      next
        case (Inr fresh)
        then show ?thesis
          using True unfolding h' Inr sum.case
          by (intro wp_mono [OF Suc.IH]) (auto elim!: loopPost_later)
      qed
    qed
    show ?thesis
      using True unfolding removeFinalizerLoop.simps Let_def wp_if wp_bind
      by (auto intro!: wp_mono [OF update_recorded] read
          simp: wp_rules last [OF True] expired [OF True] stored [OF True] split: sum.split)
  qed
qed

end

interpretation llvs_client: object_client "\<lambda>key. GetLVMLogicalVolumeSnapshot v (snd key) (fst key)" "updateLLVS v"
  CGetLLVS CUpdateLLVS for v
  by unfold_locales (simp_all add: GetLVMLogicalVolumeSnapshot_def updateLLVS_def)

interpretation llv_client: object_client "\<lambda>key. GetLVMLogicalVolume v (snd key) (fst key)" "updateLLV v"
  CGetLLV CUpdateLLV for v
  by unfold_locales (simp_all add: GetLVMLogicalVolume_def updateLLV_def)

section \<open>Deleting\<close>

definition csiWrite :: "csi_event \<Rightarrow> bool" where
  "csiWrite e = (case e of
     CCreateLLV _ _ \<Rightarrow> True | CCreateLLVS _ _ \<Rightarrow> True | CUpdateLLV _ _ \<Rightarrow> True | CUpdateLLVS _ _ \<Rightarrow> True
   | CDeleteLLV _ _ \<Rightarrow> True | CDeleteLLVS _ _ \<Rightarrow> True | _ \<Rightarrow> False)"

lemma csiWrite_simps [simp]:
  "csiWrite (CCreateLLV a b)" "csiWrite (CCreateLLVS c d)" "csiWrite (CUpdateLLV e f)" "csiWrite (CUpdateLLVS g i)"
  "csiWrite (CDeleteLLV k l)" "csiWrite (CDeleteLLVS k l)" "\<not> csiWrite (CGetLLV k m)" "\<not> csiWrite (CGetLLVS k n)"
  "\<not> csiWrite (CGetPV k p)" "\<not> csiWrite (CGetLSC k q)" "\<not> csiWrite (CGetLVG k r)" "\<not> csiWrite (CListLVG s)"
  "\<not> csiWrite (CDone t)" "\<not> csiWrite (CSleep u)" "\<not> csiWrite (CNow w)"
  by (simp_all add: csiWrite_def)

text \<open>
  The call \<^term>\<open>e\<close> shows that the driver no longer holds the object \<^term>\<open>llv\<close>: it stored the object with one
  occurrence of the driver's finalizer removed, or it returned the object without that finalizer.
\<close>

definition releasedLLV :: "LLV \<Rightarrow> csi_event \<Rightarrow> bool" where
  "releasedLLV llv e \<longleftrightarrow>
     (\<exists>old. e = CUpdateLLV (old\<lparr>Finalizers := remove1 SDSLocalVolumeCSIFinalizer (Finalizers old)\<rparr>) (Inr llv) \<and>
        SDSLocalVolumeCSIFinalizer \<in> set (Finalizers old)) \<or>
     SDSLocalVolumeCSIFinalizer \<notin> set (Finalizers llv) \<and>
       ((\<exists>k. e = CGetLLV k (Inr llv)) \<or> (\<exists>sent. e = CUpdateLLV sent (Inr llv)))"

definition releasedLLVS :: "LLVS \<Rightarrow> csi_event \<Rightarrow> bool" where
  "releasedLLVS llvs e \<longleftrightarrow>
     (\<exists>old. e = CUpdateLLVS (old\<lparr>Finalizers := remove1 SDSLocalVolumeCSIFinalizer (Finalizers old)\<rparr>) (Inr llvs) \<and>
        SDSLocalVolumeCSIFinalizer \<in> set (Finalizers old)) \<or>
     SDSLocalVolumeCSIFinalizer \<notin> set (Finalizers llvs) \<and> (\<exists>k. e = CGetLLVS k (Inr llvs))"

definition createsOrDeletes :: "csi_event \<Rightarrow> bool" where
  "createsOrDeletes e = (case e of
     CCreateLLV _ _ \<Rightarrow> True | CCreateLLVS _ _ \<Rightarrow> True | CDeleteLLV _ _ \<Rightarrow> True | CDeleteLLVS _ _ \<Rightarrow> True | _ \<Rightarrow> False)"

lemma createsOrDeletes_simps [simp]:
  "createsOrDeletes (CDeleteLLV k d)" "createsOrDeletes (CDeleteLLVS k d)"
  "createsOrDeletes (CCreateLLV a c)" "createsOrDeletes (CCreateLLVS p c)"
  "\<not> createsOrDeletes (CGetLLV k1 r1)" "\<not> createsOrDeletes (CGetLLVS k1 r2)"
  "\<not> createsOrDeletes (CUpdateLLV o1 r3)" "\<not> createsOrDeletes (CUpdateLLVS o2 r4)"
  "\<not> createsOrDeletes (CDone b)" "\<not> createsOrDeletes (CSleep t)"
  by (simp_all add: createsOrDeletes_def)

lemma loopCall_no_delete:
  "llv_client.loopCall fin e \<Longrightarrow> \<not> createsOrDeletes e" "llvs_client.loopCall fin e \<Longrightarrow> \<not> createsOrDeletes e"
  by (auto simp: llv_client.loopCall_def llvs_client.loopCall_def)

lemma removeLLVFinalizer_post:
  "wp (removeLLVFinalizerIfExist v llv SDSLocalVolumeCSIFinalizer) (\<lambda>(llv', r) h'. \<exists>calls. h' = calls @ h \<and>
     (\<forall>e \<in> set calls. \<not> createsOrDeletes e) \<and>
     (\<forall>b. r = Inr b \<longrightarrow> releasedLLV llv' (hd (calls @ [CUpdateLLV sent (Inr llv)])))) h"
  unfolding removeLLVFinalizerIfExist_def
proof (rule wp_mono [OF llv_client.removeFinalizerLoop_post [where h = h]], clarify)
  fix llv' r h'
  assume "llv_client.loopPost SDSLocalVolumeCSIFinalizer KubernetesAPIRequestLimit llv h (llv', r) h'"
  then obtain calls where c: "h' = calls @ h" "\<forall>e \<in> set calls. llv_client.loopCall SDSLocalVolumeCSIFinalizer e"
    "r = Inr True \<longrightarrow> (\<exists>e rest. calls = e # rest \<and> llv_client.storedWithout SDSLocalVolumeCSIFinalizer llv' e)"
    "r = Inr False \<longrightarrow> SDSLocalVolumeCSIFinalizer \<notin> set (Finalizers llv') \<and>
        (calls = [] \<and> llv' = llv \<or> (\<exists>e rest. calls = e # rest \<and> llv_client.gotObj llv' e))"
    unfolding llv_client.loopPost_def prod.case by blast
  have "releasedLLV llv' (hd (calls @ [CUpdateLLV sent (Inr llv)]))" if "r = Inr b" for b
    using c(3,4) that
    by (cases b) (auto simp: releasedLLV_def llv_client.storedWithout_def llv_client.gotObj_def)
  then show "\<exists>calls. h' = calls @ h \<and> (\<forall>e \<in> set calls. \<not> createsOrDeletes e) \<and>
     (\<forall>b. r = Inr b \<longrightarrow> releasedLLV llv' (hd (calls @ [CUpdateLLV sent (Inr llv)])))"
    using c(1,2) loopCall_no_delete(1) by blast
qed

lemma removeLLVSFinalizer_post:
  "wp (removeLLVSFinalizerIfExist v llvs SDSLocalVolumeCSIFinalizer) (\<lambda>(llvs', r) h'. \<exists>calls. h' = calls @ h \<and>
     (\<forall>e \<in> set calls. \<not> createsOrDeletes e) \<and>
     (\<forall>b. r = Inr b \<longrightarrow> releasedLLVS llvs' (hd (calls @ [CGetLLVS k (Inr llvs)])))) h"
  unfolding removeLLVSFinalizerIfExist_def
proof (rule wp_mono [OF llvs_client.removeFinalizerLoop_post [where h = h]], clarify)
  fix llvs' r h'
  assume "llvs_client.loopPost SDSLocalVolumeCSIFinalizer KubernetesAPIRequestLimit llvs h (llvs', r) h'"
  then obtain calls where c: "h' = calls @ h" "\<forall>e \<in> set calls. llvs_client.loopCall SDSLocalVolumeCSIFinalizer e"
    "r = Inr True \<longrightarrow> (\<exists>e rest. calls = e # rest \<and> llvs_client.storedWithout SDSLocalVolumeCSIFinalizer llvs' e)"
    "r = Inr False \<longrightarrow> SDSLocalVolumeCSIFinalizer \<notin> set (Finalizers llvs') \<and>
        (calls = [] \<and> llvs' = llvs \<or> (\<exists>e rest. calls = e # rest \<and> llvs_client.gotObj llvs' e))"
    unfolding llvs_client.loopPost_def prod.case by blast
  have "releasedLLVS llvs' (hd (calls @ [CGetLLVS k (Inr llvs)]))" if "r = Inr b" for b
    using c(3,4) that
    by (cases b) (auto simp: releasedLLVS_def llvs_client.storedWithout_def llvs_client.gotObj_def)
  then show "\<exists>calls. h' = calls @ h \<and> (\<forall>e \<in> set calls. \<not> createsOrDeletes e) \<and>
     (\<forall>b. r = Inr b \<longrightarrow> releasedLLVS llvs' (hd (calls @ [CGetLLVS k (Inr llvs)])))"
    using c(1,2) loopCall_no_delete(2) by blast
qed

definition cleanupField :: "string \<Rightarrow> string option" where
  "cleanupField volumeCleanup = (if volumeCleanup \<noteq> '''' then Some volumeCleanup else None)"

text \<open>
  How a deletion leaves: without a create or delete call and with an error, or with a delete call as the last one, after
  the cleanup was stored and the driver's finalizer was released.
\<close>

definition deletedInOrder :: "string \<Rightarrow> string \<Rightarrow> csi_event list \<Rightarrow> csi_err option \<Rightarrow> csi_event list \<Rightarrow> bool" where
  "deletedInOrder name volumeCleanup h r h' \<longleftrightarrow>
     (r \<noteq> None \<and> (\<exists>calls. h' = calls @ h \<and> (\<forall>e \<in> set calls. \<not> createsOrDeletes e))) \<or>
     (\<exists>llv stored calls llv' d.
        h' = CDeleteLLV (ObjectKeyFromObject llv') d # calls @
             CUpdateLLV (llv\<lparr>llv_VolumeCleanup := cleanupField volumeCleanup\<rparr>) (Inr stored) #
             CGetLLV ('''', name) (Inr llv) # h \<and>
        r = map_option API d \<and> (\<forall>e \<in> set calls. \<not> createsOrDeletes e) \<and>
        releasedLLV llv' (hd (calls @ [CUpdateLLV (llv\<lparr>llv_VolumeCleanup := cleanupField volumeCleanup\<rparr>) (Inr stored)])))"

lemma deletedInOrder_fail:
  "h' = calls @ h \<Longrightarrow> \<forall>e \<in> set calls. \<not> createsOrDeletes e \<Longrightarrow> deletedInOrder name vc h (Some e1) h'"
  by (auto simp: deletedInOrder_def)

lemma DeleteLVMLogicalVolume_post:
  "wp (DeleteLVMLogicalVolume v name volumeCleanup) (deletedInOrder name volumeCleanup h) h"
proof -
  let ?upd = "\<lambda>llv. llv\<lparr>llv_VolumeCleanup := cleanupField volumeCleanup\<rparr>"
  have rest: "wp (do {
      (llv2, removed) \<leftarrow> removeLLVFinalizerIfExist v llv1 SDSLocalVolumeCSIFinalizer;
      (case removed of
        Inl e \<Rightarrow> State_Monad.return (Some e)
      | Inr _ \<Rightarrow> do {
          let key = ObjectKeyFromObject llv2;
          d \<leftarrow> cask (ccl_Delete_LLV v key) (CDeleteLLV key);
          State_Monad.return (map_option API d)
        })
    }) (deletedInOrder name volumeCleanup h) (CUpdateLLV (?upd llv) (Inr llv1) # CGetLLV ('''', name) (Inr llv) # h)"
    (is "wp _ _ ?h1") for llv llv1
    unfolding wp_bind
  proof (rule wp_mono [OF removeLLVFinalizer_post [where h = ?h1 and sent = "?upd llv"]], clarify)
    fix llv2 :: LLV and removed :: "csi_err + bool" and calls
    assume calls: "\<forall>e \<in> set calls. \<not> createsOrDeletes e"
      "\<forall>b. removed = Inr b \<longrightarrow> releasedLLV llv2 (hd (calls @ [CUpdateLLV (?upd llv) (Inr llv1)]))"
    show "wp (case removed of Inl e \<Rightarrow> State_Monad.return (Some e)
      | Inr _ \<Rightarrow> do {
          let key = ObjectKeyFromObject llv2;
          d \<leftarrow> cask (ccl_Delete_LLV v key) (CDeleteLLV key);
          State_Monad.return (map_option API d)
        }) (deletedInOrder name volumeCleanup h) (calls @ ?h1)"
    proof (cases removed)
      case (Inl e)
      then show ?thesis
        using calls(1) by (auto intro!: deletedInOrder_fail [of _ "calls @ [CUpdateLLV (?upd llv) (Inr llv1), CGetLLV ('''', name) (Inr llv)]"])
    next
      case (Inr b)
      then show ?thesis
        using calls by (auto simp: deletedInOrder_def Let_def)
    qed
  qed
  show ?thesis
    unfolding DeleteLVMLogicalVolume_def wp_bind GetLVMLogicalVolume_def updateLLV_def wp_cask wp_case_sum
      cleanupField_def [symmetric]
    using rest
    by (auto split: sum.split simp: deletedInOrder_def)
qed

section \<open>Polling\<close>

text \<open>What a finished wait has seen: the object read last is there, Created, and large enough.\<close>

definition readyLLV :: "int \<Rightarrow> LLV \<Rightarrow> bool" where
  "readyLLV alignedSize llv \<longleftrightarrow> DeletionTimestamp llv = None \<and>
     (\<exists>st. llv_Status llv = Some st \<and> Phase st = LLVStatusCreated \<and> alignedSize \<le> ActualSize st)"

definition polledLLV :: "okey \<Rightarrow> int \<Rightarrow> csi_event list \<Rightarrow> ((csi_err + LLV) \<times> nat) option \<Rightarrow> csi_event list \<Rightarrow> bool" where
  "polledLLV key alignedSize h w h' \<longleftrightarrow> (\<exists>calls. h' = calls @ h \<and> (\<forall>e \<in> set calls. \<not> csiWrite e) \<and>
     (\<forall>llv m. w = Some (Inr llv, m) \<longrightarrow> readyLLV alignedSize llv \<and> (\<exists>rest. calls = CGetLLV key (Inr llv) # rest)))"

definition polledLLVS :: "string \<Rightarrow> csi_event list \<Rightarrow> (csi_err option \<times> nat) option \<Rightarrow> csi_event list \<Rightarrow> bool" where
  "polledLLVS name h w h' \<longleftrightarrow> (\<exists>calls. h' = calls @ h \<and> (\<forall>e \<in> set calls. \<not> csiWrite e) \<and>
     (\<forall>m. w = Some (None, m) \<longrightarrow> (\<exists>llvs st rest. calls = CGetLLVS ('''', name) (Inr llvs) # rest \<and>
        llvs_Status llvs = Some st \<and> llvs_Phase st = LLVSStatusCreated \<and> DeletionTimestamp llvs = None)))"

lemma polled_none:
  "polledLLV key a h None h" "polledLLVS name h None h"
  by (simp_all add: polledLLV_def polledLLVS_def)

lemma polled_failed:
  assumes "\<not> csiWrite e1"
  shows "polledLLV key a h (Some (Inl e, n)) (e1 # h)" "polledLLVS name h (Some (Some e, n)) (e1 # h)"
  using assms by (simp_all add: polledLLV_def polledLLVS_def)

lemma polled_skip:
  assumes "\<not> csiWrite e1"
  shows "polledLLV key a (e1 # h) w h' \<Longrightarrow> polledLLV key a h w h'"
    "polledLLVS name (e1 # h) u h' \<Longrightarrow> polledLLVS name h u h'"
proof -
  assume "polledLLV key a (e1 # h) w h'"
  then obtain calls where "h' = calls @ e1 # h" "\<forall>e \<in> set calls. \<not> csiWrite e"
    "\<forall>llv m. w = Some (Inr llv, m) \<longrightarrow> readyLLV a llv \<and> (\<exists>rest. calls = CGetLLV key (Inr llv) # rest)"
    unfolding polledLLV_def by blast
  with assms show "polledLLV key a h w h'"
    unfolding polledLLV_def by (intro exI [of _ "calls @ [e1]"]) auto
next
  assume "polledLLVS name (e1 # h) u h'"
  then obtain calls where "h' = calls @ e1 # h" "\<forall>e \<in> set calls. \<not> csiWrite e"
    "\<forall>m. u = Some (None, m) \<longrightarrow> (\<exists>llvs st rest. calls = CGetLLVS ('''', name) (Inr llvs) # rest \<and>
        llvs_Status llvs = Some st \<and> llvs_Phase st = LLVSStatusCreated \<and> DeletionTimestamp llvs = None)"
    unfolding polledLLVS_def by blast
  with assms show "polledLLVS name h u h'"
    unfolding polledLLVS_def by (intro exI [of _ "calls @ [e1]"]) auto
qed

lemma polled_round:
  assumes "\<not> csiWrite e1" "\<not> csiWrite e2" "\<not> csiWrite e3"
  shows "polledLLV key a (e1 # e2 # e3 # h) w h' \<Longrightarrow> polledLLV key a h w h'"
    "polledLLVS name (e1 # e2 # e3 # h) u h' \<Longrightarrow> polledLLVS name h u h'"
  by (rule polled_skip [OF assms(3)], rule polled_skip [OF assms(2)], rule polled_skip [OF assms(1)], assumption)+

lemma waitLLV_post: "wp (waitLLV v key alignedSize fuel n) (polledLLV key alignedSize h) h"
proof (induction fuel arbitrary: n h)
  case (Suc fuel)
  let ?h = "\<lambda>r t b. CGetLLV key r # CSleep t # CDone b # h"
  have later: "wp (waitLLV v key alignedSize fuel m) (polledLLV key alignedSize h) (?h r t b)" for r t b m
    by (rule wp_mono [OF Suc.IH]) (rule polled_round, auto)
  have found: "polledLLV key alignedSize h (Some (Inr llv, m)) (?h (Inr llv) t b)"
    if "readyLLV alignedSize llv" for llv m t b
    using that by (auto simp: polledLLV_def)
  have failed: "polledLLV key alignedSize h (Some (Inl e, m)) (?h r t b)" for e m r t b
    by (auto simp: polledLLV_def)
  show ?case
    unfolding waitLLV.simps GetLVMLogicalVolume_def prod.collapse
    by (simp add: wp_rules later found failed polled_failed readyLLV_def split: sum.split option.split)
qed (simp add: polled_none)

lemma waitLLVS_post: "wp (waitLLVS v name fuel n) (polledLLVS name h) h"
proof (induction fuel arbitrary: n h)
  case (Suc fuel)
  let ?h = "\<lambda>r t b. CGetLLVS ('''', name) r # CSleep t # CDone b # h"
  have later: "wp (waitLLVS v name fuel m) (polledLLVS name h) (?h r t b)" for r t b m
    by (rule wp_mono [OF Suc.IH]) (rule polled_round, auto)
  have found: "polledLLVS name h (Some (None, m)) (?h (Inr llvs) t b)"
    if "llvs_Status llvs = Some st" "llvs_Phase st = LLVSStatusCreated" "DeletionTimestamp llvs = None" for llvs st m t b
    using that by (auto simp: polledLLVS_def)
  have failed: "polledLLVS name h (Some (Some e, m)) (?h r t b)" for e m r t b
    by (auto simp: polledLLVS_def)
  show ?case
    unfolding waitLLVS.simps GetLVMLogicalVolumeSnapshot_def
    by (simp add: wp_rules later found failed polled_failed split: sum.split option.split)
qed (simp add: polled_none)

lemma WaitForStatusUpdate_post:
  "wp (WaitForStatusUpdate v fuel name namespace llvSize ext) (\<lambda>w h'.
     (\<exists>q. AlignSizeToExtent (quantity_fmt v) llvSize ext = Inr q \<and> polledLLV (namespace, name) (q_Value q) h w h') \<or>
     h' = h \<and> (\<exists>e. w = Some (Inl e, 0))) h"
proof (cases "AlignSizeToExtent (quantity_fmt v) llvSize ext")
  case (Inr q)
  show ?thesis
    unfolding WaitForStatusUpdate_def Inr sum.case
    by (rule wp_mono [OF waitLLV_post [where h = h]]) simp
qed (simp add: WaitForStatusUpdate_def)

subsection \<open>The wait ends\<close>

text \<open>
  A context with a deadline: after finitely many calls it is done.  Each round makes three calls, so one round of
  fuel for each call up to the deadline is enough.
\<close>

definition hasDeadline :: "csi_env \<Rightarrow> nat \<Rightarrow> bool" where
  "hasDeadline v N \<longleftrightarrow> (\<forall>h. N \<le> length h \<longrightarrow> ctx_Done v h)"

lemma waitLLV_returns:
  "hasDeadline v N \<Longrightarrow> 0 < fuel \<Longrightarrow> N < length h + fuel \<Longrightarrow> wp (waitLLV v key a fuel n) (\<lambda>w _. w \<noteq> None) h"
proof (induction fuel arbitrary: n h)
  case (Suc fuel)
  have "wp (waitLLV v key a fuel m) (\<lambda>w _. w \<noteq> None) (e1 # e2 # e3 # h)" if "\<not> ctx_Done v h" for e1 e2 e3 m
  proof (rule Suc.IH [OF Suc.prems(1)])
    have "length h < N" using that Suc.prems(1) by (meson hasDeadline_def not_le)
    then show "0 < fuel" "N < length (e1 # e2 # e3 # h) + fuel" using Suc.prems(3) by auto
  qed
  then show ?case
    by (simp add: wp_rules GetLVMLogicalVolume_def split: sum.split option.split)
qed simp

lemma waitLLVS_returns:
  "hasDeadline v N \<Longrightarrow> 0 < fuel \<Longrightarrow> N < length h + fuel \<Longrightarrow> wp (waitLLVS v name fuel n) (\<lambda>w _. w \<noteq> None) h"
proof (induction fuel arbitrary: n h)
  case (Suc fuel)
  have "wp (waitLLVS v name fuel m) (\<lambda>w _. w \<noteq> None) (e1 # e2 # e3 # h)" if "\<not> ctx_Done v h" for e1 e2 e3 m
  proof (rule Suc.IH [OF Suc.prems(1)])
    have "length h < N" using that Suc.prems(1) by (meson hasDeadline_def not_le)
    then show "0 < fuel" "N < length (e1 # e2 # e3 # h) + fuel" using Suc.prems(3) by auto
  qed
  then show ?case
    by (simp add: wp_rules GetLVMLogicalVolumeSnapshot_def split: sum.split option.split)
qed simp

lemma WaitForStatusUpdate_returns:
  assumes "hasDeadline v N" "N < fuel"
  shows "wp (WaitForStatusUpdate v fuel name namespace sz ext) (\<lambda>w _. w \<noteq> None) h"
proof (cases "AlignSizeToExtent (quantity_fmt v) sz ext")
  case (Inr q)
  show ?thesis
    unfolding WaitForStatusUpdate_def Inr sum.case
    by (rule waitLLV_returns [OF assms(1)]) (use assms(2) in auto)
qed (simp add: WaitForStatusUpdate_def)

lemma WaitForLLVSStatusUpdate_returns:
  assumes "hasDeadline v N" "N < fuel"
  shows "wp (WaitForLLVSStatusUpdate v fuel name) (\<lambda>w _. w \<noteq> None) h"
  unfolding WaitForLLVSStatusUpdate_def
  by (rule waitLLVS_returns [OF assms(1)]) (use assms(2) in auto)

end
