(* ===== verification/CSI_Planning.thy ===== *)
theory CSI_Planning
  imports CSI_Effects
begin

text \<open>
  What \<^verbatim>\<open>CreateVolume\<close> decides before it writes: the plan only reads, and it names a volume group of the
  storage class with an aligned size.
\<close>

section \<open>The plan\<close>

definition kindOf :: "content_source \<Rightarrow> llv_source" where
  "kindOf src = (case src of
     SrcSnapshot n \<Rightarrow> \<lparr>source_Kind = sourceVolumeKindSnapshot, source_Name = n\<rparr>
   | SrcVolume n \<Rightarrow> \<lparr>source_Kind = sourceVolumeKindVolume, source_Name = n\<rparr>
   | SrcUnset \<Rightarrow> \<lparr>source_Kind = '''', source_Name = ''''\<rparr>)"

definition requestedQuantity :: "csi_env \<Rightarrow> CreateVolumeRequest \<Rightarrow> quantity" where
  "requestedQuantity v req = NewQuantity (quantity_fmt v) (getRequiredBytes (cv_RequiredBytes req))"

text \<open>
  A plain volume gets the requested size rounded up to the extent of its group, and for an \<^verbatim>\<open>Immediate\<close>
  thick volume that size is within the space the driver found free; a volume with a content source is thin and
  names that source.
\<close>

definition planOk :: "csi_env \<Rightarrow> CreateVolumeRequest \<Rightarrow> LVG list \<Rightarrow> strmap \<Rightarrow> plan \<Rightarrow> bool" where
  "planOk v req lvgs params p \<longleftrightarrow>
     (case cv_ContentSource req of
        None \<Rightarrow> sourceVolume p = None \<and> (\<exists>lvg. selectedLVG p = Some lvg \<and> lvg \<in> set lvgs \<and>
          alignToLVGExtentOrStatusErr (quantity_fmt v) (requestedQuantity v req) lvg = Inr (p_llvSize p) \<and>
          (\<exists>free. chooseNode req lvgs params = Inr (preferredNode p, free) \<and> SelectLVG lvgs (preferredNode p) = Inr lvg \<and>
             fitsFreeSpace (mget (cv_Parameters req) BindingModeKey) (mget (cv_Parameters req) LvmTypeKey) (p_llvSize p) free))
      | Some src \<Rightarrow> mget (cv_Parameters req) LvmTypeKey = LVMTypeThin \<and> sourceVolume p = Some (kindOf src) \<and>
          (case selectedLVG p of None \<Rightarrow> src = SrcUnset | Some lvg \<Rightarrow> lvg \<in> set lvgs \<and>
             (getRequiredBytes (cv_RequiredBytes req) \<noteq> 0 \<longrightarrow>
                alignToLVGExtentOrStatusErr (quantity_fmt v) (requestedQuantity v req) lvg = Inr (p_llvSize p))))"

lemma planOk_plain:
  assumes "planOk v req lvgs params p" "cv_ContentSource req = None" "selectedLVG p = Some lvg"
  shows "alignToLVGExtentOrStatusErr (quantity_fmt v) (requestedQuantity v req) lvg = Inr (p_llvSize p) \<and>
    (\<exists>free. chooseNode req lvgs params = Inr (preferredNode p, free) \<and> SelectLVG lvgs (preferredNode p) = Inr lvg \<and>
       fitsFreeSpace (mget (cv_Parameters req) BindingModeKey) (mget (cv_Parameters req) LvmTypeKey) (p_llvSize p) free)"
  using assms by (auto simp: planOk_def)

lemma planPlain_ok:
  assumes "planPlain v req lvgs params (requestedQuantity v req) = Inr p" "cv_ContentSource req = None"
  shows "planOk v req lvgs params p"
  using assms
  by (auto simp: planPlain_def planOk_def dest: SelectLVG_member split: sum.splits prod.splits if_splits)

lemma sizeForSource_ok:
  "sizeForSource v sz src lvg = Inr q \<Longrightarrow>
   (q_Value sz = 0 \<and> q = src) \<or>
   (q_Value sz \<noteq> 0 \<and> alignToLVGExtentOrStatusErr (quantity_fmt v) sz lvg = Inr q \<and> q_Value src \<le> q_Value q)"
  by (auto simp: sizeForSource_def split: if_splits sum.splits)

lemma planFromSnapshot_post:
  "wp (planFromSnapshot v lvgs params (requestedQuantity v req) n) (\<lambda>r h'.
     (\<exists>calls. h' = calls @ h \<and> (\<forall>e \<in> set calls. \<not> csiWrite e)) \<and>
     (\<forall>p. r = Inr p \<longrightarrow> cv_ContentSource req = Some (SrcSnapshot n) \<longrightarrow>
        mget (cv_Parameters req) LvmTypeKey = LVMTypeThin \<longrightarrow> planOk v req lvgs params p)) h"
  unfolding planFromSnapshot_def GetLVMLogicalVolumeSnapshot_def
  by (auto simp: wp_rules planOk_def kindOf_def requestedQuantity_def
      dest!: SelectLVGByActualName_member sizeForSource_ok split: sum.split option.split)

lemma planFromVolume_post:
  "wp (planFromVolume v lvgs params (requestedQuantity v req) n) (\<lambda>r h'.
     (\<exists>calls. h' = calls @ h \<and> (\<forall>e \<in> set calls. \<not> csiWrite e)) \<and>
     (\<forall>p. r = Inr p \<longrightarrow> cv_ContentSource req = Some (SrcVolume n) \<longrightarrow>
        mget (cv_Parameters req) LvmTypeKey = LVMTypeThin \<longrightarrow> planOk v req lvgs params p)) h"
  unfolding planFromVolume_def GetLVMLogicalVolume_def
  by (auto simp: wp_rules planOk_def kindOf_def requestedQuantity_def
      dest!: SelectLVGByName_member sizeForSource_ok split: sum.split option.split)

lemma planVolume_post:
  "wp (planVolume v req lvgs params) (\<lambda>r h'.
     (\<exists>calls. h' = calls @ h \<and> (\<forall>e \<in> set calls. \<not> csiWrite e)) \<and>
     (\<forall>p. r = Inr p \<longrightarrow> planOk v req lvgs params p)) h"
proof (cases "cv_ContentSource req")
  case None
  then show ?thesis
    using planPlain_ok by (auto simp: planVolume_def requestedQuantity_def)
next
  case (Some src)
  show ?thesis
  proof (cases "mget (cv_Parameters req) LvmTypeKey = LVMTypeThin")
    case True
    show ?thesis
      unfolding planVolume_def requestedQuantity_def [symmetric] Let_def Some option.case
      using True Some
      by (cases src) (auto intro: wp_mono [OF planFromSnapshot_post [where h = h]] wp_mono [OF planFromVolume_post [where h = h]]
          simp: planOk_def kindOf_def)
  qed (simp add: planVolume_def Some)
qed

section \<open>From the plan to the volume\<close>

text \<open>What a volume the driver asks the API server to create looks like.\<close>

definition createOk :: "csi_env \<Rightarrow> CreateVolumeRequest \<Rightarrow> csi_event list \<Rightarrow> LLV \<Rightarrow> bool" where
  "createOk v req h llv \<longleftrightarrow>
     Name llv = cv_Name req \<and> ActualLVNameOnTheNode llv = cv_Name req \<and>
     Finalizers llv = [SDSLocalVolumeCSIFinalizer] \<and> llv_Type llv = mget (cv_Parameters req) LvmTypeKey \<and>
     llv_VolumeCleanup llv = cleanupField (mget (cv_Parameters req) csi_LVMVolumeCleanupParamKey) \<and>
     (llv_VolumeCleanup llv \<noteq> None \<longrightarrow> VolumeCleanupEnabled (buildEdition v)) \<and>
     (\<exists>lvgs vgs lvg pool p.
        CListLVG (Inr lvgs) \<in> set h \<and> lvg \<in> set lvgs \<and>
        yaml_VolumeGroups v (mget (cv_Parameters req) LVMVolumeGroupKey) = Some vgs \<and>
        fmlookup (lvgParameters vgs) (Name lvg) = Some pool \<and>
        planOk v req (storageClassLVGs (lvgParameters vgs) lvgs) (lvgParameters vgs) p \<and>
        selectedLVG p = Some lvg \<and> LVMVolumeGroupName llv = Name lvg \<and>
        llv_Size llv = q_String (p_llvSize p) \<and> llv_Source llv = sourceVolume p \<and>
        llv_Thin llv = (if llv_Type llv = LVMTypeThin then Some pool else None))"

lemma planOk_selected: "planOk v req lvgs params p \<Longrightarrow> selectedLVG p = Some lvg \<Longrightarrow> lvg \<in> set lvgs"
  by (auto simp: planOk_def split: option.splits)

lemma GetLLVSpec_simps [simp]:
  "ActualLVNameOnTheNode (GetLLVSpec n lvg params t sz c src vc) = n"
  "llv_Type (GetLLVSpec n lvg params t sz c src vc) = t"
  "llv_Size (GetLLVSpec n lvg params t sz c src vc) = q_String sz"
  "LVMVolumeGroupName (GetLLVSpec n lvg params t sz c src vc) = Name lvg"
  "llv_Source (GetLLVSpec n lvg params t sz c src vc) = src"
  "llv_Thin (GetLLVSpec n lvg params t sz c src vc) = (if t = LVMTypeThin then Some (mget params (Name lvg)) else None)"
  "llv_VolumeCleanup (GetLLVSpec n lvg params t sz c src vc) = cleanupField vc"
  by (simp_all add: GetLLVSpec_def objmeta.defs LLV.defs cleanupField_def)

lemma spec_createOk:
  assumes "CListLVG (Inr lvgs) \<in> set h"
    "yaml_VolumeGroups v (mget (cv_Parameters req) LVMVolumeGroupKey) = Some vgs"
    "planOk v req (storageClassLVGs (lvgParameters vgs) lvgs) (lvgParameters vgs) p" "selectedLVG p = Some lvg"
    "\<not> (\<not> VolumeCleanupEnabled (buildEdition v) \<and> mget (cv_Parameters req) csi_LVMVolumeCleanupParamKey \<noteq> '''')"
  shows "createOk v req h ((GetLLVSpec (cv_Name req) lvg (lvgParameters vgs) (mget (cv_Parameters req) LvmTypeKey) (p_llvSize p)
     c (sourceVolume p) (mget (cv_Parameters req) csi_LVMVolumeCleanupParamKey))\<lparr>Name := cv_Name req,
       Finalizers := [SDSLocalVolumeCSIFinalizer]\<rparr>)"
proof -
  have "lvg \<in> set lvgs" "fmlookup (lvgParameters vgs) (Name lvg) \<noteq> None"
    using planOk_selected [OF assms(3,4)] by (auto simp: storageClassLVGs_in_params)
  then show ?thesis
    unfolding createOk_def using assms
    by (auto simp: mget_def cleanupField_def intro!: exI [of _ lvgs] exI [of _ vgs] exI [of _ lvg] exI [of _ p])
qed

section \<open>The shape of a run of CreateVolume\<close>

abbreviation cleanupParam :: "CreateVolumeRequest \<Rightarrow> string" where
  "cleanupParam req \<equiv> mget (cv_Parameters req) csi_LVMVolumeCleanupParamKey"

text \<open>
  From the history \<^term>\<open>h\<close> of reads: nothing is written and there is an error, or one volume is created; unless
  the API server refuses it for another reason than that it exists, the driver polls, and then is still
  waiting, or has an error and deletes the volume, or reports the size it has read last.
\<close>

inductive createRun :: "csi_env \<Rightarrow> CreateVolumeRequest \<Rightarrow> csi_event list \<Rightarrow>
    (csi_err + csi_volume) option \<Rightarrow> csi_event list \<Rightarrow> bool" for v req h where
  rejected: "createRun v req h (Some (Inl e)) h"
| refused: "createOk v req h llv \<Longrightarrow> e \<noteq> AlreadyExists \<Longrightarrow>
    createRun v req h (Some (Inl (API e))) (CCreateLLV llv (Some e) # h)"
| waiting: "createOk v req h llv \<Longrightarrow> x = None \<or> x = Some AlreadyExists \<Longrightarrow> \<forall>e \<in> set calls. \<not> csiWrite e \<Longrightarrow>
    createRun v req h None (calls @ CCreateLLV llv x # h)"
| rolledBack: "createOk v req h llv \<Longrightarrow> x = None \<or> x = Some AlreadyExists \<Longrightarrow> \<forall>e \<in> set calls. \<not> csiWrite e \<Longrightarrow>
    deletedInOrder (cv_Name req) (cleanupParam req) (calls @ CCreateLLV llv x # h) d h' \<Longrightarrow>
    createRun v req h (Some (Inl e)) h'"
| created: "createOk v req h llv \<Longrightarrow> x = None \<or> x = Some AlreadyExists \<Longrightarrow> \<forall>e \<in> set calls. \<not> csiWrite e \<Longrightarrow>
    llv_Status llv' = Some st \<Longrightarrow>
    Phase st = LLVStatusCreated \<Longrightarrow> DeletionTimestamp llv' = None \<Longrightarrow>
    CListLVG (Inr listed) \<in> set h \<Longrightarrow> lvg \<in> set listed \<Longrightarrow>
    planOk v req lvgs params p \<Longrightarrow> selectedLVG p = Some lvg \<Longrightarrow> llv_Size llv = q_String (p_llvSize p) \<Longrightarrow>
    AlignSizeToExtent (quantity_fmt v) (p_llvSize p) (SafeExtentSize (ExtentSize lvg)) = Inr q \<Longrightarrow>
    q_Value q \<le> ActualSize st \<Longrightarrow> CapacityBytes vol = ActualSize st \<Longrightarrow> VolumeId vol = cv_Name req \<Longrightarrow>
    AccessibleTopology vol = [fmupd TopologyKey (preferredNode p) fmempty] \<Longrightarrow>
    createRun v req h (Some (Inr vol)) (CGetLLV ('''', cv_Name req) (Inr llv') # calls @ CCreateLLV llv x # h)"

inductive_cases createRun_okE: "createRun v req h (Some (Inr vol)) h'"
inductive_cases createRun_errE: "createRun v req h (Some (Inl e)) h'"

lemma waitAndReport_post:
  assumes "createOk v req h llv" "x = None \<or> x = Some AlreadyExists"
    "CListLVG (Inr listed) \<in> set h" "lvg \<in> set listed"
    "planOk v req lvgs params p" "selectedLVG p = Some lvg" "llv_Size llv = q_String (p_llvSize p)"
  shows "wp (waitAndReport v fuel req lvg p llvSpec (cleanupParam req)) (createRun v req h) (CCreateLLV llv x # h)"
  unfolding waitAndReport_def wp_bind
proof (rule wp_mono [OF WaitForStatusUpdate_post])
  fix w h'
  assume w: "(\<exists>q. AlignSizeToExtent (quantity_fmt v) (p_llvSize p) (SafeExtentSize (ExtentSize lvg)) = Inr q \<and>
      polledLLV ('''', cv_Name req) (q_Value q) (CCreateLLV llv x # h) w h') \<or>
    h' = CCreateLLV llv x # h \<and> (\<exists>e. w = Some (Inl e, 0))"
  then obtain calls where calls: "h' = calls @ CCreateLLV llv x # h" "\<forall>e \<in> set calls. \<not> csiWrite e"
    by (auto simp: polledLLV_def)
  show "wp (case w of None \<Rightarrow> State_Monad.return None
     | Some (Inl e, _) \<Rightarrow> do {
         _ \<leftarrow> DeleteLVMLogicalVolume v (cv_Name req) (cleanupParam req);
         State_Monad.return (Some (Inl e))
       }
     | Some (Inr createdLLV, _) \<Rightarrow>
         State_Monad.return (Some (Inr
           \<lparr>CapacityBytes = fst (resolveCapacityBytes (Some createdLLV) (p_llvSize p)),
            VolumeId = cv_Name req,
            VolumeContext = volumeContextOf req lvg llvSpec,
            vol_ContentSource = cv_ContentSource req,
            AccessibleTopology = [fmupd TopologyKey (preferredNode p) fmempty]\<rparr>))) (createRun v req h) h'"
  proof (cases w)
    case None
    with calls assms(1,2) show ?thesis by (auto intro: waiting)
  next
    case (Some a)
    obtain res n where a: "a = (res, n)" by (cases a)
    show ?thesis
    proof (cases res)
      case (Inl e)
      with Some a assms(1,2) calls show ?thesis
        by (auto intro!: wp_mono [OF DeleteLVMLogicalVolume_post] intro: rolledBack)
    next
      case (Inr llv')
      with w Some a obtain q rest where
        *: "AlignSizeToExtent (quantity_fmt v) (p_llvSize p) (SafeExtentSize (ExtentSize lvg)) = Inr q"
        "readyLLV (q_Value q) llv'" "h' = CGetLLV ('''', cv_Name req) (Inr llv') # rest @ CCreateLLV llv x # h"
        "\<forall>e \<in> set rest. \<not> csiWrite e"
        by (auto simp: polledLLV_def)
      then obtain st where **: "llv_Status llv' = Some st" "Phase st = LLVStatusCreated" "q_Value q \<le> ActualSize st"
        "DeletionTimestamp llv' = None"
        by (auto simp: readyLLV_def)
      show ?thesis
        unfolding Some a Inr option.case prod.case sum.case wp_return *(3)
        by (rule created [OF assms(1,2) *(4) **(1,2,4) assms(3-7) *(1) **(3)]) (simp_all add: resolveCapacityBytes_def **(1))
    qed
  qed
qed

lemma provision_post:
  assumes "CListLVG (Inr lvgs) \<in> set h"
    "yaml_VolumeGroups v (mget (cv_Parameters req) LVMVolumeGroupKey) = Some vgs"
    "planOk v req (storageClassLVGs (lvgParameters vgs) lvgs) (lvgParameters vgs) p"
  shows "wp (provision v fuel req (lvgParameters vgs) p) (createRun v req h) h"
proof (cases "\<not> VolumeCleanupEnabled (buildEdition v) \<and> cleanupParam req \<noteq> ''''")
  case False
  show ?thesis
  proof (cases "selectedLVG p")
    case None
    with False show ?thesis unfolding provision_def Let_def by (auto intro: rejected)
  next
    case (Some lvg)
    note ok = spec_createOk [OF assms Some False]
    have "lvg \<in> set lvgs"
      using planOk_selected [OF assms(3) Some] by (simp add: storageClassLVGs_in_params)
    with False ok Some assms(1,3) show ?thesis
      unfolding provision_def Let_def CreateLVMLogicalVolume_def
      by (auto simp: wp_rules split: option.split intro: refused intro!: waitAndReport_post)
  qed
qed (simp add: provision_def rejected)

lemma CreateVolume_post:
  "wp (CreateVolume v fuel req) (\<lambda>r h'. \<exists>calls. (\<forall>e \<in> set calls. \<not> csiWrite e) \<and> createRun v req (calls @ h) r h') h"
proof -
  have reject: "\<exists>calls. (\<forall>e \<in> set calls. \<not> csiWrite e) \<and> createRun v req (calls @ h) (Some (Inl e)) (cs @ h)"
    if "\<forall>e \<in> set cs. \<not> csiWrite e" for e cs
    using that by (blast intro: rejected)
  have plan: "wp (do {
       p \<leftarrow> planVolume v req (storageClassLVGs (lvgParameters vgs) lvgs) (lvgParameters vgs);
       (case p of Inl e \<Rightarrow> State_Monad.return (Some (Inl e)) | Inr p' \<Rightarrow> provision v fuel req (lvgParameters vgs) p')
     }) (\<lambda>r h'. \<exists>calls. (\<forall>e \<in> set calls. \<not> csiWrite e) \<and> createRun v req (calls @ h) r h') (CListLVG (Inr lvgs) # h)"
    if "yaml_VolumeGroups v (mget (cv_Parameters req) LVMVolumeGroupKey) = Some vgs" for vgs lvgs
    unfolding wp_bind
  proof (rule wp_mono [OF planVolume_post], clarify)
    fix r :: "csi_err + plan" and calls :: "csi_event list"
    assume calls: "\<forall>e \<in> set calls. \<not> csiWrite e"
      and p: "\<forall>p. r = Inr p \<longrightarrow> planOk v req (storageClassLVGs (lvgParameters vgs) lvgs) (lvgParameters vgs) p"
    let ?cs = "calls @ [CListLVG (Inr lvgs)]"
    have cs: "\<forall>e \<in> set ?cs. \<not> csiWrite e" using calls by simp
    show "wp (case r of Inl e \<Rightarrow> State_Monad.return (Some (Inl e)) | Inr p' \<Rightarrow> provision v fuel req (lvgParameters vgs) p')
      (\<lambda>r h'. \<exists>calls. (\<forall>e \<in> set calls. \<not> csiWrite e) \<and> createRun v req (calls @ h) r h') (calls @ CListLVG (Inr lvgs) # h)"
    proof (cases r)
      case (Inl e)
      then show ?thesis using reject [OF cs] by simp
    next
      case (Inr p')
      have "wp (provision v fuel req (lvgParameters vgs) p') (createRun v req (?cs @ h)) (?cs @ h)"
        by (rule provision_post) (use p Inr that in auto)
      then show ?thesis
        unfolding Inr sum.case by (simp, elim wp_mono) (use cs in \<open>force intro: exI [of _ ?cs]\<close>)
    qed
  qed
  show ?thesis
    unfolding CreateVolume_def GetStorageClassLVGsAndParameters_def GetLVGList_def
    using plan reject [of "[]"] reject [of "[_]"]
    by (auto simp: wp_rules split: option.split sum.split)
qed

end
