(* ===== verification/CSI_Properties.thy ===== *)
theory CSI_Properties
  imports CSI_Planning
begin

text \<open>
  The properties of the controller service of the CSI driver, over every behaviour of the API server, and their
  witnesses.
\<close>

section \<open>A small cluster for the witnesses\<close>

text \<open>
  One group \<^verbatim>\<open>vg-a\<close> with 40 MiB free on the node \<^verbatim>\<open>n1\<close>; every volume is reported as Created with
  36 MiB.  A context of 60 calls.
\<close>

definition demoGroup :: LVG where
  "demoGroup = objmeta.extend (meta0 ''vg-a'')
     (LVG.fields ''data'' ''n1'' [] [''n1''] 104857600 41943040 62914560 4194304
       [\<lparr>tp_Name = ''pool'', AvailableSpace = 104857600\<rparr>])"

definition demoVol :: "string \<Rightarrow> LLV" where
  "demoVol n = objmeta.extend (meta0 n)
     (LLV.fields n ''Thin'' ''36Mi'' ''vg-a'' None (Some ''pool'') None None
       (Some \<lparr>Phase = ''Created'', ActualSize = 37748736, llv_Reason = ''''\<rparr>))"

definition demoSnap :: "string \<Rightarrow> LLVS" where
  "demoSnap n = objmeta.extend (meta0 n) (LLVS.fields n ''pvc-1''
     (Some \<lparr>llvs_Phase = ''Created'', llvs_Size = \<lparr>q_Value = 37748736, q_String = ''36Mi''\<rparr>, UsedSize = 0,
        NodeName = ''n1'', llvs_ActualVGNameOnTheNode = ''data'', llvs_Reason = ''''\<rparr>))"

definition demoCSI :: csi_env where
  "demoCSI = \<lparr>
     ccl_Get_LLV = (\<lambda>k h. Inr ((demoVol (snd k))\<lparr>Finalizers := [SDSLocalVolumeCSIFinalizer]\<rparr>)),
     ccl_Get_LLVS = (\<lambda>k h. Inr (demoSnap (snd k))),
     ccl_Get_PV = (\<lambda>k h. Inl NotFound),
     ccl_Get_LSC = (\<lambda>k h. Inl NotFound),
     ccl_Get_LVG = (\<lambda>k h. Inr demoGroup),
     ccl_List_LVG = (\<lambda>h. Inr [demoGroup]),
     ccl_Create_LLV = (\<lambda>l h. None),
     ccl_Create_LLVS = (\<lambda>l h. None),
     ccl_Update_LLV = (\<lambda>l h. Inr l),
     ccl_Update_LLVS = (\<lambda>l h. Inr l),
     ccl_Delete_LLV = (\<lambda>k h. None),
     ccl_Delete_LLVS = (\<lambda>k h. None),
     ctx_Done = (\<lambda>h. 60 \<le> length h),
     time_Now_Unix = (\<lambda>h. 7),
     quantity_fmt = (\<lambda>n. if n = 37748736 then ''36Mi'' else ''1''),
     ParseQuantity = (\<lambda>t. Some \<lparr>q_Value = 37748736, q_String = t\<rparr>),
     yaml_VolumeGroups = (\<lambda>t. Some [\<lparr>vg_Name = ''vg-a'', vg_PoolName = ''pool''\<rparr>]),
     buildEdition = CE,
     publishInfoVolumeName = ''volume''\<rparr>"

definition demoReq :: CreateVolumeRequest where
  "demoReq = \<lparr>cv_Name = ''pvc-1'',
     cv_Parameters = fmupd TypeKey Lvm (fmupd LvmTypeKey LVMTypeThick (fmupd BindingModeKey BindingModeI
       (fmupd LVMVolumeGroupKey ''- name: vg-a'' fmempty))),
     cv_VolumeCapabilities = Some [''rw''], cv_RequiredBytes = Some 36700160, cv_ContentSource = None, cv_Preferred = None\<rparr>"

section \<open>What CreateVolume creates\<close>

lemma createOk_mono: "createOk v req h llv \<Longrightarrow> set h \<subseteq> set h' \<Longrightarrow> createOk v req h' llv"
  unfolding createOk_def by blast

lemma deletedInOrder_extends: "deletedInOrder n c h d h' \<Longrightarrow> set h \<subseteq> set h'"
  by (auto simp: deletedInOrder_def)

lemma deletedInOrder_creates: "deletedInOrder n c h d h' \<Longrightarrow> CCreateLLV llv x \<in> set h' \<Longrightarrow> CCreateLLV llv x \<in> set h"
  unfolding deletedInOrder_def by fastforce

lemma createRun_extends: "createRun v req h r h' \<Longrightarrow> set h \<subseteq> set h'"
proof (induction rule: createRun.induct)
  case (rolledBack llv x calls d h' e)
  then show ?case using deletedInOrder_extends [OF rolledBack(4)] by auto
qed auto

lemma createRun_creates:
  assumes "createRun v req h r h'" "\<forall>e \<in> set h. \<not> csiWrite e" "CCreateLLV llv x \<in> set h'"
  shows "createOk v req h llv"
  using assms(1)
proof cases
  case (rolledBack llv1 x1 calls d e)
  then have "CCreateLLV llv x \<in> set (calls @ CCreateLLV llv1 x1 # h)"
    using assms(3) deletedInOrder_creates by blast
  then show ?thesis using rolledBack assms(2) by auto
qed (use assms(2,3) in auto)

lemma CreateVolume_run:
  assumes "run_state (CreateVolume v fuel req) [] = (r, h)"
  obtains calls where "\<forall>e \<in> set calls. \<not> csiWrite e" "createRun v req calls r h"
  using wp_runD [OF CreateVolume_post assms] by auto

lemma CreateVolume_creates:
  assumes "run_state (CreateVolume v fuel req) [] = (r, h)" "CCreateLLV llv x \<in> set h"
  shows "createOk v req h llv"
proof -
  obtain calls where c: "\<forall>e \<in> set calls. \<not> csiWrite e" "createRun v req calls r h"
    using CreateVolume_run [OF assms(1)] .
  show ?thesis
    by (rule createOk_mono [OF createRun_creates [OF c(2,1) assms(2)] createRun_extends [OF c(2)]])
qed

text \<open>The volumes a history creates.\<close>

primrec createsOf :: "csi_event list \<Rightarrow> (LLV \<times> kerr option) list" where
  "createsOf [] = []"
| "createsOf (e # h) = (case e of CCreateLLV llv x \<Rightarrow> (llv, x) # createsOf h | _ \<Rightarrow> createsOf h)"

lemma createsOf_iff: "(llv, x) \<in> set (createsOf h) \<longleftrightarrow> CCreateLLV llv x \<in> set h"
proof (induction h)
  case (Cons e h)
  then show ?case by (cases e) simp_all
qed simp

text \<open>C19: every LVMLogicalVolume that \<^verbatim>\<open>CreateVolume\<close> asks the API server to create has the requested
  name, carries the driver's finalizer and the requested type, lies in a volume group that the storage class names
  and that the API server listed, with the pool the storage class gives for it, and has the size the plan fixed:
  the request rounded up to the extent of that group, or, for a restored or cloned volume, which is thin and names
  its source, that rounded request or the size of the source.\<close>

theorem create_volume_is_justified:
  assumes "run_state (CreateVolume v fuel req) [] = (r, h)" "CCreateLLV llv x \<in> set h"
  shows "createOk v req h llv"
  by (rule CreateVolume_creates [OF assms])

lemma create_volume_is_justified_witness:
  "\<exists>llv h. snd (run_state (CreateVolume demoCSI 5 demoReq) []) = h \<and> CCreateLLV llv None \<in> set h \<and>
     llv_Size llv = ''36Mi'' \<and> createOk demoCSI demoReq h llv"
proof -
  let ?run = "run_state (CreateVolume demoCSI 5 demoReq) []"
  have "map (\<lambda>(llv, x). (llv_Size llv, x)) (createsOf (snd ?run)) = [(''36Mi'', None)]" by code_simp
  then obtain llv where "(llv, None) \<in> set (createsOf (snd ?run))" "llv_Size llv = ''36Mi''" by auto
  then show ?thesis
    using create_volume_is_justified [of demoCSI 5 demoReq "fst ?run" "snd ?run" llv None] by (auto simp: createsOf_iff)
qed

section \<open>Size and space\<close>

lemma onDistinctNodes_filter: "onDistinctNodes lvgs \<Longrightarrow> onDistinctNodes (filter P lvgs)"
  unfolding onDistinctNodes_def by (induction lvgs) auto

text \<open>The request leaves room for the rounding, and the group's free space is a size.\<close>

definition roomToRound :: "CreateVolumeRequest \<Rightarrow> LVG \<Rightarrow> bool" where
  "roomToRound req lvg \<longleftrightarrow> 0 \<le> VGFree lvg \<and> 0 \<le> getRequiredBytes (cv_RequiredBytes req) \<and>
     getRequiredBytes (cv_RequiredBytes req) + 2 * SafeExtentSize (ExtentSize lvg) \<le> 2 ^ 63"

lemma align_lvg:
  assumes "roomToRound req lvg" "alignToLVGExtentOrStatusErr fmt (NewQuantity fmt (getRequiredBytes (cv_RequiredBytes req))) lvg = Inr q"
  shows "q = NewQuantity fmt (q_Value q)" "SafeExtentSize (ExtentSize lvg) dvd q_Value q"
    "getRequiredBytes (cv_RequiredBytes req) \<le> q_Value q"
    "q_Value q < getRequiredBytes (cv_RequiredBytes req) + SafeExtentSize (ExtentSize lvg)"
proof -
  let ?b = "getRequiredBytes (cv_RequiredBytes req)" and ?e = "SafeExtentSize (ExtentSize lvg)"
  have "AlignSizeToExtent fmt (NewQuantity fmt ?b) ?e = Inr (NewQuantity fmt ((?b + ?e - 1) div ?e * ?e))"
  proof (rule align_value [of _ "NewQuantity fmt _", unfolded q_Value_NewQuantity])
    show "0 < ?e" by (rule SafeExtentSize_pos)
    then show "0 \<le> ?b" "?b + ?e \<le> 2 ^ 63" using assms(1) unfolding roomToRound_def by linarith+
  qed
  then have "q = NewQuantity fmt ((?b + ?e - 1) div ?e * ?e)"
    using assms(2) by (simp add: alignToLVGExtentOrStatusErr_def)
  with round_up_bounds [OF SafeExtentSize_pos [of "ExtentSize lvg"], of ?b]
  show "q = NewQuantity fmt (q_Value q)" "?e dvd q_Value q" "?b \<le> q_Value q" "q_Value q < ?b + ?e" by auto
qed

lemma immediate_fits:
  assumes "chooseNode req lvgs params = Inr (node, free)" "SelectLVG lvgs node = Inr lvg"
    "mget (cv_Parameters req) BindingModeKey = BindingModeI" "mget (cv_Parameters req) LvmTypeKey = LVMTypeThick"
    "onDistinctNodes lvgs" "0 \<le> VGFree lvg"
  shows "free \<le> VGFree lvg"
proof -
  have get: "GetNodeWithMaxFreeSpace lvgs params LVMTypeThick = Inr (node, free)"
    using assms(1,3,4) by (simp add: chooseNode_def)
  obtain p where inv: "maxFreeInv params LVMTypeThick lvgs (node, p, free)"
    using GetNodeWithMaxFreeSpace_inv [OF _ get] by auto
  then consider "free = 0" | l ns where "l \<in> set lvgs" "freeSpaceOf params LVMTypeThick 0 l = Inr free" "lvg_Nodes l = node # ns"
    by (auto simp: maxFreeInv_def)
  then show ?thesis
  proof cases
    case 2
    then have "l = lvg" using SelectLVG_distinct [OF assms(5) 2(1,3)] assms(2) by simp
    with 2(2) show ?thesis by (simp add: freeSpaceOf_def)
  qed (use assms(6) in simp)
qed



section \<open>How CreateVolume ends\<close>

text \<open>C24: a successful \<^verbatim>\<open>CreateVolume\<close> ends with a read of the volume in phase Created and not being deleted,
  and reports the size of the volume that read shows, under the requested name; when the request leaves room for the
  rounding, a request for a positive size is covered by it.\<close>

theorem created_volume_is_ready:
  assumes "run_state (CreateVolume v fuel req) [] = (Some (Inr vol), h)" "0 < getRequiredBytes (cv_RequiredBytes req)"
    "\<And>lvgs. CListLVG (Inr lvgs) \<in> set h \<Longrightarrow> list_all (roomToRound req) lvgs"
  shows "\<exists>llv st rest. h = CGetLLV ('''', cv_Name req) (Inr llv) # rest \<and> llv_Status llv = Some st \<and>
    Phase st = LLVStatusCreated \<and> DeletionTimestamp llv = None \<and> VolumeId vol = cv_Name req \<and>
    CapacityBytes vol = ActualSize st \<and> getRequiredBytes (cv_RequiredBytes req) \<le> CapacityBytes vol"
proof -
  obtain calls where "createRun v req calls (Some (Inr vol)) h"
    using CreateVolume_run [OF assms(1)] .
  then show ?thesis
  proof (rule createRun_okE)
    fix llv x rest llv' st lvgs params p lvg q and listed :: "LVG list"
    assume h: "h = CGetLLV ('''', cv_Name req) (Inr llv') # rest @ CCreateLLV llv x # calls"
      and st: "llv_Status llv' = Some st" "Phase st = LLVStatusCreated" "DeletionTimestamp llv' = None"
      and l: "CListLVG (Inr listed) \<in> set calls" "lvg \<in> set listed"
      and plan: "planOk v req lvgs params p" "selectedLVG p = Some lvg"
      and q: "AlignSizeToExtent (quantity_fmt v) (p_llvSize p) (SafeExtentSize (ExtentSize lvg)) = Inr q" "q_Value q \<le> ActualSize st"
      and vol: "CapacityBytes vol = ActualSize st" "VolumeId vol = cv_Name req"
    have room: "roomToRound req lvg"
      using assms(3) [of listed] l unfolding h by (auto simp: list_all_iff)
    have "alignToLVGExtentOrStatusErr (quantity_fmt v) (requestedQuantity v req) lvg = Inr (p_llvSize p)"
      using plan assms(2) by (auto simp: planOk_def split: option.splits)
    note b = align_lvg [OF room this [unfolded requestedQuantity_def]]
    have "AlignSizeToExtent (quantity_fmt v) (p_llvSize p) (SafeExtentSize (ExtentSize lvg)) =
      Inr (NewQuantity (quantity_fmt v) ((q_Value (p_llvSize p) + SafeExtentSize (ExtentSize lvg) - 1) div
        SafeExtentSize (ExtentSize lvg) * SafeExtentSize (ExtentSize lvg)))"
      by (rule align_value [OF SafeExtentSize_pos]) (use b room in \<open>unfold roomToRound_def, linarith+\<close>)
    then have "q_Value (p_llvSize p) \<le> q_Value q"
      using q(1) round_up_bounds(1) [OF SafeExtentSize_pos, of "q_Value (p_llvSize p)" "ExtentSize lvg"] by auto
    then show ?thesis
      using h st vol q(2) b(3) by auto
  qed
qed

lemma created_volume_is_ready_witness:
  "\<exists>vol. fst (run_state (CreateVolume demoCSI 5 demoReq) []) = Some (Inr vol) \<and> CapacityBytes vol = 37748736 \<and>
     36700160 \<le> CapacityBytes vol"
proof -
  let ?run = "run_state (CreateVolume demoCSI 5 demoReq) []"
  have "case fst ?run of Some (Inr vol) \<Rightarrow> CapacityBytes vol = 37748736 | _ \<Rightarrow> False" by code_simp
  then obtain vol where vol: "fst ?run = Some (Inr vol)" "CapacityBytes vol = 37748736"
    by (auto split: option.splits sum.splits)
  have all: "list_all (\<lambda>e. case e of CListLVG (Inr lvgs) \<Rightarrow> list_all (roomToRound demoReq) lvgs | _ \<Rightarrow> True) (snd ?run)"
    by code_simp
  have room: "list_all (roomToRound demoReq) lvgs" if "CListLVG (Inr lvgs) \<in> set (snd ?run)" for lvgs
    using all that unfolding list_all_iff by fastforce
  have "getRequiredBytes (cv_RequiredBytes demoReq) = 36700160" by code_simp
  then show ?thesis
    using created_volume_is_ready [of demoCSI 5 demoReq vol "snd ?run"] vol room by (auto simp: prod_eq_iff)
qed


definition failingCSI :: csi_env where
  "failingCSI = demoCSI\<lparr>ccl_Get_LLV := (\<lambda>k h. Inr ((demoVol (snd k))\<lparr>Finalizers := [SDSLocalVolumeCSIFinalizer],
     llv_Status := Some \<lparr>Phase = ''Failed'', ActualSize = 0, llv_Reason = ''no space''\<rparr>\<rparr>))\<rparr>"


section \<open>Every call returns\<close>

lemma waitAndReport_returns:
  assumes "hasDeadline v N" "N < fuel"
  shows "wp (waitAndReport v fuel req lvg p spec c) (\<lambda>r _. r \<noteq> None) h"
  unfolding waitAndReport_def wp_bind
  by (rule wp_mono [OF WaitForStatusUpdate_returns [OF assms]]) (auto split: sum.split)

lemma provision_returns:
  assumes "hasDeadline v N" "N < fuel"
  shows "wp (provision v fuel req params p) (\<lambda>r _. r \<noteq> None) h"
  unfolding provision_def Let_def CreateLVMLogicalVolume_def
  using waitAndReport_returns [OF assms] by (auto simp: wp_rules split: option.split)

lemma CreateVolume_returns:
  assumes "hasDeadline v N" "N < fuel"
  shows "wp (CreateVolume v fuel req) (\<lambda>r _. r \<noteq> None) h"
proof -
  have "wp (planVolume v req lvgs params) (\<lambda>r. wp (case r of Inl e \<Rightarrow> State_Monad.return (Some (Inl e))
      | Inr p' \<Rightarrow> provision v fuel req params p') (\<lambda>r _. r \<noteq> None)) h" for lvgs params h
    by (rule wp_mono [OF wp_trivial]) (use provision_returns [OF assms] in \<open>auto split: sum.split\<close>)
  then show ?thesis
    unfolding CreateVolume_def GetStorageClassLVGsAndParameters_def GetLVGList_def
    by (auto simp: wp_rules split: option.split sum.split)
qed

lemma ControllerExpandVolume_returns:
  assumes "hasDeadline v N" "N < fuel"
  shows "wp (ControllerExpandVolume v fuel volumeID b blk) (\<lambda>r _. r \<noteq> None) h"
proof -
  have "wp (WaitForStatusUpdate v fuel n ns q x) (\<lambda>w _. (case w of None \<Rightarrow> None | Some (Inl e, _) \<Rightarrow> Some (Inl e)
      | Some (Inr l, _) \<Rightarrow> Some (Inr \<lparr>exp_CapacityBytes = fst (resolveCapacityBytes (Some l) a),
          NodeExpansionRequired = \<not> blk\<rparr>)) \<noteq> None) h" for n ns q x a h
    by (rule wp_mono [OF WaitForStatusUpdate_returns [OF assms]]) (auto split: sum.split)
  then show ?thesis
    unfolding ControllerExpandVolume_def GetLVMLogicalVolume_def GetLVMVolumeGroup_def ExpandLVMLogicalVolume_def updateLLV_def Let_def
    by (auto simp: wp_rules split: option.split sum.split)
qed

lemma CreateSnapshot_returns:
  assumes "hasDeadline v N" "N < fuel"
  shows "wp (CreateSnapshot v fuel n vid ps) (\<lambda>r _. r \<noteq> None) h"
proof -
  have "wp (waitAndReportSnapshot v fuel n vid sz) (\<lambda>r _. r \<noteq> None) h" for sz h
    unfolding waitAndReportSnapshot_def wp_bind
    by (rule wp_mono [OF WaitForLLVSStatusUpdate_returns [OF assms]]) (auto split: option.split)
  then show ?thesis
    unfolding CreateSnapshot_def GetLVMLogicalVolume_def GetLVMVolumeGroup_def CreateLVMLogicalVolumeSnapshot_def Let_def
    by (auto simp: wp_rules split: option.split sum.split)
qed

text \<open>C26: a call whose context has a deadline returns: when the context is done after \<^term>\<open>N\<close> calls, more than
  \<^term>\<open>N\<close> rounds of polling are never needed by \<^verbatim>\<open>CreateVolume\<close>, \<^verbatim>\<open>ControllerExpandVolume\<close> and
  \<^verbatim>\<open>CreateSnapshot\<close>, whatever the API server and the node do.\<close>

theorem calls_return_by_deadline:
  assumes "\<forall>h. N \<le> length h \<longrightarrow> ctx_Done v h" "N < fuel"
  shows "(\<exists>r. fst (run_state (CreateVolume v fuel req) h) = Some r) \<and>
    (\<exists>r. fst (run_state (ControllerExpandVolume v fuel volumeID bytes blk) h) = Some r) \<and>
    (\<exists>r. fst (run_state (CreateSnapshot v fuel name volumeID params) h) = Some r)"
proof -
  have d: "hasDeadline v N" using assms(1) by (simp add: hasDeadline_def)
  show ?thesis
    using CreateVolume_returns [OF d assms(2), of req h] ControllerExpandVolume_returns [OF d assms(2), of volumeID bytes blk h]
      CreateSnapshot_returns [OF d assms(2), of name volumeID params h]
    by (simp add: wp_run)
qed

text \<open>A node that never gets to the volume: the wait lasts until the deadline.\<close>

definition idleCSI :: csi_env where
  "idleCSI = demoCSI\<lparr>ccl_Get_LLV := (\<lambda>k h. Inr ((demoVol (snd k))\<lparr>llv_Status := None\<rparr>))\<rparr>"

lemma calls_return_by_deadline_witness:
  "(\<exists>r. fst (run_state (CreateVolume idleCSI 61 demoReq) []) = Some r) \<and>
   (\<exists>r. fst (run_state (ControllerExpandVolume idleCSI 61 ''pvc-1'' (Some 1) False) []) = Some r) \<and>
   (\<exists>r. fst (run_state (CreateSnapshot idleCSI 61 ''s'' ''pvc-1'' fmempty) []) = Some r)"
proof -
  have "\<forall>h. 60 \<le> length h \<longrightarrow> ctx_Done idleCSI h" by (simp add: idleCSI_def demoCSI_def)
  then show ?thesis
    using calls_return_by_deadline [of 60 idleCSI 61 demoReq "[]" "''pvc-1''" "Some 1" False "''s''" fmempty] by simp
qed

section \<open>Deleting a volume\<close>

text \<open>The cleanup method is the one of the LocalStorageClass read last, if it was found and has an LVM section.\<close>

definition cleanupSource :: "csi_event list \<Rightarrow> string \<Rightarrow> bool" where
  "cleanupSource reads cleanup \<longleftrightarrow> (case reads of
     CGetLSC k (Inr lsc) # _ \<Rightarrow> (case LVM lsc of None \<Rightarrow> cleanup = '''' | Some lvm \<Rightarrow> cleanup = VolumeCleanup lvm)
   | _ \<Rightarrow> cleanup = '''')"

lemma cleanupOfVolume_post:
  "wp (cleanupOfVolume v volumeID) (\<lambda>cleanup h'. (\<forall>e \<in> set h'. \<not> csiWrite e) \<and> cleanupSource h' cleanup) []"
  unfolding cleanupOfVolume_def GetLSCBeforeLLVDelete_def
  by (auto simp: wp_rules cleanupSource_def zeroLSC_def objmeta.defs LocalStorageClass.defs split: sum.split option.split)

text \<open>C27: \<^verbatim>\<open>DeleteVolume\<close> first reads the cleanup method of the storage class, and then either refuses it in an
  edition without it, or deletes in order: it stores the cleanup method on the volume, releases the driver's
  finalizer, and only then deletes the object; it reports success only if that deletion was accepted.\<close>

theorem delete_volume_in_order:
  assumes "run_state (DeleteVolume v volumeID) [] = (r, h)" "volumeID \<noteq> ''''"
  shows "\<exists>reads cleanup. list_all (\<lambda>e. \<not> csiWrite e) reads \<and> cleanupSource reads cleanup \<and>
    (if cleanup \<noteq> '''' \<and> \<not> VolumeCleanupEnabled (buildEdition v) then r = Some Unsupported \<and> h = reads
     else deletedInOrder volumeID cleanup reads r h)"
proof -
  let ?Q = "\<lambda>r h. \<exists>reads cleanup. list_all (\<lambda>e. \<not> csiWrite e) reads \<and> cleanupSource reads cleanup \<and>
    (if cleanup \<noteq> '''' \<and> \<not> VolumeCleanupEnabled (buildEdition v) then r = Some Unsupported \<and> h = reads
     else deletedInOrder volumeID cleanup reads r h)"
  have "wp (DeleteVolume v volumeID) ?Q []"
    using assms(2) unfolding DeleteVolume_def
  proof (simp only: if_False wp_bind, intro wp_mono [OF cleanupOfVolume_post], goal_cases)
    case (1 cleanup reads)
    show ?case
    proof (cases "cleanup \<noteq> '''' \<and> \<not> VolumeCleanupEnabled (buildEdition v)")
      case True
      with 1 show ?thesis by (auto simp: list_all_iff)
    next
      case False
      have "wp (DeleteLVMLogicalVolume v volumeID cleanup) (deletedInOrder volumeID cleanup reads) reads"
        by (rule DeleteLVMLogicalVolume_post)
      then show ?thesis
        unfolding if_not_P [OF False]
      proof (rule wp_mono)
        fix r h assume "deletedInOrder volumeID cleanup reads r h"
        with False have "if cleanup \<noteq> '''' \<and> \<not> VolumeCleanupEnabled (buildEdition v) then r = Some Unsupported \<and> h = reads
          else deletedInOrder volumeID cleanup reads r h" by auto
        moreover have "list_all (\<lambda>e. \<not> csiWrite e) reads" "cleanupSource reads cleanup"
          using 1 by (simp_all add: list_all_iff)
        ultimately show "?Q r h" by blast
      qed
    qed
  qed
  from wp_runD [OF this assms(1)] show ?thesis .
qed

lemma delete_volume_in_order_witness:
  "\<exists>reads. fst (run_state (DeleteVolume demoCSI ''pvc-1'') []) = None \<and> cleanupSource reads '''' \<and>
     deletedInOrder ''pvc-1'' '''' reads None (snd (run_state (DeleteVolume demoCSI ''pvc-1'') []))"
proof -
  let ?run = "run_state (DeleteVolume demoCSI ''pvc-1'') []"
  have ne: "''pvc-1'' \<noteq> ''''" by simp
  have ok: "fst ?run = None" by code_simp
  have nolsc: "list_all (\<lambda>e. case e of CGetLSC k r \<Rightarrow> False | _ \<Rightarrow> True) (snd ?run)" by code_simp
  obtain reads cleanup where r: "cleanupSource reads cleanup"
    "if cleanup \<noteq> '''' \<and> \<not> VolumeCleanupEnabled (buildEdition demoCSI) then fst ?run = Some Unsupported \<and> snd ?run = reads
     else deletedInOrder ''pvc-1'' cleanup reads (fst ?run) (snd ?run)"
    using delete_volume_in_order [of demoCSI "''pvc-1''" "fst ?run" "snd ?run", OF prod.collapse [symmetric] ne] by blast
  then have d: "deletedInOrder ''pvc-1'' cleanup reads None (snd ?run)" using ok by (auto split: if_splits)
  have "cleanup = ''''"
  proof (cases reads)
    case (Cons e rest)
    then have "e \<in> set (snd ?run)" using deletedInOrder_extends [OF d] by simp
    with nolsc have "case e of CGetLSC k r \<Rightarrow> False | _ \<Rightarrow> True" unfolding list_all_iff by blast
    with r(1) Cons show ?thesis by (cases e) (simp_all add: cleanupSource_def)
  qed (use r(1) in \<open>simp add: cleanupSource_def\<close>)
  with ok r(1) d show ?thesis by blast
qed

end
