(* ===== verification/LSC_Reconcile.thy ===== *)
theory LSC_Reconcile
  imports LSC_Model Monitoring
begin

text \<open>
  The effectful half of the LocalStorageClass controller
  (\<^verbatim>\<open>local_storage_class_watcher.go\<close>, \<^verbatim>\<open>local_storage_class_watcher_func.go\<close>): finalizers, status, the
  create, update and delete passes, and the reconciler that chooses between them.

  The state holds the history of API calls, the LocalStorageClass the pass works on, which the code
  mutates through its pointer, the StorageClass being deleted, and the captured variable \<^verbatim>\<open>removed\<close>.
  A pass returns whether to requeue and an error; the error \<^verbatim>\<open>NilPointer\<close> is a panic, after which
  nothing else of the pass runs.
\<close>

section \<open>State and environment\<close>

datatype lsc_event =
    LGetLSC okey "kerr + LocalStorageClass"
  | LGetSC okey "kerr + StorageClass"
  | LListSC "kerr + StorageClass list"
  | LListLVG "kerr + LVG list"
  | LGetSecret okey "kerr + string option"
  | LUpdateLSC LocalStorageClass "kerr + string"
  | LUpdateSC StorageClass "kerr + string"
  | LCreateSC StorageClass "kerr + StorageClass"
  | LDeleteSC StorageClass "kerr option"
  | LUpdateStatus okey LocalStorageClassStatus "kerr option"
  | LPhase string string
  | LReady string bool
  | LForget string
  | LObserve string string

record lsc_state =
  lhist :: "lsc_event list"
  cur :: LocalStorageClass
  curSC :: StorageClass
  fremoved :: bool

type_synonym 'a lscm = "(lsc_state, 'a) state"

record lsc_env =
  cl_Get_LSC :: "okey \<Rightarrow> lsc_event list \<Rightarrow> kerr + LocalStorageClass"
  cl_Get_SC :: "okey \<Rightarrow> lsc_event list \<Rightarrow> kerr + StorageClass"
  cl_List_SC :: "lsc_event list \<Rightarrow> kerr + StorageClass list"
  cl_List_LVG :: "lsc_event list \<Rightarrow> kerr + LVG list"
  cl_Get_Secret :: "okey \<Rightarrow> lsc_event list \<Rightarrow> kerr + string option"
  cl_Update_LSC :: "LocalStorageClass \<Rightarrow> lsc_event list \<Rightarrow> kerr + string"
  cl_Update_SC :: "StorageClass \<Rightarrow> lsc_event list \<Rightarrow> kerr + string"
  cl_Create_SC :: "StorageClass \<Rightarrow> lsc_event list \<Rightarrow> kerr + StorageClass"
  cl_Delete_SC :: "StorageClass \<Rightarrow> lsc_event list \<Rightarrow> kerr option"
  conditions_UpdateStatus :: "LocalStorageClass \<Rightarrow> (LocalStorageClass \<Rightarrow> LocalStorageClass) \<Rightarrow> lsc_event list \<Rightarrow> kerr option"
  retry_OnConflict :: "(lsc_state, lsc_err) retrier"
  asSel :: selectorParser
  rangeOrd :: "string list \<Rightarrow> string list"
  yamlOf :: yamlLib
  condsOf :: condLib
  errText :: "lsc_err \<Rightarrow> string"
  msgText :: "valMsg list \<Rightarrow> string"
  parseConfig :: "string \<Rightarrow> string + string list"
  ControllerNamespace :: string
  ConfigSecretName :: string
  RequeueStorageClassInterval :: duration

definition lask :: "(lsc_event list \<Rightarrow> 'a) \<Rightarrow> ('a \<Rightarrow> lsc_event) \<Rightarrow> 'a lscm" where
  "lask q ev = State (\<lambda>s. let a = q (lhist s) in (a, s\<lparr>lhist := ev a # lhist s\<rparr>))"

definition lemit :: "lsc_event \<Rightarrow> unit lscm" where
  "lemit e = State (\<lambda>s. ((), s\<lparr>lhist := e # lhist s\<rparr>))"

lemma wp_lask [simp, wp_rules]:
  "wp (lask q ev) Q = (\<lambda>s. Q (q (lhist s)) (s\<lparr>lhist := ev (q (lhist s)) # lhist s\<rparr>))"
  by (rule ext) (simp add: lask_def wp_State Let_def)

lemma wp_lemit [simp, wp_rules]: "wp (lemit e) Q = (\<lambda>s. Q () (s\<lparr>lhist := e # lhist s\<rparr>))"
  by (rule ext) (simp add: lemit_def wp_State)

definition isConflict :: "lsc_err \<Rightarrow> bool" where
  "isConflict e \<longleftrightarrow> e = KErr Conflict"

section \<open>Finalizers\<close>

definition ensureFinalizerAttempt :: "lsc_env \<Rightarrow> lsc_err option lscm" where
  "ensureFinalizerAttempt v = do {
     s \<leftarrow> State_Monad.get;
     r \<leftarrow> lask (cl_Get_LSC v (ObjectKeyFromObject (cur s))) (LGetLSC (ObjectKeyFromObject (cur s)));
     (case r of
       Inl e \<Rightarrow> State_Monad.return (Some (KErr e))
     | Inr fresh \<Rightarrow>
         if DeletionTimestamp fresh \<noteq> None \<or>
            slices_Contains (Finalizers fresh) LocalStorageClassFinalizerName
         then State_Monad.return None
         else do {
           let fresh1 = fresh\<lparr>Finalizers := Finalizers fresh @ [LocalStorageClassFinalizerName]\<rparr>;
           u \<leftarrow> lask (cl_Update_LSC v fresh1) (LUpdateLSC fresh1);
           (case u of
             Inl e \<Rightarrow> State_Monad.return (Some (KErr e))
           | Inr rv \<Rightarrow> do {
               State_Monad.update (\<lambda>s. s\<lparr>cur := (cur s)\<lparr>Finalizers := Finalizers fresh1,
                 ResourceVersion := rv\<rparr>\<rparr>);
               State_Monad.return None
             })
         })
   }"

definition ensureFinalizer :: "lsc_env \<Rightarrow> lsc_err option lscm" where
  "ensureFinalizer v = do {
     s \<leftarrow> State_Monad.get;
     if DeletionTimestamp (cur s) \<noteq> None \<or>
        slices_Contains (Finalizers (cur s)) LocalStorageClassFinalizerName
     then State_Monad.return None
     else retry_OnConflict v isConflict (ensureFinalizerAttempt v)
   }"

text \<open>
  \<^verbatim>\<open>removeControllerFinalizers\<close> works on any \<^verbatim>\<open>client.Object\<close>: \<^term>\<open>getFresh\<close> and \<^term>\<open>updateFresh\<close> are
  the client's Get and Update for the type of the object, \<^term>\<open>setObj\<close> writes back the finalizers and
  the resource version through the caller's pointer.
\<close>

definition keptFinalizers :: "string list \<Rightarrow> string list" where
  "keptFinalizers fs = filter (\<lambda>f. \<not> slices_Contains localStorageClassFinalizers f) fs"

definition removeFinalizersAttempt :: "(kerr + 'a objmeta_scheme) lscm \<Rightarrow>
    ('a objmeta_scheme \<Rightarrow> (kerr + string) lscm) \<Rightarrow>
    (string list \<Rightarrow> string \<Rightarrow> lsc_state \<Rightarrow> lsc_state) \<Rightarrow> lsc_err option lscm" where
  "removeFinalizersAttempt getFresh updateFresh setObj = do {
     State_Monad.update (\<lambda>s. s\<lparr>fremoved := False\<rparr>);
     r \<leftarrow> getFresh;
     (case r of
       Inl e \<Rightarrow> State_Monad.return (if e = NotFound then None else Some (KErr e))
     | Inr fresh \<Rightarrow> do {
         let kept = keptFinalizers (Finalizers fresh);
         let found = list_ex (\<lambda>f. slices_Contains localStorageClassFinalizers f) (Finalizers fresh);
         State_Monad.update (\<lambda>s. s\<lparr>fremoved := found\<rparr>);
         if \<not> found then State_Monad.return None
         else do {
           u \<leftarrow> updateFresh (fresh\<lparr>Finalizers := kept\<rparr>);
           (case u of
             Inl e \<Rightarrow> State_Monad.return (Some (KErr e))
           | Inr rv \<Rightarrow> do {
               State_Monad.update (setObj kept rv);
               State_Monad.return None
             })
         }
       })
   }"

definition removeControllerFinalizers :: "lsc_env \<Rightarrow> (kerr + 'a objmeta_scheme) lscm \<Rightarrow>
    ('a objmeta_scheme \<Rightarrow> (kerr + string) lscm) \<Rightarrow>
    (string list \<Rightarrow> string \<Rightarrow> lsc_state \<Rightarrow> lsc_state) \<Rightarrow> (lsc_err + bool) lscm" where
  "removeControllerFinalizers v getFresh updateFresh setObj = do {
     State_Monad.update (\<lambda>s. s\<lparr>fremoved := False\<rparr>);
     err \<leftarrow> retry_OnConflict v isConflict (removeFinalizersAttempt getFresh updateFresh setObj);
     s \<leftarrow> State_Monad.get;
     State_Monad.return (case err of Some e \<Rightarrow> Inl e | None \<Rightarrow> Inr (fremoved s))
   }"

definition removeLSCFinalizers :: "lsc_env \<Rightarrow> (lsc_err + bool) lscm" where
  "removeLSCFinalizers v = do {
     s \<leftarrow> State_Monad.get;
     let key = ObjectKeyFromObject (cur s);
     removeControllerFinalizers v (lask (cl_Get_LSC v key) (LGetLSC key))
       (\<lambda>fresh. lask (cl_Update_LSC v fresh) (LUpdateLSC fresh))
       (\<lambda>fs rv s. s\<lparr>cur := (cur s)\<lparr>Finalizers := fs, ResourceVersion := rv\<rparr>\<rparr>)
   }"

definition removeSCFinalizers :: "lsc_env \<Rightarrow> (lsc_err + bool) lscm" where
  "removeSCFinalizers v = do {
     s \<leftarrow> State_Monad.get;
     let key = ObjectKeyFromObject (curSC s);
     removeControllerFinalizers v (lask (cl_Get_SC v key) (LGetSC key))
       (\<lambda>fresh. lask (cl_Update_SC v fresh) (LUpdateSC fresh))
       (\<lambda>fs rv s. s\<lparr>curSC := (curSC s)\<lparr>Finalizers := fs, ResourceVersion := rv\<rparr>\<rparr>)
   }"

section \<open>Status\<close>

definition ReasonReconciled :: string where "ReasonReconciled = ''Reconciled''"
definition ReasonReconcileFailed :: string where "ReasonReconcileFailed = ''ReconcileFailed''"
definition ReasonDeleting :: string where "ReasonDeleting = ''Deleting''"

definition applyStatus :: "condLib \<Rightarrow> condition \<Rightarrow> string \<Rightarrow> string \<Rightarrow> LocalStorageClass \<Rightarrow> LocalStorageClass" where
  "applyStatus conds cond phase reason lsc =
    (let st = (case lsc_Status lsc of
           None \<Rightarrow> \<lparr>lsc_Phase = '''', lsc_Reason = '''', ObservedGeneration = 0, Conditions = []\<rparr>
         | Some st \<Rightarrow> st);
         st1 = st\<lparr>ObservedGeneration := cond_ObservedGeneration cond,
                  Conditions := SetCond conds (Conditions st) cond\<rparr>
     in lsc\<lparr>lsc_Status := Some (if phase \<noteq> '''' then st1\<lparr>lsc_Phase := phase, lsc_Reason := reason\<rparr> else st1)\<rparr>)"

definition publishLocalStorageClassStatus ::
  "lsc_env \<Rightarrow> condition \<Rightarrow> string \<Rightarrow> string \<Rightarrow> lsc_err option lscm" where
  "publishLocalStorageClassStatus v cond phase reason = do {
     let cond1 = cond\<lparr>cond_Message := TruncateMessage (condsOf v) (cond_Message cond)\<rparr>;
     let apply1 = applyStatus (condsOf v) cond1 phase reason;
     s \<leftarrow> State_Monad.get;
     r \<leftarrow> lask (conditions_UpdateStatus v (cur s) apply1)
            (LUpdateStatus (ObjectKeyFromObject (cur s)) (the (lsc_Status (apply1 (cur s)))));
     (case r of
       Some e \<Rightarrow> State_Monad.return (Some (KErr e))
     | None \<Rightarrow> do {
         State_Monad.update (\<lambda>s. s\<lparr>cur := apply1 (cur s)\<rparr>);
         State_Monad.return None
       })
   }"

definition updateLocalStorageClassPhase :: "lsc_env \<Rightarrow> string \<Rightarrow> string \<Rightarrow> lsc_err option lscm" where
  "updateLocalStorageClassPhase v phase reason = do {
     e \<leftarrow> ensureFinalizer v;
     (case e of
       Some err \<Rightarrow> State_Monad.return (Some err)
     | None \<Rightarrow> do {
         s \<leftarrow> State_Monad.get;
         let ok = (phase = CreatedStatusPhase);
         publishLocalStorageClassStatus v
           \<lparr>cond_Type = ConditionTypeReady, cond_Status = ok,
            cond_Reason = (if ok then ReasonReconciled else ReasonReconcileFailed),
            cond_Message = (if reason = '''' then ''the LocalStorageClass is in the '' @ phase @ '' phase''
                            else reason),
            cond_ObservedGeneration = Generation (cur s)\<rparr> phase reason
       })
   }"

definition setLocalStorageClassDeleting :: "lsc_env \<Rightarrow> lsc_err option lscm" where
  "setLocalStorageClassDeleting v = do {
     s \<leftarrow> State_Monad.get;
     publishLocalStorageClassStatus v
       \<lparr>cond_Type = ConditionTypeReady, cond_Status = False, cond_Reason = ReasonDeleting,
        cond_Message = ''the LocalStorageClass is being deleted'',
        cond_ObservedGeneration = Generation (cur s)\<rparr> '''' ''''
   }"

section \<open>StorageClasses\<close>

definition createStorageClassIfNotExists ::
  "lsc_env \<Rightarrow> StorageClass list \<Rightarrow> StorageClass \<Rightarrow> (lsc_err + StorageClass option) lscm" where
  "createStorageClassIfNotExists v scs sc =
    (if list_ex (\<lambda>s. Name s = Name sc) scs then State_Monad.return (Inr None)
     else do {
       r \<leftarrow> lask (cl_Create_SC v sc) (LCreateSC sc);
       State_Monad.return (case r of Inl e \<Rightarrow> Inl (KErr e) | Inr created \<Rightarrow> Inr (Some created))
     })"

definition addFinalizerIfNotExistsForSC :: "lsc_env \<Rightarrow> StorageClass \<Rightarrow> (lsc_err + bool) lscm" where
  "addFinalizerIfNotExistsForSC v sc =
    (if slices_Contains (Finalizers sc) LocalStorageClassFinalizerName then State_Monad.return (Inr False)
     else do {
       let sc1 = sc\<lparr>Finalizers := Finalizers sc @ [LocalStorageClassFinalizerName]\<rparr>;
       r \<leftarrow> lask (cl_Update_SC v sc1) (LUpdateSC sc1);
       State_Monad.return (case r of Inl e \<Rightarrow> Inl (KErr e) | Inr _ \<Rightarrow> Inr True)
     })"

definition deleteStorageClass :: "lsc_env \<Rightarrow> StorageClass \<Rightarrow> lsc_err option lscm" where
  "deleteStorageClass v sc =
    (if Provisioner sc \<noteq> LocalStorageClassProvisioner
     then State_Monad.return (Some (ForeignStorageClass (Name sc)))
     else do {
       State_Monad.update (\<lambda>s. s\<lparr>curSC := sc\<rparr>);
       r \<leftarrow> removeSCFinalizers v;
       (case r of
         Inl e \<Rightarrow> State_Monad.return (Some e)
       | Inr _ \<Rightarrow> do {
           s \<leftarrow> State_Monad.get;
           d \<leftarrow> lask (cl_Delete_SC v (curSC s)) (LDeleteSC (curSC s));
           State_Monad.return (map_option KErr d)
         })
     })"

definition recreateStorageClass :: "lsc_env \<Rightarrow> StorageClass \<Rightarrow> StorageClass \<Rightarrow> lsc_err option lscm" where
  "recreateStorageClass v oldSC newSC = do {
     d \<leftarrow> deleteStorageClass v oldSC;
     (case d of
       Some e \<Rightarrow> State_Monad.return (Some (WrappedErr (Name oldSC) e))
     | None \<Rightarrow> do {
         r \<leftarrow> lask (cl_Create_SC v newSC) (LCreateSC newSC);
         State_Monad.return (case r of Inl e \<Rightarrow> Some (Wrapped (Name newSC) e) | Inr _ \<Rightarrow> None)
       })
   }"

section \<open>The three passes\<close>

type_synonym passResult = "bool \<times> lsc_err option"

text \<open>The recurring "publish Failed; a failure to do so is only logged".\<close>

definition failWith :: "lsc_env \<Rightarrow> string \<Rightarrow> lsc_err \<Rightarrow> passResult lscm" where
  "failWith v reason err = do {
     _ \<leftarrow> updateLocalStorageClassPhase v FailedStatusPhase reason;
     State_Monad.return (True, Some err)
   }"

text \<open>The end of a successful pass: publish Created; failing to do so is an error of the pass.\<close>

definition finishCreated :: "lsc_env \<Rightarrow> passResult lscm" where
  "finishCreated v = do {
     e \<leftarrow> updateLocalStorageClassPhase v CreatedStatusPhase '''';
     State_Monad.return (case e of Some err \<Rightarrow> (True, Some err) | None \<Rightarrow> (False, None))
   }"

definition deleteFailedReason :: "lsc_env \<Rightarrow> lsc_err \<Rightarrow> string" where
  "deleteFailedReason v e = ''Unable to delete a storage class, err: '' @ errText v e"

definition finalizerFailedReason :: "lsc_env \<Rightarrow> lsc_err \<Rightarrow> string" where
  "finalizerFailedReason v e = ''Unable to remove a finalizer, err: '' @ errText v e"

definition reconcileLSCDeleteFunc :: "lsc_env \<Rightarrow> StorageClass list \<Rightarrow> passResult lscm" where
  "reconcileLSCDeleteFunc v scs = do {
     s \<leftarrow> State_Monad.get;
     d \<leftarrow> (case find (\<lambda>c. Name c = Name (cur s)) scs of
        None \<Rightarrow> State_Monad.return None
      | Some sc \<Rightarrow>
          if Provisioner sc \<noteq> LocalStorageClassProvisioner then State_Monad.return None
          else deleteStorageClass v sc);
     (case d of
       Some e \<Rightarrow> failWith v (deleteFailedReason v e) e
     | None \<Rightarrow> do {
         r \<leftarrow> removeLSCFinalizers v;
         (case r of
           Inl e \<Rightarrow> failWith v (finalizerFailedReason v e) e
         | Inr _ \<Rightarrow> do {
             _ \<leftarrow> setLocalStorageClassDeleting v;
             State_Monad.return (False, None)
           })
       })
   }"

definition reconcileLSCUpdateFunc :: "lsc_env \<Rightarrow> StorageClass list \<Rightarrow> LVG list \<Rightarrow>
    LocalStorageClassLVG list \<Rightarrow> string list \<Rightarrow> passResult lscm" where
  "reconcileLSCUpdateFunc v scs lvgs effective ignored = do {
     s \<leftarrow> State_Monad.get;
     let lsc = cur s;
     (case validateLocalStorageClass (asSel v) (rangeOrd v) scs lsc lvgs effective of (valid, msgs) \<Rightarrow>
       if \<not> valid then failWith v (msgText v msgs) (ValidationFailed msgs)
       else (case find (\<lambda>c. Name c = Name lsc) scs of
         None \<Rightarrow> failWith v (errText v (NoStorageClass (Name lsc))) (NoStorageClass (Name lsc))
       | Some oldSC \<Rightarrow> (case hasSCDiff (yamlOf v) oldSC lsc effective ignored of
           Inl e \<Rightarrow>
             if e = NilPointer then State_Monad.return (False, Some NilPointer)
             else failWith v (errText v e) e
         | Inr diff \<Rightarrow>
             if \<not> diff then finishCreated v
             else (case updateStorageClass (yamlOf v) lsc oldSC effective ignored of
               Inl e \<Rightarrow> do {
                 up \<leftarrow> updateLocalStorageClassPhase v FailedStatusPhase (errText v e);
                 State_Monad.return (case up of Some ue \<Rightarrow> (True, Some ue) | None \<Rightarrow> (False, Some e))
               }
             | Inr newSC \<Rightarrow> do {
                 r \<leftarrow> recreateStorageClass v oldSC newSC;
                 (case r of
                   Some e \<Rightarrow> failWith v (errText v e) e
                 | None \<Rightarrow> finishCreated v)
               }))))
   }"

definition reconcileLSCCreateFunc :: "lsc_env \<Rightarrow> StorageClass list \<Rightarrow> LVG list \<Rightarrow>
    LocalStorageClassLVG list \<Rightarrow> string list \<Rightarrow> passResult lscm" where
  "reconcileLSCCreateFunc v scs lvgs effective ignored = do {
     ef \<leftarrow> ensureFinalizer v;
     (case ef of
       Some e \<Rightarrow> State_Monad.return (True, Some e)
     | None \<Rightarrow> do {
         s \<leftarrow> State_Monad.get;
         let lsc = cur s;
         (case validateLocalStorageClass (asSel v) (rangeOrd v) scs lsc lvgs effective of (valid, msgs) \<Rightarrow>
           if \<not> valid then failWith v (msgText v msgs) (ValidationFailed msgs)
           else (case configureStorageClass (yamlOf v) lsc effective ignored of
             Inl e \<Rightarrow> do {
               up \<leftarrow> updateLocalStorageClassPhase v FailedStatusPhase (errText v e);
               State_Monad.return (case up of Some ue \<Rightarrow> (True, Some ue) | None \<Rightarrow> (False, Some e))
             }
           | Inr sc \<Rightarrow> do {
               c \<leftarrow> createStorageClassIfNotExists v scs sc;
               (case c of
                 Inl e \<Rightarrow> do {
                   up \<leftarrow> updateLocalStorageClassPhase v FailedStatusPhase (errText v e);
                   State_Monad.return (case up of Some ue \<Rightarrow> (True, Some ue) | None \<Rightarrow> (True, Some e))
                 }
               | Inr None \<Rightarrow> State_Monad.return (True, None)
               | Inr (Some created) \<Rightarrow> do {
                   a \<leftarrow> addFinalizerIfNotExistsForSC v created;
                   (case a of
                     Inl e \<Rightarrow> State_Monad.return (True, Some e)
                   | Inr _ \<Rightarrow> finishCreated v)
                 })
             }))
       })
   }"

section \<open>Choosing the pass\<close>

text \<open>Publish Failed and return the error, joined with the failure to publish it.\<close>

definition failJoined :: "lsc_env \<Rightarrow> lsc_err \<Rightarrow> passResult lscm" where
  "failJoined v err = do {
     up \<leftarrow> updateLocalStorageClassPhase v FailedStatusPhase (errText v err);
     s \<leftarrow> State_Monad.get;
     State_Monad.return (True, Some (case up of
       None \<Rightarrow> err | Some ue \<Rightarrow> Joined err (WrappedErr (Name (cur s)) ue)))
   }"

definition dispatch :: "lsc_env \<Rightarrow> StorageClass list \<Rightarrow> LocalStorageClass \<Rightarrow> LVG list \<Rightarrow>
    LocalStorageClassLVG list \<Rightarrow> string list \<Rightarrow> passResult lscm" where
  "dispatch v scs lsc lvgs effective ignored =
    (case identifyReconcileFunc (yamlOf v) (condsOf v) scs lsc effective ignored of
       Inl e \<Rightarrow>
         if e = NilPointer then State_Monad.return (False, Some NilPointer) else failJoined v e
     | Inr CreateReconcile \<Rightarrow> reconcileLSCCreateFunc v scs lvgs effective ignored
     | Inr UpdateReconcile \<Rightarrow> reconcileLSCUpdateFunc v scs lvgs effective ignored
     | Inr DeleteReconcile \<Rightarrow> reconcileLSCDeleteFunc v scs
     | Inr NoReconcile \<Rightarrow> State_Monad.return (False, None))"

definition RunEventReconcile ::
  "lsc_env \<Rightarrow> StorageClass list \<Rightarrow> string list \<Rightarrow> passResult lscm" where
  "RunEventReconcile v scs ignored = do {
     s \<leftarrow> State_Monad.get;
     let lsc = cur s;
     l \<leftarrow> (if DeletionTimestamp lsc = None then lask (cl_List_LVG v) LListLVG else State_Monad.return (Inr []));
     (case l of
       Inl e \<Rightarrow> failJoined v (KErr e)
     | Inr lvgs \<Rightarrow>
         (case resolveEffectiveLVGs (asSel v) lsc lvgs of
           Inl e \<Rightarrow>
             if DeletionTimestamp lsc = None then failJoined v (ResolveErr e)
             else dispatch v scs lsc lvgs [] ignored
         | Inr effective \<Rightarrow> dispatch v scs lsc lvgs effective ignored))
   }"

section \<open>The reconciler\<close>

definition getStorageClassLabelIgnoredPrefixes :: "lsc_env \<Rightarrow> (lsc_err + string list) lscm" where
  "getStorageClassLabelIgnoredPrefixes v =
    (if ControllerNamespace v = '''' \<or> ConfigSecretName v = '''' then State_Monad.return (Inr [])
     else do {
       let key = (ControllerNamespace v, ConfigSecretName v);
       r \<leftarrow> lask (cl_Get_Secret v key) (LGetSecret key);
       State_Monad.return (case r of
         Inl e \<Rightarrow> if e = NotFound then Inr [] else Inl (KErr e)
       | Inr raw \<Rightarrow> (case raw of
           None \<Rightarrow> Inr []
         | Some text \<Rightarrow>
             if text = '''' then Inr []
             else (case parseConfig v text of Inl e \<Rightarrow> Inl (YamlErr e) | Inr ps \<Rightarrow> Inr ps)))
     })"

definition LocalStorageClassCtrlName :: string where
  "LocalStorageClassCtrlName = ''local-storage-class-controller''"

definition requeueLater :: "lsc_env \<Rightarrow> reconcile_Result" where
  "requeueLater v = \<lparr>Requeue = False, RequeueAfter = i64 (RequeueStorageClassInterval v * time_Second)\<rparr>"

definition publishGauges :: "lsc_env \<Rightarrow> unit lscm" where
  "publishGauges v = do {
     s \<leftarrow> State_Monad.get;
     (case lsc_Status (cur s) of
       None \<Rightarrow> State_Monad.return ()
     | Some st \<Rightarrow>
         if lsc_Phase st \<noteq> '''' then lemit (LPhase (Name (cur s)) (lsc_Phase st))
         else State_Monad.return ());
     lemit (LReady (Name (cur s)) (case lsc_Status (cur s) of
       None \<Rightarrow> False | Some st \<Rightarrow> IsTrue (condsOf v) (Conditions st) ConditionTypeReady))
   }"

definition lscReconcileFound ::
  "lsc_env \<Rightarrow> (reconcile_Result \<times> lsc_err option) lscm" where
  "lscReconcileFound v = do {
     l \<leftarrow> lask (cl_List_SC v) LListSC;
     (case l of
       Inl e \<Rightarrow> State_Monad.return (noRequeue, Some (KErr e))
     | Inr scs \<Rightarrow> do {
         p \<leftarrow> getStorageClassLabelIgnoredPrefixes v;
         (case p of
           Inl _ \<Rightarrow> State_Monad.return (requeueLater v, None)
         | Inr ignored \<Rightarrow> do {
             r \<leftarrow> RunEventReconcile v scs ignored;
             (case r of (shouldRequeue, err) \<Rightarrow>
               if err = Some NilPointer then State_Monad.return (noRequeue, Some NilPointer)
               else do {
                 publishGauges v;
                 State_Monad.return (if shouldRequeue then requeueLater v else noRequeue, None)
               })
           })
       })
   }"

text \<open>
  The reconciler closure for the request \<^term>\<open>key\<close>.  A LocalStorageClass that is not found leaves the
  zero object, whose name is empty.
\<close>

definition lscReconcile :: "lsc_env \<Rightarrow> okey \<Rightarrow> (reconcile_Result \<times> lsc_err option) lscm" where
  "lscReconcile v key = do {
     g \<leftarrow> lask (cl_Get_LSC v key) (LGetLSC key);
     result \<leftarrow>
       (case g of
         Inl e \<Rightarrow>
           if e \<noteq> NotFound then State_Monad.return (noRequeue, Some (KErr e))
           else do { lemit (LForget (snd key)); State_Monad.return (noRequeue, None) }
       | Inr lsc \<Rightarrow>
           if Name lsc = '''' then do { lemit (LForget (snd key)); State_Monad.return (noRequeue, None) }
           else do {
             State_Monad.update (\<lambda>s. s\<lparr>cur := lsc\<rparr>);
             lscReconcileFound v
           });
     lemit (LObserve LocalStorageClassCtrlName
       (if snd result = Some NilPointer then reconcileResult (Some (fst result)) (None :: lsc_err option)
        else reconcileResult (Some (fst result)) (snd result)));
     State_Monad.return result
   }"

section \<open>Watches\<close>

text \<open>The requests an event is mapped to; \<^term>\<open>found\<close> is the answer of the list call.\<close>

definition secretRequests :: "lsc_env \<Rightarrow> okey option \<Rightarrow> kerr + LocalStorageClass list \<Rightarrow> okey list" where
  "secretRequests v secret found =
    (if secret \<noteq> Some (ControllerNamespace v, ConfigSecretName v) then []
     else case found of Inl _ \<Rightarrow> [] | Inr lscs \<Rightarrow> map ObjectKeyFromObject lscs)"

definition lvgRequests :: "kerr + LocalStorageClass list \<Rightarrow> okey list" where
  "lvgRequests found = (case found of
     Inl _ \<Rightarrow> []
   | Inr lscs \<Rightarrow> map ObjectKeyFromObject (filter lscUsesLabelSelector lscs))"

definition lvgUpdatePredicate :: "LVG \<Rightarrow> LVG \<Rightarrow> bool" where
  "lvgUpdatePredicate old new \<longleftrightarrow> Labels old \<noteq> Labels new"

definition lscSpec :: "LocalStorageClass \<Rightarrow> string \<times> string \<times> LocalStorageClassLVMSpec option \<times> string" where
  "lscSpec lsc = (ReclaimPolicy lsc, VolumeBindingMode lsc, LVM lsc, FSType lsc)"

definition lscUpdateEnqueues :: "LocalStorageClass \<Rightarrow> LocalStorageClass \<Rightarrow> okey list" where
  "lscUpdateEnqueues old new =
    (if lscSpec old = lscSpec new \<and> Labels old = Labels new \<and> DeletionTimestamp new = None then []
     else [ObjectKeyFromObject new])"

end
