(* ===== verification/LSC_Effects.thy ===== *)
theory LSC_Effects
  imports LSC_Reconcile
begin

text \<open>
  Which writes a pass over a LocalStorageClass may perform: a criterion on the history of API calls, and
  that every routine of the controller keeps it, for every behaviour of the API server.
\<close>

section \<open>The criterion\<close>

text \<open>
  \<^term>\<open>n\<close> is the name of the LocalStorageClass, \<^term>\<open>scs\<close> the listed StorageClasses.  Finalizers are only
  changed on the object just read, as the API server answered it, a StorageClass is only created and
  deleted under the name of the LocalStorageClass and for this provisioner, and one that replaces an
  existing StorageClass is created right after that one was deleted.
\<close>

definition lscWriteOk :: "lsc_env \<Rightarrow> string \<Rightarrow> StorageClass list \<Rightarrow> lsc_event \<Rightarrow> lsc_event list \<Rightarrow> bool" where
  "lscWriteOk v n scs e h = (case e of
     LDeleteSC sc _ \<Rightarrow> Provisioner sc = LocalStorageClassProvisioner \<and> Name sc = n
   | LCreateSC sc r \<Rightarrow> cl_Create_SC v sc h = r \<and> Provisioner sc = LocalStorageClassProvisioner \<and> Name sc = n \<and>
       Finalizers sc = [LocalStorageClassFinalizerName] \<and>
       (list_ex (\<lambda>c. Name c = n) scs \<longrightarrow> (\<exists>old h'. h = LDeleteSC old None # h'))
   | LUpdateSC sc r \<Rightarrow> cl_Update_SC v sc h = r \<and>
       ((\<exists>key fresh h'. h = LGetSC key (Inr fresh) # h' \<and> cl_Get_SC v key h' = Inr fresh \<and>
          sc = fresh\<lparr>Finalizers := keptFinalizers (Finalizers fresh)\<rparr>) \<or>
       (\<exists>c fresh h'. h = LCreateSC c (Inr fresh) # h' \<and>
          sc = fresh\<lparr>Finalizers := Finalizers fresh @ [LocalStorageClassFinalizerName]\<rparr>))
   | LUpdateLSC lsc r \<Rightarrow> cl_Update_LSC v lsc h = r \<and>
       (\<exists>key fresh h'. h = LGetLSC key (Inr fresh) # h' \<and> cl_Get_LSC v key h' = Inr fresh \<and>
          (lsc = fresh\<lparr>Finalizers := keptFinalizers (Finalizers fresh)\<rparr> \<or>
           lsc = fresh\<lparr>Finalizers := Finalizers fresh @ [LocalStorageClassFinalizerName]\<rparr> \<and>
           DeletionTimestamp fresh = None \<and> LocalStorageClassFinalizerName \<notin> set (Finalizers fresh)))
   | _ \<Rightarrow> True)"

primrec lscSafe :: "lsc_env \<Rightarrow> string \<Rightarrow> StorageClass list \<Rightarrow> lsc_event list \<Rightarrow> bool" where
  "lscSafe v n scs [] = True"
| "lscSafe v n scs (e # h) = (lscWriteOk v n scs e h \<and> lscSafe v n scs h)"

definition lscInv :: "lsc_env \<Rightarrow> string \<Rightarrow> StorageClass list \<Rightarrow> lsc_state \<Rightarrow> bool" where
  "lscInv v n scs s \<longleftrightarrow> lscSafe v n scs (lhist s) \<and> Name (cur s) = n"

lemma lscWriteOk_read [simp]:
  "lscWriteOk v n scs (LGetLSC k1 r1) h" "lscWriteOk v n scs (LGetSC k2 r2) h" "lscWriteOk v n scs (LListSC r3) h"
  "lscWriteOk v n scs (LListLVG r4) h" "lscWriteOk v n scs (LGetSecret k3 r5) h"
  "lscWriteOk v n scs (LUpdateStatus k4 st r6) h"
  by (simp_all add: lscWriteOk_def)

section \<open>Removing finalizers\<close>

lemma removeControllerFinalizers_inv:
  assumes "retry_ok (retry_OnConflict v)" "I s" "\<And>s b. I s \<Longrightarrow> I (s\<lparr>fremoved := b\<rparr>)"
    and step: "\<And>s. I s \<Longrightarrow> wp getFresh (\<lambda>r s'. I s' \<and> (\<forall>fresh. r = Inr fresh \<longrightarrow>
        wp (updateFresh (fresh\<lparr>Finalizers := keptFinalizers (Finalizers fresh)\<rparr>))
          (\<lambda>u s''. I s'' \<and> (\<forall>rv. u = Inr rv \<longrightarrow>
             I (setObj (keptFinalizers (Finalizers fresh)) rv s''))) (s'\<lparr>fremoved := True\<rparr>))) s"
  shows "wp (removeControllerFinalizers v getFresh updateFresh setObj) (\<lambda>_. I) s"
proof -
  have att: "wp (removeFinalizersAttempt getFresh updateFresh setObj) (\<lambda>_. I) s" if "I s" for s
    unfolding removeFinalizersAttempt_def wp_bind wp_update
    by (rule wp_mono [OF step [OF assms(3) [OF that]]])
      (auto simp: wp_rules Let_def assms(3) split: sum.splits elim!: wp_mono)
  have "wp (retry_OnConflict v isConflict (removeFinalizersAttempt getFresh updateFresh setObj)) (\<lambda>_. I) s"
    if "I s" for s
    by (rule wp_retry_inv [where I = I, OF assms(1) that att])
  with assms(2,3) show ?thesis
    unfolding removeControllerFinalizers_def by simp
qed

lemma removeLSCFinalizers_inv:
  assumes "retry_ok (retry_OnConflict v)" "lscInv v n scs s"
  shows "wp (removeLSCFinalizers v) (\<lambda>_. lscInv v n scs) s"
  unfolding removeLSCFinalizers_def wp_bind wp_get Let_def
  by (rule removeControllerFinalizers_inv [OF assms(1), where I = "lscInv v n scs"])
    (use assms(2) in \<open>auto simp: lscInv_def lscWriteOk_def simp del: split_paired_Ex\<close>)

lemma removeSCFinalizers_inv:
  assumes "retry_ok (retry_OnConflict v)" "lscInv v n scs s" "Name (curSC s) = m"
    "Provisioner (curSC s) = LocalStorageClassProvisioner"
  shows "wp (removeSCFinalizers v) (\<lambda>_ s'. lscInv v n scs s' \<and> Name (curSC s') = m \<and>
     Provisioner (curSC s') = LocalStorageClassProvisioner) s"
  unfolding removeSCFinalizers_def wp_bind wp_get Let_def
  by (rule removeControllerFinalizers_inv [OF assms(1)])
    (use assms in \<open>auto simp: lscInv_def lscWriteOk_def simp del: split_paired_Ex\<close>)

section \<open>Finalizer and status of the LocalStorageClass\<close>

lemma ensureFinalizer_inv:
  assumes "retry_ok (retry_OnConflict v)" "lscInv v n scs s"
  shows "wp (ensureFinalizer v) (\<lambda>_. lscInv v n scs) s"
proof -
  have att: "wp (ensureFinalizerAttempt v) (\<lambda>_. lscInv v n scs) s" if "lscInv v n scs s" for s
    using that unfolding ensureFinalizerAttempt_def
    by (auto simp: wp_rules Let_def lscInv_def lscWriteOk_def simp del: split_paired_Ex split: sum.splits)
  have "wp (retry_OnConflict v isConflict (ensureFinalizerAttempt v)) (\<lambda>_. lscInv v n scs) s"
    by (rule wp_retry_inv [where I = "lscInv v n scs", OF assms att])
  with assms(2) show ?thesis
    unfolding ensureFinalizer_def by (simp add: wp_rules)
qed

lemma Name_applyStatus [simp]: "Name (applyStatus conds cond phase reason lsc) = Name lsc"
  by (simp add: applyStatus_def Let_def)

lemma publish_inv:
  assumes "lscInv v n scs s"
  shows "wp (publishLocalStorageClassStatus v cond phase reason) (\<lambda>_. lscInv v n scs) s"
  using assms unfolding publishLocalStorageClassStatus_def
  by (auto simp: wp_rules Let_def lscInv_def split: option.splits)

lemma updatePhase_inv:
  assumes "retry_ok (retry_OnConflict v)" "lscInv v n scs s"
  shows "wp (updateLocalStorageClassPhase v phase reason) (\<lambda>_. lscInv v n scs) s"
  unfolding updateLocalStorageClassPhase_def wp_bind
  by (rule wp_mono [OF ensureFinalizer_inv [OF assms]])
    (auto simp: wp_rules Let_def intro: publish_inv split: option.splits)

lemma failWith_inv:
  assumes "retry_ok (retry_OnConflict v)" "lscInv v n scs s"
  shows "wp (failWith v reason err) (\<lambda>_. lscInv v n scs) s"
  unfolding failWith_def wp_bind by (rule wp_mono [OF updatePhase_inv [OF assms]]) simp

lemma failJoined_inv:
  assumes "retry_ok (retry_OnConflict v)" "lscInv v n scs s"
  shows "wp (failJoined v err) (\<lambda>_. lscInv v n scs) s"
  unfolding failJoined_def wp_bind by (rule wp_mono [OF updatePhase_inv [OF assms]]) simp

lemma finishCreated_inv:
  assumes "retry_ok (retry_OnConflict v)" "lscInv v n scs s"
  shows "wp (finishCreated v) (\<lambda>_. lscInv v n scs) s"
  unfolding finishCreated_def wp_bind by (rule wp_mono [OF updatePhase_inv [OF assms]]) simp

lemma failPhase_inv:
  assumes "retry_ok (retry_OnConflict v)" "lscInv v n scs s"
  shows "wp (do { up \<leftarrow> updateLocalStorageClassPhase v phase reason; State_Monad.return (f up) })
    (\<lambda>_. lscInv v n scs) s"
  unfolding wp_bind by (rule wp_mono [OF updatePhase_inv [OF assms]]) simp

lemmas pass_end_inv = failWith_inv failJoined_inv finishCreated_inv failPhase_inv

section \<open>StorageClasses\<close>

lemma deleteStorageClass_inv:
  assumes "retry_ok (retry_OnConflict v)" "lscInv v n scs s" "Name sc = n"
  shows "wp (deleteStorageClass v sc) (\<lambda>r s'. lscInv v n scs s' \<and>
     (r = None \<longrightarrow> (\<exists>old h'. lhist s' = LDeleteSC old None # h'))) s"
proof (cases "Provisioner sc = LocalStorageClassProvisioner")
  case False
  then show ?thesis using assms(2) by (simp add: deleteStorageClass_def)
next
  case True
  have "wp (removeSCFinalizers v) (\<lambda>_ s'. lscInv v n scs s' \<and> Name (curSC s') = n \<and>
     Provisioner (curSC s') = LocalStorageClassProvisioner) (s\<lparr>curSC := sc\<rparr>)"
    by (rule removeSCFinalizers_inv [OF assms(1)]) (use assms True in \<open>auto simp: lscInv_def\<close>)
  then show ?thesis
    using True unfolding deleteStorageClass_def
    by (simp add: wp_rules) (erule wp_mono, auto simp: wp_rules lscInv_def lscWriteOk_def split: sum.splits)
qed

lemma recreateStorageClass_inv:
  assumes "retry_ok (retry_OnConflict v)" "lscInv v n scs s" "Name oldSC = n"
    and "Provisioner newSC = LocalStorageClassProvisioner" "Name newSC = n"
    and "Finalizers newSC = [LocalStorageClassFinalizerName]"
  shows "wp (recreateStorageClass v oldSC newSC) (\<lambda>_. lscInv v n scs) s"
  unfolding recreateStorageClass_def wp_bind
  by (rule wp_mono [OF deleteStorageClass_inv [OF assms(1-3)]])
    (use assms in \<open>auto simp: wp_rules lscInv_def lscWriteOk_def split: option.splits\<close>)

lemma configure_props:
  assumes "configureStorageClass yaml lsc effective ignored = Inr sc"
  shows "Provisioner sc = LocalStorageClassProvisioner" "Name sc = Name lsc"
    "Finalizers sc = [LocalStorageClassFinalizerName]"
  using assms by (auto simp: configureStorageClass_def objmeta.extend_def meta0_def
      split: option.splits sum.splits)

lemma update_props:
  assumes "updateStorageClass yaml lsc oldSC effective ignored = Inr sc"
  shows "Provisioner sc = LocalStorageClassProvisioner" "Name sc = Name lsc"
    "Finalizers sc = [LocalStorageClassFinalizerName]"
  using assms configure_props [of yaml lsc effective ignored]
  by (auto simp: updateStorageClass_def split: option.splits sum.splits)

lemma find_name: "find (\<lambda>c. Name c = m) scs = Some sc \<Longrightarrow> Name sc = m"
  by (auto simp: find_Some_iff)

section \<open>The passes\<close>

lemma deletePass_inv:
  assumes "retry_ok (retry_OnConflict v)" "lscInv v n scs s"
  shows "wp (reconcileLSCDeleteFunc v scs) (\<lambda>_. lscInv v n scs) s"
proof -
  let ?rest = "\<lambda>d. case d of Some e \<Rightarrow> failWith v (deleteFailedReason v e) e
     | None \<Rightarrow> do {
         r \<leftarrow> removeLSCFinalizers v;
         (case r of
           Inl e \<Rightarrow> failWith v (finalizerFailedReason v e) e
         | Inr _ \<Rightarrow> do { _ \<leftarrow> setLocalStorageClassDeleting v; State_Monad.return (False, None) })
       }"
  have rest: "wp (?rest d) (\<lambda>_. lscInv v n scs) s'" if "lscInv v n scs s'" for d s'
  proof (cases d)
    case None
    show ?thesis
      unfolding None option.case wp_bind
      by (rule wp_mono [OF removeLSCFinalizers_inv [OF assms(1) that]])
        (auto simp: wp_rules setLocalStorageClassDeleting_def intro: pass_end_inv assms(1) publish_inv
          split: sum.splits)
  next
    case (Some e)
    then show ?thesis using pass_end_inv(1) [OF assms(1) that] by simp
  qed
  let ?del = "case find (\<lambda>c. Name c = Name (cur s)) scs of
        None \<Rightarrow> State_Monad.return None
      | Some sc \<Rightarrow> if Provisioner sc \<noteq> LocalStorageClassProvisioner then State_Monad.return None
          else deleteStorageClass v sc"
  have "Name (cur s) = n" using assms(2) by (simp add: lscInv_def)
  then have "wp ?del (\<lambda>_. lscInv v n scs) s"
    using assms(2) wp_mono [OF deleteStorageClass_inv [OF assms]]
    by (auto split: option.splits dest!: find_name)
  then have "wp ?del (\<lambda>d. wp (?rest d) (\<lambda>_. lscInv v n scs)) s"
    by (rule wp_mono) (rule rest)
  then show ?thesis
    unfolding reconcileLSCDeleteFunc_def wp_bind wp_get .
qed

lemma updatePass_inv:
  assumes "retry_ok (retry_OnConflict v)" "lscInv v n scs s"
  shows "wp (reconcileLSCUpdateFunc v scs lvgs effective ignored) (\<lambda>_. lscInv v n scs) s"
proof -
  note ends = pass_end_inv [OF assms]
  have rec: "wp (State_Monad.bind (recreateStorageClass v oldSC newSC)
      (\<lambda>r. case r of Some e \<Rightarrow> failWith v (errText v e) e | None \<Rightarrow> finishCreated v)) (\<lambda>_. lscInv v n scs) s"
    if "find (\<lambda>c. Name c = Name (cur s)) scs = Some oldSC"
      "updateStorageClass yaml (cur s) oldSC effective ignored = Inr newSC" for oldSC newSC yaml
  proof -
    have "Name (cur s) = n" using assms(2) by (simp add: lscInv_def)
    with that have "wp (recreateStorageClass v oldSC newSC) (\<lambda>_. lscInv v n scs) s"
      by (intro recreateStorageClass_inv assms) (auto dest: find_name update_props)
    then show ?thesis
      unfolding wp_bind by (rule wp_mono) (auto intro: pass_end_inv assms(1) split: option.splits)
  qed
  show ?thesis
    unfolding reconcileLSCUpdateFunc_def
    using ends rec assms(2)
    by (auto simp: wp_rules Let_def split: prod.splits option.splits sum.splits)
qed

lemma createIfNotExists_inv:
  assumes "lscInv v n scs s" "configureStorageClass yaml lsc effective ignored = Inr sc" "Name lsc = n"
  shows "wp (createStorageClassIfNotExists v scs sc) (\<lambda>r s'. lscInv v n scs s' \<and>
     (\<forall>c. r = Inr (Some c) \<longrightarrow> (\<exists>sc h'. lhist s' = LCreateSC sc (Inr c) # h'))) s"
  using assms configure_props [OF assms(2)] unfolding createStorageClassIfNotExists_def
  by (auto simp: wp_rules lscInv_def lscWriteOk_def split: sum.splits)

lemma addFinalizer_inv:
  assumes "lscInv v n scs s" "\<exists>c h'. lhist s = LCreateSC c (Inr sc) # h'"
  shows "wp (addFinalizerIfNotExistsForSC v sc) (\<lambda>_. lscInv v n scs) s"
proof -
  have "lscWriteOk v n scs (LUpdateSC sc1 (cl_Update_SC v sc1 (lhist s))) (lhist s)"
    if "sc1 = sc\<lparr>Finalizers := Finalizers sc @ [LocalStorageClassFinalizerName]\<rparr>" for sc1
    using assms(2) that by (auto simp: lscWriteOk_def)
  with assms(1) show ?thesis
    unfolding addFinalizerIfNotExistsForSC_def by (simp add: wp_rules Let_def lscInv_def)
qed

lemma createPass_inv:
  assumes "retry_ok (retry_OnConflict v)" "lscInv v n scs s"
  shows "wp (reconcileLSCCreateFunc v scs lvgs effective ignored) (\<lambda>_. lscInv v n scs) s"
proof -
  have add: "wp (State_Monad.bind (addFinalizerIfNotExistsForSC v c)
      (\<lambda>a. case a of Inl e \<Rightarrow> State_Monad.return (True, Some e) | Inr _ \<Rightarrow> finishCreated v))
      (\<lambda>_. lscInv v n scs) s2"
    if "lscInv v n scs s2" "\<exists>sc h'. lhist s2 = LCreateSC sc (Inr c) # h'" for c s2
    unfolding wp_bind by (rule wp_mono [OF addFinalizer_inv [OF that]])
      (auto intro: pass_end_inv assms(1) split: sum.splits)
  have create: "wp (State_Monad.bind (createStorageClassIfNotExists v scs sc) (\<lambda>c. case c of
       Inl e \<Rightarrow> do {
         up \<leftarrow> updateLocalStorageClassPhase v FailedStatusPhase (errText v e);
         State_Monad.return (case up of Some ue \<Rightarrow> (True, Some ue) | None \<Rightarrow> (True, Some e))
       }
     | Inr None \<Rightarrow> State_Monad.return (True, None)
     | Inr (Some created) \<Rightarrow> do {
         a \<leftarrow> addFinalizerIfNotExistsForSC v created;
         (case a of Inl e \<Rightarrow> State_Monad.return (True, Some e) | Inr _ \<Rightarrow> finishCreated v)
       })) (\<lambda>_. lscInv v n scs) s1"
    if "lscInv v n scs s1" "configureStorageClass yaml (cur s1) effective ignored = Inr sc" for s1 sc yaml
  proof -
    have "Name (cur s1) = n" using that(1) by (simp add: lscInv_def)
    from createIfNotExists_inv [OF that this] show ?thesis
      unfolding wp_bind
      by (rule wp_mono) (use add pass_end_inv(4) [OF assms(1)] in \<open>auto split: sum.splits option.splits\<close>)
  qed
  show ?thesis
    unfolding reconcileLSCCreateFunc_def wp_bind [of "ensureFinalizer v"]
    by (rule wp_mono [OF ensureFinalizer_inv [OF assms]])
      (use create pass_end_inv [OF assms(1)] in \<open>auto simp: wp_rules Let_def
        split: prod.splits option.splits sum.splits\<close>)
qed

lemma dispatch_inv:
  assumes "retry_ok (retry_OnConflict v)" "lscInv v n scs s"
  shows "wp (dispatch v scs lsc lvgs effective ignored) (\<lambda>_. lscInv v n scs) s"
  using assms unfolding dispatch_def
  by (auto intro: pass_end_inv createPass_inv updatePass_inv deletePass_inv
      split: sum.splits reconcileType.splits)

lemma RunEventReconcile_inv:
  assumes "retry_ok (retry_OnConflict v)" "lscInv v n scs s"
  shows "wp (RunEventReconcile v scs ignored) (\<lambda>_. lscInv v n scs) s"
proof -
  have "lscInv v n scs (s\<lparr>lhist := LListLVG r # lhist s\<rparr>)" for r
    using assms(2) by (simp add: lscInv_def)
  with assms show ?thesis
    unfolding RunEventReconcile_def
    by (auto simp: wp_rules Let_def intro: pass_end_inv dispatch_inv split: sum.splits)
qed

end
