(* ===== verification/LSC_Resolve.thy ===== *)
theory LSC_Resolve
  imports LSC_Model
begin

text \<open>
  Correctness of the resolution of LVMVolumeGroup entries: it refines a specification on maps that only
  depends on the set of LVMVolumeGroups, and its result is the sorted list of that map.
\<close>

section \<open>Specification\<close>

definition selectedNames :: "(strmap \<Rightarrow> bool) \<Rightarrow> LVG list \<Rightarrow> string set" where
  "selectedNames matches lvgs = {Name lvg |lvg. lvg \<in> set lvgs \<and> matches (labels_of lvg)}"

text \<open>
  What one entry adds to the thin pools chosen so far: a name must be new, a selected group must
  be new or keep its pool.
\<close>

definition specEntry :: "selectorParser \<Rightarrow> LVG list \<Rightarrow> LocalStorageClassLVG \<Rightarrow>
    (string \<rightharpoonup> string option) \<Rightarrow> (string \<rightharpoonup> string option) option" where
  "specEntry asSelector lvgs entry m = (case LabelSelector entry of
     None \<Rightarrow> if m (le_Name entry) \<noteq> None then None else Some (m(le_Name entry \<mapsto> Thin entry))
   | Some sel \<Rightarrow> (case asSelector sel of
       Inl _ \<Rightarrow> None
     | Inr matches \<Rightarrow>
         if \<exists>n\<in>selectedNames matches lvgs. m n \<noteq> None \<and> m n \<noteq> Some (Thin entry) then None
         else Some (m ++ (\<lambda>n. if n \<in> selectedNames matches lvgs then Some (Thin entry) else None))))"

definition specResolve :: "selectorParser \<Rightarrow> LVG list \<Rightarrow> LocalStorageClassLVG list \<Rightarrow>
    (string \<rightharpoonup> string option) option" where
  "specResolve asSelector lvgs entries =
     fold (\<lambda>e m. Option.bind m (specEntry asSelector lvgs e)) entries (Some Map.empty)"

text \<open>The list that shows a map: sorted by name, one plain entry per name.\<close>

definition lists :: "LocalStorageClassLVG list \<Rightarrow> (string \<rightharpoonup> string option) \<Rightarrow> bool" where
  "lists es m \<longleftrightarrow> distinct (map le_Name es) \<and> set es = {namedEntry n t |n t. m n = Some t}"

definition resolvingInv :: "resolving \<Rightarrow> bool" where
  "resolvingInv acc \<longleftrightarrow> lists (snd acc) (fmlookup (fst acc))"

section \<open>Refinement\<close>

lemma namedEntry_simps [simp]:
  "le_Name (namedEntry n t) = n" "Thin (namedEntry n t) = t" "LabelSelector (namedEntry n t) = None"
  "namedEntry n t = namedEntry n' t' \<longleftrightarrow> n = n' \<and> t = t'"
  by (auto simp: namedEntry_def)

lemma lists_names: "lists es m \<Longrightarrow> n \<in> le_Name ` set es \<longleftrightarrow> m n \<noteq> None"
  unfolding lists_def by force

lemma lists_append:
  assumes "lists es m" "m n = None"
  shows "lists (es @ [namedEntry n t]) (m(n \<mapsto> t))"
proof -
  have "namedEntry k v \<in> {namedEntry n' t' |n' t'. (m(n \<mapsto> t)) n' = Some t'} \<longleftrightarrow>
      namedEntry k v \<in> insert (namedEntry n t) {namedEntry n' t' |n' t'. m n' = Some t'}" for k v
    using assms(2) by auto
  then have "{namedEntry n' t' |n' t'. (m(n \<mapsto> t)) n' = Some t'} =
      insert (namedEntry n t) {namedEntry n' t' |n' t'. m n' = Some t'}"
    by blast
  then show ?thesis
    using assms(1) lists_names [OF assms(1), of n] assms(2) unfolding lists_def by auto
qed

definition appendSpec :: "bool \<Rightarrow> string option \<Rightarrow> string \<Rightarrow>
    (string \<rightharpoonup> string option) \<Rightarrow> (string \<rightharpoonup> string option) option" where
  "appendSpec allowCollapse thin n m = (case m n of
     None \<Rightarrow> Some (m(n \<mapsto> thin))
   | Some t \<Rightarrow> if allowCollapse \<and> t = thin then Some m else None)"

lemma appendEntry_refines:
  assumes "resolvingInv acc"
  shows "case appendEntry n thin c acc of
     Inl _ \<Rightarrow> appendSpec c thin n (fmlookup (fst acc)) = None
   | Inr acc' \<Rightarrow> resolvingInv acc' \<and> appendSpec c thin n (fmlookup (fst acc)) = Some (fmlookup (fst acc'))"
  using assms
  by (cases acc) (auto simp: appendEntry_def appendSpec_def resolvingInv_def fmupd.rep_eq map_upd_def
      intro: lists_append split: option.splits)

lemma fold_appendSpec:
  "fold (\<lambda>lvg m. Option.bind m (\<lambda>m. if \<not> matches (labels_of lvg) then Some m
        else appendSpec True thin (Name lvg) m)) lvgs (Some m) =
   (if \<exists>n\<in>selectedNames matches lvgs. m n \<noteq> None \<and> m n \<noteq> Some thin then None
    else Some (m ++ (\<lambda>n. if n \<in> selectedNames matches lvgs then Some thin else None)))"
proof (induction lvgs arbitrary: m)
  case Nil
  then show ?case by (simp add: selectedNames_def map_add_def)
next
  case (Cons lvg lvgs)
  have none: "fold (\<lambda>lvg m. Option.bind m (\<lambda>m. if \<not> matches (labels_of lvg) then Some m
        else appendSpec True thin (Name lvg) m)) xs None = None" for xs :: "LVG list"
    by (induction xs) simp_all
  have sel: "selectedNames matches (lvg # lvgs) =
     (if matches (labels_of lvg) then insert (Name lvg) (selectedNames matches lvgs)
      else selectedNames matches lvgs)"
    by (auto simp: selectedNames_def)
  have "m(Name lvg \<mapsto> thin) ++ (\<lambda>n. if n \<in> N then Some thin else None) =
      m ++ (\<lambda>n. if n = Name lvg \<or> n \<in> N then Some thin else None)" for N
    by (rule ext) (simp add: map_add_def)
  moreover have "m ++ (\<lambda>n. if n = Name lvg \<or> n \<in> N then Some thin else None) =
      m ++ (\<lambda>n. if n \<in> N then Some thin else None)" if "m (Name lvg) = Some thin" for N
    using that by (intro ext) (simp add: map_add_def)
  ultimately show ?case
    by (auto simp: sel none Cons.IH appendSpec_def split: option.splits)
qed

lemma resolveEntry_refines:
  assumes "resolvingInv acc"
  shows "case resolveEntry asSelector lvgs entry acc of
     Inl _ \<Rightarrow> specEntry asSelector lvgs entry (fmlookup (fst acc)) = None
   | Inr acc' \<Rightarrow> resolvingInv acc' \<and>
       specEntry asSelector lvgs entry (fmlookup (fst acc)) = Some (fmlookup (fst acc'))"
proof (cases "LabelSelector entry")
  case None
  then show ?thesis
    using appendEntry_refines [OF assms, where n = "le_Name entry" and thin = "Thin entry" and c = False]
    by (auto simp: resolveEntry_def specEntry_def appendSpec_def split: sum.splits option.splits)
next
  case (Some sel)
  show ?thesis
  proof (cases "asSelector sel")
    case (Inr matches)
    let ?f = "\<lambda>lvg acc. if \<not> matches (labels_of lvg) then Inr acc
      else appendEntry (Name lvg) (Thin entry) True acc"
    let ?g = "\<lambda>lvg m. if \<not> matches (labels_of lvg) then Some m
      else appendSpec True (Thin entry) (Name lvg) m"
    have "case foldE ?f lvgs acc of
        Inl _ \<Rightarrow> fold (\<lambda>x m. Option.bind m (?g x)) lvgs (Some (fmlookup (fst acc))) = None
      | Inr acc' \<Rightarrow> resolvingInv acc' \<and>
          fold (\<lambda>x m. Option.bind m (?g x)) lvgs (Some (fmlookup (fst acc))) = Some (fmlookup (fst acc'))"
      using appendEntry_refines
      by (intro foldE_refines [where view = "\<lambda>acc. fmlookup (fst acc)"] assms) (auto split: sum.splits)
    then show ?thesis
      by (auto simp: resolveEntry_def specEntry_def Some Inr fold_appendSpec
          split: sum.splits if_splits)
  qed (simp add: resolveEntry_def specEntry_def Some)
qed

lemma resolve_loop:
  "case foldE (resolveEntry asSelector lvgs) entries (fmempty, []) of
     Inl _ \<Rightarrow> specResolve asSelector lvgs entries = None
   | Inr acc \<Rightarrow> resolvingInv acc \<and> specResolve asSelector lvgs entries = Some (fmlookup (fst acc))"
proof -
  have "resolvingInv (fmempty, [])" by (simp add: resolvingInv_def lists_def)
  from foldE_refines [where view = "\<lambda>acc. fmlookup (fst acc)" and I = resolvingInv and xs = entries
      and f = "resolveEntry asSelector lvgs" and g = "specEntry asSelector lvgs", OF resolveEntry_refines this]
  show ?thesis by (auto simp: specResolve_def fmempty.rep_eq split: sum.splits)
qed

lemma lists_unique:
  assumes "lists es m" "lists es' m" "sorted (map le_Name es)" "sorted (map le_Name es')"
  shows "es = es'"
proof (rule map_sorted_distinct_set_unique [where f = le_Name])
  show "inj_on le_Name (set es \<union> set es')"
    using assms(1,2) unfolding lists_def inj_on_def by auto
qed (use assms in \<open>auto simp: lists_def\<close>)

lemma lists_sort: "lists es m \<Longrightarrow> lists (sort_key le_Name es) m"
proof -
  have "distinct (map le_Name (sort_key le_Name es)) = distinct (map le_Name es)"
    by (simp only: distinct_map set_sort distinct_sort)
  then show "lists es m \<Longrightarrow> lists (sort_key le_Name es) m" by (simp add: lists_def)
qed

lemma resolve_iff:
  assumes "LVM lsc = Some lvm"
  shows "resolveEffectiveLVGs asSelector lsc lvgs = Inr es \<longleftrightarrow>
    (\<exists>m. specResolve asSelector lvgs (LVMVolumeGroups lvm) = Some m \<and>
         sorted (map le_Name es) \<and> lists es m)"
proof (cases "foldE (resolveEntry asSelector lvgs) (LVMVolumeGroups lvm) (fmempty, [])")
  case (Inl e)
  then show ?thesis
    using resolve_loop [of asSelector lvgs "LVMVolumeGroups lvm"] assms
    by (auto simp: resolveEffectiveLVGs_def)
next
  case (Inr acc)
  obtain seen res where acc: "acc = (seen, res)" by (cases acc)
  have "lists (sort_key le_Name res) (fmlookup seen)"
    and spec: "specResolve asSelector lvgs (LVMVolumeGroups lvm) = Some (fmlookup seen)"
    using resolve_loop [of asSelector lvgs "LVMVolumeGroups lvm"]
    by (auto simp: Inr acc resolvingInv_def intro: lists_sort)
  then show ?thesis
    using assms lists_unique [of es "fmlookup seen" "sort_key le_Name res"]
    by (auto simp: resolveEffectiveLVGs_def Inr acc)
qed

end
