(* ===== verification/LSC_Validate.thy ===== *)
theory LSC_Validate
  imports LSC_Resolve
begin

text \<open>
  What a LocalStorageClass has to satisfy, stated without the helper functions of the validation, and
  lemmas that relate each helper to its condition.
\<close>

section \<open>Volume groups on the same node\<close>

definition listAt :: "('k \<times> 'v list) list \<Rightarrow> 'k \<Rightarrow> 'v list" where
  "listAt m k = (case map_of m k of Some vs \<Rightarrow> vs | None \<Rightarrow> [])"

lemma listAt_appendAt [simp]:
  "listAt (appendAt k v m) k' = (if k' = k then listAt m k' @ [v] else listAt m k')"
  by (induction k v m rule: appendAt.induct) (auto simp: listAt_def)

lemma keys_appendAt [simp]: "fst ` set (appendAt k v m) = insert k (fst ` set m)"
  by (induction k v m rule: appendAt.induct) auto

lemma listAt_fold_appendAt:
  "length (listAt (fold (\<lambda>node. appendAt node n) nodes m) k) = length (listAt m k) + count_list nodes k"
  by (induction nodes arbitrary: m) auto

definition usedNodes :: "LVG list \<Rightarrow> LocalStorageClassLVG list \<Rightarrow> string list" where
  "usedNodes lvgs effective =
     concat (map lvg_Nodes (filter (\<lambda>lvg. Name lvg \<in> set (map le_Name effective)) lvgs))"

lemma length_nodesWithLVGs:
  "length (listAt (nodesWithLVGs lvgs effective) k) = count_list (usedNodes lvgs effective) k"
proof -
  have "length (listAt (fold (\<lambda>lvg m. if Name lvg \<in> set (map le_Name effective)
             then fold (\<lambda>node. appendAt node (Name lvg)) (lvg_Nodes lvg) m else m) lvgs m) k) =
    length (listAt m k) + count_list (usedNodes lvgs effective) k" for m
    by (induction lvgs arbitrary: m) (auto simp: listAt_fold_appendAt usedNodes_def)
  then show ?thesis by (simp add: nodesWithLVGs_def) (simp add: listAt_def)
qed

lemma listAt_key: "listAt m k \<noteq> [] \<Longrightarrow> k \<in> set (map fst m)"
  by (auto simp: listAt_def split: option.splits dest!: map_of_SomeD intro: rev_image_eqI)

lemma distinct_count_list: "distinct xs \<longleftrightarrow> (\<forall>x. count_list xs x \<le> 1)"
proof (induction xs)
  case (Cons a xs)
  have "count_list xs a = 0 \<longleftrightarrow> a \<notin> set xs" by (simp add: count_list_0_iff)
  with Cons show ?case by (auto simp: le_Suc_eq split: if_splits) 
qed simp

lemma sameNode_empty:
  assumes "\<And>xs. set (rangeOrder xs) = set xs"
  shows "findLVMVolumeGroupsOnTheSameNode rangeOrder lvgs effective = [] \<longleftrightarrow>
    distinct (usedNodes lvgs effective)"
proof -
  let ?m = "nodesWithLVGs lvgs effective"
  have "findLVMVolumeGroupsOnTheSameNode rangeOrder lvgs effective = [] \<longleftrightarrow>
      (\<forall>k\<in>set (map fst ?m). length (listAt ?m k) \<le> 1)"
    by (auto simp: findLVMVolumeGroupsOnTheSameNode_def Let_def filter_empty_conv assms listAt_def not_less)
  also have "\<dots> \<longleftrightarrow> (\<forall>k. length (listAt ?m k) \<le> 1)"
    using listAt_key [of ?m] by (metis le0 list.size(3))
  finally show ?thesis by (simp add: length_nodesWithLVGs distinct_count_list)
qed

section \<open>Well-formed LocalStorageClasses\<close>

definition entryOk :: "selectorParser \<Rightarrow> LVG list \<Rightarrow> string \<Rightarrow> LocalStorageClassLVG \<Rightarrow> bool" where
  "entryOk asSelector lvgs lvmType entry \<longleftrightarrow>
     (le_Name entry \<noteq> '''' \<longleftrightarrow> LabelSelector entry = None) \<and>
     (\<forall>sel. LabelSelector entry = Some sel \<longrightarrow>
        (\<exists>matches. asSelector sel = Inr matches \<and> selectedNames matches lvgs \<noteq> {})) \<and>
     (if lvmType = LVMThinType then \<exists>pool. Thin entry = Some pool \<and> pool \<noteq> '''' else Thin entry = None)"

definition poolExists :: "LVG list \<Rightarrow> LocalStorageClassLVG \<Rightarrow> bool" where
  "poolExists lvgs entry \<longleftrightarrow> (\<exists>pool lvg. Thin entry = Some pool \<and>
     lvgsByName lvgs (le_Name entry) = Some lvg \<and> pool \<in> tp_Name ` set (status_ThinPools lvg))"

definition lscValid :: "selectorParser \<Rightarrow> StorageClass list \<Rightarrow> LocalStorageClass \<Rightarrow> LVG list \<Rightarrow>
    LocalStorageClassLVG list \<Rightarrow> bool" where
  "lscValid asSelector scs lsc lvgs effective \<longleftrightarrow>
     (\<forall>sc\<in>set scs. Name sc = Name lsc \<longrightarrow> Provisioner sc = LocalStorageClassProvisioner) \<and>
     (\<exists>lvm. LVM lsc = Some lvm \<and>
        LVMVolumeGroups lvm \<noteq> [] \<and>
        (\<forall>entry\<in>set (LVMVolumeGroups lvm). entryOk asSelector lvgs (lvm_Type lvm) entry) \<and>
        ((\<forall>entry\<in>set (LVMVolumeGroups lvm). le_Name entry = '''') \<or>
         (\<forall>entry\<in>set (LVMVolumeGroups lvm). LabelSelector entry = None)) \<and>
        distinct (usedNodes lvgs effective) \<and>
        (\<forall>entry\<in>set effective. le_Name entry \<in> Name ` set lvgs) \<and>
        (if lvm_Type lvm = LVMThinType then \<forall>entry\<in>set effective. poolExists lvgs entry
         else \<forall>entry\<in>set effective. Thin entry = None))"

lemma validateEntry_empty:
  "validateEntry asSelector lvgs ty (i, entry) = [] \<longleftrightarrow> entryOk asSelector lvgs ty entry"
  by (auto simp: validateEntry_def entryOk_def countLVGsMatchingSelector_def selectedNames_def Let_def
      filter_empty_conv split: option.splits sum.splits if_splits)

lemma validateEntries_empty:
  "concat (map (validateEntry asSelector lvgs ty) (List.enumerate k entries)) = [] \<longleftrightarrow>
   (\<forall>entry\<in>set entries. entryOk asSelector lvgs ty entry)"
  by (induction entries arbitrary: k) (simp_all add: validateEntry_empty)

lemma findNonexistentThinPools_empty:
  "findNonexistentThinPools lvgs effective = [] \<longleftrightarrow> (\<forall>entry\<in>set effective. poolExists lvgs entry)"
  by (auto simp: findNonexistentThinPools_def filter_empty_conv poolExists_def list_ex_iff
      split: option.splits) force+

lemma findUnmanaged_empty:
  assumes "Name lsc \<noteq> ''''"
  shows "findUnmanagedDuplicatedSC scs lsc = '''' \<longleftrightarrow>
    (\<forall>sc\<in>set scs. Name sc = Name lsc \<longrightarrow> Provisioner sc = LocalStorageClassProvisioner)"
  using assms
  by (auto simp: findUnmanagedDuplicatedSC_def find_None_iff find_Some_iff split: option.splits)

lemma validateLVM_empty:
  assumes "\<And>xs. set (rangeOrder xs) = set xs"
  shows "validateLVM asSelector rangeOrder lvgs effective lvm = [] \<longleftrightarrow>
        LVMVolumeGroups lvm \<noteq> [] \<and>
        (\<forall>entry\<in>set (LVMVolumeGroups lvm). entryOk asSelector lvgs (lvm_Type lvm) entry) \<and>
        ((\<forall>entry\<in>set (LVMVolumeGroups lvm). le_Name entry = '''') \<or>
         (\<forall>entry\<in>set (LVMVolumeGroups lvm). LabelSelector entry = None)) \<and>
        distinct (usedNodes lvgs effective) \<and>
        (\<forall>entry\<in>set effective. le_Name entry \<in> Name ` set lvgs) \<and>
        (if lvm_Type lvm = LVMThinType then \<forall>entry\<in>set effective. poolExists lvgs entry
         else \<forall>entry\<in>set effective. Thin entry = None)"
proof -
  have "findNonexistentLVGs lvgs effective = [] \<longleftrightarrow> (\<forall>entry\<in>set effective. le_Name entry \<in> Name ` set lvgs)"
    by (auto simp: findNonexistentLVGs_def filter_empty_conv)
  moreover have "findAnyThinPool effective = [] \<longleftrightarrow> (\<forall>entry\<in>set effective. Thin entry = None)"
    by (auto simp: findAnyThinPool_def filter_empty_conv)
  ultimately show ?thesis
    unfolding validateLVM_def Let_def append_is_Nil_conv
    by (simp add: validateEntries_empty sameNode_empty [OF assms] findNonexistentThinPools_empty
        filter_empty_conv del: concat_eq_Nil_conv) 
qed

lemma validate_iff:
  assumes "Name lsc \<noteq> ''''" "\<And>xs. set (rangeOrder xs) = set xs"
  shows "fst (validateLocalStorageClass asSelector rangeOrder scs lsc lvgs effective) \<longleftrightarrow>
    lscValid asSelector scs lsc lvgs effective"
  using findUnmanaged_empty [OF assms(1), of scs] validateLVM_empty [OF assms(2)]
  by (auto simp: validateLocalStorageClass_def lscValid_def Let_def split: option.splits)

end
