(* ===== verification/LSC_Properties.thy ===== *)
theory LSC_Properties
  imports LSC_Validate
begin

text \<open>
  Properties of the LocalStorageClass controller's decisions: resolution, validation, and the
  relation between a LocalStorageClass and the StorageClass built from it.
\<close>

section \<open>Concrete resources\<close>

definition demoSelector :: selectorParser where
  "demoSelector sel = Inr (\<lambda>ls. ls = matchLabels sel)"

definition demoTier :: strmap where
  "demoTier = fmupd ''tier'' ''fast'' fmempty"

definition demoLVG :: "string \<Rightarrow> string \<Rightarrow> LVG" where
  "demoLVG n node = objmeta.extend ((meta0 n)\<lparr>Labels := Some demoTier\<rparr>)
     \<lparr>ActualVGNameOnTheNode = ''vg'', Local_NodeName = node, spec_ThinPools = [], lvg_Nodes = [node],
      VGSize = 100, VGFree = 100, AllocatedSize = 0, ExtentSize = 4, status_ThinPools = []\<rparr>"

definition demoEntry :: LocalStorageClassLVG where
  "demoEntry = \<lparr>le_Name = '''', LabelSelector = Some \<lparr>matchLabels = demoTier, matchExpressions = []\<rparr>,
     Thin = None\<rparr>"

definition demoLSC :: LocalStorageClass where
  "demoLSC = objmeta.extend ((meta0 ''local'')\<lparr>Labels := Some (fmupd ''team'' ''a'' fmempty)\<rparr>)
     \<lparr>ReclaimPolicy = ''Delete'', VolumeBindingMode = ''WaitForFirstConsumer'',
      LVM = Some \<lparr>lvm_Type = ''Thick'', Thick = None, VolumeCleanup = '''', LVMVolumeGroups = [demoEntry]\<rparr>,
      FSType = '''', lsc_Status = None\<rparr>"

definition demoYaml :: yamlLib where
  "demoYaml = \<lparr>yaml_Marshal = (\<lambda>es. if es = [namedEntry ''vg-1'' None] then Inr ''one'' else Inl ''big''),
     yaml_Unmarshal = (\<lambda>s. if s = ''one'' then Inr [namedEntry ''vg-1'' None] else Inl ''bad'')\<rparr>"

definition demoSC :: StorageClass where
  "demoSC = (case configureStorageClass demoYaml demoLSC [namedEntry ''vg-1'' None] [] of Inr sc \<Rightarrow> sc)"

section \<open>Resolution\<close>

text \<open>C13: Resolving the LVMVolumeGroup entries refines its specification on maps: it succeeds exactly
  if no name is listed twice, every selector is valid and no group is selected with two different thin
  pools, and its result is the list, sorted by name and without duplicates, of exactly the groups the
  entries name or select, each with the thin pool of its entry.\<close>

theorem resolve_refines_spec:
  assumes "LVM lsc = Some lvm"
  shows "resolveEffectiveLVGs asSelector lsc lvgs = Inr es \<longleftrightarrow>
    (\<exists>m. specResolve asSelector lvgs (LVMVolumeGroups lvm) = Some m \<and>
         sorted (map le_Name es) \<and> distinct (map le_Name es) \<and>
         set es = {namedEntry n thin |n thin. m n = Some thin})"
  using resolve_iff [OF assms] by (simp add: lists_def)

theorem resolve_refines_spec_witness:
  "\<exists>m. specResolve demoSelector [demoLVG ''vg-2'' ''n2'', demoLVG ''vg-1'' ''n1''] [demoEntry] = Some m \<and>
     sorted (map le_Name [namedEntry ''vg-1'' None, namedEntry ''vg-2'' None]) \<and>
     distinct (map le_Name [namedEntry ''vg-1'' None, namedEntry ''vg-2'' None]) \<and>
     set [namedEntry ''vg-1'' None, namedEntry ''vg-2'' None] = {namedEntry n thin |n thin. m n = Some thin}"
proof -
  have "resolveEffectiveLVGs demoSelector demoLSC [demoLVG ''vg-2'' ''n2'', demoLVG ''vg-1'' ''n1''] =
     Inr [namedEntry ''vg-1'' None, namedEntry ''vg-2'' None]" by code_simp
  moreover have "LVM demoLSC =
    Some \<lparr>lvm_Type = ''Thick'', Thick = None, VolumeCleanup = '''', LVMVolumeGroups = [demoEntry]\<rparr>"
    by (simp add: demoLSC_def objmeta.extend_def)
  ultimately show ?thesis
    using resolve_refines_spec [of demoLSC] by fastforce
qed

text \<open>The order in which the API server lists the LVMVolumeGroups, and repetitions in it, do not
  matter: resolution succeeds for both lists or for neither, with the same result, so that the
  parameter of the StorageClass is deterministic across reconciles.\<close>

theorem resolve_order_independent:
  assumes "set lvgs = set lvgs'"
  shows "resolveEffectiveLVGs asSelector lsc lvgs = Inr es \<longleftrightarrow>
    resolveEffectiveLVGs asSelector lsc lvgs' = Inr es"
proof (cases "LVM lsc")
  case None
  then show ?thesis by (simp add: resolveEffectiveLVGs_def)
next
  case (Some lvm)
  have "selectedNames matches lvgs = selectedNames matches lvgs'" for matches
    by (simp only: selectedNames_def assms)
  then have "specEntry asSelector lvgs = specEntry asSelector lvgs'"
    by (intro ext) (simp only: specEntry_def)
  then have "specResolve asSelector lvgs = specResolve asSelector lvgs'"
    by (intro ext) (simp add: specResolve_def)
  with resolve_iff [OF Some] show ?thesis by simp
qed

theorem resolve_order_independent_witness:
  "resolveEffectiveLVGs demoSelector demoLSC [demoLVG ''b'' ''n2'', demoLVG ''a'' ''n1''] =
     Inr [namedEntry ''a'' None, namedEntry ''b'' None]"
proof -
  have "resolveEffectiveLVGs demoSelector demoLSC [demoLVG ''a'' ''n1'', demoLVG ''b'' ''n2''] =
     Inr [namedEntry ''a'' None, namedEntry ''b'' None]" by code_simp
  then show ?thesis
    using resolve_order_independent [of "[demoLVG ''b'' ''n2'', demoLVG ''a'' ''n1'']"
      "[demoLVG ''a'' ''n1'', demoLVG ''b'' ''n2'']"] by (simp add: insert_commute)
qed

section \<open>Validation\<close>

text \<open>C15: The validation accepts a LocalStorageClass exactly if it is well formed: no StorageClass of
  its name belongs to another provisioner, it has an LVM section with at least one entry, every entry sets
  exactly one of name and selector with a selector that is valid and matches something, names and
  selectors are not mixed, no two of its groups share a node, every group exists, and thin pools are given
  and exist exactly for the type Thin. A rejection always comes with a message.\<close>

theorem validate_sound_and_complete:
  assumes "Name lsc \<noteq> ''''" "\<And>xs. set (rangeOrder xs) = set xs"
  shows "(fst (validateLocalStorageClass asSelector rangeOrder scs lsc lvgs effective) \<longleftrightarrow>
      lscValid asSelector scs lsc lvgs effective) \<and>
    (fst (validateLocalStorageClass asSelector rangeOrder scs lsc lvgs effective) \<longleftrightarrow>
      snd (validateLocalStorageClass asSelector rangeOrder scs lsc lvgs effective) = [])"
  using validate_iff [OF assms] by (simp add: validateLocalStorageClass_def Let_def)

theorem validate_sound_and_complete_witness:
  "lscValid demoSelector [] demoLSC [demoLVG ''a'' ''n1'', demoLVG ''b'' ''n2'']
     [namedEntry ''a'' None, namedEntry ''b'' None]"
proof -
  have "fst (validateLocalStorageClass demoSelector (\<lambda>xs. xs) [] demoLSC
     [demoLVG ''a'' ''n1'', demoLVG ''b'' ''n2''] [namedEntry ''a'' None, namedEntry ''b'' None])"
    by code_simp
  then show ?thesis
    using validate_sound_and_complete [of demoLSC "\<lambda>xs. xs"]
    by (simp add: demoLSC_def objmeta.extend_def meta0_def)
qed

section \<open>The StorageClass built from a LocalStorageClass\<close>

text \<open>The documented law of the YAML library that the controller relies on.\<close>

definition yamlRoundTrip :: "yamlLib \<Rightarrow> bool" where
  "yamlRoundTrip yaml \<longleftrightarrow>
     (\<forall>es s. yaml_Marshal yaml es = Inr s \<longrightarrow> yaml_Unmarshal yaml s = Inr es)"

lemma demoYaml_roundTrip [simp]: "yamlRoundTrip demoYaml"
  by (simp add: yamlRoundTrip_def demoYaml_def)

lemma param_keys_distinct [simp]:
  "LVMVolumeGroupsParamKey \<noteq> FSTypeParamKey" "LVMVolumeGroupsParamKey \<noteq> LVMVolumeCleanupParamKey"
  "LVMVolumeGroupsParamKey \<noteq> LVMThickContiguousParamKey" "LVMVolumeCleanupParamKey \<noteq> FSTypeParamKey"
  "LVMVolumeCleanupParamKey \<noteq> LVMVolumeGroupsParamKey" "LVMVolumeCleanupParamKey \<noteq> LVMVolumeBindingModeParamKey"
  "LVMVolumeCleanupParamKey \<noteq> LVMTypeParamKey" "LVMVolumeCleanupParamKey \<noteq> TypeParamKey"
  "LVMVolumeCleanupParamKey \<noteq> LVMThickContiguousParamKey"
  "LVMThickContiguousParamKey \<noteq> LVMVolumeGroupsParamKey" "LVMThickContiguousParamKey \<noteq> LVMVolumeCleanupParamKey"
  "FSTypeParamKey \<noteq> LVMVolumeGroupsParamKey" "FSTypeParamKey \<noteq> LVMVolumeCleanupParamKey"
  "LVMVolumeBindingModeParamKey \<noteq> LVMVolumeCleanupParamKey" "LVMTypeParamKey \<noteq> LVMVolumeCleanupParamKey"
  "TypeParamKey \<noteq> LVMVolumeCleanupParamKey"
  by (simp_all add: param_key_defs)

lemma configureParams_get:
  "mget (configureParams lsc lvm text) LVMVolumeGroupsParamKey = text"
  "mget (configureParams lsc lvm text) LVMVolumeCleanupParamKey = VolumeCleanup lvm"
  by (simp_all add: configureParams_def Let_def)

lemma configureLabels_match: "labelsMatchLSC (Some (configureLabels lsc ignored)) (Labels lsc) ignored"
  by (simp add: configureLabels_def labelsMatchLSC_def Let_def)

lemma effectiveByName_distinct:
  assumes "distinct (map le_Name es)" "e \<in> set es"
  shows "effectiveByName es (le_Name e) = Some (Thin e)"
  unfolding effectiveByName_def
  using assms by (intro map_of_is_SomeI) (auto simp: rev_map [symmetric] comp_def)

lemma diffLVGs_same:
  assumes "\<And>e. e \<in> set es \<Longrightarrow> byName (le_Name e) = Some (Thin e)"
    and "lvm_Type lvm = LVMThinType \<Longrightarrow> \<forall>e\<in>set es. Thin e \<noteq> None"
  shows "diffLVGs lvm byName es = Inr False"
  using assms by (induction es) (auto split: option.splits)

lemma no_diff_after_configure:
  assumes "yamlRoundTrip yaml" "configureStorageClass yaml lsc effective ignored = Inr sc"
    and "distinct (map le_Name effective)" "LVM lsc = Some lvm"
    and "lvm_Type lvm = LVMThinType \<Longrightarrow> \<forall>e\<in>set effective. Thin e \<noteq> None"
    and "Parameters sc' = Parameters sc" "Labels sc' = Labels sc"
  shows "hasSCDiff yaml sc' lsc effective ignored = Inr False"
proof -
  obtain s where s: "yaml_Marshal yaml effective = Inr s"
    and sc: "Parameters sc = configureParams lsc lvm s" "Labels sc = Some (configureLabels lsc ignored)"
    using assms(2,4) by (auto simp: configureStorageClass_def objmeta.extend_def split: sum.splits)
  have "yaml_Unmarshal yaml s = Inr effective"
    using assms(1) s by (simp add: yamlRoundTrip_def)
  then show ?thesis
    unfolding hasSCDiff_def getLVGFromSCParams_def assms(4,6,7) sc configureParams_get
    by (simp add: configureLabels_match)
      (intro diffLVGs_same effectiveByName_distinct assms(3,5), auto)
qed

text \<open>The controller reaches a fixed point: the StorageClass it builds from a LocalStorageClass, and
  also the one it rebuilds over an older StorageClass, shows no difference when it is compared with the
  same LocalStorageClass again, so that a pass over an unchanged, Ready LocalStorageClass does nothing.\<close>

theorem built_storage_class_is_stable:
  assumes "yamlRoundTrip yaml" "updateStorageClass yaml lsc oldSC effective ignored = Inr sc"
    and "distinct (map le_Name effective)" "LVM lsc = Some lvm" "DeletionTimestamp lsc = None"
    and "lvm_Type lvm = LVMThinType \<Longrightarrow> \<forall>e\<in>set effective. Thin e \<noteq> None"
    and "find (\<lambda>c. Name c = Name lsc) scs = Some sc" "lsc_Status lsc = Some st"
    and "\<not> IsStale conds (Conditions st) ConditionTypeReady (Generation lsc)"
    and "IsTrue conds (Conditions st) ConditionTypeReady"
  shows "hasSCDiff yaml sc lsc effective ignored = Inr False \<and>
    identifyReconcileFunc yaml conds scs lsc effective ignored = Inr NoReconcile"
proof -
  obtain sc0 where sc0: "configureStorageClass yaml lsc effective ignored = Inr sc0"
    "Parameters sc = Parameters sc0" "Labels sc = Labels sc0" "Provisioner sc = Provisioner sc0"
    using assms(2) by (auto simp: updateStorageClass_def split: sum.splits option.splits)
  have diff: "hasSCDiff yaml sc lsc effective ignored = Inr False"
    by (rule no_diff_after_configure [OF assms(1) sc0(1) assms(3,4,6) sc0(2,3)])
  have "Provisioner sc = LocalStorageClassProvisioner"
    using sc0(1,4) by (auto simp: configureStorageClass_def objmeta.extend_def split: option.splits sum.splits)
  moreover have "list_ex (\<lambda>c. Name c = Name lsc) scs"
    using assms(7) by (auto simp: find_Some_iff list_ex_length)
  ultimately show ?thesis
    using assms(5,7-10) diff
    by (simp add: identifyReconcileFunc_def shouldReconcileByDeleteFunc_def shouldReconcileByCreateFunc_def
        shouldReconcileByUpdateFunc_def)
qed

definition demoReady :: LocalStorageClass where
  "demoReady = demoLSC\<lparr>lsc_Status := Some \<lparr>lsc_Phase = ''Created'', lsc_Reason = '''', ObservedGeneration = 0,
     Conditions = [\<lparr>cond_Type = ''Ready'', cond_Status = True, cond_Reason = ''Reconciled'',
       cond_Message = '''', cond_ObservedGeneration = 0\<rparr>]\<rparr>\<rparr>"

definition demoConds :: condLib where
  "demoConds = \<lparr>
     IsStale = (\<lambda>cs ty gen. \<not> list_ex (\<lambda>c. cond_Type c = ty \<and> cond_ObservedGeneration c = gen) cs),
     IsTrue = (\<lambda>cs ty. list_ex (\<lambda>c. cond_Type c = ty \<and> cond_Status c) cs),
     SetCond = (\<lambda>cs c. c # filter (\<lambda>d. cond_Type d \<noteq> cond_Type c) cs),
     TruncateMessage = take 32768\<rparr>"

definition demoRebuilt :: StorageClass where
  "demoRebuilt = projr (updateStorageClass demoYaml demoReady demoSC [namedEntry ''vg-1'' None] [])"

theorem built_storage_class_is_stable_witness:
  "identifyReconcileFunc demoYaml demoConds [demoRebuilt] demoReady [namedEntry ''vg-1'' None] [] =
     Inr NoReconcile"
proof -
  have built: "updateStorageClass demoYaml demoReady demoSC [namedEntry ''vg-1'' None] [] = Inr demoRebuilt"
    by (simp add: demoRebuilt_def updateStorageClass_def configureStorageClass_def demoYaml_def
        demoReady_def demoLSC_def objmeta.extend_def)
  have lvm: "LVM demoReady =
    Some \<lparr>lvm_Type = ''Thick'', Thick = None, VolumeCleanup = '''', LVMVolumeGroups = [demoEntry]\<rparr>"
    by (simp add: demoReady_def demoLSC_def objmeta.extend_def)
  have name: "Name demoRebuilt = Name demoReady"
    by (simp add: demoRebuilt_def updateStorageClass_def configureStorageClass_def demoYaml_def
        demoReady_def demoLSC_def objmeta.extend_def meta0_def split: option.splits)
  show ?thesis
    using built_storage_class_is_stable [OF demoYaml_roundTrip built _ lvm, of "[demoRebuilt]" _ demoConds]
    by (simp add: name demoReady_def demoLSC_def objmeta.extend_def meta0_def LVMThinType_def
        demoConds_def ConditionTypeReady_def)
qed

lemma diffLVGs_none:
  "diffLVGs lvm byName es = Inr False \<longleftrightarrow> (\<forall>e\<in>set es. \<exists>t. byName (le_Name e) = Some t \<and>
     (lvm_Type lvm = LVMThinType \<longrightarrow> Thin e \<noteq> None \<and> t = Thin e))"
  by (induction lvm byName es rule: diffLVGs.induct) (auto split: option.splits if_splits)

lemma effectiveByName_SomeD:
  "effectiveByName es n = Some t \<Longrightarrow> \<exists>e\<in>set es. le_Name e = n \<and> Thin e = t"
proof -
  assume "effectiveByName es n = Some t"
  from map_of_SomeD [OF this [unfolded effectiveByName_def]] show ?thesis by auto
qed

text \<open>Conversely no difference means agreement: when the stored groups have distinct names and
  the comparison reports no difference, the StorageClass names exactly the effective groups, with the same
  thin pools for the type Thin, has the volume cleanup of the LocalStorageClass, and carries exactly its
  labels that are not ignored plus the managed-by label.\<close>

theorem no_difference_means_agreement:
  assumes "hasSCDiff yaml sc lsc effective ignored = Inr False" "LVM lsc = Some lvm"
    and "yaml_Unmarshal yaml (mget (Parameters sc) LVMVolumeGroupsParamKey) = Inr current"
    and "distinct (map le_Name current)" "distinct (map le_Name effective)"
  shows "le_Name ` set current = le_Name ` set effective \<and>
    (lvm_Type lvm = LVMThinType \<longrightarrow> (\<forall>e\<in>set current. \<exists>e'\<in>set effective. le_Name e' = le_Name e \<and> Thin e' = Thin e)) \<and>
    mget (Parameters sc) LVMVolumeCleanupParamKey = VolumeCleanup lvm \<and>
    labels_of sc = fmupd SLVStorageManagedLabelKey SLVStorageClassCtrlName
      (fmfilter (\<lambda>k. \<not> isIgnoredLabelKey k ignored) (labels_of lsc))"
proof -
  have all: "\<forall>e\<in>set current. \<exists>t. effectiveByName effective (le_Name e) = Some t \<and>
     (lvm_Type lvm = LVMThinType \<longrightarrow> Thin e \<noteq> None \<and> t = Thin e)"
    and len: "length current = length effective"
    and "mget (Parameters sc) LVMVolumeCleanupParamKey = VolumeCleanup lvm"
    and lab: "labelsMatchLSC (Labels sc) (Labels lsc) ignored"
    using assms(1-3) by (auto simp: hasSCDiff_def getLVGFromSCParams_def diffLVGs_none split: if_splits)
  moreover have "le_Name ` set current \<subseteq> le_Name ` set effective"
    using all by (auto dest!: effectiveByName_SomeD bspec intro: rev_image_eqI)
  moreover have "card (le_Name ` set current) = card (le_Name ` set effective)"
    using assms(4,5) len by (metis distinct_card length_map list.set_map)
  ultimately have "le_Name ` set current = le_Name ` set effective"
    by (intro card_subset_eq) auto
  moreover have "lvm_Type lvm = LVMThinType \<longrightarrow>
      (\<forall>e\<in>set current. \<exists>e'\<in>set effective. le_Name e' = le_Name e \<and> Thin e' = Thin e)"
    using all by (fastforce dest!: effectiveByName_SomeD)
  moreover have "labels_of sc = fmupd SLVStorageManagedLabelKey SLVStorageClassCtrlName
      (fmfilter (\<lambda>k. \<not> isIgnoredLabelKey k ignored) (labels_of lsc))"
  proof (cases "labels_of lsc = fmempty")
    case True
    show ?thesis
      unfolding True using lab True by (simp add: labelsMatchLSC_def filterLabelsForStorageClass_def)
  qed (use lab in \<open>simp add: labelsMatchLSC_def filterLabelsForStorageClass_def\<close>)
  ultimately show ?thesis
    using \<open>mget (Parameters sc) LVMVolumeCleanupParamKey = VolumeCleanup lvm\<close> by blast
qed

theorem no_difference_means_agreement_witness:
  "labels_of demoSC = fmupd SLVStorageManagedLabelKey SLVStorageClassCtrlName
      (fmfilter (\<lambda>k. \<not> isIgnoredLabelKey k []) (labels_of demoLSC))"
proof -
  have "hasSCDiff demoYaml demoSC demoLSC [namedEntry ''vg-1'' None] [] = Inr False"
    "yaml_Unmarshal demoYaml (mget (Parameters demoSC) LVMVolumeGroupsParamKey) = Inr [namedEntry ''vg-1'' None]"
    by code_simp+
  moreover have "LVM demoLSC =
    Some \<lparr>lvm_Type = ''Thick'', Thick = None, VolumeCleanup = '''', LVMVolumeGroups = [demoEntry]\<rparr>"
    by (simp add: demoLSC_def objmeta.extend_def)
  ultimately show ?thesis
    using no_difference_means_agreement [of demoYaml demoSC demoLSC "[namedEntry ''vg-1'' None]" "[]"] by simp
qed

text \<open>A LocalStorageClass without an LVM section, which its schema allows, whose managed StorageClass
  exists with readable parameters, makes the reconcile dereference a nil pointer, although the validation
  and the construction of the StorageClass handle that case as an error.\<close>

theorem missing_lvm_section_panics:
  assumes "LVM lsc = None" "DeletionTimestamp lsc = None"
    and "find (\<lambda>c. Name c = Name lsc) scs = Some sc" "Provisioner sc = LocalStorageClassProvisioner"
    and "yaml_Unmarshal yaml (mget (Parameters sc) LVMVolumeGroupsParamKey) = Inr current"
  shows "identifyReconcileFunc yaml conds scs lsc effective ignored = Inl NilPointer \<and>
    configureStorageClass yaml lsc effective ignored = Inl UnknownLSCType \<and>
    \<not> fst (validateLocalStorageClass asSelector rangeOrder scs lsc lvgs effective)"
proof -
  have "list_ex (\<lambda>c. Name c = Name lsc) scs"
    using assms(3) by (auto simp: find_Some_iff list_ex_length)
  then show ?thesis
    using assms
    by (simp add: identifyReconcileFunc_def shouldReconcileByDeleteFunc_def shouldReconcileByCreateFunc_def
        shouldReconcileByUpdateFunc_def hasSCDiff_def getLVGFromSCParams_def configureStorageClass_def
        validateLocalStorageClass_def Let_def)
qed

theorem missing_lvm_section_panics_witness:
  "identifyReconcileFunc demoYaml demoConds [demoSC] (demoLSC\<lparr>LVM := None\<rparr>) [] [] = Inl NilPointer"
proof -
  have "find (\<lambda>c. Name c = Name (demoLSC\<lparr>LVM := None\<rparr>)) [demoSC] = Some demoSC"
    "Provisioner demoSC = LocalStorageClassProvisioner"
    "yaml_Unmarshal demoYaml (mget (Parameters demoSC) LVMVolumeGroupsParamKey) = Inr [namedEntry ''vg-1'' None]"
    by code_simp+
  then show ?thesis
    by (intro missing_lvm_section_panics [THEN conjunct1]) (simp_all add: demoLSC_def objmeta.extend_def meta0_def)
qed

end
