(* ===== verification/LSC_Pass_Properties.thy ===== *)
theory LSC_Pass_Properties
  imports LSC_Effects LSC_Properties
begin

text \<open>
  Properties of whole passes over a LocalStorageClass, for every behaviour of the API server, and an
  environment on which they are exercised.
\<close>

section \<open>A concrete environment\<close>

definition demoLscEnv :: lsc_env where
  "demoLscEnv = \<lparr>
     cl_Get_LSC = (\<lambda>key h. Inr demoLSC),
     cl_Get_SC = (\<lambda>key h. Inr demoSC),
     cl_List_SC = (\<lambda>h. Inr []),
     cl_List_LVG = (\<lambda>h. Inr [demoLVG ''vg-1'' ''n1'']),
     cl_Get_Secret = (\<lambda>key h. Inl NotFound),
     cl_Update_LSC = (\<lambda>o1 h. Inr ''2''),
     cl_Update_SC = (\<lambda>o1 h. Inr ''2''),
     cl_Create_SC = (\<lambda>o1 h. Inr o1),
     cl_Delete_SC = (\<lambda>o1 h. None),
     conditions_UpdateStatus = (\<lambda>o1 f h. None),
     retry_OnConflict = retry_steps 4,
     asSel = demoSelector, rangeOrd = (\<lambda>xs. xs), yamlOf = demoYaml, condsOf = demoConds,
     errText = (\<lambda>e. ''error''), msgText = (\<lambda>msgs. ''invalid''), parseConfig = (\<lambda>s. Inr []),
     ControllerNamespace = ''d8'', ConfigSecretName = ''cfg'', RequeueStorageClassInterval = 10\<rparr>"

definition demoLscStart :: "LocalStorageClass \<Rightarrow> lsc_state" where
  "demoLscStart lsc = \<lparr>lhist = [], cur = lsc, curSC = demoSC, fremoved = False\<rparr>"

lemma demoLsc_retry [simp]: "retry_ok (retry_OnConflict demoLscEnv)"
  by (simp add: demoLscEnv_def)

section \<open>Writes of a pass\<close>

text \<open>C10: Whatever the API server answers, a pass only performs writes that are justified: it deletes
  and creates StorageClasses of this provisioner under the LocalStorageClass's own name only, creates
  them with its finalizer, replaces an existing one only right after deleting it successfully, and
  changes finalizers only on the object it has just read, either adding its own to a resource that is not
  being deleted or removing its own spellings and keeping all others.\<close>

theorem pass_writes_justified:
  assumes "retry_ok (retry_OnConflict v)" "lscSafe v (Name (cur s)) scs (lhist s)"
  shows "lscSafe v (Name (cur s)) scs (lhist (snd (run_state (RunEventReconcile v scs ignored) s)))"
proof -
  have "lscInv v (Name (cur s)) scs s" using assms(2) by (simp add: lscInv_def)
  from RunEventReconcile_inv [OF assms(1) this, of ignored] show ?thesis
    by (simp add: wp_run lscInv_def)
qed

theorem pass_writes_justified_witness:
  "lscSafe demoLscEnv ''local'' [] (lhist (snd (run_state (RunEventReconcile demoLscEnv [] []) (demoLscStart demoLSC))))"
  using pass_writes_justified [OF demoLsc_retry, of "demoLscStart demoLSC" "[]" "[]"]
  by (simp add: demoLscStart_def demoLSC_def objmeta.extend_def meta0_def)

section \<open>Removing the finalizers\<close>

definition noneOfOurs :: "string list \<Rightarrow> bool" where
  "noneOfOurs fs \<longleftrightarrow> LocalStorageClassFinalizerName \<notin> set fs \<and> LocalStorageClassFinalizerNameOld \<notin> set fs"

lemma keptFinalizers_noneOfOurs [simp]: "noneOfOurs (keptFinalizers fs)"
  by (simp add: noneOfOurs_def keptFinalizers_def localStorageClassFinalizers_def)

lemma not_found_noneOfOurs:
  "list_ex (\<lambda>f. slices_Contains localStorageClassFinalizers f) fs \<longleftrightarrow> \<not> noneOfOurs fs"
  by (auto simp: noneOfOurs_def localStorageClassFinalizers_def list_ex_iff)

text \<open>What the last attempt of a removal that reports \<^term>\<open>b\<close> without error has seen and done.\<close>

definition removalDone :: "okey \<Rightarrow> bool \<Rightarrow> lsc_state \<Rightarrow> bool" where
  "removalDone key b s \<longleftrightarrow>
     (\<exists>h. lhist s = LGetLSC key (Inl NotFound) # h \<and> \<not> b) \<or>
     (\<exists>fresh h. lhist s = LGetLSC key (Inr fresh) # h \<and> \<not> b \<and> noneOfOurs (Finalizers fresh)) \<or>
     (\<exists>fresh rv h. lhist s = LUpdateLSC (fresh\<lparr>Finalizers := keptFinalizers (Finalizers fresh)\<rparr>) (Inr rv) #
        LGetLSC key (Inr fresh) # h \<and> b \<and> Finalizers (cur s) = keptFinalizers (Finalizers fresh) \<and>
        ResourceVersion (cur s) = rv)"

lemma removeLSC_attempt:
  "wp (removeFinalizersAttempt (lask (cl_Get_LSC v key) (LGetLSC key))
       (\<lambda>fresh. lask (cl_Update_LSC v fresh) (LUpdateLSC fresh))
       (\<lambda>fs rv s. s\<lparr>cur := (cur s)\<lparr>Finalizers := fs, ResourceVersion := rv\<rparr>\<rparr>))
     (\<lambda>r s'. r = None \<longrightarrow> removalDone key (fremoved s') s') s"
  unfolding removeFinalizersAttempt_def
  by (auto simp: wp_rules Let_def removalDone_def not_found_noneOfOurs split: sum.splits)

text \<open>When removing the controller's finalizers reports success, both spellings are gone: the
  object was not found, or the object read last carried neither, or the write of that object without
  them (all other finalizers kept in order) succeeded and the caller's copy follows it.\<close>

theorem finalizer_removal_is_complete:
  assumes "retry_ok (retry_OnConflict v)" "run_state (removeLSCFinalizers v) s = (Inr b, s')"
  shows "removalDone (ObjectKeyFromObject (cur s)) b s'"
proof -
  let ?key = "ObjectKeyFromObject (cur s)"
  let ?att = "removeFinalizersAttempt (lask (cl_Get_LSC v ?key) (LGetLSC ?key))
       (\<lambda>fresh. lask (cl_Update_LSC v fresh) (LUpdateLSC fresh))
       (\<lambda>fs rv s. s\<lparr>cur := (cur s)\<lparr>Finalizers := fs, ResourceVersion := rv\<rparr>\<rparr>)"
  have "wp (retry_OnConflict v isConflict ?att) (\<lambda>r s'. r = None \<longrightarrow> removalDone ?key (fremoved s') s') s1" for s1
    by (rule wp_retry [where I = "\<lambda>_. True", OF assms(1)]) (simp_all add: removeLSC_attempt)
  then have "wp (removeLSCFinalizers v) (\<lambda>r s'. \<forall>b. r = Inr b \<longrightarrow> removalDone ?key b s') s"
    unfolding removeLSCFinalizers_def removeControllerFinalizers_def wp_bind wp_get Let_def
    by (simp add: wp_rules) (rule wp_mono, assumption, auto split: option.splits)
  from wp_runD [OF this assms(2)] show ?thesis by simp
qed

definition demoDying :: LocalStorageClass where
  "demoDying = demoLSC\<lparr>DeletionTimestamp := Some 5,
     Finalizers := [''a'', LocalStorageClassFinalizerNameOld, LocalStorageClassFinalizerName, ''b'']\<rparr>"

definition demoDyingEnv :: lsc_env where
  "demoDyingEnv = demoLscEnv\<lparr>cl_Get_LSC := \<lambda>key h. Inr demoDying\<rparr>"

lemma demoDying_removal:
  "wp (removeLSCFinalizers demoDyingEnv)
     (\<lambda>r s'. r = Inr True \<and> Finalizers (cur s') = [''a'', ''b'']) (demoLscStart demoDying)"
  by (simp add: removeLSCFinalizers_def removeControllerFinalizers_def removeFinalizersAttempt_def
      keptFinalizers_def localStorageClassFinalizers_def demoDyingEnv_def demoLscEnv_def demoLscStart_def
      demoDying_def LocalStorageClassFinalizerName_def LocalStorageClassFinalizerNameOld_def
      numeral_eq_Suc Let_def wp_rules)

theorem finalizer_removal_is_complete_witness:
  "removalDone (ObjectKeyFromObject demoDying) True
     (snd (run_state (removeLSCFinalizers demoDyingEnv) (demoLscStart demoDying)))"
proof -
  have "run_state (removeLSCFinalizers demoDyingEnv) (demoLscStart demoDying) =
    (Inr True, snd (run_state (removeLSCFinalizers demoDyingEnv) (demoLscStart demoDying)))"
    using demoDying_removal by (simp add: wp_run prod_eq_iff)
  from finalizer_removal_is_complete [OF _ this] show ?thesis
    by (simp add: demoDyingEnv_def demoLscStart_def)
qed

section \<open>The order of a teardown\<close>

text \<open>The LocalStorageClass is written (its finalizers are dropped) only after a StorageClass was deleted.\<close>

primrec deletedFirst :: "bool \<Rightarrow> lsc_event list \<Rightarrow> bool" where
  "deletedFirst managed [] = True"
| "deletedFirst managed (e # h) = (deletedFirst managed h \<and> (case e of
     LUpdateLSC _ _ \<Rightarrow> managed \<longrightarrow> (\<exists>sc. LDeleteSC sc None \<in> set h)
   | _ \<Rightarrow> True))"

definition teardownInv :: "bool \<Rightarrow> lsc_state \<Rightarrow> bool" where
  "teardownInv managed s \<longleftrightarrow> deletedFirst managed (lhist s) \<and> DeletionTimestamp (cur s) \<noteq> None"

definition scDeleted :: "lsc_state \<Rightarrow> bool" where
  "scDeleted s \<longleftrightarrow> (\<exists>sc. LDeleteSC sc None \<in> set (lhist s))"

lemma DeletionTimestamp_applyStatus [simp]:
  "DeletionTimestamp (applyStatus conds cond phase reason lsc) = DeletionTimestamp lsc"
  by (simp add: applyStatus_def Let_def)

lemma teardown_removeSC:
  assumes "retry_ok (retry_OnConflict v)" "teardownInv m s"
  shows "wp (removeSCFinalizers v) (\<lambda>_. teardownInv m) s"
  unfolding removeSCFinalizers_def wp_bind wp_get Let_def
  by (rule removeControllerFinalizers_inv [OF assms(1), where I = "teardownInv m"])
    (use assms(2) in \<open>auto simp: teardownInv_def\<close>)

lemma teardown_deleteSC:
  assumes "retry_ok (retry_OnConflict v)" "teardownInv m s"
  shows "wp (deleteStorageClass v sc) (\<lambda>r s'. teardownInv m s' \<and> (r = None \<longrightarrow> scDeleted s')) s"
proof -
  have "wp (removeSCFinalizers v) (\<lambda>_. teardownInv m) (s\<lparr>curSC := sc\<rparr>)"
    by (rule teardown_removeSC [OF assms(1)]) (use assms(2) in \<open>simp add: teardownInv_def\<close>)
  then show ?thesis
    using assms(2) unfolding deleteStorageClass_def
    by (auto simp: wp_rules teardownInv_def scDeleted_def split: sum.splits elim!: wp_mono)
qed

lemma teardown_removeLSC:
  assumes "retry_ok (retry_OnConflict v)" "teardownInv m s" "m \<longrightarrow> scDeleted s"
  shows "wp (removeLSCFinalizers v) (\<lambda>_ s'. teardownInv m s' \<and> (m \<longrightarrow> scDeleted s')) s"
  unfolding removeLSCFinalizers_def wp_bind wp_get Let_def
  by (rule removeControllerFinalizers_inv [OF assms(1), where I = "\<lambda>s'. teardownInv m s' \<and> (m \<longrightarrow> scDeleted s')"])
    (use assms(2,3) in \<open>auto simp: teardownInv_def scDeleted_def\<close>)

lemma teardown_publish:
  assumes "teardownInv m s"
  shows "wp (publishLocalStorageClassStatus v cond phase reason)
    (\<lambda>_ s'. teardownInv m s' \<and> (scDeleted s \<longrightarrow> scDeleted s')) s"
  using assms unfolding publishLocalStorageClassStatus_def
  by (auto simp: wp_rules Let_def teardownInv_def scDeleted_def split: option.splits)

lemma teardown_fail:
  assumes "teardownInv m s"
  shows "wp (failWith v reason e) (\<lambda>r s'. teardownInv m s' \<and> r = (True, Some e)) s"
proof -
  have "DeletionTimestamp (cur s) \<noteq> None" using assms by (simp add: teardownInv_def)
  with wp_mono [OF teardown_publish [OF assms]] show ?thesis
    unfolding failWith_def updateLocalStorageClassPhase_def ensureFinalizer_def by (simp add: Let_def)
qed

definition managedSC :: "StorageClass list \<Rightarrow> string \<Rightarrow> bool" where
  "managedSC scs n \<longleftrightarrow> (case find (\<lambda>c. Name c = n) scs of
     None \<Rightarrow> False | Some sc \<Rightarrow> Provisioner sc = LocalStorageClassProvisioner)"

lemma teardown_pass:
  assumes "retry_ok (retry_OnConflict v)" "teardownInv (managedSC scs (Name (cur s))) s"
  shows "wp (reconcileLSCDeleteFunc v scs) (\<lambda>r s'. teardownInv (managedSC scs (Name (cur s))) s' \<and>
     (snd r = None \<longrightarrow> managedSC scs (Name (cur s)) \<longrightarrow> scDeleted s')) s"
proof -
  let ?m = "managedSC scs (Name (cur s))"
  let ?Q = "\<lambda>r s'. teardownInv ?m s' \<and> (snd r = None \<longrightarrow> ?m \<longrightarrow> scDeleted s')"
  have fin: "wp (State_Monad.bind (removeLSCFinalizers v) (\<lambda>r. case r of
           Inl e \<Rightarrow> failWith v (finalizerFailedReason v e) e
         | Inr _ \<Rightarrow> do { _ \<leftarrow> setLocalStorageClassDeleting v; State_Monad.return (False, None) })) ?Q s1"
    if "teardownInv ?m s1" "?m \<longrightarrow> scDeleted s1" for s1
    unfolding wp_bind setLocalStorageClassDeleting_def
    by (rule wp_mono [OF teardown_removeLSC [OF assms(1) that]])
      (auto split: sum.splits elim!: wp_mono [OF teardown_fail] wp_mono [OF teardown_publish])
  have "wp (deleteStorageClass v sc) (\<lambda>d. wp (case d of
        Some e \<Rightarrow> failWith v (deleteFailedReason v e) e
      | None \<Rightarrow> do {
          r \<leftarrow> removeLSCFinalizers v;
          (case r of Inl e \<Rightarrow> failWith v (finalizerFailedReason v e) e
           | Inr _ \<Rightarrow> do { _ \<leftarrow> setLocalStorageClassDeleting v; State_Monad.return (False, None) }) }) ?Q) s" for sc
    by (rule wp_mono [OF teardown_deleteSC [OF assms]])
      (use fin in \<open>auto split: option.splits elim!: wp_mono [OF teardown_fail]\<close>)
  with fin [OF assms(2)] show ?thesis
    unfolding reconcileLSCDeleteFunc_def by (auto simp: wp_rules managedSC_def split: option.splits)
qed



section \<open>What a successful pass publishes\<close>

definition createdStatus :: "lsc_env \<Rightarrow> int \<Rightarrow> lsc_state \<Rightarrow> bool" where
  "createdStatus v gen s \<longleftrightarrow> (\<exists>key st h conds. lhist s = LUpdateStatus key st None # h \<and>
     lsc_Status (cur s) = Some st \<and> lsc_Phase st = CreatedStatusPhase \<and> lsc_Reason st = '''' \<and>
     ObservedGeneration st = gen \<and>
     Conditions st = SetCond (condsOf v) conds \<lparr>cond_Type = ConditionTypeReady, cond_Status = True,
       cond_Reason = ReasonReconciled,
       cond_Message = TruncateMessage (condsOf v) (''the LocalStorageClass is in the Created phase''),
       cond_ObservedGeneration = gen\<rparr>)"

definition sameGen :: "int \<Rightarrow> lsc_state \<Rightarrow> bool" where
  "sameGen gen s \<longleftrightarrow> Generation (cur s) = gen"

lemma ensureFinalizer_gen:
  assumes "retry_ok (retry_OnConflict v)" "sameGen gen s"
  shows "wp (ensureFinalizer v) (\<lambda>_. sameGen gen) s"
proof -
  have att: "wp (ensureFinalizerAttempt v) (\<lambda>_. sameGen gen) s" if "sameGen gen s" for s
    using that unfolding ensureFinalizerAttempt_def
    by (auto simp: wp_rules Let_def sameGen_def split: sum.splits)
  have "wp (retry_OnConflict v isConflict (ensureFinalizerAttempt v)) (\<lambda>_. sameGen gen) s"
    by (rule wp_retry_inv [where I = "sameGen gen", OF assms att])
  with assms(2) show ?thesis
    unfolding ensureFinalizer_def by (simp add: wp_rules)
qed

lemma finishCreated_status:
  assumes "retry_ok (retry_OnConflict v)" "sameGen gen s"
  shows "wp (finishCreated v) (\<lambda>r s'. snd r = None \<longrightarrow> createdStatus v gen s') s"
proof -
  have "CreatedStatusPhase \<noteq> ''''" by (simp add: CreatedStatusPhase_def)
  then show ?thesis
    unfolding finishCreated_def updateLocalStorageClassPhase_def wp_bind
    by (intro wp_mono [OF ensureFinalizer_gen [OF assms]])
      (auto simp: wp_rules Let_def publishLocalStorageClassStatus_def createdStatus_def applyStatus_def
        sameGen_def CreatedStatusPhase_def split: option.splits)
qed

lemma failWith_err [simp]: "wp (failWith v reason e) (\<lambda>r s'. snd r = None \<longrightarrow> P r s') s"
  by (simp add: failWith_def)

lemma failPhase_err [simp]:
  "wp (updateLocalStorageClassPhase v ph reason)
     (\<lambda>up s'. snd (case up of Some ue \<Rightarrow> (True, Some ue) | None \<Rightarrow> (b, Some e)) = None \<longrightarrow> P up s') s"
  by (rule wp_mono [OF wp_trivial]) (auto split: option.splits)

definition passOk :: "lsc_env \<Rightarrow> int \<Rightarrow> passResult \<Rightarrow> lsc_state \<Rightarrow> bool" where
  "passOk v gen r s \<longleftrightarrow> (r = (False, None) \<longrightarrow> createdStatus v gen s)"

lemma passOk_fail:
  "wp (failWith v reason e) (passOk v gen) s" "wp (failJoined v e) (passOk v gen) s"
  "wp (updateLocalStorageClassPhase v ph reason)
     (\<lambda>up. passOk v gen (case up of Some ue \<Rightarrow> (True, Some ue) | None \<Rightarrow> (b, Some e))) s"
  "passOk v gen (b, Some e) s" "passOk v gen (True, None) s"
  unfolding failWith_def failJoined_def wp_bind
  by ((rule wp_mono [OF wp_trivial])?, auto simp: passOk_def split: option.splits)+

lemma passOk_finish:
  assumes "retry_ok (retry_OnConflict v)" "sameGen gen s"
  shows "wp (finishCreated v) (passOk v gen) s"
  by (rule wp_mono [OF finishCreated_status [OF assms]]) (auto simp: passOk_def)

lemma recreate_gen:
  assumes "retry_ok (retry_OnConflict v)" "sameGen gen s"
  shows "wp (recreateStorageClass v oldSC newSC) (\<lambda>_. sameGen gen) s"
proof -
  have "wp (removeSCFinalizers v) (\<lambda>_. sameGen gen) s1" if "sameGen gen s1" for s1
    unfolding removeSCFinalizers_def wp_bind wp_get Let_def
    by (rule removeControllerFinalizers_inv [OF assms(1), where I = "sameGen gen"])
      (use that in \<open>auto simp: sameGen_def\<close>)
  from this [of "s\<lparr>curSC := oldSC\<rparr>"] have "wp (removeSCFinalizers v) (\<lambda>_. sameGen gen) (s\<lparr>curSC := oldSC\<rparr>)"
    using assms(2) by (simp add: sameGen_def)
  then have "wp (deleteStorageClass v oldSC) (\<lambda>_. sameGen gen) s"
    using assms(2) unfolding deleteStorageClass_def
    by (auto simp: wp_rules sameGen_def split: sum.splits elim!: wp_mono)
  then show ?thesis
    unfolding recreateStorageClass_def wp_bind
    by (rule wp_mono) (auto simp: wp_rules sameGen_def split: option.splits)
qed

lemma updatePass_ok:
  assumes "retry_ok (retry_OnConflict v)" "sameGen gen s"
  shows "wp (reconcileLSCUpdateFunc v scs lvgs effective ignored) (passOk v gen) s"
proof -
  have "wp (recreateStorageClass v oldSC newSC) (\<lambda>r. wp (case r of
      Some e \<Rightarrow> failWith v (errText v e) e | None \<Rightarrow> finishCreated v) (passOk v gen)) s" for oldSC newSC
    by (rule wp_mono [OF recreate_gen [OF assms]])
      (auto intro: passOk_fail passOk_finish assms(1) split: option.splits)
  then show ?thesis
    unfolding reconcileLSCUpdateFunc_def
    using passOk_fail passOk_finish [OF assms]
    by (auto simp: wp_rules Let_def split: prod.splits option.splits sum.splits)
qed

lemma createPass_ok:
  assumes "retry_ok (retry_OnConflict v)" "sameGen gen s"
  shows "wp (reconcileLSCCreateFunc v scs lvgs effective ignored) (passOk v gen) s"
proof -
  have add: "wp (addFinalizerIfNotExistsForSC v c) (\<lambda>a. wp (case a of
      Inl e \<Rightarrow> State_Monad.return (True, Some e) | Inr _ \<Rightarrow> finishCreated v) (passOk v gen)) s2"
    if "sameGen gen s2" for c s2
    using that unfolding addFinalizerIfNotExistsForSC_def
    by (auto simp: wp_rules Let_def sameGen_def intro: passOk_fail passOk_finish assms(1) split: sum.splits)
  have create: "wp (createStorageClassIfNotExists v scs sc) (\<lambda>_. sameGen gen) s1"
    if "sameGen gen s1" for sc s1
    using that unfolding createStorageClassIfNotExists_def by (auto simp: wp_rules sameGen_def)
  have "wp (createStorageClassIfNotExists v scs sc) (\<lambda>c. wp (case c of
       Inl e \<Rightarrow> do {
         up \<leftarrow> updateLocalStorageClassPhase v FailedStatusPhase (errText v e);
         State_Monad.return (case up of Some ue \<Rightarrow> (True, Some ue) | None \<Rightarrow> (True, Some e))
       }
     | Inr None \<Rightarrow> State_Monad.return (True, None)
     | Inr (Some created) \<Rightarrow> do {
         a \<leftarrow> addFinalizerIfNotExistsForSC v created;
         (case a of Inl e \<Rightarrow> State_Monad.return (True, Some e) | Inr _ \<Rightarrow> finishCreated v)
       }) (passOk v gen)) s1" if "sameGen gen s1" for sc s1
    by (rule wp_mono [OF create [OF that]])
      (use add in \<open>auto intro: passOk_fail split: sum.splits option.splits\<close>)
  then show ?thesis
    unfolding reconcileLSCCreateFunc_def wp_bind [of "ensureFinalizer v"]
    by (intro wp_mono [OF ensureFinalizer_gen [OF assms]])
      (use passOk_fail in \<open>auto simp: wp_rules Let_def split: prod.splits option.splits sum.splits\<close>)
qed


section \<open>The reconciler\<close>

definition isLscWrite :: "lsc_event \<Rightarrow> bool" where
  "isLscWrite e \<longleftrightarrow> (case e of
     LUpdateLSC _ _ \<Rightarrow> True | LUpdateSC _ _ \<Rightarrow> True | LCreateSC _ _ \<Rightarrow> True | LDeleteSC _ _ \<Rightarrow> True
   | LUpdateStatus _ _ _ \<Rightarrow> True | _ \<Rightarrow> False)"

text \<open>When the StorageClasses cannot be listed or the configuration Secret cannot be read or
  parsed, the reconciler writes nothing (in particular it never propagates unfiltered labels); a failed
  list is returned as an error, a failed Secret asks for a requeue.\<close>

theorem unreadable_inputs_write_nothing:
  assumes "(\<exists>e. cl_List_SC v (lhist s) = Inl e) \<or>
    (\<exists>err. fst (run_state (getStorageClassLabelIgnoredPrefixes v)
       (s\<lparr>lhist := LListSC (cl_List_SC v (lhist s)) # lhist s\<rparr>)) = Inl err)"
  shows "wp (lscReconcileFound v) (\<lambda>out s'. filter isLscWrite (lhist s') = filter isLscWrite (lhist s) \<and>
    ((\<exists>e. cl_List_SC v (lhist s) = Inl e \<and> out = (noRequeue, Some (KErr e))) \<or>
     out = (requeueLater v, None))) s"
proof -
  have reads: "wp (getStorageClassLabelIgnoredPrefixes v)
     (\<lambda>r s'. filter isLscWrite (lhist s') = filter isLscWrite (lhist s1)) s1" for s1
    unfolding getStorageClassLabelIgnoredPrefixes_def by (auto simp: wp_rules Let_def isLscWrite_def)
  show ?thesis
  proof (cases "cl_List_SC v (lhist s)")
    case (Inl e')
    with assms show ?thesis
      by (auto simp: lscReconcileFound_def wp_rules isLscWrite_def)
  next
    case (Inr scs)
    let ?s = "s\<lparr>lhist := LListSC (Inr scs) # lhist s\<rparr>"
    from assms Inr obtain err where "fst (run_state (getStorageClassLabelIgnoredPrefixes v) ?s) = Inl err"
      by auto
    with reads [of ?s] have "wp (getStorageClassLabelIgnoredPrefixes v)
       (\<lambda>r s'. r = Inl err \<and> filter isLscWrite (lhist s') = filter isLscWrite (lhist s)) ?s"
      by (simp add: wp_run isLscWrite_def)
    then show ?thesis
      unfolding lscReconcileFound_def by (simp add: wp_rules Inr) (erule wp_mono, simp)
  qed
qed

theorem unreadable_inputs_write_nothing_witness:
  "wp (lscReconcileFound (demoLscEnv\<lparr>cl_Get_Secret := \<lambda>key h. Inl Forbidden\<rparr>))
     (\<lambda>out s'. filter isLscWrite (lhist s') = filter isLscWrite (lhist (demoLscStart demoLSC)) \<and>
       out = (requeueLater (demoLscEnv\<lparr>cl_Get_Secret := \<lambda>key h. Inl Forbidden\<rparr>), None))
     (demoLscStart demoLSC)"
proof -
  let ?v = "demoLscEnv\<lparr>cl_Get_Secret := \<lambda>key h. Inl Forbidden\<rparr>"
  have "\<exists>err. fst (run_state (getStorageClassLabelIgnoredPrefixes ?v) s1) = Inl err" for s1
  proof -
    have "wp (getStorageClassLabelIgnoredPrefixes ?v) (\<lambda>r _. r = Inl (KErr Forbidden)) s1"
      by (simp add: getStorageClassLabelIgnoredPrefixes_def demoLscEnv_def Let_def)
    then show ?thesis by (simp add: wp_run)
  qed
  then show ?thesis
    using unreadable_inputs_write_nothing [of ?v "demoLscStart demoLSC"]
    by (rule_tac wp_mono [rotated]) (auto simp: demoLscEnv_def)
qed

definition demoIdle :: lsc_state where
  "demoIdle = demoLscStart demoReady"


end
