(* ===== verification/Webhooks_Model.thy ===== *)
theory Webhooks_Model
  imports LSC_Model
begin

text \<open>
  The admission webhooks (\<^verbatim>\<open>images/webhooks/handlers\<close>): the validator of LocalStorageClasses, the validator
  of StorageClasses and the mutator that hands a pod to the scheduler of the module.

  The webhooks write nothing.  What they read is an argument: the error of building a client, the answers
  of the API server, the decoder of \<^verbatim>\<open>encoding/json\<close> and \<^verbatim>\<open>metav1.LabelSelectorAsSelector\<close>.  The object under
  review is a value of a datatype, so that the type assertion at the start of each handler is a case
  distinction.
\<close>

section \<open>Requests and results\<close>

datatype webhook_err = BuildClient string | WebAPI kerr | BadOldObject string | BadNewObject string | WebPanic

datatype lscRefusal =
    RNoLVM
  | RNoVolumeGroups
  | RMixedEntries
  | RNotExactlyOne nat
  | RThinRequired nat
  | RThinForbidden nat
  | RBadSelector nat string
  | RDuplicate string
  | RNotFound string

datatype refusal = LSCRefusal lscRefusal | DirectModification

record ValidatorResult =
  vr_Valid :: bool
  vr_Message :: "refusal option"

definition admit :: ValidatorResult where
  "admit = \<lparr>vr_Valid = True, vr_Message = None\<rparr>"

definition refuse :: "refusal \<Rightarrow> ValidatorResult" where
  "refuse r = \<lparr>vr_Valid = False, vr_Message = Some r\<rparr>"

text \<open>\<^verbatim>\<open>&ValidatorResult{}\<close>, whose \<^verbatim>\<open>Valid\<close> is false.\<close>

definition zeroResult :: ValidatorResult where
  "zeroResult = \<lparr>vr_Valid = False, vr_Message = None\<rparr>"

text \<open>
  A StorageClass as it arrives in a request: pointers, maps and slices may be nil.  \<^verbatim>\<open>meta_Rest\<close> and
  \<^verbatim>\<open>AllowedTopologies\<close> stand for values that are only compared.
\<close>

record reviewedSC = objmeta +
  r_Provisioner :: string
  r_VolumeBindingMode :: "string option"
  r_ReclaimPolicy :: "string option"
  r_Parameters :: "strmap option"
  r_AllowVolumeExpansion :: "bool option"
  r_MountOptions :: "string list option"
  AllowedTopologies :: "string option"
  meta_Rest :: string

record pod = objmeta +
  SchedulerName :: string
  Volumes :: "string option list"

datatype reviewed = ReviewedLSC LocalStorageClass | ReviewedSC reviewedSC | ReviewedPod pod | ReviewedOther

datatype operation = OperationCreate | OperationUpdate | OperationDelete | OperationConnect | OperationUnknown

record admissionReview =
  Username :: string
  Operation :: operation
  OldObjectRaw :: string
  NewObjectRaw :: string

section \<open>LocalStorageClass validator\<close>

text \<open>One round of the loop over the entries; \<^term>\<open>unique\<close> are the names seen so far.\<close>

definition lscEntryStep :: "selectorParser \<Rightarrow> LVG list \<Rightarrow> string \<Rightarrow> nat \<times> LocalStorageClassLVG \<Rightarrow>
    string list \<Rightarrow> lscRefusal + string list" where
  "lscEntryStep asSelector lvgs lvmType ie unique = (case ie of (i, lvmGroup) \<Rightarrow>
     (let hasName = (le_Name lvmGroup \<noteq> ''''); hasSelector = (LabelSelector lvmGroup \<noteq> None) in
      if hasName = hasSelector then Inl (RNotExactlyOne i)
      else if lvmType = ''Thin'' \<and> (Thin lvmGroup = None \<or> Thin lvmGroup = Some '''') then Inl (RThinRequired i)
      else if lvmType \<noteq> ''Thin'' \<and> Thin lvmGroup \<noteq> None then Inl (RThinForbidden i)
      else (case LabelSelector lvmGroup of
        Some sel \<Rightarrow> (case asSelector sel of Inl e \<Rightarrow> Inl (RBadSelector i e) | Inr _ \<Rightarrow> Inr unique)
      | None \<Rightarrow>
          if slices_Contains unique (le_Name lvmGroup) then Inl (RDuplicate (le_Name lvmGroup))
          else if \<not> list_ex (\<lambda>lvmVG. Name lvmVG = le_Name lvmGroup) lvgs then Inl (RNotFound (le_Name lvmGroup))
          else Inr (unique @ [le_Name lvmGroup]))))"

definition LSCValidate :: "selectorParser \<Rightarrow> string option \<Rightarrow> kerr + LVG list \<Rightarrow> reviewed \<Rightarrow>
    webhook_err + ValidatorResult" where
  "LSCValidate asSelector clientErr listDevice obj = (case obj of
     ReviewedLSC lsc \<Rightarrow> (case clientErr of
       Some e \<Rightarrow> Inl (BuildClient e)
     | None \<Rightarrow> (case LVM lsc of
         None \<Rightarrow> Inr (refuse (LSCRefusal RNoLVM))
       | Some lvm \<Rightarrow>
           if LVMVolumeGroups lvm = [] then Inr (refuse (LSCRefusal RNoVolumeGroups))
           else (case listDevice of
             Inl e \<Rightarrow> Inl (WebAPI e)
           | Inr lvgs \<Rightarrow>
               if length (filter (\<lambda>g. le_Name g \<noteq> '''') (LVMVolumeGroups lvm)) > 0 \<and>
                  length (filter (\<lambda>g. LabelSelector g \<noteq> None) (LVMVolumeGroups lvm)) > 0
               then Inr (refuse (LSCRefusal RMixedEntries))
               else (case foldE (lscEntryStep asSelector lvgs (lvm_Type lvm))
                            (List.enumerate 0 (LVMVolumeGroups lvm)) [] of
                 Inl r \<Rightarrow> Inr (refuse (LSCRefusal r))
               | Inr _ \<Rightarrow> Inr admit))))
   | _ \<Rightarrow> Inr zeroResult)"

section \<open>StorageClass validator\<close>

definition localCSIProvisioner :: string where
  "localCSIProvisioner = ''local.csi.storage.deckhouse.io''"

definition allowedUserName :: string where
  "allowedUserName = ''system:serviceaccount:d8-sds-local-volume:controller''"

text \<open>Comparing two pointers by what they point to; a nil pointer panics.\<close>

definition derefDiffers :: "'a option \<Rightarrow> 'a option \<Rightarrow> webhook_err + bool" where
  "derefDiffers p q = (case (p, q) of (Some a, Some b) \<Rightarrow> Inr (a \<noteq> b) | _ \<Rightarrow> Inl WebPanic)"

definition changedFrom :: "webhook_err + bool \<Rightarrow> webhook_err + bool \<Rightarrow> webhook_err + bool" where
  "changedFrom test rest = (case test of Inl e \<Rightarrow> Inl e | Inr True \<Rightarrow> Inr True | Inr False \<Rightarrow> rest)"

definition sameObjectMeta :: "reviewedSC \<Rightarrow> reviewedSC \<Rightarrow> bool" where
  "sameObjectMeta a b \<longleftrightarrow> objmeta.truncate a = objmeta.truncate b \<and> meta_Rest a = meta_Rest b"

definition isStorageClassChangedExceptAnnotations ::
  "(string \<Rightarrow> string + reviewedSC) \<Rightarrow> string \<Rightarrow> string \<Rightarrow> webhook_err + bool" where
  "isStorageClassChangedExceptAnnotations unmarshal oldObjectRaw newObjectRaw = (case unmarshal oldObjectRaw of
     Inl e \<Rightarrow> Inl (BadOldObject e)
   | Inr oldSC \<Rightarrow> (case unmarshal newObjectRaw of
       Inl e \<Rightarrow> Inl (BadNewObject e)
     | Inr newSC \<Rightarrow>
         changedFrom (Inr (r_Provisioner oldSC \<noteq> r_Provisioner newSC)) (
         changedFrom (derefDiffers (r_VolumeBindingMode oldSC) (r_VolumeBindingMode newSC)) (
         changedFrom (derefDiffers (r_ReclaimPolicy oldSC) (r_ReclaimPolicy newSC)) (
         changedFrom (Inr (r_Parameters oldSC \<noteq> r_Parameters newSC)) (
         changedFrom (derefDiffers (r_AllowVolumeExpansion oldSC) (r_AllowVolumeExpansion newSC)) (
         changedFrom (Inr (r_MountOptions oldSC \<noteq> r_MountOptions newSC)) (
         changedFrom (Inr (AllowedTopologies oldSC \<noteq> AllowedTopologies newSC)) (
         Inr (\<not> sameObjectMeta (oldSC\<lparr>Annotations := None, ManagedFields := []\<rparr>)
                (newSC\<lparr>Annotations := None, ManagedFields := []\<rparr>)))))))))))"

definition SCValidate :: "(string \<Rightarrow> string + reviewedSC) \<Rightarrow> admissionReview \<Rightarrow> reviewed \<Rightarrow>
    webhook_err + ValidatorResult" where
  "SCValidate unmarshal arReview obj = (case obj of
     ReviewedSC sc \<Rightarrow>
       if r_Provisioner sc = localCSIProvisioner then
         if Username arReview = allowedUserName then Inr admit
         else if Operation arReview = OperationUpdate then
           (case isStorageClassChangedExceptAnnotations unmarshal (OldObjectRaw arReview) (NewObjectRaw arReview) of
             Inl e \<Rightarrow> Inl e
           | Inr changed \<Rightarrow> if \<not> changed then Inr admit else Inr (refuse DirectModification))
         else Inr (refuse DirectModification)
       else Inr admit
   | _ \<Rightarrow> Inr zeroResult)"

section \<open>Pod scheduler mutator\<close>

definition annBetaStorageProvisioner :: string where
  "annBetaStorageProvisioner = ''volume.beta.kubernetes.io/storage-provisioner''"
definition annStorageProvisioner :: string where
  "annStorageProvisioner = ''volume.kubernetes.io/storage-provisioner''"
definition csiAddress :: string where "csiAddress = ''local.csi.storage.deckhouse.io''"
definition schedulerName :: string where "schedulerName = ''sds-local-volume''"

record PVC = objmeta +
  StorageClassName :: "string option"
  VolumeName :: string

record pod_env =
  get_PVC :: "string \<Rightarrow> string \<Rightarrow> kerr + PVC"
  get_SCProvisioner :: "string \<Rightarrow> kerr + string"
  get_PV :: "string \<Rightarrow> kerr + PV"

definition annotatedProvisioner :: "PVC \<Rightarrow> string" where
  "annotatedProvisioner pvc =
    (case fmlookup (annotations_of pvc) annBetaStorageProvisioner of
       Some provisioner \<Rightarrow> provisioner
     | None \<Rightarrow> (case fmlookup (annotations_of pvc) annStorageProvisioner of
         Some provisioner \<Rightarrow> provisioner
       | None \<Rightarrow> ''''))"

text \<open>The provisioner of a claim: from its annotations, its StorageClass, its volume, in this order.\<close>

definition fromStorageClass :: "pod_env \<Rightarrow> PVC \<Rightarrow> string \<Rightarrow> kerr + string" where
  "fromStorageClass v pvc discovered = (case StorageClassName pvc of
     Some sc \<Rightarrow>
       if discovered = '''' \<and> sc \<noteq> '''' then (case get_SCProvisioner v sc of
         Inl e \<Rightarrow> Inl e
       | Inr provisioner \<Rightarrow> Inr (if provisioner = csiAddress then provisioner else discovered))
       else Inr discovered
   | None \<Rightarrow> Inr discovered)"

definition fromVolume :: "pod_env \<Rightarrow> PVC \<Rightarrow> string \<Rightarrow> kerr + string" where
  "fromVolume v pvc discovered =
    (if discovered = '''' \<and> VolumeName pvc \<noteq> '''' then (case get_PV v (VolumeName pvc) of
       Inl e \<Rightarrow> Inl e
     | Inr pv \<Rightarrow> Inr (case CSI pv of Some csi \<Rightarrow> Driver csi | None \<Rightarrow> discovered))
     else Inr discovered)"

definition discoverProvisioner :: "pod_env \<Rightarrow> string \<Rightarrow> string \<Rightarrow> kerr + string" where
  "discoverProvisioner v namespace claim = (case get_PVC v namespace claim of
     Inl e \<Rightarrow> Inl e
   | Inr pvc \<Rightarrow> (case fromStorageClass v pvc (annotatedProvisioner pvc) of
       Inl e \<Rightarrow> Inl e
     | Inr discovered \<Rightarrow> fromVolume v pvc discovered))"

text \<open>The loop over the volumes; its result is whether it returned early with the scheduler overwritten.\<close>

fun volumesLoop :: "pod_env \<Rightarrow> string \<Rightarrow> string option list \<Rightarrow> kerr + bool" where
  "volumesLoop v namespace [] = Inr False"
| "volumesLoop v namespace (None # volumes) = volumesLoop v namespace volumes"
| "volumesLoop v namespace (Some claim # volumes) = (case discoverProvisioner v namespace claim of
     Inl e \<Rightarrow> Inl e
   | Inr discovered \<Rightarrow> if discovered = csiAddress then Inr True else volumesLoop v namespace volumes)"

definition PodSchedulerMutate :: "pod_env \<Rightarrow> string option \<Rightarrow> reviewed \<Rightarrow> webhook_err + pod option" where
  "PodSchedulerMutate v clientErr obj = (case obj of
     ReviewedPod p \<Rightarrow>
       if SchedulerName p = '''' \<or> SchedulerName p = ''default-scheduler'' then
         (case clientErr of
           Some e \<Rightarrow> Inl (BuildClient e)
         | None \<Rightarrow> (case volumesLoop v (Namespace p) (Volumes p) of
             Inl e \<Rightarrow> Inl (WebAPI e)
           | Inr ours \<Rightarrow> Inr (Some (if ours then p\<lparr>SchedulerName := schedulerName\<rparr> else p))))
       else Inr (Some p)
   | _ \<Rightarrow> Inr None)"

end
