(* ===== verification/Webhooks_Properties.thy ===== *)
theory Webhooks_Properties
  imports Webhooks_Model LSC_Validate
begin

text \<open>
  What the webhooks admit: the validator of LocalStorageClasses against the validation of the controller,
  the validator of StorageClasses against the fields it protects, and the choice of the scheduler.
\<close>

section \<open>What the LocalStorageClass validator admits\<close>

definition entryAdmissible :: "selectorParser \<Rightarrow> LVG list \<Rightarrow> string \<Rightarrow> LocalStorageClassLVG \<Rightarrow> bool" where
  "entryAdmissible asSelector lvgs lvmType entry \<longleftrightarrow>
     (le_Name entry \<noteq> '''' \<longleftrightarrow> LabelSelector entry = None) \<and>
     (if lvmType = LVMThinType then \<exists>pool. Thin entry = Some pool \<and> pool \<noteq> '''' else Thin entry = None) \<and>
     (case LabelSelector entry of
        Some sel \<Rightarrow> \<exists>matches. asSelector sel = Inr matches
      | None \<Rightarrow> le_Name entry \<in> Name ` set lvgs)"

definition namedEntries :: "LocalStorageClassLVG list \<Rightarrow> string list" where
  "namedEntries entries = map le_Name (filter (\<lambda>entry. LabelSelector entry = None) entries)"

definition unmixed :: "LocalStorageClassLVG list \<Rightarrow> bool" where
  "unmixed entries \<longleftrightarrow> (\<forall>entry \<in> set entries. le_Name entry = '''') \<or> (\<forall>entry \<in> set entries. LabelSelector entry = None)"

lemma namedEntries_simps [simp]:
  "namedEntries [] = []"
  "namedEntries (e # es) = (if LabelSelector e = None then le_Name e # namedEntries es else namedEntries es)"
  by (simp_all add: namedEntries_def)

lemma list_ex_named: "list_ex (\<lambda>g. Name g = n) gs \<longleftrightarrow> n \<in> Name ` set gs"
  by (auto simp: list_ex_iff)

lemma foldE_error:
  assumes "foldE f xs acc = Inl e"
  shows "\<exists>x \<in> set xs. \<exists>acc. f x acc = Inl e"
  using assms by (induction xs arbitrary: acc) (auto split: sum.splits)

lemma lscEntryStep_ok:
  "lscEntryStep asSelector lvgs ty (i, entry) unique = Inr unique' \<longleftrightarrow>
     entryAdmissible asSelector lvgs ty entry \<and>
     (LabelSelector entry = None \<longrightarrow> le_Name entry \<notin> set unique) \<and>
     unique' = unique @ namedEntries [entry]"
  by (cases "LabelSelector entry"; cases "Thin entry")
    (auto simp: lscEntryStep_def entryAdmissible_def Let_def LVMThinType_def list_ex_named split: sum.splits)

lemma lscEntries_ok:
  "(\<exists>u. foldE (lscEntryStep asSelector lvgs ty) (List.enumerate k entries) unique = Inr u) \<longleftrightarrow>
     (\<forall>entry \<in> set entries. entryAdmissible asSelector lvgs ty entry) \<and>
     distinct (namedEntries entries) \<and> set unique \<inter> set (namedEntries entries) = {}"
proof (induction entries arbitrary: k unique)
  case (Cons entry entries)
  show ?case
  proof (cases "lscEntryStep asSelector lvgs ty (k, entry) unique")
    case (Inl e)
    then have "\<not> (entryAdmissible asSelector lvgs ty entry \<and> (LabelSelector entry = None \<longrightarrow> le_Name entry \<notin> set unique))"
      using lscEntryStep_ok [of asSelector lvgs ty k entry unique] by auto
    with Inl show ?thesis by auto
  next
    case (Inr u)
    with lscEntryStep_ok [of asSelector lvgs ty k entry unique u] show ?thesis
      by (cases "LabelSelector entry") (auto simp: Cons.IH)
  qed
qed simp

lemma LSCValidate_admits:
  "LSCValidate asSelector None (Inr lvgs) (ReviewedLSC lsc) = Inr admit \<longleftrightarrow>
     (\<exists>lvm. LVM lsc = Some lvm \<and> LVMVolumeGroups lvm \<noteq> [] \<and> unmixed (LVMVolumeGroups lvm) \<and>
        (\<forall>entry \<in> set (LVMVolumeGroups lvm). entryAdmissible asSelector lvgs (lvm_Type lvm) entry) \<and>
        distinct (namedEntries (LVMVolumeGroups lvm)))"
proof (cases "LVM lsc")
  case (Some lvm)
  have [simp]: "refuse r \<noteq> admit" for r by (simp add: refuse_def admit_def)
  have "(\<exists>u. foldE (lscEntryStep asSelector lvgs (lvm_Type lvm)) (List.enumerate 0 (LVMVolumeGroups lvm)) [] = Inr u) \<longleftrightarrow>
      (\<forall>entry \<in> set (LVMVolumeGroups lvm). entryAdmissible asSelector lvgs (lvm_Type lvm) entry) \<and>
      distinct (namedEntries (LVMVolumeGroups lvm))"
    by (simp add: lscEntries_ok)
  moreover have "unmixed (LVMVolumeGroups lvm) \<longleftrightarrow>
      \<not> (length (filter (\<lambda>g. le_Name g \<noteq> '''') (LVMVolumeGroups lvm)) > 0 \<and>
         length (filter (\<lambda>g. LabelSelector g \<noteq> None) (LVMVolumeGroups lvm)) > 0)"
    by (auto simp: unmixed_def filter_empty_conv)
  ultimately show ?thesis
    using Some by (auto simp: LSCValidate_def split: sum.split sum.split_asm)
qed (simp add: LSCValidate_def refuse_def admit_def)


section \<open>The webhook and the controller\<close>

lemma namedEntries_append [simp]: "namedEntries (xs @ ys) = namedEntries xs @ namedEntries ys"
  by (simp add: namedEntries_def)

lemma set_namedEntries: "n \<in> set (namedEntries es) \<longleftrightarrow> (\<exists>e \<in> set es. LabelSelector e = None \<and> le_Name e = n)"
  by (auto simp: namedEntries_def)

text \<open>What a successful resolution says about the entries, and where its groups come from.\<close>

definition groupFrom :: "LVG list \<Rightarrow> LocalStorageClassLVG list \<Rightarrow> string \<Rightarrow> string option \<Rightarrow> bool" where
  "groupFrom lvgs es n t \<longleftrightarrow> (\<exists>e \<in> set es. Thin e = t \<and>
     (if LabelSelector e = None then n = le_Name e else n \<in> Name ` set lvgs))"

lemma specResolve_facts:
  assumes "specResolve asSelector lvgs es = Some m"
  shows "distinct (namedEntries es)" "\<And>n. n \<in> set (namedEntries es) \<Longrightarrow> m n \<noteq> None"
    "\<And>n t. m n = Some t \<Longrightarrow> groupFrom lvgs es n t"
proof -
  have "distinct (namedEntries es) \<and> (\<forall>n \<in> set (namedEntries es). m n \<noteq> None) \<and>
      (\<forall>n t. m n = Some t \<longrightarrow> groupFrom lvgs es n t)"
    using assms
  proof (induction es arbitrary: m rule: rev_induct)
    case (snoc e es)
    from snoc.prems obtain m0 where m0: "specResolve asSelector lvgs es = Some m0"
      and e: "specEntry asSelector lvgs e m0 = Some m"
      by (auto simp: specResolve_def bind_eq_Some_conv)
    have from_old: "groupFrom lvgs (es @ [e]) n t" if "m0 n = Some t" for n t
      using snoc.IH [OF m0] that by (auto simp: groupFrom_def)
    show ?case
    proof (cases "LabelSelector e")
      case None
      then have "m0 (le_Name e) = None" "m = m0(le_Name e \<mapsto> Thin e)"
        using e by (auto simp: specEntry_def split: if_splits)
      then show ?thesis
        using snoc.IH [OF m0] None from_old by (auto simp: groupFrom_def split: if_splits)
    next
      case (Some sel)
      then obtain matches where m: "m = m0 ++ (\<lambda>n. if n \<in> selectedNames matches lvgs then Some (Thin e) else None)"
        using e by (auto simp: specEntry_def split: sum.splits if_splits)
      have "groupFrom lvgs (es @ [e]) n (Thin e)" if "n \<in> selectedNames matches lvgs" for n
        using that Some by (auto simp: groupFrom_def selectedNames_def)
      with snoc.IH [OF m0] Some from_old show ?thesis
        by (auto simp: m map_add_def split: if_splits)
    qed
  qed (simp add: specResolve_def)
  then show "distinct (namedEntries es)" "\<And>n. n \<in> set (namedEntries es) \<Longrightarrow> m n \<noteq> None"
    "\<And>n t. m n = Some t \<Longrightarrow> groupFrom lvgs es n t" by auto
qed

lemma resolve_named:
  assumes "\<forall>e \<in> set es. LabelSelector e = None" "distinct (map le_Name es)"
  shows "\<exists>m. specResolve asSelector lvgs es = Some m \<and> dom m = le_Name ` set es"
  using assms
proof (induction es rule: rev_induct)
  case (snoc e es)
  then obtain m where "specResolve asSelector lvgs es = Some m" "dom m = le_Name ` set es" by auto
  moreover have "m (le_Name e) = None" using \<open>dom m = le_Name ` set es\<close> snoc.prems(2) by auto
  ultimately show ?case
    using snoc.prems(1) by (auto simp: specResolve_def specEntry_def)
qed (simp add: specResolve_def)

lemma resolveEntry_error:
  assumes "resolveEntry asSelector lvgs entry acc = Inl e" "LabelSelector entry = Some sel" "asSelector sel = Inr matches"
  shows "\<exists>n p q. e = DifferentThinPools n p q"
proof -
  have append: "appendEntry n thin True acc = Inl e \<Longrightarrow> \<exists>n p q. e = DifferentThinPools n p q" for n thin acc
    by (cases acc) (auto simp: appendEntry_def split: option.splits if_splits)
  from assms have "foldE (\<lambda>lvg acc. if \<not> matches (labels_of lvg) then Inr acc
      else appendEntry (Name lvg) (Thin entry) True acc) lvgs acc = Inl e"
    by (simp add: resolveEntry_def)
  from foldE_error [OF this] show ?thesis
    by (auto split: if_splits dest: append)
qed

definition clusterOk :: "selectorParser \<Rightarrow> StorageClass list \<Rightarrow> LocalStorageClass \<Rightarrow> LVG list \<Rightarrow>
    LocalStorageClassLVMSpec \<Rightarrow> LocalStorageClassLVG list \<Rightarrow> bool" where
  "clusterOk asSelector scs lsc lvgs lvm effective \<longleftrightarrow>
     (\<forall>sc \<in> set scs. Name sc = Name lsc \<longrightarrow> Provisioner sc = LocalStorageClassProvisioner) \<and>
     (\<forall>entry \<in> set (LVMVolumeGroups lvm). \<forall>sel matches. LabelSelector entry = Some sel \<longrightarrow>
        asSelector sel = Inr matches \<longrightarrow> selectedNames matches lvgs \<noteq> {}) \<and>
     distinct (usedNodes lvgs effective) \<and>
     (lvm_Type lvm = LVMThinType \<longrightarrow> (\<forall>entry \<in> set effective. poolExists lvgs entry))"

lemma entryOk_admissible:
  "entryOk asSelector lvgs ty entry \<and> (LabelSelector entry = None \<longrightarrow> le_Name entry \<in> Name ` set lvgs) \<longleftrightarrow>
   entryAdmissible asSelector lvgs ty entry \<and>
     (\<forall>sel matches. LabelSelector entry = Some sel \<longrightarrow> asSelector sel = Inr matches \<longrightarrow> selectedNames matches lvgs \<noteq> {})"
  by (cases "LabelSelector entry") (auto simp: entryOk_def entryAdmissible_def)

lemma admitted_resolution:
  assumes lvm: "LVM lsc = Some lvm"
    and "LSCValidate asSelector None (Inr lvgs) (ReviewedLSC lsc) = Inr admit"
    and err: "resolveEffectiveLVGs asSelector lsc lvgs = Inl e"
  shows "\<exists>n p q. e = DifferentThinPools n p q"
proof -
  from assms(2) lvm have adm: "\<forall>entry \<in> set (LVMVolumeGroups lvm). entryAdmissible asSelector lvgs (lvm_Type lvm) entry"
      "unmixed (LVMVolumeGroups lvm)" "distinct (namedEntries (LVMVolumeGroups lvm))"
    by (auto simp: LSCValidate_admits)
  have fold: "foldE (resolveEntry asSelector lvgs) (LVMVolumeGroups lvm) (fmempty, []) = Inl e"
    using err lvm by (auto simp: resolveEffectiveLVGs_def split: sum.splits)
  show ?thesis
  proof (cases "\<forall>entry \<in> set (LVMVolumeGroups lvm). LabelSelector entry = None")
    case True
    then have "filter (\<lambda>e. LabelSelector e = None) (LVMVolumeGroups lvm) = LVMVolumeGroups lvm"
      by (simp add: filter_id_conv)
    with adm(3) have "distinct (map le_Name (LVMVolumeGroups lvm))" by (simp add: namedEntries_def)
    from resolve_named [OF True this, of asSelector lvgs] fold resolve_loop [of asSelector lvgs "LVMVolumeGroups lvm"]
    show ?thesis by auto
  next
    case False
    with adm(1,2) have sel: "\<exists>sel matches. LabelSelector x = Some sel \<and> asSelector sel = Inr matches"
      if "x \<in> set (LVMVolumeGroups lvm)" for x
      using that by (fastforce simp: unmixed_def entryAdmissible_def split: option.splits)
    from foldE_error [OF fold] sel show ?thesis by (metis resolveEntry_error)
  qed
qed


lemma accepted_iff_admitted:
  assumes lvm: "LVM lsc = Some lvm" and res: "resolveEffectiveLVGs asSelector lsc lvgs = Inr effective"
  shows "lscValid asSelector scs lsc lvgs effective \<longleftrightarrow>
    LSCValidate asSelector None (Inr lvgs) (ReviewedLSC lsc) = Inr admit \<and> clusterOk asSelector scs lsc lvgs lvm effective"
proof -
  from res obtain m where m: "specResolve asSelector lvgs (LVMVolumeGroups lvm) = Some m" and lists: "lists effective m"
    by (auto simp: resolve_iff [OF lvm])
  note facts = specResolve_facts [OF m]
  have named: "n \<in> le_Name ` set effective" if "n \<in> set (namedEntries (LVMVolumeGroups lvm))" for n
    using facts(2) [OF that] lists_names [OF lists, of n] by blast
  have origin: "groupFrom lvgs (LVMVolumeGroups lvm) (le_Name x) (Thin x)" if "x \<in> set effective" for x
    using that lists facts(3) by (auto simp: lists_def)
  have exist: "le_Name x \<in> Name ` set lvgs \<and> (lvm_Type lvm \<noteq> LVMThinType \<longrightarrow> Thin x = None)"
    if "x \<in> set effective" "\<forall>entry \<in> set (LVMVolumeGroups lvm). entryAdmissible asSelector lvgs (lvm_Type lvm) entry" for x
    using origin [OF that(1)] that(2) by (auto simp: groupFrom_def entryAdmissible_def split: if_splits option.splits)
  have found: "le_Name entry \<in> Name ` set lvgs"
    if "\<forall>x \<in> set effective. le_Name x \<in> Name ` set lvgs" "entry \<in> set (LVMVolumeGroups lvm)" "LabelSelector entry = None" for entry
  proof -
    have "le_Name entry \<in> le_Name ` set effective"
      using named that(2,3) unfolding set_namedEntries by blast
    with that(1) show ?thesis by auto
  qed
  show ?thesis
  proof
    assume valid: "lscValid asSelector scs lsc lvgs effective"
    then have "entryAdmissible asSelector lvgs (lvm_Type lvm) entry \<and> (\<forall>sel matches. LabelSelector entry = Some sel \<longrightarrow>
        asSelector sel = Inr matches \<longrightarrow> selectedNames matches lvgs \<noteq> {})" if "entry \<in> set (LVMVolumeGroups lvm)" for entry
      using that lvm found [of entry] unfolding lscValid_def entryOk_admissible [symmetric] by auto
    with valid lvm facts(1) show "LSCValidate asSelector None (Inr lvgs) (ReviewedLSC lsc) = Inr admit \<and>
        clusterOk asSelector scs lsc lvgs lvm effective"
      unfolding LSCValidate_admits clusterOk_def lscValid_def unmixed_def by (auto split: if_splits)
  next
    assume adm: "LSCValidate asSelector None (Inr lvgs) (ReviewedLSC lsc) = Inr admit \<and>
        clusterOk asSelector scs lsc lvgs lvm effective"
    then have "\<forall>entry \<in> set (LVMVolumeGroups lvm). entryAdmissible asSelector lvgs (lvm_Type lvm) entry"
      using lvm by (auto simp: LSCValidate_admits)
    moreover from this adm have "entryOk asSelector lvgs (lvm_Type lvm) entry" if "entry \<in> set (LVMVolumeGroups lvm)" for entry
      using that entryOk_admissible [of asSelector lvgs "lvm_Type lvm" entry] by (auto simp: clusterOk_def)
    ultimately show "lscValid asSelector scs lsc lvgs effective"
      using adm lvm exist unfolding LSCValidate_admits clusterOk_def lscValid_def unmixed_def by auto
  qed
qed

text \<open>C20: The admission webhook and the controller agree on what a LocalStorageClass has to look like.
  Over the same volume groups, the controller accepts a resolvable LocalStorageClass exactly if the
  webhook admits it and the conditions on the cluster hold that the webhook leaves to the controller: no
  foreign StorageClass of that name, every selector matches something, no two groups on one node, and
  existing thin pools.  A LocalStorageClass the webhook admits can only fail to resolve because two
  selectors give one group different thin pools.\<close>

theorem webhook_agrees_with_controller:
  assumes "LVM lsc = Some lvm" "Name lsc \<noteq> ''''" "\<And>xs. set (rangeOrder xs) = set xs"
  shows "(\<forall>e. LSCValidate asSelector None (Inr lvgs) (ReviewedLSC lsc) = Inr admit \<longrightarrow>
      resolveEffectiveLVGs asSelector lsc lvgs = Inl e \<longrightarrow> (\<exists>n p q. e = DifferentThinPools n p q)) \<and>
    (\<forall>effective. resolveEffectiveLVGs asSelector lsc lvgs = Inr effective \<longrightarrow>
      (fst (validateLocalStorageClass asSelector rangeOrder scs lsc lvgs effective) \<longleftrightarrow>
       LSCValidate asSelector None (Inr lvgs) (ReviewedLSC lsc) = Inr admit \<and>
       clusterOk asSelector scs lsc lvgs lvm effective))"
  using admitted_resolution [OF assms(1)] accepted_iff_admitted [OF assms(1)] validate_iff [OF assms(2,3)] by blast


definition demoHooksLVG :: "string \<Rightarrow> string \<Rightarrow> LVG" where
  "demoHooksLVG n node = objmeta.extend (meta0 n)
     \<lparr>ActualVGNameOnTheNode = n, Local_NodeName = node, spec_ThinPools = [], lvg_Nodes = [node],
      VGSize = 100, VGFree = 100, AllocatedSize = 0, ExtentSize = 4, status_ThinPools = []\<rparr>"

definition demoHooksLVM :: LocalStorageClassLVMSpec where
  "demoHooksLVM = \<lparr>lvm_Type = LVMThickType, Thick = None, VolumeCleanup = '''',
     LVMVolumeGroups = [namedEntry ''vg-2'' None, namedEntry ''vg-1'' None]\<rparr>"

definition demoHooksLSC :: LocalStorageClass where
  "demoHooksLSC = objmeta.extend (meta0 ''local'')
     \<lparr>ReclaimPolicy = ''Delete'', VolumeBindingMode = ''Immediate'', LVM = Some demoHooksLVM,
      FSType = '''', lsc_Status = None\<rparr>"

theorem webhook_agrees_with_controller_witness:
  "LSCValidate (\<lambda>_. Inl ''bad'') None (Inr [demoHooksLVG ''vg-1'' ''n1'', demoHooksLVG ''vg-2'' ''n2'']) (ReviewedLSC demoHooksLSC) =
     Inr admit \<and>
   clusterOk (\<lambda>_. Inl ''bad'') [] demoHooksLSC [demoHooksLVG ''vg-1'' ''n1'', demoHooksLVG ''vg-2'' ''n2''] demoHooksLVM
     [namedEntry ''vg-1'' None, namedEntry ''vg-2'' None]"
proof -
  let ?lvgs = "[demoHooksLVG ''vg-1'' ''n1'', demoHooksLVG ''vg-2'' ''n2'']"
  let ?eff = "[namedEntry ''vg-1'' None, namedEntry ''vg-2'' None]"
  have "resolveEffectiveLVGs (\<lambda>_. Inl ''bad'') demoHooksLSC ?lvgs = Inr ?eff" by code_simp
  moreover have "fst (validateLocalStorageClass (\<lambda>_. Inl ''bad'') (\<lambda>xs. xs) [] demoHooksLSC ?lvgs ?eff)" by code_simp
  moreover have "LVM demoHooksLSC = Some demoHooksLVM" "Name demoHooksLSC \<noteq> ''''"
    by (simp_all add: demoHooksLSC_def objmeta.extend_def meta0_def)
  ultimately show ?thesis
    using webhook_agrees_with_controller [of demoHooksLSC demoHooksLVM "\<lambda>xs. xs" "\<lambda>_. Inl ''bad''" ?lvgs "[]"] by blast
qed

section \<open>Who may change a managed StorageClass\<close>

definition annotationsOnly :: "reviewedSC \<Rightarrow> reviewedSC \<Rightarrow> bool" where
  "annotationsOnly old new \<longleftrightarrow> new = old\<lparr>Annotations := Annotations new, ManagedFields := ManagedFields new\<rparr>"

definition fullySet :: "reviewedSC \<Rightarrow> bool" where
  "fullySet sc \<longleftrightarrow> r_VolumeBindingMode sc \<noteq> None \<and> r_ReclaimPolicy sc \<noteq> None \<and> r_AllowVolumeExpansion sc \<noteq> None"

lemma unchanged_iff:
  "isStorageClassChangedExceptAnnotations unmarshal oldRaw newRaw = Inr False \<longleftrightarrow>
     (\<exists>old new. unmarshal oldRaw = Inr old \<and> unmarshal newRaw = Inr new \<and> annotationsOnly old new \<and> fullySet old)"
proof -
  have same: "annotationsOnly old new \<longleftrightarrow>
      r_Provisioner old = r_Provisioner new \<and> r_VolumeBindingMode old = r_VolumeBindingMode new \<and>
      r_ReclaimPolicy old = r_ReclaimPolicy new \<and> r_Parameters old = r_Parameters new \<and>
      r_AllowVolumeExpansion old = r_AllowVolumeExpansion new \<and> r_MountOptions old = r_MountOptions new \<and>
      AllowedTopologies old = AllowedTopologies new \<and>
      sameObjectMeta (old\<lparr>Annotations := None, ManagedFields := []\<rparr>) (new\<lparr>Annotations := None, ManagedFields := []\<rparr>)"
    for old new :: reviewedSC
    by (cases old; cases new) (auto simp: annotationsOnly_def sameObjectMeta_def objmeta.truncate_def)
  have step: "changedFrom test rest = Inr False \<longleftrightarrow> test = Inr False \<and> rest = Inr False" for test rest
    by (auto simp: changedFrom_def split: sum.splits bool.splits)
  have deref: "derefDiffers p q = Inr False \<longleftrightarrow> p \<noteq> None \<and> p = q" for p q :: "'b option"
    by (auto simp: derefDiffers_def split: option.splits)
  show ?thesis
    unfolding isStorageClassChangedExceptAnnotations_def same fullySet_def
    by (auto simp: step deref split: sum.splits)
qed


section \<open>Which pods get the scheduler of the module\<close>

text \<open>A pod with the default scheduler is handed to the scheduler of the module exactly if one of its
  claims belongs to this driver, when all its claims can be resolved; a pod that asks for another
  scheduler, and every other field of the pod, is left alone.\<close>

theorem scheduler_follows_the_driver:
  assumes "\<And>claim. Some claim \<in> set (Volumes p) \<Longrightarrow> discoverProvisioner v (Namespace p) claim = Inr (prov claim)"
  shows "PodSchedulerMutate v None (ReviewedPod p) = Inr (Some
    (if (SchedulerName p = '''' \<or> SchedulerName p = ''default-scheduler'') \<and>
        (\<exists>claim. Some claim \<in> set (Volumes p) \<and> prov claim = csiAddress)
     then p\<lparr>SchedulerName := schedulerName\<rparr> else p))"
proof -
  have "volumesLoop v (Namespace p) vols = Inr (\<exists>claim. Some claim \<in> set vols \<and> prov claim = csiAddress)"
    if "set vols \<subseteq> set (Volumes p)" for vols
    using that
  proof (induction vols)
    case (Cons a vols)
    then show ?case using assms by (cases a) auto
  qed simp
  from this [of "Volumes p"] show ?thesis
    by (simp add: PodSchedulerMutate_def)
qed

definition demoPod :: pod where
  "demoPod = objmeta.extend (meta0 ''app'') \<lparr>SchedulerName = '''', Volumes = [None, Some ''data'']\<rparr>"

definition demoPodEnv :: pod_env where
  "demoPodEnv = \<lparr>get_PVC = (\<lambda>_ n. Inr (objmeta.extend (meta0 n) \<lparr>StorageClassName = Some ''fast'', VolumeName = ''''\<rparr>)),
     get_SCProvisioner = (\<lambda>_. Inr csiAddress), get_PV = (\<lambda>_. Inl NotFound)\<rparr>"

theorem scheduler_follows_the_driver_witness:
  "PodSchedulerMutate demoPodEnv None (ReviewedPod demoPod) = Inr (Some (demoPod\<lparr>SchedulerName := schedulerName\<rparr>))"
proof -
  have "discoverProvisioner demoPodEnv (Namespace demoPod) claim = Inr csiAddress" for claim
    by (simp add: discoverProvisioner_def demoPodEnv_def fromStorageClass_def fromVolume_def annotatedProvisioner_def
        csiAddress_def objmeta.extend_def meta0_def)
  from scheduler_follows_the_driver [where p = demoPod and prov = "\<lambda>_. csiAddress", OF this]
  show ?thesis by (auto simp: demoPod_def objmeta.extend_def)
qed

end
