(* ===== verification/End_To_End.thy ===== *)
theory End_To_End
  imports GC_Properties CSI_Properties LSC_Pass_Properties Webhooks_Properties
begin

text \<open>
  The contract between the LocalStorageClass controller, which writes the parameters of a StorageClass, and the
  CSI driver, which reads them, and between the driver and the garbage collector, which looks for its
  finalizer: the vocabulary of the theorem in the root theory.
\<close>

section \<open>From the controller to the driver\<close>

text \<open>
  What the driver relies on: the external provisioner passes the parameters of the module on unchanged, and the
  YAML libraries of both sides agree on a list of volume groups.
\<close>

definition volumeGroupOf :: "LocalStorageClassLVG \<Rightarrow> volume_group" where
  "volumeGroupOf e = \<lparr>vg_Name = le_Name e, vg_PoolName = (case Thin e of Some pool \<Rightarrow> pool | None \<Rightarrow> '''')\<rparr>"

definition passesParameters :: "StorageClass \<Rightarrow> CreateVolumeRequest \<Rightarrow> bool" where
  "passesParameters sc req \<longleftrightarrow>
     (\<forall>k. prefix LocalStorageClassProvisioner k \<longrightarrow> mget (cv_Parameters req) k = mget (Parameters sc) k)"

definition yamlAgrees :: "yamlLib \<Rightarrow> csi_env \<Rightarrow> bool" where
  "yamlAgrees yaml v \<longleftrightarrow>
     (\<forall>es t. yaml_Marshal yaml es = Inr t \<longrightarrow> yaml_VolumeGroups v t = Some (map volumeGroupOf es))"

lemma parameter_keys_agree:
  "LVMTypeParamKey = LvmTypeKey" "LVMVolumeBindingModeParamKey = BindingModeKey" "LVMVolumeGroupsParamKey = LVMVolumeGroupKey"
  "LVMThickContiguousParamKey = LVMVThickContiguousParamKey" "LVMVolumeCleanupParamKey = csi_LVMVolumeCleanupParamKey"
  "TypeParamKey = TypeKey"
  by (simp_all add: param_key_defs LvmTypeKey_def BindingModeKey_def LVMVolumeGroupKey_def
      LVMVThickContiguousParamKey_def csi_LVMVolumeCleanupParamKey_def TypeKey_def)

lemma mget_configureParams:
  "mget (configureParams lsc lvm t) LVMTypeParamKey = lvm_Type lvm"
  "mget (configureParams lsc lvm t) LVMVolumeBindingModeParamKey = VolumeBindingMode lsc"
  "mget (configureParams lsc lvm t) LVMVolumeGroupsParamKey = t"
  "mget (configureParams lsc lvm t) LVMVolumeCleanupParamKey = VolumeCleanup lvm"
  by (auto simp: configureParams_def param_key_defs Let_def)

text \<open>What the driver reads from a request made through a StorageClass of the controller.\<close>

lemma request_parameters:
  assumes "LVM lsc = Some lvm" "configureStorageClass yaml lsc effective ignored = Inr sc"
    "passesParameters sc req" "yamlAgrees yaml v"
  shows "mget (cv_Parameters req) LvmTypeKey = lvm_Type lvm"
    "mget (cv_Parameters req) BindingModeKey = VolumeBindingMode lsc"
    "mget (cv_Parameters req) csi_LVMVolumeCleanupParamKey = VolumeCleanup lvm"
    "yaml_VolumeGroups v (mget (cv_Parameters req) LVMVolumeGroupKey) = Some (map volumeGroupOf effective)"
proof -
  obtain t where t: "yaml_Marshal yaml effective = Inr t" "Parameters sc = configureParams lsc lvm t"
    using assms(1,2) by (auto simp: configureStorageClass_def objmeta.defs split: sum.splits)
  have pass: "mget (cv_Parameters req) k = mget (configureParams lsc lvm t) k" if "prefix LocalStorageClassProvisioner k" for k
    using assms(3) that t(2) by (simp add: passesParameters_def)
  have "prefix LocalStorageClassProvisioner LvmTypeKey" "prefix LocalStorageClassProvisioner BindingModeKey"
    "prefix LocalStorageClassProvisioner LVMVolumeGroupKey" "prefix LocalStorageClassProvisioner csi_LVMVolumeCleanupParamKey"
    unfolding parameter_keys_agree [symmetric] by (simp_all add: LVMTypeParamKey_def LVMVolumeBindingModeParamKey_def
      LVMVolumeGroupsParamKey_def LVMVolumeCleanupParamKey_def)
  note keys = this [THEN pass]
  then show "mget (cv_Parameters req) LvmTypeKey = lvm_Type lvm"
    "mget (cv_Parameters req) BindingModeKey = VolumeBindingMode lsc"
    "mget (cv_Parameters req) csi_LVMVolumeCleanupParamKey = VolumeCleanup lvm"
    by (simp_all add: mget_configureParams flip: parameter_keys_agree)
  show "yaml_VolumeGroups v (mget (cv_Parameters req) LVMVolumeGroupKey) = Some (map volumeGroupOf effective)"
    using assms(4) t(1) keys(3) by (simp add: yamlAgrees_def mget_configureParams flip: parameter_keys_agree)
qed

lemma lvgParameters_volumeGroups:
  assumes "fmlookup (lvgParameters (map volumeGroupOf es)) n = Some pool"
  shows "\<exists>e \<in> set es. le_Name e = n \<and> pool = (case Thin e of Some p \<Rightarrow> p | None \<Rightarrow> '''')"
proof -
  have "fmlookup (fold (\<lambda>v m. fmupd (vg_Name v) (vg_PoolName v) m) (map volumeGroupOf es) m) n = Some pool \<Longrightarrow>
      fmlookup m n = Some pool \<or> (\<exists>e \<in> set es. le_Name e = n \<and> pool = (case Thin e of Some p \<Rightarrow> p | None \<Rightarrow> ''''))" for m
    by (induction es arbitrary: m) (force simp: volumeGroupOf_def split: if_splits)+
  from this [of fmempty] assms show ?thesis by (simp add: lvgParameters_def)
qed

end
