(* ===== verification/CSI_Resize_Snapshot.thy ===== *)
theory CSI_Resize_Snapshot
  imports CSI_Properties
begin

text \<open>
  Properties of \<^verbatim>\<open>ControllerExpandVolume\<close>, \<^verbatim>\<open>CreateSnapshot\<close> and \<^verbatim>\<open>DeleteSnapshot\<close>.
\<close>

section \<open>Expanding a volume\<close>

text \<open>
  A resize that the driver may ask for: of the volume and the group it has read, to a size whose aligned value exceeds the
  actual size, and that a thick volume finds room for; nothing but the size changes.
\<close>

definition resizeOk :: "csi_env \<Rightarrow> string \<Rightarrow> int option \<Rightarrow> LLV \<Rightarrow> LVG \<Rightarrow> quantity \<Rightarrow> LLV \<Rightarrow> bool" where
  "resizeOk v volumeID bytes llv lvg q sent \<longleftrightarrow>
     alignToLVGExtentOrStatusErr (quantity_fmt v) (NewQuantity (quantity_fmt v) (getRequiredBytes bytes)) lvg = Inr q \<and>
     sent = llv\<lparr>llv_Size := quantity_fmt v (getRequiredBytes bytes)\<rparr> \<and>
     (\<exists>st. llv_Status llv = Some st \<and> ActualSize st < q_Value q \<and>
        (llv_Type llv = LVMTypeThick \<longrightarrow> i64 (q_Value q - ActualSize st) \<le> GetLVMVolumeGroupFreeSpace lvg))"

text \<open>The runs: an error before any write, the volume is large enough already, a refused resize, or a resize and a wait.\<close>

inductive expandRun :: "csi_env \<Rightarrow> string \<Rightarrow> int option \<Rightarrow> bool \<Rightarrow> (csi_err + expand_response) option \<Rightarrow> csi_event list \<Rightarrow> bool"
  for v volumeID bytes blk where
  failed: "\<forall>e \<in> set h. \<not> csiWrite e \<Longrightarrow> expandRun v volumeID bytes blk (Some (Inl e)) h"
| large_enough: "h = [CGetLVG ('''', LVMVolumeGroupName llv) (Inr lvg), CGetLLV ('''', volumeID) (Inr llv)] \<Longrightarrow>
    alignToLVGExtentOrStatusErr (quantity_fmt v) (NewQuantity (quantity_fmt v) (getRequiredBytes bytes)) lvg = Inr q \<Longrightarrow>
    llv_Status llv = Some st \<Longrightarrow> q_Value q \<le> ActualSize st \<Longrightarrow>
    expandRun v volumeID bytes blk (Some (Inr \<lparr>exp_CapacityBytes = ActualSize st, NodeExpansionRequired = \<not> blk\<rparr>)) h"
| refused: "resizeOk v volumeID bytes llv lvg q sent \<Longrightarrow>
    h = [CUpdateLLV sent (Inl e), CGetLVG ('''', LVMVolumeGroupName llv) (Inr lvg), CGetLLV ('''', volumeID) (Inr llv)] \<Longrightarrow>
    expandRun v volumeID bytes blk (Some (Inl (GStatus CodeInternal))) h"
| waited: "resizeOk v volumeID bytes llv lvg q sent \<Longrightarrow>
    h = calls @ [CUpdateLLV sent (Inr stored), CGetLVG ('''', LVMVolumeGroupName llv) (Inr lvg), CGetLLV ('''', volumeID) (Inr llv)] \<Longrightarrow>
    \<forall>e \<in> set calls. \<not> csiWrite e \<Longrightarrow>
    (\<And>resp. r = Some (Inr resp) \<Longrightarrow> NodeExpansionRequired resp = (\<not> blk) \<and>
       (\<exists>llv' st rest. calls = CGetLLV (Namespace stored, Name stored) (Inr llv') # rest \<and> readyLLV (q_Value q) llv' \<and>
          llv_Status llv' = Some st \<and> exp_CapacityBytes resp = ActualSize st)) \<Longrightarrow>
    expandRun v volumeID bytes blk r h"

lemma expand_failed:
  "expandRun v n b k (Some (Inl e)) []" "expandRun v n b k (Some (Inl e)) [CGetLLV k1 r1]"
  "expandRun v n b k (Some (Inl e)) [CGetLVG k2 r2, CGetLLV k1 r1]"
  by (rule failed, simp)+

lemma expand_wait:
  assumes "resizeOk v volumeID bytes llv lvg q sent"
  shows "wp (WaitForStatusUpdate v fuel (Name stored) (Namespace stored) (NewQuantity (quantity_fmt v) (getRequiredBytes bytes))
      (SafeExtentSize (ExtentSize lvg)))
    (\<lambda>w. expandRun v volumeID bytes blk (case w of None \<Rightarrow> None | Some (Inl e, _) \<Rightarrow> Some (Inl e)
      | Some (Inr l, _) \<Rightarrow> Some (Inr \<lparr>exp_CapacityBytes = fst (resolveCapacityBytes (Some l) q), NodeExpansionRequired = \<not> blk\<rparr>)))
    [CUpdateLLV sent (Inr stored), CGetLVG ('''', LVMVolumeGroupName llv) (Inr lvg), CGetLLV ('''', volumeID) (Inr llv)]"
    (is "wp _ _ ?h")
proof (rule wp_mono [OF WaitForStatusUpdate_post])
  fix w h'
  have q: "AlignSizeToExtent (quantity_fmt v) (NewQuantity (quantity_fmt v) (getRequiredBytes bytes)) (SafeExtentSize (ExtentSize lvg)) = Inr q"
    using assms by (auto simp: resizeOk_def alignToLVGExtentOrStatusErr_def split: sum.splits)
  assume "(\<exists>q. AlignSizeToExtent (quantity_fmt v) (NewQuantity (quantity_fmt v) (getRequiredBytes bytes)) (SafeExtentSize (ExtentSize lvg)) = Inr q \<and>
      polledLLV (Namespace stored, Name stored) (q_Value q) ?h w h') \<or> h' = ?h \<and> (\<exists>e. w = Some (Inl e, 0))"
  then consider "polledLLV (Namespace stored, Name stored) (q_Value q) ?h w h'" | e where "h' = ?h" "w = Some (Inl e, 0)"
    using q by auto
  then show "expandRun v volumeID bytes blk (case w of None \<Rightarrow> None | Some (Inl e, _) \<Rightarrow> Some (Inl e)
      | Some (Inr l, _) \<Rightarrow> Some (Inr \<lparr>exp_CapacityBytes = fst (resolveCapacityBytes (Some l) q), NodeExpansionRequired = \<not> blk\<rparr>)) h'"
  proof cases
    case 1
    then obtain calls where c: "h' = calls @ ?h" "\<forall>e \<in> set calls. \<not> csiWrite e"
      "\<And>l m. w = Some (Inr l, m) \<Longrightarrow> readyLLV (q_Value q) l \<and> (\<exists>rest. calls = CGetLLV (Namespace stored, Name stored) (Inr l) # rest)"
      unfolding polledLLV_def by blast
    show ?thesis
      by (rule waited [OF assms c(1,2)])
        (use c(3) in \<open>auto simp: readyLLV_def resolveCapacityBytes_def split: option.splits sum.splits\<close>)
  next
    case 2
    then show ?thesis using assms by (auto intro: waited [where calls = "[]"])
  qed
qed

lemma ControllerExpandVolume_run:
  "wp (ControllerExpandVolume v fuel volumeID bytes blk) (expandRun v volumeID bytes blk) []"
proof -
  have wait: "wp (WaitForStatusUpdate v fuel (Name stored) (Namespace stored) (NewQuantity (quantity_fmt v) (getRequiredBytes bytes))
      (SafeExtentSize (ExtentSize lvg)))
    (\<lambda>w. expandRun v volumeID bytes blk (case w of None \<Rightarrow> None | Some (Inl e, _) \<Rightarrow> Some (Inl e)
      | Some (Inr l, _) \<Rightarrow> Some (Inr \<lparr>exp_CapacityBytes = fst (resolveCapacityBytes (Some l) q), NodeExpansionRequired = \<not> blk\<rparr>)))
    [CUpdateLLV (llv\<lparr>llv_Size := quantity_fmt v (getRequiredBytes bytes)\<rparr>) (Inr stored),
      CGetLVG ('''', LVMVolumeGroupName llv) (Inr lvg), CGetLLV ('''', volumeID) (Inr llv)]"
    if "resizeOk v volumeID bytes llv lvg q (llv\<lparr>llv_Size := quantity_fmt v (getRequiredBytes bytes)\<rparr>)" for stored llv lvg q
    by (rule expand_wait [OF that])
  have refuse: "expandRun v volumeID bytes blk (Some (Inl (GStatus CodeInternal)))
      [CUpdateLLV (llv\<lparr>llv_Size := quantity_fmt v (getRequiredBytes bytes)\<rparr>) (Inl e),
       CGetLVG ('''', LVMVolumeGroupName llv) (Inr lvg), CGetLLV ('''', volumeID) (Inr llv)]"
    if "\<exists>q. resizeOk v volumeID bytes llv lvg q (llv\<lparr>llv_Size := quantity_fmt v (getRequiredBytes bytes)\<rparr>)" for llv lvg e
    using that by (blast intro: refused)
  show ?thesis
    unfolding ControllerExpandVolume_def GetLVMLogicalVolume_def GetLVMVolumeGroup_def ExpandLVMLogicalVolume_def updateLLV_def Let_def
    by (auto simp: wp_rules expand_failed resizeOk_def not_le not_less split: option.split sum.split
        intro: large_enough intro!: wait refuse)
qed

text \<open>C28: \<^verbatim>\<open>ControllerExpandVolume\<close> creates and deletes nothing; it only ever changes the size of the volume
  it has read, only when the aligned request exceeds the actual size, and for a thick volume only within the free space
  of its group; when it succeeds, the reported capacity covers the aligned request.\<close>

theorem expand_volume_is_sound:
  assumes "run_state (ControllerExpandVolume v fuel volumeID bytes blk) [] = (r, h)"
  shows "list_all (\<lambda>e. \<not> createsOrDeletes e) h \<and>
    (\<forall>sent u. CUpdateLLV sent u \<in> set h \<longrightarrow> (\<exists>llv lvg q. CGetLLV ('''', volumeID) (Inr llv) \<in> set h \<and>
      CGetLVG ('''', LVMVolumeGroupName llv) (Inr lvg) \<in> set h \<and> resizeOk v volumeID bytes llv lvg q sent)) \<and>
    (\<forall>resp. r = Some (Inr resp) \<longrightarrow> NodeExpansionRequired resp = (\<not> blk) \<and>
      (\<exists>k lvg q. CGetLVG k (Inr lvg) \<in> set h \<and>
        alignToLVGExtentOrStatusErr (quantity_fmt v) (NewQuantity (quantity_fmt v) (getRequiredBytes bytes)) lvg = Inr q \<and>
        q_Value q \<le> exp_CapacityBytes resp))"
proof -
  have quiet: "\<not> csiWrite e \<Longrightarrow> \<not> createsOrDeletes e" "\<not> csiWrite e \<Longrightarrow> e \<noteq> CUpdateLLV sent u" for e sent u
    by (cases e; simp add: createsOrDeletes_def)+
  have "expandRun v volumeID bytes blk r h"
    by (rule wp_runD [OF ControllerExpandVolume_run assms])
  then show ?thesis
  proof cases
    case (waited llv lvg q sent calls stored)
    have "\<exists>k lvg q. CGetLVG k (Inr lvg) \<in> set h \<and>
        alignToLVGExtentOrStatusErr (quantity_fmt v) (NewQuantity (quantity_fmt v) (getRequiredBytes bytes)) lvg = Inr q \<and>
        q_Value q \<le> exp_CapacityBytes resp" if "r = Some (Inr resp)" for resp
      using waited(1,2) waited(4) [OF that] by (auto simp: resizeOk_def readyLLV_def intro!: exI)
    then show ?thesis
      using waited quiet by (fastforce simp: list_all_iff createsOrDeletes_def)
  qed (use quiet in \<open>auto simp: list_all_iff createsOrDeletes_def\<close>)
qed

text \<open>A node that resizes: the volume has 36 MiB until the driver has asked for 40 MiB.\<close>

definition resizingCSI :: csi_env where
  "resizingCSI = demoCSI\<lparr>ccl_Get_LLV := (\<lambda>k h. Inr ((demoVol (snd k))\<lparr>
     llv_Status := Some \<lparr>Phase = ''Created'', ActualSize = (if list_ex csiWrite h then 41943040 else 37748736), llv_Reason = ''''\<rparr>\<rparr>))\<rparr>"

lemma expand_volume_is_sound_witness:
  "\<exists>sent u llv lvg q. CUpdateLLV sent u \<in> set (snd (run_state (ControllerExpandVolume resizingCSI 5 ''pvc-1'' (Some 41000000) False) [])) \<and>
     resizeOk resizingCSI ''pvc-1'' (Some 41000000) llv lvg q sent \<and> q_Value q = 41943040"
proof -
  let ?run = "run_state (ControllerExpandVolume resizingCSI 5 ''pvc-1'' (Some 41000000) False) []"
  have "list_ex (\<lambda>e. case e of CUpdateLLV s u \<Rightarrow> True | _ \<Rightarrow> False) (snd ?run)" by code_simp
  then obtain e where e: "e \<in> set (snd ?run)" "case e of CUpdateLLV s u \<Rightarrow> True | _ \<Rightarrow> False" unfolding list_ex_iff by blast
  from e(2) obtain s u where "e = CUpdateLLV s u" by (cases e) simp_all
  with e(1) have su: "CUpdateLLV s u \<in> set (snd ?run)" by simp
  obtain llv lvg q where *: "CGetLVG ('''', LVMVolumeGroupName llv) (Inr lvg) \<in> set (snd ?run)"
    "resizeOk resizingCSI ''pvc-1'' (Some 41000000) llv lvg q s"
    using expand_volume_is_sound [of resizingCSI 5 "''pvc-1''" "Some 41000000" False "fst ?run" "snd ?run"] su by auto
  have "list_all (\<lambda>e. case e of CGetLVG k (Inr lvg) \<Rightarrow> SafeExtentSize (ExtentSize lvg) = 4194304 | _ \<Rightarrow> True) (snd ?run)" by code_simp
  then have "SafeExtentSize (ExtentSize lvg) = 4194304" using *(1) unfolding list_all_iff by fastforce
  moreover have "q_Value (NewQuantity (quantity_fmt resizingCSI) 41000000) + 4194304 \<le> 2 ^ 63" by simp
  ultimately have "q_Value q = 41943040"
    using *(2) align_value [of 4194304 "NewQuantity (quantity_fmt resizingCSI) 41000000" "quantity_fmt resizingCSI"]
    by (auto simp: resizeOk_def alignToLVGExtentOrStatusErr_def getRequiredBytes_def)
  with su * show ?thesis by blast
qed

section \<open>Creating a snapshot\<close>

text \<open>
  The source a snapshot may be taken of: a thin volume of known size, whose pool has that much space left.
\<close>

definition snapshottable :: "LLV \<Rightarrow> LVG \<Rightarrow> int \<Rightarrow> bool" where
  "snapshottable llv lvg sz \<longleftrightarrow> llv_Type llv = LVMTypeThin \<and> sz \<noteq> 0 \<and>
     (\<exists>st pool free. llv_Status llv = Some st \<and> ActualSize st = sz \<and> llv_Thin llv = Some pool \<and>
        GetLVMThinPoolFreeSpace lvg pool = Inr free \<and> sz \<le> free)"

definition createsSnapshot :: "csi_event \<Rightarrow> bool" where
  "createsSnapshot e = (case e of CCreateLLVS _ _ \<Rightarrow> True | _ \<Rightarrow> False)"

lemma createsSnapshot_simps [simp]:
  "createsSnapshot (CCreateLLVS a b)" "\<not> createsSnapshot (CGetLLVS k r)" "\<not> createsSnapshot (CDeleteLLVS k d)"
  "\<not> createsSnapshot (CNow t)"
  by (simp_all add: createsSnapshot_def)

lemma createsSnapshotD: "createsSnapshot e \<Longrightarrow> createsOrDeletes e" "createsSnapshot e \<Longrightarrow> csiWrite e"
  by (cases e; simp add: createsSnapshot_def)+

lemma not_createsSnapshot: "\<not> createsOrDeletes e \<Longrightarrow> \<not> createsSnapshot e"
  using createsSnapshotD(1) by blast

inductive snapshotRun :: "csi_env \<Rightarrow> string \<Rightarrow> string \<Rightarrow> strmap \<Rightarrow> (csi_err + csi_snapshot) option \<Rightarrow> csi_event list \<Rightarrow> bool"
  for v name sourceId ps where
  snap_failed: "\<forall>e \<in> set h. \<not> csiWrite e \<Longrightarrow> snapshotRun v name sourceId ps (Some (Inl e)) h"
| snap_created: "snapshottable llv lvg sz \<Longrightarrow>
    h0 = [CGetLVG ('''', LVMVolumeGroupName llv) (Inr lvg), CGetLLV ('''', sourceId) (Inr llv)] \<Longrightarrow>
    sent = (snapshotSpec name ps llv)\<lparr>Name := name, Finalizers := [SDSLocalVolumeCSIFinalizer]\<rparr> \<Longrightarrow>
    \<forall>e \<in> set calls. \<not> createsSnapshot e \<Longrightarrow>
    (\<And>snap. r = Some (Inr snap) \<Longrightarrow> (x = None \<or> x = Some AlreadyExists) \<and> SnapshotId snap = name \<and>
       SourceVolumeId snap = sourceId \<and> SizeBytes snap = sz \<and> ReadyToUse snap \<and>
       (\<exists>t llvs st rest. calls = CNow t # CGetLLVS ('''', name) (Inr llvs) # rest \<and>
          llvs_Status llvs = Some st \<and> llvs_Phase st = LLVSStatusCreated \<and> DeletionTimestamp llvs = None)) \<Longrightarrow>
    snapshotRun v name sourceId ps r (calls @ CCreateLLVS sent x # h0)"

lemma DeleteLVMLogicalVolumeSnapshot_calls:
  "wp (DeleteLVMLogicalVolumeSnapshot v name) (\<lambda>_ h'. \<exists>calls. h' = calls @ h \<and> (\<forall>e \<in> set calls. \<not> createsSnapshot e)) h"
proof -
  let ?Q = "\<lambda>h'. \<exists>calls. h' = calls @ h \<and> (\<forall>e \<in> set calls. \<not> createsSnapshot e)"
  have "wp (removeLLVSFinalizerIfExist v llvs SDSLocalVolumeCSIFinalizer) (\<lambda>(llvs1, removed). wp (case removed of
        Inl e \<Rightarrow> State_Monad.return (Some e)
      | Inr _ \<Rightarrow> do {
          let key = ObjectKeyFromObject llvs1;
          d \<leftarrow> cask (ccl_Delete_LLVS v key) (CDeleteLLVS key);
          State_Monad.return (map_option API d)
        }) (\<lambda>_. ?Q)) (CGetLLVS k r # h)" for llvs k r
    by (rule wp_mono [OF removeLLVSFinalizer_post [where k = k]])
      (auto simp: wp_rules Let_def not_createsSnapshot split: sum.split)
  then show ?thesis
    unfolding DeleteLVMLogicalVolumeSnapshot_def GetLVMLogicalVolumeSnapshot_def
    by (auto simp: wp_rules case_prod_beta' split: sum.split)
qed

lemma snapshot_wait:
  assumes "snapshottable llv lvg sz" "x = None \<or> x = Some AlreadyExists"
    "h0 = [CGetLVG ('''', LVMVolumeGroupName llv) (Inr lvg), CGetLLV ('''', sourceId) (Inr llv)]"
    "sent = (snapshotSpec name ps llv)\<lparr>Name := name, Finalizers := [SDSLocalVolumeCSIFinalizer]\<rparr>"
  shows "wp (waitAndReportSnapshot v fuel name sourceId sz) (snapshotRun v name sourceId ps) (CCreateLLVS sent x # h0)"
  unfolding waitAndReportSnapshot_def wp_bind WaitForLLVSStatusUpdate_def
proof (rule wp_mono [OF waitLLVS_post])
  fix w h'
  assume "polledLLVS name (CCreateLLVS sent x # h0) w h'"
  then obtain calls where c: "h' = calls @ CCreateLLVS sent x # h0" "\<forall>e \<in> set calls. \<not> csiWrite e"
    "\<And>m. w = Some (None, m) \<Longrightarrow> \<exists>llvs st rest. calls = CGetLLVS ('''', name) (Inr llvs) # rest \<and>
        llvs_Status llvs = Some st \<and> llvs_Phase st = LLVSStatusCreated \<and> DeletionTimestamp llvs = None"
    unfolding polledLLVS_def by blast
  note run = snap_created [OF assms(1,3,4)]
  have calls: "\<forall>e \<in> set calls. \<not> createsSnapshot e" using c(2) createsSnapshotD(2) by blast
  show "wp (case w of None \<Rightarrow> State_Monad.return None
     | Some (Some e, _) \<Rightarrow> do {
         _ \<leftarrow> DeleteLVMLogicalVolumeSnapshot v name;
         State_Monad.return (Some (Inl e))
       }
     | Some (None, _) \<Rightarrow> do {
         now \<leftarrow> cask (time_Now_Unix v) CNow;
         State_Monad.return (Some (Inr \<lparr>SnapshotId = name, SourceVolumeId = sourceId, SizeBytes = sz,
           CreationTime = now, ReadyToUse = True\<rparr>))
       }) (snapshotRun v name sourceId ps) h'"
  proof (cases w)
    case None
    then show ?thesis using c(1) calls by (auto intro: run)
  next
    case (Some p)
    obtain e m where p: "p = (e, m)" by (cases p)
    show ?thesis
    proof (cases e)
      case None
      have "snapshotRun v name sourceId ps (Some (Inr \<lparr>SnapshotId = name, SourceVolumeId = sourceId, SizeBytes = sz,
           CreationTime = t, ReadyToUse = True\<rparr>)) ((CNow t # calls) @ CCreateLLVS sent x # h0)" for t
        by (rule run) (use calls assms(2) c(3) [of m] Some p None in auto)
      then show ?thesis using Some p None c(1) by simp
    next
      case e: (Some err)
      have "wp (DeleteLVMLogicalVolumeSnapshot v name) (\<lambda>_. snapshotRun v name sourceId ps (Some (Inl err))) h'"
      proof (rule wp_mono [OF DeleteLVMLogicalVolumeSnapshot_calls], clarify)
        fix cs :: "csi_event list"
        assume "\<forall>e \<in> set cs. \<not> createsSnapshot e"
        then show "snapshotRun v name sourceId ps (Some (Inl err)) (cs @ h')"
          using run [of "cs @ calls" "Some (Inl err)" x] calls unfolding c(1) by auto
      qed
      then show ?thesis using Some p e by simp
    qed
  qed
qed

lemma snap_failed_simps:
  "snapshotRun v n i ps (Some (Inl e)) []" "snapshotRun v n i ps (Some (Inl e)) [CGetLLV k1 r1]"
  "snapshotRun v n i ps (Some (Inl e)) [CGetLVG k2 r2, CGetLLV k1 r1]"
  by (rule snap_failed, simp)+

lemma snapshotPrecondition_ok:
  "snapshotPrecondition llv lvg = Inr sz \<Longrightarrow> llv_Type llv = LVMTypeThin \<Longrightarrow>
   \<not> (case llv_Status llv of None \<Rightarrow> True | Some st \<Rightarrow> ActualSize st = 0) \<Longrightarrow> snapshottable llv lvg sz"
  by (auto simp: snapshotPrecondition_def snapshottable_def not_less split: option.splits sum.splits if_splits)

lemma CreateSnapshot_run: "wp (CreateSnapshot v fuel name sourceId ps) (snapshotRun v name sourceId ps) []"
proof -
  have wait: "wp (waitAndReportSnapshot v fuel name sourceId sz) (snapshotRun v name sourceId ps)
      (CCreateLLVS ((snapshotSpec name ps llv)\<lparr>Name := name, Finalizers := [SDSLocalVolumeCSIFinalizer]\<rparr>) x #
       [CGetLVG ('''', LVMVolumeGroupName llv) (Inr lvg), CGetLLV ('''', sourceId) (Inr llv)])"
    if "snapshottable llv lvg sz" "x = None \<or> x = Some AlreadyExists" for llv lvg sz x
    by (rule snapshot_wait [OF that refl refl])
  have refused: "snapshotRun v name sourceId ps (Some (Inl e))
      (CCreateLLVS ((snapshotSpec name ps llv)\<lparr>Name := name, Finalizers := [SDSLocalVolumeCSIFinalizer]\<rparr>) x #
       [CGetLVG ('''', LVMVolumeGroupName llv) (Inr lvg), CGetLLV ('''', sourceId) (Inr llv)])"
    if "snapshottable llv lvg sz" for llv lvg sz x e
  proof -
    have "snapshotRun v name sourceId ps (Some (Inl e))
      ([] @ CCreateLLVS ((snapshotSpec name ps llv)\<lparr>Name := name, Finalizers := [SDSLocalVolumeCSIFinalizer]\<rparr>) x #
       [CGetLVG ('''', LVMVolumeGroupName llv) (Inr lvg), CGetLLV ('''', sourceId) (Inr llv)])"
      by (rule snap_created [OF that refl refl]) simp_all
    then show ?thesis by simp
  qed
  show ?thesis
    unfolding CreateSnapshot_def GetLVMLogicalVolume_def GetLVMVolumeGroup_def CreateLVMLogicalVolumeSnapshot_def Let_def
    by (auto simp: wp_rules snap_failed_simps split: option.split sum.split
        dest!: snapshotPrecondition_ok intro!: wait refused)
qed

text \<open>C29: \<^verbatim>\<open>CreateSnapshot\<close> asks for a snapshot only of a thin volume of known size whose pool has that much
  space left, under the requested name, of that volume and with the driver's finalizer; a successful call has seen
  the snapshot in phase Created and reports it ready, with the actual size of the volume.\<close>

theorem create_snapshot_is_sound:
  assumes "run_state (CreateSnapshot v fuel name sourceId params) [] = (r, h)"
  shows "(\<forall>sent x. CCreateLLVS sent x \<in> set h \<longrightarrow> Name sent = name \<and> Finalizers sent = [SDSLocalVolumeCSIFinalizer] \<and>
      (\<exists>llv lvg sz. CGetLLV ('''', sourceId) (Inr llv) \<in> set h \<and> CGetLVG ('''', LVMVolumeGroupName llv) (Inr lvg) \<in> set h \<and>
         snapshottable llv lvg sz \<and> LVMLogicalVolumeName sent = Name llv)) \<and>
    (\<forall>snap. r = Some (Inr snap) \<longrightarrow> SnapshotId snap = name \<and> SourceVolumeId snap = sourceId \<and> ReadyToUse snap \<and>
      (\<exists>llv lvg. CGetLLV ('''', sourceId) (Inr llv) \<in> set h \<and> snapshottable llv lvg (SizeBytes snap)) \<and>
      (\<exists>t llvs st rest. h = CNow t # CGetLLVS ('''', name) (Inr llvs) # rest \<and> llvs_Status llvs = Some st \<and>
         llvs_Phase st = LLVSStatusCreated \<and> DeletionTimestamp llvs = None))"
proof -
  have "snapshotRun v name sourceId params r h"
    by (rule wp_runD [OF CreateSnapshot_run assms])
  then show ?thesis
  proof cases
    case (snap_created llv lvg sz h0 sent calls x)
    have only: "CCreateLLVS s y \<in> set h \<Longrightarrow> s = sent" for s y
      using snap_created(1,3,5) by auto
    have "Name sent = name \<and> Finalizers sent = [SDSLocalVolumeCSIFinalizer] \<and> LVMLogicalVolumeName sent = Name llv"
      using snap_created(4) by (simp add: snapshotSpec_def objmeta.defs LLVS.defs)
    moreover have "CGetLLV ('''', sourceId) (Inr llv) \<in> set h" "CGetLVG ('''', LVMVolumeGroupName llv) (Inr lvg) \<in> set h"
      using snap_created(1,3) by auto
    ultimately have sent: "\<forall>s x. CCreateLLVS s x \<in> set h \<longrightarrow> Name s = name \<and> Finalizers s = [SDSLocalVolumeCSIFinalizer] \<and>
      (\<exists>llv lvg sz. CGetLLV ('''', sourceId) (Inr llv) \<in> set h \<and> CGetLVG ('''', LVMVolumeGroupName llv) (Inr lvg) \<in> set h \<and>
         snapshottable llv lvg sz \<and> LVMLogicalVolumeName s = Name llv)"
      and read: "CGetLLV ('''', sourceId) (Inr llv) \<in> set h"
      using only snap_created(2) by blast+
    have "SnapshotId snap = name \<and> SourceVolumeId snap = sourceId \<and> ReadyToUse snap \<and>
      (\<exists>llv lvg. CGetLLV ('''', sourceId) (Inr llv) \<in> set h \<and> snapshottable llv lvg (SizeBytes snap)) \<and>
      (\<exists>t llvs st rest. h = CNow t # CGetLLVS ('''', name) (Inr llvs) # rest \<and> llvs_Status llvs = Some st \<and>
         llvs_Phase st = LLVSStatusCreated \<and> DeletionTimestamp llvs = None)" if "r = Some (Inr snap)" for snap
      using snap_created(6) [OF that] snap_created(1,2) read by auto
    with sent show ?thesis by blast
  qed (auto simp: csiWrite_def)
qed

definition demoSnapshotRun :: "(csi_err + csi_snapshot) option \<times> csi_event list" where
  "demoSnapshotRun = run_state (CreateSnapshot demoCSI 5 ''snap-1'' ''pvc-1'' fmempty) []"

lemma create_snapshot_is_sound_witness:
  "\<exists>snap llv lvg. fst demoSnapshotRun = Some (Inr snap) \<and> snapshottable llv lvg (SizeBytes snap) \<and> SizeBytes snap = 37748736 \<and>
     SnapshotId snap = ''snap-1'' \<and> ReadyToUse snap"
proof -
  have "case fst demoSnapshotRun of Some (Inr snap) \<Rightarrow> SizeBytes snap = 37748736 | _ \<Rightarrow> False" by code_simp
  then obtain snap where snap: "fst demoSnapshotRun = Some (Inr snap)" "SizeBytes snap = 37748736"
    by (auto split: option.splits sum.splits)
  have "run_state (CreateSnapshot demoCSI 5 ''snap-1'' ''pvc-1'' fmempty) [] = (fst demoSnapshotRun, snd demoSnapshotRun)"
    by (simp add: demoSnapshotRun_def)
  from create_snapshot_is_sound [OF this, THEN conjunct2] snap show ?thesis by blast
qed

section \<open>Deleting a snapshot\<close>

text \<open>C30: \<^verbatim>\<open>DeleteSnapshot\<close> reports success whatever happened: when the snapshot cannot be read, for any
  reason, the call ends without an error and without having deleted anything.\<close>

theorem delete_snapshot_hides_errors:
  assumes "snapshotId \<noteq> ''''" "ccl_Get_LLVS v ('''', snapshotId) h = Inl e"
  shows "run_state (DeleteSnapshot v snapshotId) h = (None, CGetLLVS ('''', snapshotId) (Inl e) # h)"
proof -
  have "wp (DeleteSnapshot v snapshotId) (\<lambda>r h'. r = None \<and> h' = CGetLLVS ('''', snapshotId) (Inl e) # h) h"
    using assms by (simp add: DeleteSnapshot_def DeleteLVMLogicalVolumeSnapshot_def GetLVMLogicalVolumeSnapshot_def)
  then show ?thesis by (simp add: wp_run prod_eq_iff)
qed

lemma delete_snapshot_hides_errors_witness:
  "run_state (DeleteSnapshot (demoCSI\<lparr>ccl_Get_LLVS := (\<lambda>k h. Inl Timeout)\<rparr>) ''s'') [] = (None, [CGetLLVS ('''', ''s'') (Inl Timeout)])"
  using delete_snapshot_hides_errors [of "''s''" "demoCSI\<lparr>ccl_Get_LLVS := (\<lambda>k h. Inl Timeout)\<rparr>" "[]" Timeout] by simp

end
