(* ===== verification/InFlight.thy ===== *)
theory InFlight
  imports Prelude
begin

text \<open>
  \<^verbatim>\<open>images/sds-local-volume-csi/internal/inflight.go\<close>: the table of the volumes an operation is in progress
  for, and what it guarantees to concurrent calls.  \<^verbatim>\<open>Insert\<close> and \<^verbatim>\<open>Delete\<close> run under a mutex, so each is one
  step of the interleaving.
\<close>

section \<open>The table\<close>

type_synonym InFlight = "(string, bool) fmap"

definition NewInFlight :: InFlight where
  "NewInFlight = fmempty"

definition Insert :: "string \<Rightarrow> InFlight \<Rightarrow> bool \<times> InFlight" where
  "Insert key db = (case fmlookup db key of
     Some _ \<Rightarrow> (False, db)
   | None \<Rightarrow> (True, fmupd key True db))"

definition Delete :: "string \<Rightarrow> InFlight \<Rightarrow> InFlight" where
  "Delete key db = fmdrop key db"

section \<open>Concurrent operations\<close>

text \<open>
  Threads that bracket an operation on a volume by an insertion and a deletion, as the handlers of the node service
  do: a thread that is not in an operation tries to begin one, and enters it or is turned away; a thread in an operation may
  end it.  \<^term>\<open>act t\<close> is the volume that thread \<^term>\<open>t\<close> works on.
\<close>

inductive opStep :: "(string \<Rightarrow> 'd \<Rightarrow> bool \<times> 'd) \<Rightarrow> (string \<Rightarrow> 'd \<Rightarrow> 'd) \<Rightarrow>
    'd \<times> ('t \<Rightarrow> string option) \<Rightarrow> 'd \<times> ('t \<Rightarrow> string option) \<Rightarrow> bool" for ins del where
  enter: "act t = None \<Longrightarrow> ins k db = (True, db') \<Longrightarrow> opStep ins del (db, act) (db', act(t \<mapsto> k))"
| turned_away: "act t = None \<Longrightarrow> ins k db = (False, db') \<Longrightarrow> opStep ins del (db, act) (db', act)"
| leave: "act t = Some k \<Longrightarrow> opStep ins del (db, act) (del k db, act(t := None))"

inductive_cases opStepE: "opStep ins del s s'"

text \<open>The contract of a table: an insertion succeeds exactly for a key that is not held.\<close>

locale inflight_table =
  fixes ins :: "string \<Rightarrow> 'd \<Rightarrow> bool \<times> 'd"
    and del :: "string \<Rightarrow> 'd \<Rightarrow> 'd"
    and held :: "'d \<Rightarrow> string set"
    and empty :: 'd
  assumes held_empty: "held empty = {}"
    and ins_ok: "fst (ins k db) \<longleftrightarrow> k \<notin> held db"
    and held_ins: "held (snd (ins k db)) = insert k (held db)"
    and held_del: "held (del k db) = held db - {k}"
begin

text \<open>The table holds the volumes worked on, and no volume is worked on twice.\<close>

definition exclusive :: "'d \<times> ('t \<Rightarrow> string option) \<Rightarrow> bool" where
  "exclusive s \<longleftrightarrow> held (fst s) = ran (snd s) \<and> inj_on (snd s) (dom (snd s))"

lemma exclusive_init: "exclusive (empty, \<lambda>_. None)"
  by (simp add: exclusive_def held_empty)

lemma exclusive_step:
  assumes "opStep ins del s s'" "exclusive s"
  shows "exclusive s'"
  using assms
proof cases
  case (enter act t k db db')
  then have new: "k \<notin> ran act" "held db' = insert k (ran act)"
    using assms(2) ins_ok [of k db] held_ins [of k db] by (auto simp: exclusive_def)
  have "ran (act(t \<mapsto> k)) = insert k (ran act)"
    using enter(3) by (simp add: ran_map_upd)
  moreover have "inj_on (act(t \<mapsto> k)) (dom (act(t \<mapsto> k)))"
    using assms(2) new(1) enter(1) by (auto simp: exclusive_def inj_on_def ran_def dom_def)
  ultimately show ?thesis using enter new by (simp add: exclusive_def)
next
  case (turned_away act t k db db')
  then have "k \<in> held db" using ins_ok [of k db] by simp
  then have "held db' = held db" using turned_away held_ins [of k db] by auto
  then show ?thesis using turned_away assms(2) by (simp add: exclusive_def)
next
  case (leave act t k db)
  have only: "act a = Some k \<Longrightarrow> a = t" for a
    using assms(2) leave(1,3) by (auto simp: exclusive_def inj_on_def dom_def)
  have "ran (act(t := None)) = ran act - {k}"
  proof (intro set_eqI iffI)
    fix x assume "x \<in> ran act - {k}"
    then obtain a where "act a = Some x" "x \<noteq> k" by (auto simp: ran_def)
    then have "a \<noteq> t" using leave(3) by auto
    with \<open>act a = Some x\<close> show "x \<in> ran (act(t := None))" by (auto simp: ran_def)
  qed (use only in \<open>auto simp: ran_def split: if_splits\<close>)
  then show ?thesis
    using assms(2) leave held_del [of k db] by (auto simp: exclusive_def inj_on_def dom_def)
qed

lemma exclusive_reachable:
  assumes "(opStep ins del)\<^sup>*\<^sup>* (empty, \<lambda>_. None) s"
  shows "exclusive s"
  using assms by (induction rule: rtranclp_induct) (auto intro: exclusive_init exclusive_step)

end

interpretation flights: inflight_table Insert Delete fmdom' NewInFlight
  by unfold_locales
    (auto simp: Insert_def Delete_def NewInFlight_def fmlookup_dom'_iff split: option.split)

section \<open>Mutual exclusion\<close>

text \<open>C31: however the calls of the node service interleave, at most one operation is in progress per volume, and the
  table holds exactly the volumes with an operation in progress, so that a volume whose operation has ended is free
  again.\<close>

theorem one_operation_per_volume:
  assumes "(opStep Insert Delete)\<^sup>*\<^sup>* (NewInFlight, \<lambda>_. None) (db, act)"
  shows "(\<forall>t u k. act t = Some k \<and> act u = Some k \<longrightarrow> t = u) \<and>
    (\<forall>k. fst (Insert k db) \<longleftrightarrow> (\<forall>t. act t \<noteq> Some k))"
proof -
  have "flights.exclusive (db, act)" by (rule flights.exclusive_reachable [OF assms])
  then show ?thesis
    using flights.ins_ok [of _ db] by (auto simp: flights.exclusive_def inj_on_def ran_def dom_def)
qed

lemma one_operation_per_volume_witness:
  "(opStep Insert Delete)\<^sup>*\<^sup>* (NewInFlight, \<lambda>_::nat. None) (fmupd ''a'' True fmempty, [0 \<mapsto> ''a'']) \<and>
   \<not> fst (Insert ''a'' (fmupd ''a'' True fmempty)) \<and> fst (Insert ''b'' (fmupd ''a'' True fmempty))"
proof -
  have "opStep Insert Delete (NewInFlight, \<lambda>_::nat. None) (fmupd ''a'' True fmempty, (\<lambda>_. None)(0 \<mapsto> ''a''))"
    by (rule enter) (simp_all add: Insert_def NewInFlight_def)
  then have r: "(opStep Insert Delete)\<^sup>*\<^sup>* (NewInFlight, \<lambda>_::nat. None) (fmupd ''a'' True fmempty, [0 \<mapsto> ''a''])"
    by (rule r_into_rtranclp)
  then show ?thesis
    using one_operation_per_volume [OF r, THEN conjunct2, THEN spec, of "''a''"]
      one_operation_per_volume [OF r, THEN conjunct2, THEN spec, of "''b''"] by auto
qed

end
