(* ===== verification/Go_Strings.thy ===== *)
theory Go_Strings
  imports Prelude
begin

text \<open>
  The parts of Go's \<^verbatim>\<open>strings\<close>, \<^verbatim>\<open>strconv\<close> and \<^verbatim>\<open>path\<close> packages that the programs use.  A string is a list of
  bytes; separators are single characters.
\<close>

section \<open>Searching and cutting\<close>

definition strings_Contains :: "string \<Rightarrow> string \<Rightarrow> bool" where
  "strings_Contains s sub = list_ex (prefix sub) (suffixes s)"

definition replaceChar :: "char \<Rightarrow> string \<Rightarrow> string \<Rightarrow> string" where
  "replaceChar old new s = concat (map (\<lambda>c. if c = old then new else [c]) s)"

definition strings_ToLower :: "string \<Rightarrow> string" where
  "strings_ToLower s = map (\<lambda>c. if of_char c \<ge> (65 :: nat) \<and> of_char c \<le> (90 :: nat)
     then char_of (of_char c + 32 :: nat) else c) s"

fun strings_SplitN :: "string \<Rightarrow> char \<Rightarrow> nat \<Rightarrow> string list" where
  "strings_SplitN s sep 0 = []"
| "strings_SplitN s sep (Suc 0) = [s]"
| "strings_SplitN s sep (Suc (Suc n)) =
    (case dropWhile (\<lambda>c. c \<noteq> sep) s of
       [] \<Rightarrow> [s]
     | _ # rest \<Rightarrow> takeWhile (\<lambda>c. c \<noteq> sep) s # strings_SplitN rest sep (Suc n))"

definition digitOf :: "char \<Rightarrow> int option" where
  "digitOf c = (if of_char c \<ge> (48 :: int) \<and> of_char c \<le> (57 :: int) then Some (of_char c - 48) else None)"

primrec parseDigits :: "int \<Rightarrow> string \<Rightarrow> int option" where
  "parseDigits acc [] = Some acc"
| "parseDigits acc (c # s) = (case digitOf c of None \<Rightarrow> None | Some d \<Rightarrow> parseDigits (10 * acc + d) s)"

definition unsignedOf :: "string \<Rightarrow> int option" where
  "unsignedOf s = (if s = [] then None else parseDigits 0 s)"

definition strconv_Atoi :: "string \<Rightarrow> int option" where
  "strconv_Atoi s = Option.bind
     (case s of
        [] \<Rightarrow> None
      | c # r \<Rightarrow> if c = CHR ''-'' then map_option uminus (unsignedOf r)
                else if c = CHR ''+'' then unsignedOf r else unsignedOf s)
     (\<lambda>n. if in_i64 n then Some n else None)"

text \<open>\<^verbatim>\<open>strings.Split\<close>, \<^verbatim>\<open>strings.Join\<close>, \<^verbatim>\<open>strings.LastIndex\<close>, \<^verbatim>\<open>strings.TrimPrefix\<close>, \<^verbatim>\<open>strings.TrimSuffix\<close>.\<close>

fun strings_Split :: "char \<Rightarrow> string \<Rightarrow> string list" where
  "strings_Split sep [] = [[]]"
| "strings_Split sep (c # s) =
    (if c = sep then [] # strings_Split sep s
     else (case strings_Split sep s of [] \<Rightarrow> [[c]] | p # ps \<Rightarrow> (c # p) # ps))"

fun strings_Join :: "string \<Rightarrow> string list \<Rightarrow> string" where
  "strings_Join sep [] = []"
| "strings_Join sep [p] = p"
| "strings_Join sep (p # q # ps) = p @ sep @ strings_Join sep (q # ps)"

definition strings_LastIndex :: "string \<Rightarrow> char \<Rightarrow> int" where
  "strings_LastIndex s c =
    (if c \<in> set s then int (length s) - 1 - int (length (takeWhile (\<lambda>d. d \<noteq> c) (rev s))) else - 1)"

definition strings_TrimPrefix :: "string \<Rightarrow> string \<Rightarrow> string" where
  "strings_TrimPrefix s p = (if prefix p s then drop (length p) s else s)"

definition strings_HasSuffix :: "string \<Rightarrow> string \<Rightarrow> bool" where
  "strings_HasSuffix s p = suffix p s"

definition strings_TrimSuffix :: "string \<Rightarrow> string \<Rightarrow> string" where
  "strings_TrimSuffix s p = (if suffix p s then take (length s - length p) s else s)"

text \<open>\<^verbatim>\<open>strings.TrimSpace\<close> on ASCII.\<close>

definition isSpace :: "char \<Rightarrow> bool" where
  "isSpace c \<longleftrightarrow> (of_char c :: nat) \<in> set [9, 10, 11, 12, 13, 32]"

definition strings_TrimSpace :: "string \<Rightarrow> string" where
  "strings_TrimSpace s = rev (dropWhile isSpace (rev (dropWhile isSpace s)))"

section \<open>Slash-separated paths\<close>

text \<open>\<^verbatim>\<open>path.Clean\<close>: the components of the result are kept on a stack, the last one on top.\<close>

definition cleanStep :: "bool \<Rightarrow> string \<Rightarrow> string list \<Rightarrow> string list" where
  "cleanStep rooted part stack =
    (if part = '''' \<or> part = ''.'' then stack
     else if part = ''..'' then (case stack of
         [] \<Rightarrow> if rooted then [] else [part]
       | prev # rest \<Rightarrow> if prev = ''..'' then part # stack else rest)
     else part # stack)"

definition path_Clean :: "string \<Rightarrow> string" where
  "path_Clean p =
    (let rooted = prefix ''/'' p;
         cleaned = strings_Join ''/'' (rev (fold (cleanStep rooted) (strings_Split (CHR ''/'') p) []))
     in if rooted then ''/'' @ cleaned else if cleaned = '''' then ''.'' else cleaned)"

definition path_Join :: "string list \<Rightarrow> string" where
  "path_Join elems =
    (let kept = filter (\<lambda>e. e \<noteq> '''') elems in if kept = [] then '''' else path_Clean (strings_Join ''/'' kept))"

definition path_Base :: "string \<Rightarrow> string" where
  "path_Base p =
    (if p = '''' then ''.''
     else let stripped = rev (dropWhile (\<lambda>c. c = CHR ''/'') (rev p)) in
       if stripped = '''' then ''/''
       else rev (takeWhile (\<lambda>c. c \<noteq> CHR ''/'') (rev stripped)))"

definition path_Dir :: "string \<Rightarrow> string" where
  "path_Dir p = path_Clean (rev (dropWhile (\<lambda>c. c \<noteq> CHR ''/'') (rev p)))"

section \<open>Facts\<close>

lemma strings_Split_nonempty [simp]: "strings_Split sep s \<noteq> []"
  by (induction s) (auto split: list.split)

lemma Join_Split [simp]: "strings_Join [sep] (strings_Split sep s) = s"
proof (induction s)
  case (Cons c s)
  then show ?case
    by (cases "strings_Split sep s" rule: list.exhaust; cases "tl (strings_Split sep s)") auto
qed simp

lemma Split_parts: "p \<in> set (strings_Split sep s) \<Longrightarrow> sep \<notin> set p"
  by (induction s arbitrary: p) (auto split: if_splits list.splits)

text \<open>Cutting behind the last separator.\<close>

lemma after_LastIndex:
  assumes "c \<in> set s"
  shows "drop (nat (strings_LastIndex s c + 1)) s = rev (takeWhile (\<lambda>d. d \<noteq> c) (rev s))"
    and "take (nat (strings_LastIndex s c + 1)) s = rev (dropWhile (\<lambda>d. d \<noteq> c) (rev s))"
proof -
  let ?t = "takeWhile (\<lambda>d. d \<noteq> c) (rev s)" and ?d = "dropWhile (\<lambda>d. d \<noteq> c) (rev s)"
  have s: "s = rev ?d @ rev ?t"
    by (metis rev_append rev_rev_ident takeWhile_dropWhile_id)
  have len: "length s = length ?d + length ?t"
    by (metis add.commute length_append length_rev takeWhile_dropWhile_id)
  have "nat (strings_LastIndex s c + 1) = length (rev ?d)"
    using assms len by (simp add: strings_LastIndex_def)
  then show "drop (nat (strings_LastIndex s c + 1)) s = rev ?t" "take (nat (strings_LastIndex s c + 1)) s = rev ?d"
    using s by (metis append_eq_conv_conj)+
qed

lemma LastIndex_nonneg [simp]: "0 \<le> strings_LastIndex s c \<longleftrightarrow> c \<in> set s"
proof (cases "c \<in> set s")
  case True
  then have "dropWhile (\<lambda>d. d \<noteq> c) (rev s) \<noteq> []" by (auto simp: dropWhile_eq_Nil_conv)
  moreover have "length (takeWhile (\<lambda>d. d \<noteq> c) (rev s)) + length (dropWhile (\<lambda>d. d \<noteq> c) (rev s)) = length s"
    by (simp flip: length_append)
  ultimately have "length (takeWhile (\<lambda>d. d \<noteq> c) (rev s)) < length s"
    by (cases "dropWhile (\<lambda>d. d \<noteq> c) (rev s)") simp_all
  with True show ?thesis by (simp add: strings_LastIndex_def)
qed (simp add: strings_LastIndex_def)

end
