(* ===== verification/Node_Model.thy ===== *)
theory Node_Model
  imports CSI_Client InFlight Go_Strings
begin

text \<open>
  The node service of the CSI driver: \<^verbatim>\<open>images/sds-local-volume-csi/driver/node.go\<close> and the store manager behind it,
  \<^verbatim>\<open>pkg/utils/node_store_manager.go\<close>.

  The state holds the history of the operations on the host and the table of the volumes in flight.  The operating system
  and \<^verbatim>\<open>k8s.io/mount-utils\<close> are functions of the environment that see the history.
\<close>

unbundle bit_operations_syntax

section \<open>State and environment\<close>

datatype os_err = ErrExist | ErrNotExist | ErrOther string

record mount_point =
  mp_Device :: string
  mp_Path :: string
  mp_Opts :: "string list"

datatype node_event =
    NPathExists string "os_err + bool"
  | NStat string "os_err + bool"
  | NMkdirAll string "os_err option"
  | NOpenCreate string "os_err option"
  | NIsMountPoint string "os_err + bool"
  | NDeviceOf string "os_err + string"
  | NFormatAndMount string string string "string list" "string list" "os_err option"
  | NMount string string string "string list" "os_err option"
  | NListMounts "os_err + mount_point list"
  | NCleanup string "os_err option"
  | NNeedResize string string "os_err + bool"
  | NResize string string "os_err option"
  | NUname "os_err + int list"

record node_state =
  nhist :: "node_event list"
  inFlight :: InFlight

type_synonym 'a nodem = "(node_state, 'a) state"

record node_env =
  mu_PathExists :: "string \<Rightarrow> node_event list \<Rightarrow> os_err + bool"
  os_StatIsDevice :: "string \<Rightarrow> node_event list \<Rightarrow> os_err + bool"
  os_MkdirAll :: "string \<Rightarrow> node_event list \<Rightarrow> os_err option"
  os_OpenCreate :: "string \<Rightarrow> node_event list \<Rightarrow> os_err option"
  mu_IsMountPoint :: "string \<Rightarrow> node_event list \<Rightarrow> os_err + bool"
  mu_GetDeviceNameFromMount :: "string \<Rightarrow> node_event list \<Rightarrow> os_err + string"
  mu_FormatAndMount :: "string \<Rightarrow> string \<Rightarrow> string \<Rightarrow> string list \<Rightarrow> string list \<Rightarrow> node_event list \<Rightarrow> os_err option"
  mu_Mount :: "string \<Rightarrow> string \<Rightarrow> string \<Rightarrow> string list \<Rightarrow> node_event list \<Rightarrow> os_err option"
  mu_List :: "node_event list \<Rightarrow> os_err + mount_point list"
  mu_CleanupMountPoint :: "string \<Rightarrow> node_event list \<Rightarrow> os_err option"
  mu_NeedResize :: "string \<Rightarrow> string \<Rightarrow> node_event list \<Rightarrow> os_err + bool"
  mu_Resize :: "string \<Rightarrow> string \<Rightarrow> node_event list \<Rightarrow> os_err option"
  syscall_Uname :: "node_event list \<Rightarrow> os_err + int list"
  errSprint :: "os_err \<Rightarrow> string"
  hostID :: string

definition nask :: "(node_event list \<Rightarrow> 'a) \<Rightarrow> ('a \<Rightarrow> node_event) \<Rightarrow> 'a nodem" where
  "nask q ev = State (\<lambda>s. let a = q (nhist s) in (a, s\<lparr>nhist := ev a # nhist s\<rparr>))"

lemma wp_nask [simp, wp_rules]:
  "wp (nask q ev) Q = (\<lambda>s. Q (q (nhist s)) (s\<lparr>nhist := ev (q (nhist s)) # nhist s\<rparr>))"
  by (rule ext) (simp add: nask_def wp_State Let_def)

section \<open>The store manager\<close>

datatype store_err = OSErr os_err | NotADevice | ForeignMount | NotReadOnly | NotInMountInfo

definition PathExists :: "node_env \<Rightarrow> string \<Rightarrow> (os_err + bool) nodem" where
  "PathExists v path = nask (mu_PathExists v path) (NPathExists path)"

definition NeedResize :: "node_env \<Rightarrow> string \<Rightarrow> string \<Rightarrow> (os_err + bool) nodem" where
  "NeedResize v devicePath deviceMountPath = nask (mu_NeedResize v devicePath deviceMountPath) (NNeedResize devicePath deviceMountPath)"

definition toMapperPath :: "string \<Rightarrow> string" where
  "toMapperPath devPath =
    (if \<not> prefix ''/dev/'' devPath then ''''
     else ''/dev/mapper/'' @ replaceChar (CHR ''/'') ''-'' (replaceChar (CHR ''-'') ''--'' (drop 5 devPath)))"

definition NodeStageVolumeFS :: "node_env \<Rightarrow> string \<Rightarrow> string \<Rightarrow> string \<Rightarrow> string list \<Rightarrow> string list \<Rightarrow> store_err option nodem" where
  "NodeStageVolumeFS v source target fsType mountOpts formatOpts = do {
     i \<leftarrow> nask (os_StatIsDevice v source) (NStat source);
     (case i of
       Inl e \<Rightarrow> State_Monad.return (Some (OSErr e))
     | Inr isDevice \<Rightarrow>
         if \<not> isDevice then State_Monad.return (Some NotADevice)
         else do {
           x \<leftarrow> PathExists v target;
           (case x of
             Inl e \<Rightarrow> State_Monad.return (Some (OSErr e))
           | Inr exists \<Rightarrow> do {
               mk \<leftarrow> (if exists then State_Monad.return None else nask (os_MkdirAll v target) (NMkdirAll target));
               (case mk of
                 Some e \<Rightarrow> State_Monad.return (Some (OSErr e))
               | None \<Rightarrow> do {
                   m \<leftarrow> nask (mu_IsMountPoint v target) (NIsMountPoint target);
                   (case m of
                     Inl e \<Rightarrow> State_Monad.return (Some (OSErr e))
                   | Inr isMountPoint \<Rightarrow>
                       if isMountPoint then do {
                         d \<leftarrow> nask (mu_GetDeviceNameFromMount v target) (NDeviceOf target);
                         State_Monad.return (case d of
                           Inl e \<Rightarrow> Some (OSErr e)
                         | Inr mountedDevicePath \<Rightarrow>
                             if mountedDevicePath \<noteq> source \<and> mountedDevicePath \<noteq> toMapperPath source
                             then Some ForeignMount else None)
                       } else do {
                         f \<leftarrow> nask (mu_FormatAndMount v source target fsType mountOpts formatOpts)
                               (NFormatAndMount source target fsType mountOpts formatOpts);
                         State_Monad.return (map_option OSErr f)
                       })
                 })
             })
         })
   }"

definition NodePublishVolumeBlock :: "node_env \<Rightarrow> string \<Rightarrow> string \<Rightarrow> string list \<Rightarrow> store_err option nodem" where
  "NodePublishVolumeBlock v source target mountOpts = do {
     i \<leftarrow> nask (os_StatIsDevice v source) (NStat source);
     (case i of
       Inl e \<Rightarrow> State_Monad.return (Some (OSErr e))
     | Inr isDevice \<Rightarrow>
         if \<not> isDevice then State_Monad.return (Some NotADevice)
         else do {
           f \<leftarrow> nask (os_OpenCreate v target) (NOpenCreate target);
           if f \<noteq> None \<and> f \<noteq> Some ErrExist then State_Monad.return (map_option OSErr f)
           else do {
             m \<leftarrow> nask (mu_Mount v source target '''' mountOpts) (NMount source target '''' mountOpts);
             State_Monad.return (map_option OSErr m)
           }
         })
   }"

definition checkMountPoint :: "string \<Rightarrow> string list \<Rightarrow> mount_point \<Rightarrow> store_err option" where
  "checkMountPoint devPath mountOpts m =
    (if mp_Device m \<noteq> devPath \<and> mp_Device m \<noteq> toMapperPath devPath then Some ForeignMount
     else if slices_Contains mountOpts ''ro'' \<and> \<not> slices_Contains (mp_Opts m) ''ro'' then Some NotReadOnly
     else None)"

definition checkMount :: "node_env \<Rightarrow> string \<Rightarrow> string \<Rightarrow> string list \<Rightarrow> store_err option nodem" where
  "checkMount v devPath target mountOpts = do {
     r \<leftarrow> nask (mu_List v) NListMounts;
     State_Monad.return (case r of
       Inl e \<Rightarrow> Some (OSErr e)
     | Inr mntInfo \<Rightarrow>
         (case find (\<lambda>m. mp_Path m = target) mntInfo of
            None \<Rightarrow> Some NotInMountInfo
          | Some m \<Rightarrow> checkMountPoint devPath mountOpts m))
   }"

definition NodePublishVolumeFS :: "node_env \<Rightarrow> string \<Rightarrow> string \<Rightarrow> string \<Rightarrow> string \<Rightarrow> string list \<Rightarrow> store_err option nodem" where
  "NodePublishVolumeFS v source devPath target fsType mountOpts = do {
     x \<leftarrow> PathExists v target;
     (case x of
       Inl e \<Rightarrow> State_Monad.return (Some (OSErr e))
     | Inr exists \<Rightarrow> do {
         r \<leftarrow> (if exists then nask (mu_IsMountPoint v target) (NIsMountPoint target)
              else do {
                mk \<leftarrow> nask (os_MkdirAll v target) (NMkdirAll target);
                State_Monad.return (case mk of Some e \<Rightarrow> Inl e | None \<Rightarrow> Inr False)
              });
         (case r of
           Inl e \<Rightarrow> State_Monad.return (Some (OSErr e))
         | Inr isMountPoint \<Rightarrow>
             if isMountPoint then checkMount v devPath target mountOpts
             else do {
               m \<leftarrow> nask (mu_Mount v source target fsType mountOpts) (NMount source target fsType mountOpts);
               State_Monad.return (map_option OSErr m)
             })
       })
   }"

definition Unstage :: "node_env \<Rightarrow> string \<Rightarrow> store_err option nodem" where
  "Unstage v target = do {
     err \<leftarrow> nask (mu_CleanupMountPoint v target) (NCleanup target);
     State_Monad.return (case err of
       None \<Rightarrow> None
     | Some e \<Rightarrow> if strings_Contains (errSprint v e) ''not mounted'' then None else Some (OSErr e))
   }"

definition Unpublish :: "node_env \<Rightarrow> string \<Rightarrow> store_err option nodem" where
  "Unpublish v target = Unstage v target"

definition IsNotMountPoint :: "node_env \<Rightarrow> string \<Rightarrow> (os_err + bool) nodem" where
  "IsNotMountPoint v target = do {
     r \<leftarrow> nask (mu_IsMountPoint v target) (NIsMountPoint target);
     State_Monad.return (case r of
       Inl e \<Rightarrow> if e = ErrNotExist then Inr True else Inl e
     | Inr notMounted \<Rightarrow> Inr notMounted)
   }"

definition ResizeFS :: "node_env \<Rightarrow> string \<Rightarrow> store_err option nodem" where
  "ResizeFS v mountTarget = do {
     d \<leftarrow> nask (mu_GetDeviceNameFromMount v mountTarget) (NDeviceOf mountTarget);
     (case d of
       Inl e \<Rightarrow> State_Monad.return (Some (OSErr e))
     | Inr devicePath \<Rightarrow> do {
         r \<leftarrow> nask (mu_Resize v devicePath mountTarget) (NResize devicePath mountTarget);
         State_Monad.return (map_option OSErr r)
       })
   }"

end
