(* ===== verification/Node_Service.thy ===== *)
theory Node_Service
  imports Node_Model
begin

text \<open>
  The handlers of the node service (\<^verbatim>\<open>images/sds-local-volume-csi/driver/node.go\<close>).  A volume capability is the
  access type it carries: a block device, a mount with its file system type and flags, or none that is known.  The
  LVM type and the thin pool of the volume context are only logged and left out.
\<close>

section \<open>Constants, options, kernel version\<close>

definition FSTypeExt4 :: string where "FSTypeExt4 = ''ext4''"
definition FSTypeXfs :: string where "FSTypeXfs = ''xfs''"
definition defaultFsType :: string where "defaultFsType = FSTypeExt4"
definition ValidFSTypes :: "string list" where "ValidFSTypes = [FSTypeExt4, FSTypeXfs]"

definition addOption :: "string \<Rightarrow> string list \<Rightarrow> string list" where
  "addOption opt mountOptions = (if slices_Contains mountOptions opt then mountOptions else mountOptions @ [opt])"

definition collectMountOptions :: "string \<Rightarrow> string list \<Rightarrow> string list \<Rightarrow> string list" where
  "collectMountOptions fsType mountFlags mountOptions =
    (let opts = fold addOption mountFlags mountOptions
     in if fsType = FSTypeXfs then addOption ''nouuid'' opts else opts)"

definition readCString :: "int list \<Rightarrow> string" where
  "readCString arr = map (\<lambda>b. char_of (nat (b mod 256))) (takeWhile (\<lambda>b. b \<noteq> 0) arr)"

datatype node_err = NStatus grpc_code | KernelErr

definition legacyKernel :: "string \<Rightarrow> bool option" where
  "legacyKernel fullVersion =
    (case strings_SplitN fullVersion (CHR ''.'') 3 of
       [p0, p1, _] \<Rightarrow>
         (case strconv_Atoi p0 of
            None \<Rightarrow> None
          | Some major \<Rightarrow>
              (case strconv_Atoi p1 of
                 None \<Rightarrow> None
               | Some minor \<Rightarrow> Some (major < 5 \<or> major = 5 \<and> minor \<le> 15)))
     | _ \<Rightarrow> None)"

definition needLegacyXFSSupport :: "node_env \<Rightarrow> (node_err + bool) nodem" where
  "needLegacyXFSSupport v = do {
     r \<leftarrow> nask (syscall_Uname v) NUname;
     State_Monad.return (case r of
       Inl e \<Rightarrow> Inl KernelErr
     | Inr release \<Rightarrow> (case legacyKernel (readCString release) of None \<Rightarrow> Inl KernelErr | Some b \<Rightarrow> Inr b))
   }"

section \<open>One operation per volume\<close>

text \<open>The volume is entered into the table, and the deferred function takes it out again when the handler returns.\<close>

definition exclusively :: "string \<Rightarrow> (node_err + unit) nodem \<Rightarrow> (node_err + unit) nodem" where
  "exclusively volumeID body = do {
     s \<leftarrow> State_Monad.get;
     (case Insert volumeID (inFlight s) of
       (False, _) \<Rightarrow> raise (NStatus Aborted)
     | (True, db) \<Rightarrow> do {
         State_Monad.update (\<lambda>s. s\<lparr>inFlight := db\<rparr>);
         r \<leftarrow> body;
         State_Monad.update (\<lambda>s. s\<lparr>inFlight := Delete volumeID (inFlight s)\<rparr>);
         State_Monad.return r
       })
   }"

definition orInternal :: "store_err option nodem \<Rightarrow> (node_err + unit) nodem" where
  "orInternal m = do {
     e \<leftarrow> m;
     (case e of None \<Rightarrow> ok () | Some _ \<Rightarrow> raise (NStatus CodeInternal))
   }"

section \<open>Staging\<close>

datatype access_type = Block | Mount "(string \<times> string list) option" | NoAccess

record NodeStageVolumeRequest =
  ns_VolumeId :: string
  ns_StagingTargetPath :: string
  ns_VolumeCapability :: "access_type option"
  ns_VolumeContext :: strmap

definition devPathOf :: "string \<Rightarrow> string \<Rightarrow> string" where
  "devPathOf vgName volumeID = ''/dev/'' @ vgName @ ''/'' @ volumeID"

definition fsTypeOr :: "string \<Rightarrow> string" where
  "fsTypeOr fsType = (if fsType = '''' then defaultFsType else fsType)"

definition checkDevice :: "node_env \<Rightarrow> string \<Rightarrow> (node_err + unit) nodem" where
  "checkDevice v devPath = do {
     x \<leftarrow> PathExists v devPath;
     (case x of
       Inl _ \<Rightarrow> raise (NStatus CodeInternal)
     | Inr exists \<Rightarrow> if exists then ok () else raise (NStatus CodeNotFound))
   }"

definition stageBody :: "node_env \<Rightarrow> string \<Rightarrow> string \<Rightarrow> string \<Rightarrow> string list \<Rightarrow> string list \<Rightarrow> (node_err + unit) nodem" where
  "stageBody v devPath target fsType mountOptions formatOptions =
     ebind (checkDevice v devPath) (\<lambda>_.
     ebind (orInternal (NodeStageVolumeFS v devPath target fsType mountOptions formatOptions)) (\<lambda>_. do {
       n \<leftarrow> NeedResize v devPath target;
       (case n of
         Inl _ \<Rightarrow> raise (NStatus CodeInternal)
       | Inr needResize \<Rightarrow> if needResize then orInternal (ResizeFS v target) else ok ())
     }))"

definition NodeStageVolume :: "node_env \<Rightarrow> NodeStageVolumeRequest \<Rightarrow> (node_err + unit) nodem" where
  "NodeStageVolume v req =
    (if ns_VolumeId req = '''' then raise (NStatus InvalidArgument)
     else if ns_StagingTargetPath req = '''' then raise (NStatus InvalidArgument)
     else (case ns_VolumeCapability req of
       None \<Rightarrow> raise (NStatus InvalidArgument)
     | Some cap \<Rightarrow>
         (case fmlookup (ns_VolumeContext req) VGNameKey of
           None \<Rightarrow> raise (NStatus InvalidArgument)
         | Some vgName \<Rightarrow>
             (case cap of
               Block \<Rightarrow> ok ()
             | NoAccess \<Rightarrow> raise (NStatus InvalidArgument)
             | Mount None \<Rightarrow> raise (NStatus InvalidArgument)
             | Mount (Some (fs, flags)) \<Rightarrow>
                 let fsType = fsTypeOr fs
                 in if \<not> slices_Contains ValidFSTypes (strings_ToLower fsType) then raise (NStatus InvalidArgument)
                    else ebind (needLegacyXFSSupport v) (\<lambda>needLegacySupport.
                      let formatOptions = (if fsType = FSTypeXfs \<and> needLegacySupport
                            then [''-m'', ''bigtime=0,inobtcount=0,reflink=0'', ''-i'', ''nrext64=0''] else []);
                          mountOptions = collectMountOptions fsType flags []
                      in exclusively (ns_VolumeId req)
                           (stageBody v (devPathOf vgName (ns_VolumeId req)) (ns_StagingTargetPath req) fsType
                             mountOptions formatOptions))))))"

definition NodeUnstageVolume :: "node_env \<Rightarrow> string \<Rightarrow> string \<Rightarrow> (node_err + unit) nodem" where
  "NodeUnstageVolume v volumeID target =
    (if volumeID = '''' then raise (NStatus InvalidArgument)
     else if target = '''' then raise (NStatus InvalidArgument)
     else exclusively volumeID (orInternal (Unstage v target)))"

section \<open>Publishing\<close>

record NodePublishVolumeRequest =
  np_VolumeId :: string
  np_StagingTargetPath :: string
  np_TargetPath :: string
  np_VolumeCapability :: "access_type option"
  np_Readonly :: bool
  np_VolumeContext :: strmap

definition publishBody :: "node_env \<Rightarrow> NodePublishVolumeRequest \<Rightarrow> string \<Rightarrow> access_type \<Rightarrow> string list \<Rightarrow> (node_err + unit) nodem" where
  "publishBody v req devPath cap mountOptions =
    (case cap of
       Block \<Rightarrow> orInternal (NodePublishVolumeBlock v devPath (np_TargetPath req) mountOptions)
     | Mount None \<Rightarrow> raise (NStatus InvalidArgument)
     | Mount (Some (fs, flags)) \<Rightarrow>
         let fsType = fsTypeOr fs
         in if \<not> slices_Contains ValidFSTypes (strings_ToLower fsType) then raise (NStatus InvalidArgument)
            else orInternal (NodePublishVolumeFS v (np_StagingTargetPath req) devPath (np_TargetPath req) fsType
                   (collectMountOptions fsType flags mountOptions))
     | NoAccess \<Rightarrow> ok ())"

definition NodePublishVolume :: "node_env \<Rightarrow> NodePublishVolumeRequest \<Rightarrow> (node_err + unit) nodem" where
  "NodePublishVolume v req =
    (if np_VolumeId req = '''' then raise (NStatus InvalidArgument)
     else if np_StagingTargetPath req = '''' then raise (NStatus InvalidArgument)
     else if np_TargetPath req = '''' then raise (NStatus InvalidArgument)
     else (case np_VolumeCapability req of
       None \<Rightarrow> raise (NStatus InvalidArgument)
     | Some cap \<Rightarrow>
         (case fmlookup (np_VolumeContext req) VGNameKey of
           None \<Rightarrow> raise (NStatus InvalidArgument)
         | Some vgName \<Rightarrow>
             let devPath = devPathOf vgName (np_VolumeId req);
                 mountOptions = [''bind''] @ (if np_Readonly req then [''ro''] else [])
             in ebind (checkDevice v devPath) (\<lambda>_.
                  exclusively (np_VolumeId req) (publishBody v req devPath cap mountOptions)))))"

definition NodeUnpublishVolume :: "node_env \<Rightarrow> string \<Rightarrow> string \<Rightarrow> (node_err + unit) nodem" where
  "NodeUnpublishVolume v volumeID target =
    (if volumeID = '''' then raise (NStatus InvalidArgument)
     else if target = '''' then raise (NStatus InvalidArgument)
     else exclusively volumeID (orInternal (Unpublish v target)))"

section \<open>Expansion, statistics, information\<close>

definition NodeExpandVolume :: "node_env \<Rightarrow> string \<Rightarrow> string \<Rightarrow> (node_err + unit) nodem" where
  "NodeExpandVolume v volumeID volumePath =
    (if volumeID = '''' then raise (NStatus InvalidArgument)
     else if volumePath = '''' then raise (NStatus InvalidArgument)
     else orInternal (ResizeFS v volumePath))"

text \<open>The file mode as \<^verbatim>\<open>stat(2)\<close> gives it; \<^verbatim>\<open>S_IFMT\<close> is 0xf000, \<^verbatim>\<open>S_IFBLK\<close> is 0x6000.\<close>

definition IsBlockDevice :: "nat \<Rightarrow> bool" where
  "IsBlockDevice mode \<longleftrightarrow> mode AND 0xf000 = 0x6000"

record statfs =
  Bsize :: int
  Blocks :: int
  Bfree :: int
  Bavail :: int
  Files :: int
  Ffree :: int

record volume_usage =
  vu_Available :: int
  vu_Total :: int
  vu_Used :: int

definition blockUsage :: "int \<Rightarrow> volume_usage" where
  "blockUsage bcap = \<lparr>vu_Available = 0, vu_Total = i64 bcap, vu_Used = 0\<rparr>"

definition filesystemUsage :: "statfs \<Rightarrow> volume_usage \<times> volume_usage" where
  "filesystemUsage st =
    (\<lparr>vu_Available = i64 (i64 (Bavail st) * Bsize st), vu_Total = i64 (i64 (Blocks st) * Bsize st),
      vu_Used = i64 (i64 (i64 (Blocks st) - i64 (Bfree st)) * Bsize st)\<rparr>,
     \<lparr>vu_Available = i64 (Ffree st), vu_Total = i64 (Files st), vu_Used = i64 (i64 (Files st) - i64 (Ffree st))\<rparr>)"

text \<open>The answer of the host to opening the device, and to \<^verbatim>\<open>BLKGETSIZE64\<close>.\<close>

definition getBlockSizeBytes :: "os_err option \<Rightarrow> os_err + int \<Rightarrow> os_err + int" where
  "getBlockSizeBytes opened ioctl = (case opened of Some e \<Rightarrow> Inl e | None \<Rightarrow> ioctl)"

text \<open>The host answers with the mode of the path, to the opening of the device and the question for its size, and with the
  statistics of the file system.\<close>

definition NodeGetVolumeStats ::
  "os_err + nat \<Rightarrow> os_err option \<Rightarrow> os_err + int \<Rightarrow> os_err + statfs \<Rightarrow> node_err + volume_usage list" where
  "NodeGetVolumeStats stat opened ioctl fsStat =
    (case stat of
       Inl _ \<Rightarrow> Inl (NStatus CodeInternal)
     | Inr mode \<Rightarrow>
         if IsBlockDevice mode then
           (case getBlockSizeBytes opened ioctl of Inl _ \<Rightarrow> Inl (NStatus CodeInternal) | Inr bcap \<Rightarrow> Inr [blockUsage bcap])
         else
           (case fsStat of
              Inl _ \<Rightarrow> Inl (NStatus CodeInternal)
            | Inr st \<Rightarrow> (case filesystemUsage st of (bytes, inodes) \<Rightarrow> Inr [bytes, inodes])))"

datatype node_capability = STAGE_UNSTAGE_VOLUME | NODE_EXPAND_VOLUME | GET_VOLUME_STATS

definition NodeGetCapabilities :: "node_capability list" where
  "NodeGetCapabilities = [STAGE_UNSTAGE_VOLUME, NODE_EXPAND_VOLUME, GET_VOLUME_STATS]"

definition NodeGetInfo :: "node_env \<Rightarrow> string \<times> strmap" where
  "NodeGetInfo v = (hostID v, fmupd TopologyKey (hostID v) fmempty)"

end
