(* ===== verification/Node_Properties.thy ===== *)
theory Node_Properties
  imports Node_Service
begin

text \<open>
  Properties of the node service: the volume is released whatever happens, staging formats only what it may, device
  paths and their names under \<^verbatim>\<open>/dev/mapper\<close> correspond, and mount options are collected without loss.
\<close>

section \<open>Effects on the host\<close>

definition hostWrite :: "node_event \<Rightarrow> bool" where
  "hostWrite e = (case e of
     NMkdirAll _ _ \<Rightarrow> True | NOpenCreate _ _ \<Rightarrow> True | NFormatAndMount _ _ _ _ _ _ \<Rightarrow> True | NMount _ _ _ _ _ \<Rightarrow> True
   | NCleanup _ _ \<Rightarrow> True | NResize _ _ _ \<Rightarrow> True | _ \<Rightarrow> False)"

lemma hostWrite_simps [simp]:
  "hostWrite (NMkdirAll a b)" "hostWrite (NFormatAndMount a c d e f b)" "hostWrite (NMount a c d e b)"
  "\<not> hostWrite (NUname g)" "\<not> hostWrite (NPathExists a h)" "\<not> hostWrite (NStat a h)"
  by (simp_all add: hostWrite_def)

text \<open>Routines that leave the table of volumes in flight alone.\<close>

definition keepsFlight :: "'a nodem \<Rightarrow> bool" where
  "keepsFlight m \<longleftrightarrow> (\<forall>s. wp m (\<lambda>_ s'. inFlight s' = inFlight s) s)"

lemma keeps_return [intro!, simp]: "keepsFlight (State_Monad.return x)" "keepsFlight (raise e)" "keepsFlight (ok a)"
  by (simp_all add: keepsFlight_def)

lemma keeps_nask [intro!, simp]: "keepsFlight (nask q ev)"
  by (simp add: keepsFlight_def)

lemma keeps_bind [intro!]:
  assumes "keepsFlight m" "\<And>a. keepsFlight (f a)"
  shows "keepsFlight (State_Monad.bind m f)"
  unfolding keepsFlight_def wp_bind
proof
  fix s
  show "wp m (\<lambda>a. wp (f a) (\<lambda>_ s'. inFlight s' = inFlight s)) s"
    using assms(1) [unfolded keepsFlight_def, rule_format, of s]
  proof (rule wp_mono)
    fix a and s1 :: node_state assume "inFlight s1 = inFlight s"
    then show "wp (f a) (\<lambda>_ s'. inFlight s' = inFlight s) s1"
      using assms(2) [of a, unfolded keepsFlight_def, rule_format, of s1] by simp
  qed
qed

lemma keeps_cases [intro!]:
  "(\<And>e. keepsFlight (f e)) \<Longrightarrow> (\<And>a. keepsFlight (g a)) \<Longrightarrow> keepsFlight (case_sum f g x)"
  "keepsFlight m \<Longrightarrow> (\<And>a. keepsFlight (h a)) \<Longrightarrow> keepsFlight (case_option m h y)"
  "keepsFlight m \<Longrightarrow> keepsFlight n \<Longrightarrow> keepsFlight (if b then m else n)"
  by (auto split: sum.split option.split)

lemma keeps_ebind [intro!]: "keepsFlight m \<Longrightarrow> (\<And>a. keepsFlight (f a)) \<Longrightarrow> keepsFlight (ebind m f)"
  unfolding ebind_def by (auto split: sum.split)

lemma keeps_orInternal [intro!]: "keepsFlight m \<Longrightarrow> keepsFlight (orInternal m)"
  unfolding orInternal_def by (auto split: option.split)

lemmas store_defs = NodeStageVolumeFS_def NodePublishVolumeBlock_def NodePublishVolumeFS_def Unstage_def Unpublish_def
  ResizeFS_def PathExists_def NeedResize_def checkMount_def

lemma keeps_store [intro!, simp]:
  "keepsFlight (NodeStageVolumeFS v a b c d e)" "keepsFlight (NodePublishVolumeBlock v a b d)"
  "keepsFlight (NodePublishVolumeFS v a b c f d)" "keepsFlight (Unstage v a)" "keepsFlight (Unpublish v a)"
  "keepsFlight (ResizeFS v a)" "keepsFlight (PathExists v a)" "keepsFlight (NeedResize v a b)"
  unfolding store_defs by (auto split: sum.split option.split)

lemma keeps_body [intro!, simp]:
  "keepsFlight (checkDevice v a)" "keepsFlight (stageBody v a b c d e)" "keepsFlight (publishBody v req a cap d)"
  "keepsFlight (needLegacyXFSSupport v)"
  unfolding checkDevice_def stageBody_def publishBody_def needLegacyXFSSupport_def Let_def
  by (auto split: sum.split option.split access_type.split)

section \<open>The volume is always released\<close>

lemma fmdrop_fmupd_new: "fmlookup m k = None \<Longrightarrow> fmdrop k (fmupd k x m) = m"
  by (intro fmap_ext) simp

lemma keeps_exclusively [intro!]:
  assumes "keepsFlight body"
  shows "keepsFlight (exclusively k body)"
  unfolding keepsFlight_def
proof
  fix s
  show "wp (exclusively k body) (\<lambda>_ s'. inFlight s' = inFlight s) s"
  proof (cases "fmlookup (inFlight s) k")
    case None
    let ?s = "s\<lparr>inFlight := fmupd k True (inFlight s)\<rparr>"
    have "wp body (\<lambda>_ s'. inFlight s' = inFlight ?s) ?s"
      using assms unfolding keepsFlight_def by blast
    then have "wp body (\<lambda>_ s'. Delete k (inFlight s') = inFlight s) ?s"
      by (rule wp_mono) (use None in \<open>simp add: Delete_def fmdrop_fmupd_new\<close>)
    with None show ?thesis by (simp add: exclusively_def Insert_def)
  next
    case (Some b)
    then show ?thesis by (simp add: exclusively_def Insert_def)
  qed
qed

lemma keeps_handlers:
  "keepsFlight (NodeStageVolume v sreq)" "keepsFlight (NodeUnstageVolume v k t)"
  "keepsFlight (NodePublishVolume v preq)" "keepsFlight (NodeUnpublishVolume v k t)"
  unfolding NodeStageVolume_def NodeUnstageVolume_def NodePublishVolume_def NodeUnpublishVolume_def Let_def
  by (auto split: option.split access_type.split)

text \<open>What a handler does to a volume another operation works on.\<close>

definition idleWhenHeld :: "string \<Rightarrow> (node_err + unit) nodem \<Rightarrow> bool" where
  "idleWhenHeld k m \<longleftrightarrow> (\<forall>s. fmlookup (inFlight s) k \<noteq> None \<longrightarrow>
     wp m (\<lambda>_ s'. filter hostWrite (nhist s') = filter hostWrite (nhist s)) s)"

lemma idle_exclusively [intro, simp]: "idleWhenHeld k (exclusively k body)"
  by (auto simp: idleWhenHeld_def exclusively_def Insert_def)

lemma idle_return [intro, simp]: "idleWhenHeld k (raise e)" "idleWhenHeld k (ok ())"
  by (simp_all add: idleWhenHeld_def)

lemma idle_after_read:
  assumes "idleWhenHeld k m" "fmlookup (inFlight s) k = Some y" "\<not> hostWrite e"
  shows "wp m (\<lambda>_ s'. filter hostWrite (nhist s') = filter hostWrite (nhist s)) (s\<lparr>nhist := e # nhist s\<rparr>)"
proof -
  have "wp m (\<lambda>_ s'. filter hostWrite (nhist s') = filter hostWrite (nhist (s\<lparr>nhist := e # nhist s\<rparr>)))
    (s\<lparr>nhist := e # nhist s\<rparr>)"
    by (rule assms(1) [unfolded idleWhenHeld_def, rule_format]) (simp add: assms(2))
  then show ?thesis by (rule wp_mono) (use assms(3) in simp)
qed

lemma idle_handlers:
  "idleWhenHeld (ns_VolumeId sreq) (NodeStageVolume v sreq)" "idleWhenHeld k (NodeUnstageVolume v k t)"
  "idleWhenHeld (np_VolumeId preq) (NodePublishVolume v preq)" "idleWhenHeld k (NodeUnpublishVolume v k t)"
proof -
  have read: "idleWhenHeld k (ebind (needLegacyXFSSupport v) f)" "idleWhenHeld k (ebind (checkDevice v d) g)"
    if "\<And>a. idleWhenHeld k (f a)" "\<And>a. idleWhenHeld k (g a)" for k d f g
    using that unfolding idleWhenHeld_def [of _ "ebind _ _"] needLegacyXFSSupport_def checkDevice_def PathExists_def
    by (auto simp: wp_rules intro!: idle_after_read split: sum.split option.split)
  show "idleWhenHeld (ns_VolumeId sreq) (NodeStageVolume v sreq)"
    unfolding NodeStageVolume_def Let_def
    by (auto split: option.split access_type.split intro!: read)
  show "idleWhenHeld (np_VolumeId preq) (NodePublishVolume v preq)"
    unfolding NodePublishVolume_def Let_def by (auto split: option.split intro!: read)
qed (auto simp: NodeUnstageVolume_def NodeUnpublishVolume_def)


section \<open>Staging\<close>

text \<open>The last operation shows that the device is mounted at the target.\<close>

definition mountedFrom :: "string \<Rightarrow> string \<Rightarrow> node_event \<Rightarrow> bool" where
  "mountedFrom devPath target e = (case e of
     NFormatAndMount d t _ _ _ r \<Rightarrow> d = devPath \<and> t = target \<and> r = None
   | NDeviceOf t (Inr d) \<Rightarrow> t = target \<and> (d = devPath \<or> d = toMapperPath devPath)
   | _ \<Rightarrow> False)"

text \<open>
  A device is only formatted when it was found to be a device, for a target just found not to be a mount point; of the host
  nothing else is changed but that the target directory is made.
\<close>

fun stageCallsOk :: "string \<Rightarrow> string \<Rightarrow> node_event list \<Rightarrow> bool" where
  "stageCallsOk devPath target [] = True"
| "stageCallsOk devPath target (e # h) = ((case e of
     NFormatAndMount d t _ _ _ _ \<Rightarrow> d = devPath \<and> t = target \<and>
       (case h of NIsMountPoint t' (Inr False) # _ \<Rightarrow> t' = target | _ \<Rightarrow> False) \<and> List.member h (NStat devPath (Inr True))
   | NMkdirAll t _ \<Rightarrow> t = target
   | NResize d t _ \<Rightarrow> t = target \<and> (case h of NDeviceOf t' (Inr d') # _ \<Rightarrow> t' = target \<and> d' = d | _ \<Rightarrow> False)
   | _ \<Rightarrow> \<not> hostWrite e) \<and> stageCallsOk devPath target h)"

text \<open>A request to stage a file system, and the paths it is about.\<close>

definition stagedPaths :: "NodeStageVolumeRequest \<Rightarrow> string \<times> string" where
  "stagedPaths req = (devPathOf (mget (ns_VolumeContext req) VGNameKey) (ns_VolumeId req), ns_StagingTargetPath req)"

lemma NodeStageVolumeFS_post:
  assumes "stageCallsOk d t (nhist s)"
  shows "wp (NodeStageVolumeFS v d t fs mo fo) (\<lambda>r s'. stageCallsOk d t (nhist s') \<and>
     (r = None \<longrightarrow> list_ex (mountedFrom d t) (nhist s'))) s"
  using assms unfolding NodeStageVolumeFS_def PathExists_def
  by (simp add: wp_rules mountedFrom_def hostWrite_def split: sum.split option.split)

lemma ResizeFS_post:
  assumes "stageCallsOk d t (nhist s)" "list_ex (mountedFrom d t) (nhist s)"
  shows "wp (ResizeFS v t) (\<lambda>r s'. stageCallsOk d t (nhist s') \<and> list_ex (mountedFrom d t) (nhist s')) s"
  using assms unfolding ResizeFS_def
  by (simp add: wp_rules mountedFrom_def hostWrite_def split: sum.split option.split)

lemma stageBody_post:
  assumes "stageCallsOk d t (nhist s)"
  shows "wp (stageBody v d t fs mo fo) (\<lambda>r s'. stageCallsOk d t (nhist s') \<and>
     (r = Inr () \<longrightarrow> list_ex (mountedFrom d t) (nhist s'))) s" (is "wp _ ?Q s")
proof -
  have resize: "wp (orInternal (ResizeFS v t)) ?Q s" if "stageCallsOk d t (nhist s)" "list_ex (mountedFrom d t) (nhist s)" for s
    unfolding orInternal_def wp_bind
    by (rule wp_mono [OF ResizeFS_post [OF that]]) (simp split: option.split)
  have stage: "wp (orInternal (NodeStageVolumeFS v d t fs mo fo)) ?Q s" if "stageCallsOk d t (nhist s)" for s
    unfolding orInternal_def wp_bind
    by (rule wp_mono [OF NodeStageVolumeFS_post [OF that]]) (simp split: option.split)
  have rest: "wp (ebind (orInternal (NodeStageVolumeFS v d t fs mo fo)) (\<lambda>_. do {
       n \<leftarrow> NeedResize v d t;
       (case n of
         Inl _ \<Rightarrow> raise (NStatus CodeInternal)
       | Inr needResize \<Rightarrow> if needResize then orInternal (ResizeFS v t) else ok ())
     })) ?Q s" if "stageCallsOk d t (nhist s)" for s
    unfolding wp_ebind NeedResize_def
    by (rule wp_mono [OF stage [OF that]])
      (auto simp: wp_rules mountedFrom_def hostWrite_def split: sum.split intro!: resize)
  show ?thesis
    using assms rest unfolding stageBody_def checkDevice_def PathExists_def
    by (simp add: wp_rules hostWrite_def split: sum.split)
qed

lemma exclusively_post:
  assumes "\<And>s. P (nhist s) \<Longrightarrow> wp body (\<lambda>r s'. Q r (nhist s')) s" "P (nhist s)" "Q (Inl (NStatus Aborted)) (nhist s)"
  shows "wp (exclusively k body) (\<lambda>r s'. Q r (nhist s')) s"
  unfolding exclusively_def
  using assms(1) [of "s\<lparr>inFlight := _\<rparr>"] assms(2,3)
  by (auto simp: Insert_def split: option.split)

text \<open>C33: staging is safe and effective: a device is formatted only after it was found to be a device and right after the
  staging target was found not to be a mount point, and nothing else on the host changes but the making of that target and
  the growing of the file system mounted there; and when staging a file system succeeds, the device of the volume is
  mounted at the target.\<close>

theorem staging_is_safe:
  assumes "run_state (NodeStageVolume v req) \<lparr>nhist = [], inFlight = db\<rparr> = (r, s)" "stagedPaths req = (devPath, target)"
  shows "stageCallsOk devPath target (nhist s) \<and>
    (r = Inr () \<and> ns_VolumeCapability req \<noteq> Some Block \<longrightarrow> list_ex (mountedFrom devPath target) (nhist s))"
proof -
  let ?s = "\<lparr>nhist = [], inFlight = db\<rparr>"
  let ?P = "\<lambda>h. stageCallsOk devPath target h"
  let ?Q = "\<lambda>r h. stageCallsOk devPath target h \<and> (r = Inr () \<and> ns_VolumeCapability req \<noteq> Some Block \<longrightarrow> list_ex (mountedFrom devPath target) h)"
  have body: "wp (exclusively k (stageBody v devPath target fs mo fo)) (\<lambda>r s'. ?Q r (nhist s')) s1"
    if "?P (nhist s1)" for k fs mo fo s1
    by (rule exclusively_post [where P = ?P]) (use that in \<open>auto intro: wp_mono [OF stageBody_post]\<close>)
  have "wp (NodeStageVolume v req) (\<lambda>r s'. ?Q r (nhist s')) ?s"
    using assms(2) body
    unfolding NodeStageVolume_def Let_def needLegacyXFSSupport_def stagedPaths_def
    by (auto simp: wp_rules mget_def hostWrite_def split: option.split access_type.split sum.split)
  from wp_runD [OF this assms(1)] show ?thesis by simp
qed

text \<open>A host where the device is there and the target is not yet mounted.\<close>

definition demoNode :: node_env where
  "demoNode = \<lparr>
     mu_PathExists = (\<lambda>p h. Inr True),
     os_StatIsDevice = (\<lambda>p h. Inr True),
     os_MkdirAll = (\<lambda>p h. None),
     os_OpenCreate = (\<lambda>p h. None),
     mu_IsMountPoint = (\<lambda>p h. Inr False),
     mu_GetDeviceNameFromMount = (\<lambda>p h. Inr ''/dev/mapper/data-pvc--1''),
     mu_FormatAndMount = (\<lambda>d t fs mo fo h. None),
     mu_Mount = (\<lambda>s t fs mo h. None),
     mu_List = (\<lambda>h. Inr []),
     mu_CleanupMountPoint = (\<lambda>p h. None),
     mu_NeedResize = (\<lambda>d p h. Inr True),
     mu_Resize = (\<lambda>d p h. None),
     syscall_Uname = (\<lambda>h. Inr [54, 46, 56, 46, 48, 0, 0]),
     errSprint = (\<lambda>e. ''''),
     hostID = ''n1''\<rparr>"

definition demoStage :: NodeStageVolumeRequest where
  "demoStage = \<lparr>ns_VolumeId = ''pvc-1'', ns_StagingTargetPath = ''/stage'',
     ns_VolumeCapability = Some (Mount (Some (''xfs'', [''noatime'']))), ns_VolumeContext = fmupd VGNameKey ''data'' fmempty\<rparr>"

definition demoPublish :: NodePublishVolumeRequest where
  "demoPublish = \<lparr>np_VolumeId = ''pvc-1'', np_StagingTargetPath = ''/stage'', np_TargetPath = ''/pod'',
     np_VolumeCapability = Some (Mount (Some ('''', []))), np_Readonly = True, np_VolumeContext = fmupd VGNameKey ''data'' fmempty\<rparr>"

definition heldState :: node_state where
  "heldState = \<lparr>nhist = [], inFlight = fmupd ''pvc-1'' True fmempty\<rparr>"


lemma staging_is_safe_witness:
  "fst (run_state (NodeStageVolume demoNode demoStage) \<lparr>nhist = [], inFlight = fmempty\<rparr>) = Inr () \<and>
   list_ex (mountedFrom ''/dev/data/pvc-1'' ''/stage'') (nhist (snd (run_state (NodeStageVolume demoNode demoStage) \<lparr>nhist = [], inFlight = fmempty\<rparr>)))"
proof -
  let ?run = "run_state (NodeStageVolume demoNode demoStage) \<lparr>nhist = [], inFlight = fmempty\<rparr>"
  have ok: "fst ?run = Inr ()" by code_simp
  have paths: "stagedPaths demoStage = (''/dev/data/pvc-1'', ''/stage'')" by code_simp
  have "ns_VolumeCapability demoStage \<noteq> Some Block" by (simp add: demoStage_def)
  then show ?thesis
    using staging_is_safe [OF prod.collapse [symmetric] paths, of demoNode fmempty] ok by simp
qed

section \<open>Device paths\<close>

text \<open>
  How the device mapper names are read back: a doubled hyphen is a hyphen, a single one separates the volume group
  from the volume.
\<close>

fun fromMapperName :: "string \<Rightarrow> string" where
  "fromMapperName [] = []"
| "fromMapperName [c] = (if c = CHR ''-'' then ''/'' else [c])"
| "fromMapperName (c # d # s) =
    (if c = CHR ''-'' then
       (if d = CHR ''-'' then c # fromMapperName s else CHR ''/'' # fromMapperName (d # s))
     else c # fromMapperName (d # s))"

definition toMapperName :: "string \<Rightarrow> string" where
  "toMapperName s = replaceChar (CHR ''/'') ''-'' (replaceChar (CHR ''-'') ''--'' s)"

lemma toMapperName_Nil [simp]: "toMapperName [] = []"
  by (simp add: toMapperName_def replaceChar_def)

lemma toMapperName_Cons: "toMapperName (c # s) =
  (if c = CHR ''-'' then ''--'' else if c = CHR ''/'' then ''-'' else [c]) @ toMapperName s"
  by (simp add: toMapperName_def replaceChar_def)

text \<open>A path in which no part after a slash is empty or begins with a hyphen, as LVM demands of its names.\<close>

fun lvmPath :: "string \<Rightarrow> bool" where
  "lvmPath (c # d # s) = (\<not> (c = CHR ''/'' \<and> (d = CHR ''-'' \<or> d = CHR ''/'')) \<and> lvmPath (d # s))"
| "lvmPath s = True"

lemma fromMapperName_hyphen:
  "fromMapperName (CHR ''-'' # CHR ''-'' # s) = CHR ''-'' # fromMapperName s"
  by simp

lemma fromMapperName_plain: "c \<noteq> CHR ''-'' \<Longrightarrow> fromMapperName (c # s) = c # fromMapperName s"
  by (cases s) simp_all

lemma fromMapperName_slash:
  "s = [] \<or> hd s \<noteq> CHR ''-'' \<Longrightarrow> fromMapperName (CHR ''-'' # s) = CHR ''/'' # fromMapperName s"
  by (cases s) simp_all

lemma lvmPath_tl: "lvmPath (c # s) \<Longrightarrow> lvmPath s"
  by (cases s) simp_all

lemma toMapperName_inverse: "lvmPath s \<Longrightarrow> fromMapperName (toMapperName s) = s"
proof (induction s)
  case (Cons c s)
  then have IH: "fromMapperName (toMapperName s) = s" by (auto dest: lvmPath_tl)
  show ?case
  proof (cases "c = CHR ''/''")
    case True
    have "toMapperName s = [] \<or> hd (toMapperName s) \<noteq> CHR ''-''"
      using Cons.prems True by (cases s) (auto simp: toMapperName_Cons)
    then show ?thesis
      using True Cons.prems IH by (simp add: toMapperName_Cons fromMapperName_slash)
  next
    case False
    then show ?thesis
      using IH by (auto simp: toMapperName_Cons fromMapperName_plain)
  qed
qed simp

text \<open>C34: the name under \<^verbatim>\<open>/dev/mapper\<close> determines the device: reading it back gives the volume group and the
  volume, so two device paths of LVM volumes with the same mapper path are equal, and a foreign mount is never taken
  for the volume's own.\<close>

theorem mapper_path_round_trip:
  assumes "lvmPath (vg @ ''/'' @ lv)" "lvmPath (vg' @ ''/'' @ lv')"
  shows "fromMapperName (drop 12 (toMapperPath (devPathOf vg lv))) = vg @ ''/'' @ lv \<and>
    (toMapperPath (devPathOf vg lv) = toMapperPath (devPathOf vg' lv') \<longrightarrow> devPathOf vg lv = devPathOf vg' lv')"
proof -
  have m: "toMapperPath (devPathOf a b) = ''/dev/mapper/'' @ toMapperName (a @ ''/'' @ b)" for a b
    by (simp add: toMapperPath_def devPathOf_def toMapperName_def)
  have a: "fromMapperName (drop 12 (toMapperPath (devPathOf vg lv))) = vg @ ''/'' @ lv"
    unfolding m using toMapperName_inverse [OF assms(1)] by simp
  have b: "fromMapperName (drop 12 (toMapperPath (devPathOf vg' lv'))) = vg' @ ''/'' @ lv'"
    unfolding m using toMapperName_inverse [OF assms(2)] by simp
  have "devPathOf vg lv = devPathOf vg' lv'" if "toMapperPath (devPathOf vg lv) = toMapperPath (devPathOf vg' lv')"
    using a [unfolded that b] by (simp add: devPathOf_def)
  with a show ?thesis by blast
qed

lemma mapper_path_round_trip_witness:
  "toMapperPath (devPathOf ''my-vg'' ''pvc-1'') = ''/dev/mapper/my--vg-pvc--1'' \<and>
   fromMapperName (drop 12 (toMapperPath (devPathOf ''my-vg'' ''pvc-1''))) = ''my-vg/pvc-1''"
proof -
  have "lvmPath (''my-vg'' @ ''/'' @ ''pvc-1'')" by simp
  moreover have "toMapperPath (devPathOf ''my-vg'' ''pvc-1'') = ''/dev/mapper/my--vg-pvc--1''" by code_simp
  ultimately show ?thesis
    using mapper_path_round_trip [of "''my-vg''" "''pvc-1''" "''my-vg''" "''pvc-1''"] by simp
qed

section \<open>Mount options\<close>

lemma set_addOption [simp]: "set (addOption o1 opts) = insert o1 (set opts)"
  by (auto simp: addOption_def)

lemma distinct_addOption: "distinct opts \<Longrightarrow> distinct (addOption o1 opts)"
  by (simp add: addOption_def)

lemma prefix_addOption: "prefix opts (addOption o1 opts)"
  by (simp add: addOption_def)

lemma addOption_present: "o1 \<in> set opts \<Longrightarrow> addOption o1 opts = opts"
  by (simp add: addOption_def)

lemma fold_addOption:
  "set (fold addOption flags opts) = set flags \<union> set opts"
  "distinct opts \<Longrightarrow> distinct (fold addOption flags opts)"
  "prefix opts (fold addOption flags opts)"
  "set flags \<subseteq> set opts \<Longrightarrow> fold addOption flags opts = opts"
proof (induction flags arbitrary: opts)
  case (Cons f flags)
  { case 1 show ?case using Cons.IH(1) by auto }
  { case 2 then show ?case using Cons.IH(2) distinct_addOption by simp }
  { case 3 show ?case using Cons.IH(3) prefix_addOption prefix_order.trans by fastforce }
  { case 4 then show ?case using Cons.IH(4) by (simp add: addOption_present) }
qed simp_all

text \<open>The mount options are the given ones, unchanged and first, and every flag of the request, each once; an xfs file
  system always gets \<^verbatim>\<open>nouuid\<close>, any other gets nothing more; collecting them again adds nothing.\<close>

theorem mount_options_complete:
  assumes "distinct mountOptions"
  shows "distinct (collectMountOptions fsType flags mountOptions) \<and> prefix mountOptions (collectMountOptions fsType flags mountOptions) \<and>
    set (collectMountOptions fsType flags mountOptions) =
      set mountOptions \<union> set flags \<union> (if fsType = FSTypeXfs then {''nouuid''} else {}) \<and>
    collectMountOptions fsType flags (collectMountOptions fsType flags mountOptions) = collectMountOptions fsType flags mountOptions"
proof -
  let ?f = "fold addOption flags mountOptions"
  have "fold addOption flags (addOption x ?f) = addOption x ?f" for x
    by (rule fold_addOption(4)) (auto simp: fold_addOption(1))
  moreover have "fold addOption flags ?f = ?f"
    by (rule fold_addOption(4)) (simp add: fold_addOption(1))
  moreover have "prefix mountOptions (addOption x ?f)" for x
    using fold_addOption(3) prefix_addOption prefix_order.trans by blast
  ultimately show ?thesis
    using fold_addOption(1-3) [where flags = flags and opts = mountOptions] assms
    by (auto simp: collectMountOptions_def Let_def distinct_addOption addOption_present)
qed

lemma mount_options_complete_witness:
  "collectMountOptions ''xfs'' [''noatime'', ''ro''] [''bind'', ''ro''] = [''bind'', ''ro'', ''noatime'', ''nouuid''] \<and>
   distinct (collectMountOptions ''xfs'' [''noatime'', ''ro''] [''bind'', ''ro''])"
proof -
  have "collectMountOptions ''xfs'' [''noatime'', ''ro''] [''bind'', ''ro''] = [''bind'', ''ro'', ''noatime'', ''nouuid'']" by code_simp
  then show ?thesis
    using mount_options_complete [of "[''bind'', ''ro'']" "''xfs''" "[''noatime'', ''ro'']"] by simp
qed

end
