(* ===== verification/Watcher_Model.thy ===== *)
theory Watcher_Model
  imports LSC_Model Monitoring "HOL-Library.AList"
begin

text \<open>
  \<^verbatim>\<open>images/controller/pkg/controller/local_csi_node_watcher.go\<close>: which nodes run the driver.  The
  controller puts a label on the nodes that match the selector of the module's configuration, takes it
  from nodes that no longer match, unless a LocalStorageClass still uses a volume group there, and marks
  the node, the volume groups and the LocalStorageClasses of such a node for manual eviction.

  The state is the history of API calls.  A node is its metadata.  Parameters are the API server, the
  matching of a label set by a selector, \<^verbatim>\<open>yaml.Unmarshal\<close> on the configuration, and the order in which
  Go ranges over a map.  A nil dereference and an assignment to a nil map are the error \<^verbatim>\<open>WPanic\<close>, after
  which nothing else runs; all other errors inside the loops are logged and skipped, as in the code.
\<close>

section \<open>State and environment\<close>

definition LocalCSINodeWatcherCtrl :: string where
  "LocalCSINodeWatcherCtrl = ''local-csi-node-watcher-controller''"
definition localCsiNodeSelectorLabel :: string where
  "localCsiNodeSelectorLabel = ''storage.deckhouse.io/sds-local-volume-node''"
definition nodeManualEvictionLabel :: string where
  "nodeManualEvictionLabel = ''storage.deckhouse.io/sds-local-volume-need-manual-eviction''"
definition candidateManualEvictionLabel :: string where
  "candidateManualEvictionLabel = ''storage.deckhouse.io/sds-local-volume-candidate-for-eviction''"

datatype watch_err = WKErr kerr | WConfig string | WPanic

datatype watch_event =
    WGetSecret okey "kerr + string option"
  | WListSelected strmap "kerr + objmeta list"
  | WListNodes "kerr + objmeta list"
  | WListLVG "kerr + LVG list"
  | WListLSC "kerr + LocalStorageClass list"
  | WUpdateNode objmeta "kerr option"
  | WUpdateLVG LVG "kerr option"
  | WUpdateLSC LocalStorageClass "kerr option"
  | WObserve string string

type_synonym 'a watchm = "(watch_event list, 'a) state"

record watch_env =
  wcl_Get_Secret :: "okey \<Rightarrow> watch_event list \<Rightarrow> kerr + string option"
  wcl_List_Selected :: "strmap \<Rightarrow> watch_event list \<Rightarrow> kerr + objmeta list"
  wcl_List_Nodes :: "watch_event list \<Rightarrow> kerr + objmeta list"
  wcl_List_LVG :: "watch_event list \<Rightarrow> kerr + LVG list"
  wcl_List_LSC :: "watch_event list \<Rightarrow> kerr + LocalStorageClass list"
  wcl_Update_Node :: "objmeta \<Rightarrow> watch_event list \<Rightarrow> kerr option"
  wcl_Update_LVG :: "LVG \<Rightarrow> watch_event list \<Rightarrow> kerr option"
  wcl_Update_LSC :: "LocalStorageClass \<Rightarrow> watch_event list \<Rightarrow> kerr option"
  selectorMatches :: "strmap \<Rightarrow> strmap \<Rightarrow> bool"
  mapOrder :: "string list \<Rightarrow> string list"
  yamlNodeSelector :: "string option \<Rightarrow> string + strmap"
  w_ConfigSecretName :: string
  RequeueSecretInterval :: duration

definition wask :: "(watch_event list \<Rightarrow> 'a) \<Rightarrow> ('a \<Rightarrow> watch_event) \<Rightarrow> 'a watchm" where
  "wask q ev = State (\<lambda>h. let a = q h in (a, ev a # h))"

lemma wp_wask [simp, wp_rules]: "wp (wask q ev) Q = (\<lambda>h. Q (q h) (ev (q h) # h))"
  by (rule ext) (simp add: wask_def wp_State Let_def)

definition getSecret :: "watch_env \<Rightarrow> string \<Rightarrow> string \<Rightarrow> (kerr + string option) watchm" where
  "getSecret v namespace name = wask (wcl_Get_Secret v (namespace, name)) (WGetSecret (namespace, name))"

definition getLVMVolumeGroups :: "watch_env \<Rightarrow> (kerr + LVG list) watchm" where
  "getLVMVolumeGroups v = wask (wcl_List_LVG v) WListLVG"

definition getLocalStorageClasses :: "watch_env \<Rightarrow> (kerr + LocalStorageClass list) watchm" where
  "getLocalStorageClasses v = wask (wcl_List_LSC v) WListLSC"

definition getKubeNodes :: "watch_env \<Rightarrow> (kerr + objmeta list) watchm" where
  "getKubeNodes v = wask (wcl_List_Nodes v) WListNodes"

definition getKubernetesNodesBySelector :: "watch_env \<Rightarrow> strmap \<Rightarrow> (kerr + objmeta list) watchm" where
  "getKubernetesNodesBySelector v selector = wask (wcl_List_Selected v selector) (WListSelected selector)"

lemmas watch_reads = getSecret_def getLVMVolumeGroups_def getLocalStorageClasses_def getKubeNodes_def
  getKubernetesNodesBySelector_def

text \<open>Ranging over a Go map, which is an association list with distinct keys.\<close>

definition rangeOver :: "watch_env \<Rightarrow> (string \<times> 'a) list \<Rightarrow> 'a list" where
  "rangeOver v m = List.map_filter (map_of m) (mapOrder v (map fst m))"

section \<open>Labels\<close>

definition hasLabel :: "string \<Rightarrow> 'a objmeta_scheme \<Rightarrow> bool" where
  "hasLabel label o1 \<longleftrightarrow> fmlookup (labels_of o1) label \<noteq> None"

definition deleteLabel :: "string \<Rightarrow> 'a objmeta_scheme \<Rightarrow> 'a objmeta_scheme" where
  "deleteLabel label o1 = o1\<lparr>Labels := map_option (fmdrop label) (Labels o1)\<rparr>"

definition setLabel :: "string \<Rightarrow> 'a objmeta_scheme \<Rightarrow> 'a objmeta_scheme" where
  "setLabel label o1 = o1\<lparr>Labels := Some (fmupd label '''' (labels_of o1))\<rparr>"

definition addLabelOnTheLSCIfNotExist :: "watch_env \<Rightarrow> LocalStorageClass \<Rightarrow> string \<Rightarrow> (watch_err + bool) watchm" where
  "addLabelOnTheLSCIfNotExist v lsc label =
    (if hasLabel label lsc then State_Monad.return (Inr False)
     else do {
       u \<leftarrow> wask (wcl_Update_LSC v (setLabel label lsc)) (WUpdateLSC (setLabel label lsc));
       State_Monad.return (case u of Some e \<Rightarrow> Inl (WKErr e) | None \<Rightarrow> Inr True)
     })"

definition addLabelOnTheLVGIfNotExist :: "watch_env \<Rightarrow> LVG \<Rightarrow> string \<Rightarrow> (watch_err + bool) watchm" where
  "addLabelOnTheLVGIfNotExist v lvg label =
    (if hasLabel label lvg then State_Monad.return (Inr False)
     else do {
       u \<leftarrow> wask (wcl_Update_LVG v (setLabel label lvg)) (WUpdateLVG (setLabel label lvg));
       State_Monad.return (case u of Some e \<Rightarrow> Inl (WKErr e) | None \<Rightarrow> Inr True)
     })"

text \<open>On a node the label is assigned without a check for a nil map.\<close>

definition addLabelOnTheNodeIfNotExist :: "watch_env \<Rightarrow> objmeta \<Rightarrow> string \<Rightarrow> (watch_err + bool) watchm" where
  "addLabelOnTheNodeIfNotExist v node label =
    (if hasLabel label node then State_Monad.return (Inr False)
     else if Labels node = None then State_Monad.return (Inl WPanic)
     else do {
       u \<leftarrow> wask (wcl_Update_Node v (setLabel label node)) (WUpdateNode (setLabel label node));
       State_Monad.return (case u of Some e \<Rightarrow> Inl (WKErr e) | None \<Rightarrow> Inr True)
     })"

section \<open>Volume groups of a node\<close>

definition lvgMap :: "LVG list \<Rightarrow> (string \<times> LVG) list" where
  "lvgMap items = fold (\<lambda>lvg m. AList.update (Name lvg) lvg m) items []"

definition usedLvgs :: "objmeta \<Rightarrow> LVG list \<Rightarrow> (string \<times> LVG) list" where
  "usedLvgs node items = fold (\<lambda>lvg m.
     fold (\<lambda>n m. if n = Name node then AList.update (Name lvg) lvg m else m) (lvg_Nodes lvg) m) items []"

definition unhealthyEntry :: "(string \<times> LVG) list \<Rightarrow> LocalStorageClass \<Rightarrow> LocalStorageClassLVG \<Rightarrow>
    (string \<times> LVG) list \<times> (string \<times> LocalStorageClass) list \<Rightarrow>
    (string \<times> LVG) list \<times> (string \<times> LocalStorageClass) list" where
  "unhealthyEntry used lsc entry acc = (case map_of used (le_Name entry) of
     None \<Rightarrow> acc
   | Some lvg \<Rightarrow> (AList.update (le_Name entry) lvg (fst acc), AList.update (Name lsc) lsc (snd acc)))"

definition unhealthyLsc :: "(string \<times> LVG) list \<Rightarrow> LocalStorageClass \<Rightarrow>
    (string \<times> LVG) list \<times> (string \<times> LocalStorageClass) list \<Rightarrow>
    watch_err + (string \<times> LVG) list \<times> (string \<times> LocalStorageClass) list" where
  "unhealthyLsc used lsc acc = (case LVM lsc of
     None \<Rightarrow> Inl WPanic
   | Some lvm \<Rightarrow> Inr (fold (unhealthyEntry used lsc) (LVMVolumeGroups lvm) acc))"

definition getManuallyEvictedLVGsAndLSCs :: "watch_env \<Rightarrow> objmeta \<Rightarrow>
    (watch_err + (string \<times> LVG) list \<times> (string \<times> LocalStorageClass) list) watchm" where
  "getManuallyEvictedLVGsAndLSCs v node = do {
     g \<leftarrow> getLVMVolumeGroups v;
     (case g of
       Inl e \<Rightarrow> State_Monad.return (Inl (WKErr e))
     | Inr lvgs \<Rightarrow> do {
         l \<leftarrow> getLocalStorageClasses v;
         State_Monad.return (case l of
           Inl e \<Rightarrow> Inl (WKErr e)
         | Inr lscs \<Rightarrow> (case foldE (unhealthyLsc (usedLvgs node lvgs)) lscs ([], []) of
             Inl e \<Rightarrow> Inl e
           | Inr (unhealthyLvgs, unhealthyLscs) \<Rightarrow>
               Inr (fold (\<lambda>lvg m. if hasLabel candidateManualEvictionLabel lvg
                                  then AList.update (Name lvg) lvg m else m)
                     (rangeOver v (usedLvgs node lvgs)) unhealthyLvgs, unhealthyLscs)))
       })
   }"

section \<open>Nodes that match the selector\<close>

definition clearCandidateLVG :: "watch_env \<Rightarrow> LVG \<Rightarrow> unit watchm" where
  "clearCandidateLVG v lvg =
    (if \<not> hasLabel candidateManualEvictionLabel lvg then State_Monad.return ()
     else do {
       let lvg1 = deleteLabel candidateManualEvictionLabel lvg;
       _ \<leftarrow> wask (wcl_Update_LVG v lvg1) (WUpdateLVG lvg1);
       State_Monad.return ()
     })"

text \<open>
  The two maps of volume groups share the \<^verbatim>\<open>Labels\<close> maps of the listed items, so that the deletion
  through \<^verbatim>\<open>usedLvgs\<close> is seen through \<^verbatim>\<open>lvgs\<close>, whether the update succeeded or not.
\<close>

definition afterClearing :: "objmeta \<Rightarrow> LVG \<Rightarrow> LVG" where
  "afterClearing node lvg =
    (if slices_Contains (lvg_Nodes lvg) (Name node) then deleteLabel candidateManualEvictionLabel lvg else lvg)"

definition isBadLVG :: "objmeta \<Rightarrow> (string \<times> LVG) list \<Rightarrow> LocalStorageClassLVG \<Rightarrow> bool" where
  "isBadLVG node lvgs entry = (case map_of lvgs (le_Name entry) of
     None \<Rightarrow> False
   | Some lvg \<Rightarrow> hasLabel candidateManualEvictionLabel (afterClearing node lvg))"

definition clearCandidateLSC ::
  "watch_env \<Rightarrow> objmeta \<Rightarrow> (string \<times> LVG) list \<Rightarrow> LocalStorageClass \<Rightarrow> watch_err option watchm" where
  "clearCandidateLSC v node lvgs lsc =
    (if \<not> hasLabel candidateManualEvictionLabel lsc then State_Monad.return None
     else case LVM lsc of
       None \<Rightarrow> State_Monad.return (Some WPanic)
     | Some lvm \<Rightarrow>
         if list_ex (isBadLVG node lvgs) (LVMVolumeGroups lvm) then State_Monad.return None
         else do {
           let lsc1 = deleteLabel candidateManualEvictionLabel lsc;
           _ \<leftarrow> wask (wcl_Update_LSC v lsc1) (WUpdateLSC lsc1);
           State_Monad.return None
         })"

definition clearManualEvictionLabelsIfNeeded :: "watch_env \<Rightarrow> objmeta \<Rightarrow> watch_err option watchm" where
  "clearManualEvictionLabelsIfNeeded v node = do {
     u \<leftarrow> (if \<not> hasLabel nodeManualEvictionLabel node then State_Monad.return None
           else wask (wcl_Update_Node v (deleteLabel nodeManualEvictionLabel node))
                  (WUpdateNode (deleteLabel nodeManualEvictionLabel node)));
     (case u of
       Some e \<Rightarrow> State_Monad.return (Some (WKErr e))
     | None \<Rightarrow> do {
         g \<leftarrow> getLVMVolumeGroups v;
         (case g of
           Inl e \<Rightarrow> State_Monad.return (Some (WKErr e))
         | Inr lvgs \<Rightarrow> do {
             _ \<leftarrow> foldM (\<lambda>lvg _. clearCandidateLVG v lvg) (rangeOver v (usedLvgs node lvgs)) ();
             l \<leftarrow> getLocalStorageClasses v;
             (case l of
               Inl e \<Rightarrow> State_Monad.return (Some (WKErr e))
             | Inr lscs \<Rightarrow> forEach (clearCandidateLSC v node (lvgMap lvgs)) lscs)
           })
       })
   }"

section \<open>One pass over the nodes\<close>

definition panicOnly :: "watch_err option \<Rightarrow> watch_err option" where
  "panicOnly err = (if err = Some WPanic then err else None)"

text \<open>The branch for a node that no longer matches but still hosts something in use.\<close>

definition markForEviction :: "watch_env \<Rightarrow> objmeta \<Rightarrow> (string \<times> LVG) list \<Rightarrow>
    (string \<times> LocalStorageClass) list \<Rightarrow> watch_err option watchm" where
  "markForEviction v node unhealthyLvgs unhealthyLscs = do {
     a \<leftarrow> addLabelOnTheNodeIfNotExist v node nodeManualEvictionLabel;
     (case a of
       Inl e \<Rightarrow> State_Monad.return (panicOnly (Some e))
     | Inr _ \<Rightarrow> do {
         _ \<leftarrow> forEach (\<lambda>lvg. do {
             _ \<leftarrow> addLabelOnTheLVGIfNotExist v lvg candidateManualEvictionLabel;
             State_Monad.return (None :: watch_err option) }) (rangeOver v unhealthyLvgs);
         forEach (\<lambda>lsc. do {
             _ \<leftarrow> addLabelOnTheLSCIfNotExist v lsc candidateManualEvictionLabel;
             State_Monad.return None }) (rangeOver v unhealthyLscs)
       })
   }"

definition retireNode :: "watch_env \<Rightarrow> objmeta \<Rightarrow> (string \<times> LVG) list \<Rightarrow>
    (string \<times> LocalStorageClass) list \<Rightarrow> watch_err option watchm" where
  "retireNode v node unhealthyLvgs unhealthyLscs =
    (if unhealthyLvgs = [] \<and> unhealthyLscs = [] then do {
       let node1 = deleteLabel nodeManualEvictionLabel (deleteLabel localCsiNodeSelectorLabel node);
       _ \<leftarrow> wask (wcl_Update_Node v node1) (WUpdateNode node1);
       State_Monad.return None
     } else markForEviction v node unhealthyLvgs unhealthyLscs)"

definition reconcileNodeLabels :: "watch_env \<Rightarrow> strmap \<Rightarrow> objmeta \<Rightarrow> watch_err option watchm" where
  "reconcileNodeLabels v selector node =
    (if selectorMatches v selector (labels_of node) then do {
       err \<leftarrow> clearManualEvictionLabelsIfNeeded v node;
       State_Monad.return (panicOnly err)
     }
     else if \<not> hasLabel localCsiNodeSelectorLabel node then State_Monad.return None
     else do {
       r \<leftarrow> getManuallyEvictedLVGsAndLSCs v node;
       (case r of
         Inl e \<Rightarrow> State_Monad.return (panicOnly (Some e))
       | Inr (unhealthyLvgs, unhealthyLscs) \<Rightarrow> retireNode v node unhealthyLvgs unhealthyLscs)
     })"

definition reconcileLocalCSILabels :: "watch_env \<Rightarrow> objmeta list \<Rightarrow> strmap \<Rightarrow> watch_err option watchm" where
  "reconcileLocalCSILabels v nodes selector = forEach (reconcileNodeLabels v selector) nodes"

definition labelNodeWithLocalCSI :: "watch_env \<Rightarrow> objmeta \<Rightarrow> watch_err option watchm" where
  "labelNodeWithLocalCSI v node =
    (if hasLabel localCsiNodeSelectorLabel node then State_Monad.return None
     else if Labels node = None then State_Monad.return (Some WPanic)
     else do {
       let node1 = setLabel localCsiNodeSelectorLabel node;
       _ \<leftarrow> wask (wcl_Update_Node v node1) (WUpdateNode node1);
       State_Monad.return None
     })"

definition labelNodesWithLocalCSIIfNeeded :: "watch_env \<Rightarrow> objmeta list \<Rightarrow> watch_err option watchm" where
  "labelNodesWithLocalCSIIfNeeded v nodes = forEach (labelNodeWithLocalCSI v) nodes"

definition getNodeSelectorFromConfig :: "watch_env \<Rightarrow> string option \<Rightarrow> watch_err + strmap" where
  "getNodeSelectorFromConfig v data = (case yamlNodeSelector v data of
     Inl e \<Rightarrow> Inl (WConfig e)
   | Inr nodeSelector \<Rightarrow> Inr nodeSelector)"

definition reconcileLocalCSINodes :: "watch_env \<Rightarrow> string option \<Rightarrow> watch_err option watchm" where
  "reconcileLocalCSINodes v data = (case getNodeSelectorFromConfig v data of
     Inl e \<Rightarrow> State_Monad.return (Some e)
   | Inr nodeSelector \<Rightarrow> do {
       sel \<leftarrow> getKubernetesNodesBySelector v nodeSelector;
       (case sel of
         Inl e \<Rightarrow> State_Monad.return (Some (WKErr e))
       | Inr nodesWithSelector \<Rightarrow> do {
           p \<leftarrow> labelNodesWithLocalCSIIfNeeded v nodesWithSelector;
           (case p of
             Some e \<Rightarrow> State_Monad.return (Some e)
           | None \<Rightarrow> do {
               all \<leftarrow> getKubeNodes v;
               (case all of
                 Inl e \<Rightarrow> State_Monad.return (Some (WKErr e))
               | Inr nodes \<Rightarrow> reconcileLocalCSILabels v nodes nodeSelector)
             })
         })
     })"

text \<open>
  The reconciler closure; its result is the requeue delay and the error.  The deferred metric also runs
  when a panic unwinds, with the result variables still unset.
\<close>

definition watcherReconcile :: "watch_env \<Rightarrow> okey \<Rightarrow> (reconcile_Result \<times> watch_err option) watchm" where
  "watcherReconcile v request = do {
     result \<leftarrow>
       (if snd request \<noteq> w_ConfigSecretName v then State_Monad.return (noRequeue, None)
        else do {
          g \<leftarrow> getSecret v (fst request) (snd request);
          (case g of
            Inl e \<Rightarrow> State_Monad.return (noRequeue, Some (WKErr e))
          | Inr data \<Rightarrow> do {
              err \<leftarrow> reconcileLocalCSINodes v data;
              State_Monad.return (case err of
                Some e \<Rightarrow> (noRequeue, Some e)
              | None \<Rightarrow> (noRequeue\<lparr>RequeueAfter := i64 (RequeueSecretInterval v * time_Second)\<rparr>, None))
            })
        });
     _ \<leftarrow> wask (\<lambda>_. ()) (\<lambda>_. WObserve LocalCSINodeWatcherCtrl
       (reconcileResult (Some (fst result)) (if snd result = Some WPanic then None else snd result)));
     State_Monad.return result
   }"

end
