(* ===== verification/Watcher_Properties.thy ===== *)
theory Watcher_Properties
  imports Watcher_Model
begin

text \<open>
  What the node watcher may write: a criterion on its history of API calls, kept by every routine for
  every behaviour of the API server.
\<close>

section \<open>Contracts of the parameters\<close>

text \<open>Ranging visits every key of a map, and two cluster-scoped objects never have the same name.\<close>

definition mapOrderOk :: "watch_env \<Rightarrow> bool" where
  "mapOrderOk v \<longleftrightarrow> (\<forall>ks. set (mapOrder v ks) = set ks)"

definition uniqueNames :: "watch_env \<Rightarrow> bool" where
  "uniqueNames v \<longleftrightarrow> (\<forall>h lvgs. wcl_List_LVG v h = Inr lvgs \<longrightarrow> distinct (map Name lvgs))"

section \<open>The criterion\<close>

primrec lastSelector :: "watch_event list \<Rightarrow> strmap" where
  "lastSelector [] = fmempty"
| "lastSelector (e # h) = (case e of WListSelected sel _ \<Rightarrow> sel | _ \<Rightarrow> lastSelector h)"

primrec lastSelected :: "watch_event list \<Rightarrow> objmeta list" where
  "lastSelected [] = []"
| "lastSelected (e # h) = (case e of WListSelected _ (Inr nodes) \<Rightarrow> nodes | _ \<Rightarrow> lastSelected h)"

primrec lastNodes :: "watch_event list \<Rightarrow> objmeta list" where
  "lastNodes [] = []"
| "lastNodes (e # h) = (case e of WListNodes (Inr nodes) \<Rightarrow> nodes | _ \<Rightarrow> lastNodes h)"

primrec lastLVGs :: "watch_event list \<Rightarrow> LVG list" where
  "lastLVGs [] = []"
| "lastLVGs (e # h) = (case e of WListLVG (Inr lvgs) \<Rightarrow> lvgs | _ \<Rightarrow> lastLVGs h)"

primrec lastLSCs :: "watch_event list \<Rightarrow> LocalStorageClass list" where
  "lastLSCs [] = []"
| "lastLSCs (e # h) = (case e of WListLSC (Inr lscs) \<Rightarrow> lscs | _ \<Rightarrow> lastLSCs h)"

definition usesGroup :: "LocalStorageClass \<Rightarrow> LVG \<Rightarrow> bool" where
  "usesGroup lsc g \<longleftrightarrow> (case LVM lsc of
     None \<Rightarrow> False
   | Some lvm \<Rightarrow> list_ex (\<lambda>entry. le_Name entry = Name g) (LVMVolumeGroups lvm))"

definition hosted :: "objmeta \<Rightarrow> LVG \<Rightarrow> bool" where
  "hosted node g \<longleftrightarrow> Name node \<in> set (lvg_Nodes g)"

definition nodeInUse :: "LVG list \<Rightarrow> LocalStorageClass list \<Rightarrow> objmeta \<Rightarrow> bool" where
  "nodeInUse lvgs lscs node \<longleftrightarrow> (\<exists>g \<in> set lvgs. hosted node g \<and>
     (hasLabel candidateManualEvictionLabel g \<or> (\<exists>lsc \<in> set lscs. usesGroup lsc g)))"

text \<open>A node that keeps running the driver, and one that is to lose it.\<close>

definition staying :: "watch_env \<Rightarrow> watch_event list \<Rightarrow> objmeta \<Rightarrow> bool" where
  "staying v h node \<longleftrightarrow> node \<in> set (lastNodes h) \<and> selectorMatches v (lastSelector h) (labels_of node)"

definition leaving :: "watch_env \<Rightarrow> watch_event list \<Rightarrow> objmeta \<Rightarrow> bool" where
  "leaving v h node \<longleftrightarrow> node \<in> set (lastNodes h) \<and> \<not> selectorMatches v (lastSelector h) (labels_of node) \<and>
     hasLabel localCsiNodeSelectorLabel node"

definition nodeWriteOk :: "watch_env \<Rightarrow> objmeta \<Rightarrow> watch_event list \<Rightarrow> bool" where
  "nodeWriteOk v n h \<longleftrightarrow>
     (\<exists>node \<in> set (lastSelected h). \<not> hasLabel localCsiNodeSelectorLabel node \<and>
        n = setLabel localCsiNodeSelectorLabel node) \<or>
     (\<exists>node. staying v h node \<and> n = deleteLabel nodeManualEvictionLabel node) \<or>
     (\<exists>node. leaving v h node \<and> \<not> nodeInUse (lastLVGs h) (lastLSCs h) node \<and>
        n = deleteLabel nodeManualEvictionLabel (deleteLabel localCsiNodeSelectorLabel node)) \<or>
     (\<exists>node. leaving v h node \<and> nodeInUse (lastLVGs h) (lastLSCs h) node \<and>
        n = setLabel nodeManualEvictionLabel node)"

definition lvgWriteOk :: "watch_env \<Rightarrow> LVG \<Rightarrow> watch_event list \<Rightarrow> bool" where
  "lvgWriteOk v g1 h \<longleftrightarrow> (\<exists>node. \<exists>g \<in> set (lastLVGs h). hosted node g \<and>
     (staying v h node \<and> hasLabel candidateManualEvictionLabel g \<and>
        g1 = deleteLabel candidateManualEvictionLabel g \<or>
      leaving v h node \<and> \<not> hasLabel candidateManualEvictionLabel g \<and>
        (\<exists>lsc \<in> set (lastLSCs h). usesGroup lsc g) \<and> g1 = setLabel candidateManualEvictionLabel g))"

definition lscLabelOk :: "watch_env \<Rightarrow> LocalStorageClass \<Rightarrow> watch_event list \<Rightarrow> bool" where
  "lscLabelOk v l1 h \<longleftrightarrow> (\<exists>node. \<exists>lsc \<in> set (lastLSCs h).
     staying v h node \<and> hasLabel candidateManualEvictionLabel lsc \<and>
       (\<forall>g \<in> set (lastLVGs h). usesGroup lsc g \<and> hasLabel candidateManualEvictionLabel g \<longrightarrow> hosted node g) \<and>
       l1 = deleteLabel candidateManualEvictionLabel lsc \<or>
     leaving v h node \<and> \<not> hasLabel candidateManualEvictionLabel lsc \<and>
       (\<exists>g \<in> set (lastLVGs h). hosted node g \<and> usesGroup lsc g) \<and>
       l1 = setLabel candidateManualEvictionLabel lsc)"

definition watchWriteOk :: "watch_env \<Rightarrow> watch_event \<Rightarrow> watch_event list \<Rightarrow> bool" where
  "watchWriteOk v e h = (case e of
     WUpdateNode n r \<Rightarrow> wcl_Update_Node v n h = r \<and> nodeWriteOk v n h
   | WUpdateLVG g r \<Rightarrow> wcl_Update_LVG v g h = r \<and> lvgWriteOk v g h
   | WUpdateLSC l r \<Rightarrow> wcl_Update_LSC v l h = r \<and> lscLabelOk v l h
   | WListSelected sel r \<Rightarrow> wcl_List_Selected v sel h = r
   | WListNodes r \<Rightarrow> wcl_List_Nodes v h = r
   | WListLVG r \<Rightarrow> wcl_List_LVG v h = r
   | WListLSC r \<Rightarrow> wcl_List_LSC v h = r
   | _ \<Rightarrow> True)"

primrec watchSafe :: "watch_env \<Rightarrow> watch_event list \<Rightarrow> bool" where
  "watchSafe v [] = True"
| "watchSafe v (e # h) = (watchWriteOk v e h \<and> watchSafe v h)"

lemma watchWriteOk_simps [simp]:
  "watchWriteOk v (WUpdateNode n r1) h \<longleftrightarrow> wcl_Update_Node v n h = r1 \<and> nodeWriteOk v n h"
  "watchWriteOk v (WUpdateLVG g r2) h \<longleftrightarrow> wcl_Update_LVG v g h = r2 \<and> lvgWriteOk v g h"
  "watchWriteOk v (WUpdateLSC l r3) h \<longleftrightarrow> wcl_Update_LSC v l h = r3 \<and> lscLabelOk v l h"
  "watchWriteOk v (WListSelected sel r4) h \<longleftrightarrow> wcl_List_Selected v sel h = r4"
  "watchWriteOk v (WListNodes r5) h \<longleftrightarrow> wcl_List_Nodes v h = r5"
  "watchWriteOk v (WListLVG r6) h \<longleftrightarrow> wcl_List_LVG v h = r6"
  "watchWriteOk v (WListLSC r7) h \<longleftrightarrow> wcl_List_LSC v h = r7"
  "watchWriteOk v (WGetSecret k s) h" "watchWriteOk v (WObserve c o1) h"
  by (simp_all add: watchWriteOk_def)

lemma lscLabelOk_leavingI:
  assumes "leaving v h node" "lsc \<in> set (lastLSCs h)" "\<not> hasLabel candidateManualEvictionLabel lsc"
    and "g \<in> set (lastLVGs h)" "hosted node g" "usesGroup lsc g"
  shows "lscLabelOk v (setLabel candidateManualEvictionLabel lsc) h"
  unfolding lscLabelOk_def using assms by blast

lemma lscLabelOk_stayingI:
  assumes "staying v h node" "lsc \<in> set (lastLSCs h)" "hasLabel candidateManualEvictionLabel lsc"
    and "\<And>g. g \<in> set (lastLVGs h) \<Longrightarrow> usesGroup lsc g \<Longrightarrow> hasLabel candidateManualEvictionLabel g \<Longrightarrow> hosted node g"
  shows "lscLabelOk v (deleteLabel candidateManualEvictionLabel lsc) h"
  unfolding lscLabelOk_def using assms by blast

section \<open>The maps of volume groups\<close>

lemma update_again: "AList.update k x (AList.update k x m) = AList.update k x m"
  by (induction m) auto

lemma map_of_lvgMap:
  assumes "distinct (map Name xs)"
  shows "map_of (lvgMap xs) k = Some g \<longleftrightarrow> g \<in> set xs \<and> Name g = k"
proof -
  have "map_of (fold (\<lambda>g m. AList.update (Name g) g m) xs m) = map_of m ++ map_of (rev (map (\<lambda>g. (Name g, g)) xs))"
    for m :: "(string \<times> LVG) list"
    by (induction xs arbitrary: m) (auto simp: AList.update_conv' map_add_def fun_eq_iff split: option.splits)
  then have "map_of (lvgMap xs) = map_of (rev (map (\<lambda>g. (Name g, g)) xs))"
    by (simp add: lvgMap_def)
  moreover have "distinct (map fst (rev (map (\<lambda>g. (Name g, g)) xs)))"
    using assms distinct_rev [of "map Name xs"] by (simp only: rev_map map_map comp_def fst_conv)
  ultimately show ?thesis by (auto simp: map_of_eq_Some_iff)
qed

lemma usedLvgs_eq: "usedLvgs node xs = lvgMap (filter (hosted node) xs)"
proof -
  have inner: "fold (\<lambda>n m. if n = Name node then AList.update k g m else m) ns m =
      (if Name node \<in> set ns then AList.update k g m else m)" for k ns m and g :: LVG
    by (induction ns arbitrary: m) (auto simp: update_again)
  have "fold (\<lambda>g m. if hosted node g then AList.update (Name g) g m else m) xs m =
      fold (\<lambda>g m. AList.update (Name g) g m) (filter (hosted node) xs) m" for m
    by (induction xs arbitrary: m) auto
  then show ?thesis
    unfolding usedLvgs_def lvgMap_def inner by (simp add: hosted_def)
qed

lemma map_of_usedLvgs:
  assumes "distinct (map Name xs)"
  shows "map_of (usedLvgs node xs) k = Some g \<longleftrightarrow> g \<in> set xs \<and> hosted node g \<and> Name g = k"
  unfolding usedLvgs_eq using map_of_lvgMap [of "filter (hosted node) xs" k g] assms
  by (auto simp: distinct_map_filter)

lemma set_rangeOver:
  assumes "mapOrderOk v"
  shows "set (rangeOver v m) = ran (map_of m)"
proof -
  have "set (mapOrder v (map fst m)) = dom (map_of m)"
    using assms by (simp add: mapOrderOk_def dom_map_of_conv_image_fst)
  then show ?thesis
    by (auto simp: rangeOver_def List.map_filter_def ran_def image_iff) force+
qed


section \<open>Volume groups and storage classes for manual eviction\<close>

lemma usesGroup_iff:
  "usesGroup lsc g \<longleftrightarrow> (\<exists>lvm. LVM lsc = Some lvm \<and> Name g \<in> le_Name ` set (LVMVolumeGroups lvm))"
  by (cases "LVM lsc") (force simp: usesGroup_def list_ex_iff)+

lemma unhealthyEntries_lvgs:
  "map_of (fst (fold (unhealthyEntry used lsc) es acc)) =
   map_of (fst acc) ++ (map_of used |` (le_Name ` set es))"
  by (induction es arbitrary: acc)
    (auto simp: unhealthyEntry_def AList.update_conv' map_add_def restrict_map_def fun_eq_iff split: option.splits)

lemma unhealthyEntries_lscs:
  assumes "map_of (snd (fold (unhealthyEntry used lsc) es acc)) k = Some c"
  shows "map_of (snd acc) k = Some c \<or> c = lsc \<and> (\<exists>e \<in> set es. map_of used (le_Name e) \<noteq> None)"
  using assms
proof (induction es arbitrary: acc)
  case (Cons e es)
  from Cons.IH [of "unhealthyEntry used lsc e acc"] Cons.prems show ?case
    by (auto simp: unhealthyEntry_def AList.update_conv' split: option.splits if_splits)
qed simp

text \<open>What the two maps hold after the LocalStorageClasses \<^term>\<open>lscs\<close>.\<close>

definition unhealthyPicture :: "(string \<times> LVG) list \<Rightarrow> LocalStorageClass list \<Rightarrow>
    (string \<times> LVG) list \<times> (string \<times> LocalStorageClass) list \<Rightarrow> bool" where
  "unhealthyPicture used lscs acc \<longleftrightarrow>
     map_of (fst acc) = map_of used |` {k. \<exists>lsc \<in> set lscs. \<exists>lvm. LVM lsc = Some lvm \<and> k \<in> le_Name ` set (LVMVolumeGroups lvm)} \<and>
     (\<forall>c \<in> ran (map_of (snd acc)). c \<in> set lscs \<and>
        (\<exists>lvm. LVM c = Some lvm \<and> (\<exists>e \<in> set (LVMVolumeGroups lvm). map_of used (le_Name e) \<noteq> None)))"

lemma unhealthyPicture_loop:
  assumes "foldE (unhealthyLsc used) lscs ([], []) = Inr acc"
  shows "unhealthyPicture used lscs acc"
  using assms
proof (rule foldE_invariant)
  show "unhealthyPicture used [] ([], [])"
    by (simp add: unhealthyPicture_def restrict_map_def fun_eq_iff)
next
  fix seen lsc rest acc acc'
  assume "unhealthyPicture used seen acc" and "unhealthyLsc used lsc acc = Inr acc'"
  then obtain lvm where lvm: "LVM lsc = Some lvm" "acc' = fold (unhealthyEntry used lsc) (LVMVolumeGroups lvm) acc"
    and pic: "unhealthyPicture used seen acc"
    by (auto simp: unhealthyLsc_def split: option.splits)
  have "map_of (fst acc') = map_of used |` {k. \<exists>c \<in> set (seen @ [lsc]). \<exists>lvm. LVM c = Some lvm \<and> k \<in> le_Name ` set (LVMVolumeGroups lvm)}"
    using pic lvm by (auto simp: unhealthyPicture_def unhealthyEntries_lvgs map_add_def restrict_map_def fun_eq_iff split: option.splits)
  moreover have "c \<in> set (seen @ [lsc]) \<and>
      (\<exists>lvm. LVM c = Some lvm \<and> (\<exists>e \<in> set (LVMVolumeGroups lvm). map_of used (le_Name e) \<noteq> None))"
    if "c \<in> ran (map_of (snd acc'))" for c
  proof -
    from that obtain k where "map_of (snd acc') k = Some c" by (auto simp: ran_def)
    from unhealthyEntries_lscs [OF this [unfolded lvm(2)]] pic lvm(1) show ?thesis
      by (auto simp: unhealthyPicture_def ran_def)
  qed
  ultimately show "unhealthyPicture used (seen @ [lsc]) acc'"
    unfolding unhealthyPicture_def by blast
qed

text \<open>Adding the volume groups that already carry the label.\<close>

lemma map_of_candidates:
  assumes "\<forall>g \<in> set gs. map_of used (Name g) = Some g" "map_of m = map_of used |` K"
  shows "map_of (fold (\<lambda>g m. if hasLabel candidateManualEvictionLabel g then AList.update (Name g) g m else m) gs m) =
    map_of used |` (K \<union> {Name g |g. g \<in> set gs \<and> hasLabel candidateManualEvictionLabel g})"
  using assms
proof (induction gs arbitrary: m K)
  case (Cons g gs)
  show ?case
  proof (cases "hasLabel candidateManualEvictionLabel g")
    case True
    have "map_of (AList.update (Name g) g m) = map_of used |` (insert (Name g) K)"
      using Cons.prems by (auto simp: AList.update_conv' restrict_map_def fun_eq_iff)
    from Cons.IH [OF _ this] Cons.prems(1) show ?thesis
      by (simp add: True) (rule arg_cong [where f = "(|`) (map_of used)"], use True in blast)
  next
    case False
    with Cons.IH [OF _ Cons.prems(2)] Cons.prems(1) show ?thesis
      by simp (rule arg_cong [where f = "(|`) (map_of used)"], auto)
  qed
qed simp


text \<open>What \<^verbatim>\<open>getManuallyEvictedLVGsAndLSCs\<close> finds on a node.\<close>

definition evictionPicture :: "objmeta \<Rightarrow> LVG list \<Rightarrow> LocalStorageClass list \<Rightarrow>
    (string \<times> LVG) list \<times> (string \<times> LocalStorageClass) list \<Rightarrow> bool" where
  "evictionPicture node lvgs lscs acc \<longleftrightarrow>
     (\<forall>g. g \<in> ran (map_of (fst acc)) \<longleftrightarrow> g \<in> set lvgs \<and> hosted node g \<and>
        (hasLabel candidateManualEvictionLabel g \<or> (\<exists>lsc \<in> set lscs. usesGroup lsc g))) \<and>
     (\<forall>c \<in> ran (map_of (snd acc)). c \<in> set lscs \<and> (\<exists>g \<in> set lvgs. hosted node g \<and> usesGroup c g))"

lemma ran_restrict: "g \<in> ran (m |` K) \<longleftrightarrow> (\<exists>k \<in> K. m k = Some g)"
  by (auto simp: ran_def restrict_map_def)

lemma evictionPicture_found:
  assumes "mapOrderOk v" "distinct (map Name lvgs)"
    and "foldE (unhealthyLsc (usedLvgs node lvgs)) lscs ([], []) = Inr (ul, us)"
  shows "evictionPicture node lvgs lscs
    (fold (\<lambda>lvg m. if hasLabel candidateManualEvictionLabel lvg then AList.update (Name lvg) lvg m else m)
       (rangeOver v (usedLvgs node lvgs)) ul, us)"
proof -
  note used = map_of_usedLvgs [OF assms(2)]
  have range: "g \<in> set (rangeOver v (usedLvgs node lvgs)) \<longleftrightarrow> g \<in> set lvgs \<and> hosted node g" for g
    by (auto simp: set_rangeOver [OF assms(1)] ran_def used)
  have pic: "unhealthyPicture (usedLvgs node lvgs) lscs (ul, us)"
    by (rule unhealthyPicture_loop [OF assms(3)])
  then have ul: "map_of ul = map_of (usedLvgs node lvgs) |`
      {k. \<exists>lsc \<in> set lscs. \<exists>lvm. LVM lsc = Some lvm \<and> k \<in> le_Name ` set (LVMVolumeGroups lvm)}"
    by (simp add: unhealthyPicture_def)
  have own: "\<forall>g \<in> set (rangeOver v (usedLvgs node lvgs)). map_of (usedLvgs node lvgs) (Name g) = Some g"
    by (simp add: range used)
  have lscs: "c \<in> set lscs \<and> (\<exists>g \<in> set lvgs. hosted node g \<and> usesGroup c g)" if "c \<in> ran (map_of us)" for c
  proof -
    from pic that obtain lvm e g where "c \<in> set lscs" "LVM c = Some lvm" "e \<in> set (LVMVolumeGroups lvm)"
      "map_of (usedLvgs node lvgs) (le_Name e) = Some g"
      by (fastforce simp: unhealthyPicture_def)
    then show ?thesis unfolding used usesGroup_iff by blast
  qed
  have restricted: "g \<in> ran (map_of (usedLvgs node lvgs) |` K) \<longleftrightarrow> g \<in> set lvgs \<and> hosted node g \<and> Name g \<in> K" for g K
    by (auto simp: ran_restrict used)
  have labelled: "Name g \<in> {Name g |g. g \<in> set (rangeOver v (usedLvgs node lvgs)) \<and> hasLabel candidateManualEvictionLabel g}
      \<longleftrightarrow> hasLabel candidateManualEvictionLabel g" if "g \<in> set lvgs" "hosted node g" for g
  proof
    assume "Name g \<in> {Name g |g. g \<in> set (rangeOver v (usedLvgs node lvgs)) \<and> hasLabel candidateManualEvictionLabel g}"
    then obtain g' where "Name g = Name g'" "g' \<in> set lvgs" "hasLabel candidateManualEvictionLabel g'"
      by (auto simp: range)
    with that(1) assms(2) show "hasLabel candidateManualEvictionLabel g"
      by (metis distinct_map inj_onD)
  qed (use that in \<open>auto simp: range\<close>)
  have named: "Name g \<in> {k. \<exists>lsc \<in> set lscs. \<exists>lvm. LVM lsc = Some lvm \<and> k \<in> le_Name ` set (LVMVolumeGroups lvm)}
      \<longleftrightarrow> (\<exists>lsc \<in> set lscs. usesGroup lsc g)" for g
    by (simp add: usesGroup_iff)
  show ?thesis
    unfolding evictionPicture_def fst_conv snd_conv map_of_candidates [OF own ul] restricted Un_iff named
  proof (intro conjI allI ballI)
    fix g
    show "(g \<in> set lvgs \<and> hosted node g \<and> ((\<exists>lsc \<in> set lscs. usesGroup lsc g) \<or>
        Name g \<in> {Name g |g. g \<in> set (rangeOver v (usedLvgs node lvgs)) \<and> hasLabel candidateManualEvictionLabel g})) =
      (g \<in> set lvgs \<and> hosted node g \<and> (hasLabel candidateManualEvictionLabel g \<or> (\<exists>lsc \<in> set lscs. usesGroup lsc g)))"
      using labelled [of g] by argo
  qed (use lscs in blast)+
qed

lemma evictionPicture_inUse:
  assumes "evictionPicture node lvgs lscs (ul, us)"
  shows "nodeInUse lvgs lscs node \<longleftrightarrow> \<not> (ul = [] \<and> us = [])"
proof
  assume "nodeInUse lvgs lscs node"
  then obtain g where "g \<in> ran (map_of ul)"
    using assms by (auto simp: nodeInUse_def evictionPicture_def)
  then show "\<not> (ul = [] \<and> us = [])" by (auto simp: ran_def)
next
  have some: "\<exists>x. x \<in> ran (map_of m)" if "m \<noteq> []" for m :: "(string \<times> 'b) list"
    using that by (cases m) (auto simp: ran_def)
  assume "\<not> (ul = [] \<and> us = [])"
  with some [of ul] some [of us] show "nodeInUse lvgs lscs node"
    using assms unfolding nodeInUse_def evictionPicture_def by fastforce
qed


section \<open>Every routine keeps the criterion\<close>

definition watchInv :: "watch_env \<Rightarrow> strmap \<Rightarrow> objmeta list \<Rightarrow> watch_event list \<Rightarrow> bool" where
  "watchInv v sel nodes h \<longleftrightarrow> watchSafe v h \<and> lastSelector h = sel \<and> lastNodes h = nodes"

definition watchSeen :: "watch_env \<Rightarrow> strmap \<Rightarrow> objmeta list \<Rightarrow> LVG list \<Rightarrow> LocalStorageClass list \<Rightarrow>
    watch_event list \<Rightarrow> bool" where
  "watchSeen v sel nodes lvgs lscs h \<longleftrightarrow> watchInv v sel nodes h \<and> lastLVGs h = lvgs \<and> lastLSCs h = lscs"

lemmas watch_inv_defs = watchInv_def watchSeen_def

lemma watchSeen_inv: "watchSeen v sel nodes lvgs lscs h \<Longrightarrow> watchInv v sel nodes h"
  by (simp add: watchSeen_def)

lemma labelNodes_safe:
  assumes "watchSafe v h" "lastSelector h = sel" "lastSelected h = nodes"
  shows "wp (labelNodesWithLocalCSIIfNeeded v nodes) (\<lambda>_ h'. watchSafe v h' \<and> lastSelector h' = sel) h"
proof -
  let ?I = "\<lambda>h. watchSafe v h \<and> lastSelector h = sel \<and> lastSelected h = nodes"
  have "wp (labelNodeWithLocalCSI v node) (\<lambda>_. ?I) h" if "node \<in> set nodes" "?I h" for node h
    using that by (auto simp: labelNodeWithLocalCSI_def wp_rules Let_def nodeWriteOk_def)
  then have "wp (labelNodesWithLocalCSIIfNeeded v nodes) (\<lambda>_. ?I) h"
    unfolding labelNodesWithLocalCSIIfNeeded_def using assms by (intro wp_forEach) auto
  then show ?thesis by (rule wp_mono) simp
qed

lemma markForEviction_safe:
  assumes "mapOrderOk v" "watchSeen v sel nodes lvgs lscs h" "evictionPicture node lvgs lscs (ul, us)"
    and "\<not> (ul = [] \<and> us = [])" and leaving: "node \<in> set nodes" "\<not> selectorMatches v sel (labels_of node)"
      "hasLabel localCsiNodeSelectorLabel node"
  shows "wp (markForEviction v node ul us) (\<lambda>_. watchInv v sel nodes) h"
proof -
  let ?I = "watchSeen v sel nodes lvgs lscs"
  have node: "wp (addLabelOnTheNodeIfNotExist v node nodeManualEvictionLabel) (\<lambda>_. ?I) h"
    using assms(2,4) evictionPicture_inUse [OF assms(3)] leaving
    by (auto simp: addLabelOnTheNodeIfNotExist_def wp_rules watch_inv_defs nodeWriteOk_def leaving_def)
  have lvg: "wp (addLabelOnTheLVGIfNotExist v g candidateManualEvictionLabel) (\<lambda>_. ?I) h"
    if "g \<in> set (rangeOver v ul)" "?I h" for g h
    using that assms(3) leaving
    by (auto simp: addLabelOnTheLVGIfNotExist_def wp_rules watch_inv_defs lvgWriteOk_def leaving_def
        set_rangeOver [OF assms(1)] evictionPicture_def)
  have lsc: "wp (addLabelOnTheLSCIfNotExist v c candidateManualEvictionLabel) (\<lambda>_. ?I) h"
    if "c \<in> set (rangeOver v us)" "?I h" for c h
  proof -
    from that(1) assms(3) obtain g where "c \<in> set lscs" "g \<in> set lvgs" "hosted node g" "usesGroup c g"
      unfolding set_rangeOver [OF assms(1)] evictionPicture_def by auto
    with that(2) leaving have "lscLabelOk v (setLabel candidateManualEvictionLabel c) h"
      if "\<not> hasLabel candidateManualEvictionLabel c"
      using that by (auto intro: lscLabelOk_leavingI simp: leaving_def watch_inv_defs)
    with that(2) show ?thesis
      by (auto simp: addLabelOnTheLSCIfNotExist_def wp_rules watch_inv_defs)
  qed
  have loops: "wp (forEach (\<lambda>lvg. do {
             _ \<leftarrow> addLabelOnTheLVGIfNotExist v lvg candidateManualEvictionLabel;
             State_Monad.return (None :: watch_err option) }) (rangeOver v ul)) (\<lambda>_. ?I) h"
      "wp (forEach (\<lambda>lsc. do {
             _ \<leftarrow> addLabelOnTheLSCIfNotExist v lsc candidateManualEvictionLabel;
             State_Monad.return (None :: watch_err option) }) (rangeOver v us)) (\<lambda>_. ?I) h" if "?I h" for h
    using that lvg lsc by (auto intro!: wp_forEach)
  have both: "wp (do {
         _ \<leftarrow> forEach (\<lambda>lvg. do {
             _ \<leftarrow> addLabelOnTheLVGIfNotExist v lvg candidateManualEvictionLabel;
             State_Monad.return (None :: watch_err option) }) (rangeOver v ul);
         forEach (\<lambda>lsc. do {
             _ \<leftarrow> addLabelOnTheLSCIfNotExist v lsc candidateManualEvictionLabel;
             State_Monad.return (None :: watch_err option) }) (rangeOver v us)
       }) (\<lambda>_. ?I) h" if "?I h" for h
    unfolding wp_bind by (rule wp_mono [OF loops(1) [OF that]]) (rule loops(2))
  have "wp (markForEviction v node ul us) (\<lambda>_. ?I) h"
    unfolding markForEviction_def wp_bind [of "addLabelOnTheNodeIfNotExist v node nodeManualEvictionLabel"]
    by (rule wp_mono [OF node]) (auto simp del: wp_bind simp: wp_case_sum split: sum.split intro: both)
  then show ?thesis by (rule wp_mono) (rule watchSeen_inv)
qed


lemma hasLabel_deleted [simp]: "\<not> hasLabel label (deleteLabel label o1)"
  by (cases "Labels o1") (simp_all add: hasLabel_def deleteLabel_def)

lemma isBadLVG_iff:
  assumes "distinct (map Name lvgs)"
  shows "isBadLVG node (lvgMap lvgs) entry \<longleftrightarrow> (\<exists>g \<in> set lvgs. Name g = le_Name entry \<and>
    hasLabel candidateManualEvictionLabel g \<and> \<not> hosted node g)"
proof (cases "map_of (lvgMap lvgs) (le_Name entry)")
  case None
  with map_of_lvgMap [OF assms, of "le_Name entry"] show ?thesis
    by (auto simp: isBadLVG_def)
next
  case (Some g)
  with map_of_lvgMap [OF assms, of "le_Name entry"]
  have "g \<in> set lvgs" "Name g = le_Name entry" "\<And>g'. g' \<in> set lvgs \<Longrightarrow> Name g' = le_Name entry \<Longrightarrow> g' = g"
    by (auto dest: sym)
  then have "(\<exists>g' \<in> set lvgs. Name g' = le_Name entry \<and> P g') \<longleftrightarrow> P g" for P
    by blast
  with Some show ?thesis
    by (simp add: isBadLVG_def afterClearing_def hosted_def)
qed

lemma clearLabels_safe:
  assumes "mapOrderOk v" "uniqueNames v" "watchInv v sel nodes h"
    and staying: "node \<in> set nodes" "selectorMatches v sel (labels_of node)"
  shows "wp (clearManualEvictionLabelsIfNeeded v node) (\<lambda>_. watchInv v sel nodes) h"
proof -
  have node: "wp (if \<not> hasLabel nodeManualEvictionLabel node then State_Monad.return None
           else wask (wcl_Update_Node v (deleteLabel nodeManualEvictionLabel node))
                  (WUpdateNode (deleteLabel nodeManualEvictionLabel node))) (\<lambda>_. watchInv v sel nodes) h"
    using assms(3) staying by (auto simp: wp_rules watchInv_def nodeWriteOk_def staying_def)
  have lvgs: "wp (foldM (\<lambda>lvg _. clearCandidateLVG v lvg) (rangeOver v (usedLvgs node lvgs)) ())
      (\<lambda>_ h. watchInv v sel nodes h \<and> lastLVGs h = lvgs) h"
    if "watchInv v sel nodes h" "lastLVGs h = lvgs" "distinct (map Name lvgs)" for lvgs h
    by (rule wp_foldM) (use that staying in \<open>auto simp: clearCandidateLVG_def wp_rules Let_def watchInv_def
        lvgWriteOk_def staying_def set_rangeOver [OF assms(1)] map_of_usedLvgs ran_def\<close>)
  have lscs: "wp (forEach (clearCandidateLSC v node (lvgMap lvgs)) lscs) (\<lambda>_. watchInv v sel nodes) h"
    if "watchSeen v sel nodes lvgs lscs h" "distinct (map Name lvgs)" for lvgs lscs h
  proof -
    have "wp (clearCandidateLSC v node (lvgMap lvgs) lsc) (\<lambda>_. watchSeen v sel nodes lvgs lscs) h"
      if lsc: "lsc \<in> set lscs" and seen: "watchSeen v sel nodes lvgs lscs h" for lsc h
    proof -
      have "lscLabelOk v (deleteLabel candidateManualEvictionLabel lsc) h"
        if "hasLabel candidateManualEvictionLabel lsc" "LVM lsc = Some lvm"
          "\<not> list_ex (isBadLVG node (lvgMap lvgs)) (LVMVolumeGroups lvm)" for lvm
        by (rule lscLabelOk_stayingI [where node = node])
          (use that lsc seen staying \<open>distinct (map Name lvgs)\<close> in
            \<open>auto simp: watch_inv_defs staying_def list_ex_iff isBadLVG_iff usesGroup_iff\<close>)
      with seen show ?thesis
        by (auto simp: clearCandidateLSC_def wp_rules Let_def watch_inv_defs split: option.split)
    qed
    with that(1) have "wp (forEach (clearCandidateLSC v node (lvgMap lvgs)) lscs)
        (\<lambda>_. watchSeen v sel nodes lvgs lscs) h" by (intro wp_forEach) auto
    then show ?thesis by (rule wp_mono) (rule watchSeen_inv)
  qed
  have unique: "distinct (map Name lvgs)" if "wcl_List_LVG v h = Inr lvgs" for h lvgs
    using assms(2) that by (simp add: uniqueNames_def)
  have listed: "wp (case wcl_List_LSC v h of
        Inl e \<Rightarrow> State_Monad.return (Some (WKErr e))
      | Inr lscs \<Rightarrow> forEach (clearCandidateLSC v node (lvgMap lvgs)) lscs)
      (\<lambda>_. watchInv v sel nodes) (WListLSC (wcl_List_LSC v h) # h)"
    if "watchInv v sel nodes h \<and> lastLVGs h = lvgs" "distinct (map Name lvgs)" for lvgs h
  proof (cases "wcl_List_LSC v h")
    case (Inr ls)
    with that(1) have "watchSeen v sel nodes lvgs ls (WListLSC (wcl_List_LSC v h) # h)"
      by (simp add: watch_inv_defs)
    from lscs [OF this that(2)] Inr show ?thesis by simp
  qed (use that in \<open>simp add: watchInv_def\<close>)
  have groups: "wp (case wcl_List_LVG v h of
        Inl e \<Rightarrow> State_Monad.return (Some (WKErr e))
      | Inr lvgs \<Rightarrow> do {
          _ \<leftarrow> foldM (\<lambda>lvg _. clearCandidateLVG v lvg) (rangeOver v (usedLvgs node lvgs)) ();
          l \<leftarrow> wask (wcl_List_LSC v) WListLSC;
          (case l of
            Inl e \<Rightarrow> State_Monad.return (Some (WKErr e))
          | Inr lscs \<Rightarrow> forEach (clearCandidateLSC v node (lvgMap lvgs)) lscs)
        }) (\<lambda>_. watchInv v sel nodes) (WListLVG (wcl_List_LVG v h) # h)" if "watchInv v sel nodes h" for h
  proof (cases "wcl_List_LVG v h")
    case (Inr gs)
    with that have "watchInv v sel nodes (WListLVG (wcl_List_LVG v h) # h)"
      "lastLVGs (WListLVG (wcl_List_LVG v h) # h) = gs"
      by (simp_all add: watchInv_def)
    from wp_mono [OF lvgs [OF this unique [OF Inr]] listed [OF _ unique [OF Inr]]] Inr show ?thesis by simp
  qed (use that in \<open>simp add: watchInv_def\<close>)
  show ?thesis
    unfolding clearManualEvictionLabelsIfNeeded_def watch_reads wp_bind [of "if _ then _ else _"]
    by (rule wp_mono [OF node])
      (auto simp del: wp_bind simp: wp_case_option wp_bind [of "wask _ _"] intro: groups split: option.split)
qed

lemma evicted_safe:
  assumes "mapOrderOk v" "uniqueNames v" "watchInv v sel nodes h"
  shows "wp (getManuallyEvictedLVGsAndLSCs v node) (\<lambda>r h'. watchInv v sel nodes h' \<and>
    (\<forall>ul us. r = Inr (ul, us) \<longrightarrow> evictionPicture node (lastLVGs h') (lastLSCs h') (ul, us))) h"
  using assms unfolding getManuallyEvictedLVGsAndLSCs_def watch_reads
  by (auto simp: wp_rules watchInv_def uniqueNames_def intro!: evictionPicture_found split: sum.split sum.split_asm)

lemma retireNode_safe:
  assumes "mapOrderOk v" "watchInv v sel nodes h" "evictionPicture node (lastLVGs h) (lastLSCs h) (ul, us)"
    and leave: "node \<in> set nodes" "\<not> selectorMatches v sel (labels_of node)" "hasLabel localCsiNodeSelectorLabel node"
  shows "wp (retireNode v node ul us) (\<lambda>_. watchInv v sel nodes) h"
proof (cases "ul = [] \<and> us = []")
  case True
  with evictionPicture_inUse [OF assms(3)]
  have "nodeWriteOk v (deleteLabel nodeManualEvictionLabel (deleteLabel localCsiNodeSelectorLabel node)) h"
    using leave assms(2) by (auto simp: nodeWriteOk_def leaving_def watchInv_def)
  with True assms(2) show ?thesis
    by (simp add: retireNode_def Let_def watchInv_def)
next
  case False
  have "watchSeen v sel nodes (lastLVGs h) (lastLSCs h) h"
    using assms(2) by (simp add: watchSeen_def)
  from markForEviction_safe [OF assms(1) this assms(3) False leave] show ?thesis
    unfolding retireNode_def if_not_P [OF False] .
qed

lemma reconcileNode_safe:
  assumes "mapOrderOk v" "uniqueNames v" "watchInv v sel nodes h" "node \<in> set nodes"
  shows "wp (reconcileNodeLabels v sel node) (\<lambda>_. watchInv v sel nodes) h"
proof (cases "selectorMatches v sel (labels_of node)")
  case True
  with clearLabels_safe [OF assms True] show ?thesis
    by (simp add: reconcileNodeLabels_def)
next
  case False
  show ?thesis
  proof (cases "hasLabel localCsiNodeSelectorLabel node")
    case True
    note retire = retireNode_safe [OF assms(1) _ _ assms(4) False True]
    have "wp (getManuallyEvictedLVGsAndLSCs v node)
      (\<lambda>r. wp (case r of Inl e \<Rightarrow> State_Monad.return (panicOnly (Some e))
          | Inr (ul, us) \<Rightarrow> retireNode v node ul us) (\<lambda>_. watchInv v sel nodes)) h"
      by (rule wp_mono [OF evicted_safe [OF assms(1-3), of node]])
        (auto simp: wp_rules intro!: retire split: sum.split)
    with False True show ?thesis by (simp add: reconcileNodeLabels_def)
  qed (use False assms(3) in \<open>simp add: reconcileNodeLabels_def\<close>)
qed


lemma reconcileNodes_safe:
  assumes "mapOrderOk v" "uniqueNames v" "watchSafe v h"
  shows "wp (reconcileLocalCSINodes v data) (\<lambda>_. watchSafe v) h"
proof (cases "getNodeSelectorFromConfig v data")
  case (Inr sel)
  have labels: "wp (reconcileLocalCSILabels v nodes sel) (\<lambda>_. watchSafe v) h"
    if "watchInv v sel nodes h" for nodes h
  proof -
    have "wp (reconcileLocalCSILabels v nodes sel) (\<lambda>_. watchInv v sel nodes) h"
      unfolding reconcileLocalCSILabels_def using that
      by (intro wp_forEach reconcileNode_safe [OF assms(1,2)])
    then show ?thesis by (rule wp_mono) (simp add: watchInv_def)
  qed
  have all: "wp (case wcl_List_Nodes v h of
        Inl e \<Rightarrow> State_Monad.return (Some (WKErr e))
      | Inr nodes \<Rightarrow> reconcileLocalCSILabels v nodes sel) (\<lambda>_. watchSafe v) (WListNodes (wcl_List_Nodes v h) # h)"
    if "watchSafe v h \<and> lastSelector h = sel" for h
    using that by (cases "wcl_List_Nodes v h") (auto simp: watchInv_def intro!: labels)
  have selected: "wp (labelNodesWithLocalCSIIfNeeded v nodes) (\<lambda>p. wp (case p of
        Some e \<Rightarrow> State_Monad.return (Some e)
      | None \<Rightarrow> do {
          all \<leftarrow> wask (wcl_List_Nodes v) WListNodes;
          (case all of
            Inl e \<Rightarrow> State_Monad.return (Some (WKErr e))
          | Inr nodes \<Rightarrow> reconcileLocalCSILabels v nodes sel) }) (\<lambda>_. watchSafe v))
      (WListSelected sel (Inr nodes) # h)" if "wcl_List_Selected v sel h = Inr nodes" for nodes
    by (rule wp_mono [OF labelNodes_safe [where sel = sel]]) (use assms(3) that all in \<open>auto split: option.split\<close>)
  from Inr assms(3) show ?thesis
    unfolding reconcileLocalCSINodes_def watch_reads
    by (cases "wcl_List_Selected v sel h") (auto intro: selected)
next
  case (Inl e)
  with assms(3) show ?thesis by (simp add: reconcileLocalCSINodes_def watch_reads)
qed

lemma watcherReconcile_safe:
  assumes "mapOrderOk v" "uniqueNames v" "watchSafe v h"
  shows "wp (watcherReconcile v request) (\<lambda>_. watchSafe v) h"
  using assms(3) reconcileNodes_safe [OF assms(1,2)] unfolding watcherReconcile_def watch_reads
  by (auto simp: wp_rules split: sum.split option.split elim!: wp_mono)



text \<open>Neither node matches; the volume group on the second is named by a LocalStorageClass.\<close>

definition demoNode :: "string \<Rightarrow> objmeta" where
  "demoNode n = (meta0 n)\<lparr>Labels := Some (fmupd localCsiNodeSelectorLabel '''' fmempty)\<rparr>"

definition demoHostedLVG :: LVG where
  "demoHostedLVG = objmeta.extend (meta0 ''vg'')
     \<lparr>ActualVGNameOnTheNode = ''vg'', Local_NodeName = ''b'', spec_ThinPools = [], lvg_Nodes = [''b''], VGSize = 0,
      VGFree = 0, AllocatedSize = 0, ExtentSize = 0, status_ThinPools = []\<rparr>"

definition demoUsingLSC :: LocalStorageClass where
  "demoUsingLSC = objmeta.extend (meta0 ''lsc'')
     \<lparr>ReclaimPolicy = '''', VolumeBindingMode = '''',
      LVM = Some \<lparr>lvm_Type = LVMThickType, Thick = None, VolumeCleanup = '''',
        LVMVolumeGroups = [\<lparr>le_Name = ''vg'', LabelSelector = None, Thin = None\<rparr>]\<rparr>,
      FSType = '''', lsc_Status = None\<rparr>"

definition demoWatch :: watch_env where
  "demoWatch = \<lparr>wcl_Get_Secret = (\<lambda>_ _. Inr (Some '''')), wcl_List_Selected = (\<lambda>_ _. Inr []),
     wcl_List_Nodes = (\<lambda>_. Inr [demoNode ''a'', demoNode ''b'']), wcl_List_LVG = (\<lambda>_. Inr [demoHostedLVG]),
     wcl_List_LSC = (\<lambda>_. Inr [demoUsingLSC]), wcl_Update_Node = (\<lambda>_ _. None), wcl_Update_LVG = (\<lambda>_ _. None),
     wcl_Update_LSC = (\<lambda>_ _. None), selectorMatches = (\<lambda>_ _. False), mapOrder = (\<lambda>ks. ks),
     yamlNodeSelector = (\<lambda>_. Inr fmempty), w_ConfigSecretName = ''cfg'', RequeueSecretInterval = 10\<rparr>"

definition nodeUpdates :: "watch_event list \<Rightarrow> (string \<times> bool \<times> bool) list" where
  "nodeUpdates h = List.map_filter (\<lambda>e. case e of
     WUpdateNode n _ \<Rightarrow> Some (Name n, hasLabel localCsiNodeSelectorLabel n, hasLabel nodeManualEvictionLabel n)
   | _ \<Rightarrow> None) h"


end
