(* ===== verification/Metrics_Model.thy ===== *)
theory Metrics_Model
  imports Monitoring
begin

text \<open>
  The metrics of the controller (\<^verbatim>\<open>images/controller/pkg/monitoring/monitoring.go\<close>): what is declared at start-up
  and what the recorder asks the metrics library to do.

  The library (\<^verbatim>\<open>metrics-storage\<close>) is outside the repository: a recorder's routine is the list of calls it
  makes, in order, and a declaration is one call that may fail.  Durations are passed on in nanoseconds and
  bucket bounds, seconds in the source, are written in milliseconds.  The help texts are left out.  The
  order in which Go ranges over a map is an argument.
\<close>

section \<open>Calls of the metrics library\<close>

datatype metric_kind = CounterMetric | GaugeMetric | HistogramMetric

record metric_decl =
  decl_Kind :: metric_kind
  decl_Name :: string
  decl_Labels :: "string list"
  decl_Buckets :: "int list"

datatype metric_call =
    CounterAdd string int strmap
  | HistogramObserve string duration strmap "int list"
  | GaugeSet string string int strmap
  | ExpireGroupMetrics string
  | ExpireGroupMetricByName string string

text \<open>Declaring one metric after the other, until the library refuses one.\<close>

fun declareAll :: "(metric_decl \<Rightarrow> 'e option) \<Rightarrow> metric_decl list \<Rightarrow> (string \<times> 'e) option" where
  "declareAll register [] = None"
| "declareAll register (d # ds) = (case register d of
     Some e \<Rightarrow> Some (decl_Name d, e)
   | None \<Rightarrow> declareAll register ds)"

section \<open>Names\<close>

definition ReconcilesTotal :: string where
  "ReconcilesTotal = ''sds_local_volume_reconciles_total''"
definition ReconcileDurationSeconds :: string where
  "ReconcileDurationSeconds = ''sds_local_volume_reconcile_duration_seconds''"
definition LocalStorageClassPhase :: string where
  "LocalStorageClassPhase = ''sds_local_volume_local_storage_class_phase''"
definition LocalStorageClassReady :: string where
  "LocalStorageClassReady = ''sds_local_volume_local_storage_class_ready''"
definition LVMLogicalVolumeCount :: string where
  "LVMLogicalVolumeCount = ''sds_local_volume_lvm_logical_volume_count''"
definition LVMLogicalVolumeAllocatedBytes :: string where
  "LVMLogicalVolumeAllocatedBytes = ''sds_local_volume_lvm_logical_volume_allocated_bytes''"
definition OrphanedLVMLogicalVolumeCount :: string where
  "OrphanedLVMLogicalVolumeCount = ''sds_local_volume_orphaned_lvm_logical_volume_count''"
definition OrphanedLVMLogicalVolumeAllocatedBytes :: string where
  "OrphanedLVMLogicalVolumeAllocatedBytes = ''sds_local_volume_orphaned_lvm_logical_volume_allocated_bytes''"
definition OrphanedLVMLogicalVolumeSnapshotCount :: string where
  "OrphanedLVMLogicalVolumeSnapshotCount = ''sds_local_volume_orphaned_lvm_logical_volume_snapshot_count''"
definition OrphanedLVMLogicalVolumeSnapshotUsedBytes :: string where
  "OrphanedLVMLogicalVolumeSnapshotUsedBytes = ''sds_local_volume_orphaned_lvm_logical_volume_snapshot_used_bytes''"
definition AwaitingAgentCount :: string where
  "AwaitingAgentCount = ''sds_local_volume_awaiting_agent_count''"
definition CSIFinalizerRemovalsTotal :: string where
  "CSIFinalizerRemovalsTotal = ''sds_local_volume_csi_finalizer_removals_total''"

lemmas metric_name_defs = ReconcilesTotal_def ReconcileDurationSeconds_def LocalStorageClassPhase_def
  LocalStorageClassReady_def LVMLogicalVolumeCount_def LVMLogicalVolumeAllocatedBytes_def
  OrphanedLVMLogicalVolumeCount_def OrphanedLVMLogicalVolumeAllocatedBytes_def
  OrphanedLVMLogicalVolumeSnapshotCount_def OrphanedLVMLogicalVolumeSnapshotUsedBytes_def
  AwaitingAgentCount_def CSIFinalizerRemovalsTotal_def

definition LabelController :: string where "LabelController = ''controller''"
definition LabelResult :: string where "LabelResult = ''result''"
definition LabelName :: string where "LabelName = ''name''"
definition LabelPhase :: string where "LabelPhase = ''phase''"
definition LabelState :: string where "LabelState = ''state''"
definition LabelReason :: string where "LabelReason = ''reason''"
definition LabelKind :: string where "LabelKind = ''kind''"
definition LabelLVMVolumeGroup :: string where "LabelLVMVolumeGroup = ''lvm_volume_group''"
definition LabelLVMLogicalVolume :: string where "LabelLVMLogicalVolume = ''lvm_logical_volume''"
definition LabelLVMType :: string where "LabelLVMType = ''type''"

lemmas label_defs = LabelController_def LabelResult_def LabelName_def LabelPhase_def LabelState_def
  LabelReason_def LabelKind_def LabelLVMVolumeGroup_def LabelLVMLogicalVolume_def LabelLVMType_def

definition reconcileDurationBuckets :: "int list" where
  "reconcileDurationBuckets = [5, 10, 25, 50, 100, 250, 500, 1000, 2500, 5000, 10000, 30000]"

section \<open>Declarations\<close>

definition counter :: "string \<Rightarrow> string list \<Rightarrow> metric_decl" where
  "counter n ls = \<lparr>decl_Kind = CounterMetric, decl_Name = n, decl_Labels = ls, decl_Buckets = []\<rparr>"

definition gauge :: "string \<Rightarrow> string list \<Rightarrow> metric_decl" where
  "gauge n ls = \<lparr>decl_Kind = GaugeMetric, decl_Name = n, decl_Labels = ls, decl_Buckets = []\<rparr>"

definition histogram :: "string \<Rightarrow> string list \<Rightarrow> int list \<Rightarrow> metric_decl" where
  "histogram n ls bs = \<lparr>decl_Kind = HistogramMetric, decl_Name = n, decl_Labels = ls, decl_Buckets = bs\<rparr>"

definition declarations :: "metric_decl list" where
  "declarations =
    [counter ReconcilesTotal [LabelController, LabelResult],
     histogram ReconcileDurationSeconds [LabelController] reconcileDurationBuckets,
     gauge LocalStorageClassPhase [LabelName, LabelPhase],
     gauge LocalStorageClassReady [LabelName],
     gauge LVMLogicalVolumeCount [LabelPhase, LabelLVMType],
     gauge LVMLogicalVolumeAllocatedBytes [LabelPhase, LabelLVMType],
     gauge OrphanedLVMLogicalVolumeCount [LabelState],
     gauge OrphanedLVMLogicalVolumeAllocatedBytes [LabelName, LabelLVMVolumeGroup, LabelLVMType, LabelState, LabelReason],
     gauge OrphanedLVMLogicalVolumeSnapshotCount [LabelState],
     gauge OrphanedLVMLogicalVolumeSnapshotUsedBytes [LabelName, LabelLVMLogicalVolume, LabelState, LabelReason],
     gauge AwaitingAgentCount [LabelKind],
     counter CSIFinalizerRemovalsTotal [LabelKind, LabelResult]]"

definition Register :: "(metric_decl \<Rightarrow> 'e option) \<Rightarrow> (string \<times> 'e) option" where
  "Register register = declareAll register declarations"

section \<open>The recorder\<close>

text \<open>A recorder without storage records nothing; \<^term>\<open>st\<close> says whether there is one.\<close>

definition recording :: "bool \<Rightarrow> metric_call list \<Rightarrow> metric_call list" where
  "recording st calls = (if \<not> st then [] else calls)"

definition ObserveReconcile ::
  "bool \<Rightarrow> string \<Rightarrow> duration \<Rightarrow> reconcile_Result option \<Rightarrow> 'e option \<Rightarrow> metric_call list" where
  "ObserveReconcile st ctrl sinceStart res err = recording st
    [HistogramObserve ReconcileDurationSeconds sinceStart (fmupd LabelController ctrl fmempty) reconcileDurationBuckets,
     CounterAdd ReconcilesTotal 1 (fmupd LabelResult (reconcileResult res err) (fmupd LabelController ctrl fmempty))]"

definition localStorageClassGroup :: "string \<Rightarrow> string" where
  "localStorageClassGroup name = ''local-storage-class/'' @ name"

definition SetLocalStorageClassPhase :: "bool \<Rightarrow> string \<Rightarrow> string \<Rightarrow> metric_call list" where
  "SetLocalStorageClassPhase st name phase = recording st
    [ExpireGroupMetricByName (localStorageClassGroup name) LocalStorageClassPhase,
     GaugeSet (localStorageClassGroup name) LocalStorageClassPhase 1
       (fmupd LabelPhase phase (fmupd LabelName name fmempty))]"

definition SetLocalStorageClassReady :: "bool \<Rightarrow> string \<Rightarrow> bool \<Rightarrow> metric_call list" where
  "SetLocalStorageClassReady st name ready = recording st
    [GaugeSet (localStorageClassGroup name) LocalStorageClassReady (if ready then 1 else 0) (fmupd LabelName name fmempty)]"

definition ForgetLocalStorageClass :: "bool \<Rightarrow> string \<Rightarrow> metric_call list" where
  "ForgetLocalStorageClass st name = recording st [ExpireGroupMetrics (localStorageClassGroup name)]"

definition ObserveCSIFinalizerRemoval :: "bool \<Rightarrow> string \<Rightarrow> string \<Rightarrow> metric_call list" where
  "ObserveCSIFinalizerRemoval st kind result = recording st
    [CounterAdd CSIFinalizerRemovalsTotal 1 (fmupd LabelResult result (fmupd LabelKind kind fmempty))]"

section \<open>Publishing a sweep\<close>

definition lvmLogicalVolumeSweepGroup :: string where
  "lvmLogicalVolumeSweepGroup = ''lvm-logical-volume-sweep''"

record map_range =
  rangeKeys :: "(PhaseAndType, int) fmap \<Rightarrow> PhaseAndType list"
  rangeStates :: "(string, int) fmap \<Rightarrow> string list"

abbreviation sweepGauge :: "string \<Rightarrow> int \<Rightarrow> strmap \<Rightarrow> metric_call" where
  "sweepGauge \<equiv> GaugeSet lvmLogicalVolumeSweepGroup"

definition keyLabels :: "PhaseAndType \<Rightarrow> strmap" where
  "keyLabels key = fmupd LabelLVMType (key_Type key) (fmupd LabelPhase (key_Phase key) fmempty)"

definition orphanLabels :: "OrphanedLVMLogicalVolume \<Rightarrow> strmap" where
  "orphanLabels orphan = fmupd LabelReason (orphan_Reason orphan) (fmupd LabelState (orphan_State orphan)
     (fmupd LabelLVMType (orphan_Type orphan) (fmupd LabelLVMVolumeGroup (orphan_LVMVolumeGroup orphan)
     (fmupd LabelName (orphan_Name orphan) fmempty))))"

definition snapshotLabels :: "OrphanedLVMLogicalVolumeSnapshot \<Rightarrow> strmap" where
  "snapshotLabels snapshot = fmupd LabelReason (osnap_Reason snapshot) (fmupd LabelState (osnap_State snapshot)
     (fmupd LabelLVMLogicalVolume (osnap_LVMLogicalVolume snapshot) (fmupd LabelName (osnap_Name snapshot) fmempty)))"

definition stateLabels :: "string \<Rightarrow> strmap" where
  "stateLabels st = fmupd LabelState st fmempty"

definition kindLabels :: "string \<Rightarrow> strmap" where
  "kindLabels kind = fmupd LabelKind kind fmempty"

definition orphansByState :: "OrphanedLVMLogicalVolume list \<Rightarrow> (string, int) fmap" where
  "orphansByState orphans = fold (\<lambda>orphan. addTo (orphan_State orphan) 1) orphans
     (fmupd OrphanStateBlocked 0 (fmupd OrphanStateTerminating 0 (fmupd OrphanStateRetained 0 (fmupd OrphanStateActive 0 fmempty))))"

definition snapshotsByState :: "OrphanedLVMLogicalVolumeSnapshot list \<Rightarrow> (string, int) fmap" where
  "snapshotsByState snapshots = fold (\<lambda>snapshot. addTo (osnap_State snapshot) 1) snapshots
     (fmupd OrphanStateBlocked 0 (fmupd OrphanStateTerminating 0 fmempty))"

definition SetLVMLogicalVolumeSweep :: "map_range \<Rightarrow> bool \<Rightarrow> LVMLogicalVolumeSweep \<Rightarrow> metric_call list" where
  "SetLVMLogicalVolumeSweep r st sweep = recording st
    ([ExpireGroupMetrics lvmLogicalVolumeSweepGroup] @
     map (\<lambda>key. sweepGauge LVMLogicalVolumeCount (iget (CountBy sweep) key) (keyLabels key)) (rangeKeys r (CountBy sweep)) @
     map (\<lambda>key. sweepGauge LVMLogicalVolumeAllocatedBytes (iget (AllocatedBytesBy sweep) key) (keyLabels key))
       (rangeKeys r (AllocatedBytesBy sweep)) @
     map (\<lambda>orphan. sweepGauge OrphanedLVMLogicalVolumeAllocatedBytes (AllocatedBytes orphan) (orphanLabels orphan)) (Orphans sweep) @
     map (\<lambda>s. sweepGauge OrphanedLVMLogicalVolumeCount (iget (orphansByState (Orphans sweep)) s) (stateLabels s))
       (rangeStates r (orphansByState (Orphans sweep))) @
     map (\<lambda>snapshot. sweepGauge OrphanedLVMLogicalVolumeSnapshotUsedBytes (UsedBytes snapshot) (snapshotLabels snapshot))
       (OrphanedSnapshots sweep) @
     map (\<lambda>s. sweepGauge OrphanedLVMLogicalVolumeSnapshotCount (iget (snapshotsByState (OrphanedSnapshots sweep)) s) (stateLabels s))
       (rangeStates r (snapshotsByState (OrphanedSnapshots sweep))) @
     map (\<lambda>kind. sweepGauge AwaitingAgentCount (iget (AwaitingAgentByKind sweep) kind) (kindLabels kind))
       [KindLVMLogicalVolume, KindLVMLogicalVolumeSnapshot])"

end
