(* ===== verification/Driver_Process.thy ===== *)
theory Driver_Process
  imports Metrics_Model InFlight Go_Strings
begin

text \<open>
  The process of the CSI driver: its metrics (\<^verbatim>\<open>images/sds-local-volume-csi/pkg/monitoring/monitoring.go\<close>), the
  identity service (\<^verbatim>\<open>driver/identity.go\<close>) and the start and the end of \<^verbatim>\<open>Run\<close> (\<^verbatim>\<open>driver/driver.go\<close>).

  The gRPC and HTTP servers, the file system and the network are outside: \<^verbatim>\<open>Run\<close> up to the point where it serves is
  a routine over a record of functions that see the history, and the goroutines it leaves behind are a step
  relation in which a server may return at any time with what its documentation allows.
\<close>

section \<open>Metrics of the driver\<close>

definition OperationsTotal :: string where
  "OperationsTotal = ''sds_local_volume_csi_operations_total''"

definition OperationDurationSeconds :: string where
  "OperationDurationSeconds = ''sds_local_volume_csi_operation_duration_seconds''"

definition LabelMethod :: string where "LabelMethod = ''method''"
definition LabelGRPCCode :: string where "LabelGRPCCode = ''grpc_code''"

definition operationDurationBuckets :: "int list" where
  "operationDurationBuckets = [10, 50, 100, 250, 500, 1000, 2500, 5000, 10000, 30000, 60000, 120000, 300000]"

definition csiDeclarations :: "metric_decl list" where
  "csiDeclarations =
    [counter OperationsTotal [LabelMethod, LabelGRPCCode],
     histogram OperationDurationSeconds [LabelMethod] operationDurationBuckets]"

definition csiRegister :: "(metric_decl \<Rightarrow> 'e option) \<Rightarrow> (string \<times> 'e) option" where
  "csiRegister register = declareAll register csiDeclarations"

definition ShortMethodName :: "string \<Rightarrow> string" where
  "ShortMethodName fullMethod =
    (let i = strings_LastIndex fullMethod (CHR ''/'')
     in if i \<ge> 0 then drop (nat (i + 1)) fullMethod else fullMethod)"

text \<open>\<^term>\<open>statusCode\<close> is the name of the gRPC code of an error, \<^verbatim>\<open>status.Code(err).String()\<close>.\<close>

definition ObserveOperation ::
  "bool \<Rightarrow> ('e option \<Rightarrow> string) \<Rightarrow> string \<Rightarrow> duration \<Rightarrow> 'e option \<Rightarrow> metric_call list" where
  "ObserveOperation st statusCode fullMethod sinceStart err =
    (let method = ShortMethodName fullMethod
     in recording st
       [HistogramObserve OperationDurationSeconds sinceStart (fmupd LabelMethod method fmempty) operationDurationBuckets,
        CounterAdd OperationsTotal 1 (fmupd LabelGRPCCode (statusCode err) (fmupd LabelMethod method fmempty))])"

text \<open>The interceptor around every call; the calls of the recorder are kept beside the state of the handler.\<close>

definition errHandler ::
  "bool \<Rightarrow> ('e option \<Rightarrow> string) \<Rightarrow> string \<Rightarrow> duration \<Rightarrow> ('s, 'r \<times> 'e option) state \<Rightarrow>
   ('s \<times> metric_call list, 'r \<times> 'e option) state" where
  "errHandler st statusCode FullMethod sinceStart handler = State (\<lambda>(s, calls).
     (case run_state handler s of
        ((resp, err), s') \<Rightarrow> ((resp, err), (s', calls @ ObserveOperation st statusCode FullMethod sinceStart err))))"

section \<open>The driver\<close>

definition DefaultDriverName :: string where
  "DefaultDriverName = ''local.csi.storage.deckhouse.io''"

definition DefaultAddress :: string where
  "DefaultAddress = ''127.0.0.1:12302''"

definition defaultWaitActionTimeout :: duration where
  "defaultWaitActionTimeout = 5 * 60 * time_Second"

record csi_driver =
  drv_name :: string
  drv_publishInfoVolumeName :: string
  drv_csiAddress :: string
  drv_address :: string
  drv_hostID :: string
  drv_waitActionTimeout :: duration
  drv_ready :: bool
  drv_inFlight :: InFlight

text \<open>\<^term>\<open>None\<close> is the nil dereference of the node name.\<close>

definition NewDriver :: "string \<Rightarrow> string \<Rightarrow> string \<Rightarrow> string option \<Rightarrow> csi_driver option" where
  "NewDriver csiAddress driverName address nodeName =
    (let driverName = (if driverName = '''' then DefaultDriverName else driverName)
     in case nodeName of
          None \<Rightarrow> None
        | Some node \<Rightarrow> Some \<lparr>drv_name = driverName, drv_publishInfoVolumeName = '''', drv_csiAddress = csiAddress, drv_address = address,
            drv_hostID = node, drv_waitActionTimeout = defaultWaitActionTimeout, drv_ready = False,
            drv_inFlight = NewInFlight\<rparr>)"

record plugin_info =
  pi_Name :: string
  pi_VendorVersion :: string

definition GetPluginInfo :: "string \<Rightarrow> csi_driver \<Rightarrow> plugin_info" where
  "GetPluginInfo version d = \<lparr>pi_Name = drv_name d, pi_VendorVersion = version\<rparr>"

datatype plugin_capability =
    CONTROLLER_SERVICE | VOLUME_ACCESSIBILITY_CONSTRAINTS | ExpansionONLINE | ExpansionOFFLINE

definition GetPluginCapabilities :: "plugin_capability list" where
  "GetPluginCapabilities = [CONTROLLER_SERVICE, VOLUME_ACCESSIBILITY_CONSTRAINTS, ExpansionONLINE, ExpansionOFFLINE]"

definition Probe :: "csi_driver \<Rightarrow> bool" where
  "Probe d = drv_ready d"

section \<open>Starting to serve\<close>

record url =
  Scheme :: string
  Host :: string
  Path :: string

datatype run_err = BadAddress string | NotUnix string | RemoveFailed string | ListenFailed string

datatype run_event =
    RRemove string "(bool \<times> string) option"
  | RListen string string "string option"

text \<open>An error of \<^verbatim>\<open>os.Remove\<close> carries what \<^verbatim>\<open>os.IsNotExist\<close> says of it.\<close>

record run_env =
  url_Parse :: "string \<Rightarrow> string + url"
  os_Remove :: "string \<Rightarrow> run_event list \<Rightarrow> (bool \<times> string) option"
  net_Listen :: "string \<Rightarrow> string \<Rightarrow> run_event list \<Rightarrow> string option"

record run_st =
  rhist :: "run_event list"
  driver :: csi_driver

definition rask :: "(run_event list \<Rightarrow> 'a) \<Rightarrow> ('a \<Rightarrow> run_event) \<Rightarrow> (run_st, 'a) state" where
  "rask q ev = State (\<lambda>s. let a = q (rhist s) in (a, s\<lparr>rhist := ev a # rhist s\<rparr>))"

lemma wp_rask [simp, wp_rules]:
  "wp (rask q ev) Q = (\<lambda>s. Q (q (rhist s)) (s\<lparr>rhist := ev (q (rhist s)) # rhist s\<rparr>))"
  by (rule ext) (simp add: rask_def wp_State Let_def)

definition grpcAddrOf :: "url \<Rightarrow> string" where
  "grpcAddrOf u = (if Host u = '''' then Path u else path_Join [Host u, Path u])"

definition runSetup :: "run_env \<Rightarrow> (run_st, run_err option) state" where
  "runSetup v = do {
     s \<leftarrow> State_Monad.get;
     case url_Parse v (drv_csiAddress (driver s)) of
       Inl e \<Rightarrow> State_Monad.return (Some (BadAddress e))
     | Inr u \<Rightarrow>
         let grpcAddr = grpcAddrOf u in
         if Scheme u \<noteq> ''unix'' then State_Monad.return (Some (NotUnix (Scheme u)))
         else do {
           removed \<leftarrow> rask (os_Remove v grpcAddr) (RRemove grpcAddr);
           case removed of
             Some (False, e) \<Rightarrow> State_Monad.return (Some (RemoveFailed e))
           | _ \<Rightarrow> do {
               l \<leftarrow> rask (net_Listen v (Scheme u) grpcAddr) (RListen (Scheme u) grpcAddr);
               case l of
                 Some e \<Rightarrow> State_Monad.return (Some (ListenFailed e))
               | None \<Rightarrow> do {
                   h \<leftarrow> rask (net_Listen v ''tcp'' (drv_address (driver s))) (RListen ''tcp'' (drv_address (driver s)));
                   case h of
                     Some e \<Rightarrow> State_Monad.return (Some (ListenFailed e))
                   | None \<Rightarrow> do {
                       State_Monad.update (\<lambda>s. s\<lparr>driver := (driver s)\<lparr>drv_ready := True\<rparr>\<rparr>);
                       State_Monad.return None
                     }
                 }
             }
         }
   }"

section \<open>Serving and stopping\<close>

text \<open>
  The goroutines of \<^verbatim>\<open>Run\<close>.  Three of them belong to the error group: the one that shuts the HTTP server
  down, and the two that serve.  The fourth, started by the second, lowers the readiness and stops the gRPC
  server.
\<close>

datatype serve_err = ErrServerClosed | ErrServerStopped | ServeFailed string | ShutdownFailed string

datatype task = Running | Finished "serve_err option"

datatype stopper = AwaitsContext | Lowered | Stopping

record serving =
  ctxDone :: bool
  ready :: bool
  httpShutdown :: bool
  stopper :: stopper
  shutdownTask :: task
  grpcTask :: task
  httpTask :: task
  firstErr :: "serve_err option"

definition startServing :: "csi_driver \<Rightarrow> serving" where
  "startServing d = \<lparr>ctxDone = False, ready = drv_ready d, httpShutdown = False, stopper = AwaitsContext,
     shutdownTask = Running, grpcTask = Running, httpTask = Running, firstErr = None\<rparr>"

text \<open>The error group keeps the first error.\<close>

definition noteErr :: "serve_err option \<Rightarrow> serving \<Rightarrow> serving" where
  "noteErr r s = s\<lparr>firstErr := (case firstErr s of None \<Rightarrow> r | Some e \<Rightarrow> Some e)\<rparr>"

text \<open>
  What the servers may return: the gRPC server a non-nil error unless it is being stopped, the HTTP
  server always an error, \<^verbatim>\<open>http.ErrServerClosed\<close> only after \<^verbatim>\<open>Shutdown\<close>.
\<close>

definition grpcMayReturn :: "serving \<Rightarrow> serve_err option \<Rightarrow> bool" where
  "grpcMayReturn s r = (case r of
     Some (ServeFailed _) \<Rightarrow> True
   | Some ErrServerStopped \<Rightarrow> stopper s = Stopping
   | None \<Rightarrow> stopper s = Stopping
   | _ \<Rightarrow> False)"

definition httpMayReturn :: "serving \<Rightarrow> serve_err \<Rightarrow> bool" where
  "httpMayReturn s e = (case e of
     ServeFailed _ \<Rightarrow> True
   | ErrServerClosed \<Rightarrow> httpShutdown s
   | _ \<Rightarrow> False)"

definition shutdownMayReturn :: "serve_err option \<Rightarrow> bool" where
  "shutdownMayReturn r = (case r of None \<Rightarrow> True | Some (ShutdownFailed _) \<Rightarrow> True | _ \<Rightarrow> False)"

definition httpResult :: "serve_err \<Rightarrow> serve_err option" where
  "httpResult e = (if e = ErrServerClosed then None else Some e)"

inductive serve_step :: "serving \<Rightarrow> serving \<Rightarrow> bool" where
  cancel: "serve_step s (s\<lparr>ctxDone := True\<rparr>)"
| shutdown_begins: "ctxDone s \<Longrightarrow> shutdownTask s = Running \<Longrightarrow> serve_step s (s\<lparr>httpShutdown := True\<rparr>)"
| shutdown_ends: "httpShutdown s \<Longrightarrow> shutdownTask s = Running \<Longrightarrow> shutdownMayReturn r \<Longrightarrow>
    serve_step s (noteErr r (s\<lparr>shutdownTask := Finished r\<rparr>))"
| lower: "ctxDone s \<Longrightarrow> stopper s = AwaitsContext \<Longrightarrow> serve_step s (s\<lparr>ready := False, stopper := Lowered\<rparr>)"
| stop: "stopper s = Lowered \<Longrightarrow> serve_step s (s\<lparr>stopper := Stopping\<rparr>)"
| grpc_returns: "grpcTask s = Running \<Longrightarrow> grpcMayReturn s r \<Longrightarrow> serve_step s (noteErr r (s\<lparr>grpcTask := Finished r\<rparr>))"
| http_returns: "httpTask s = Running \<Longrightarrow> httpMayReturn s e \<Longrightarrow>
    serve_step s (noteErr (httpResult e) (s\<lparr>httpTask := Finished (httpResult e)\<rparr>))"

inductive_cases serve_stepE: "serve_step s t"

text \<open>\<^verbatim>\<open>eg.Wait\<close> returns when all three are done.\<close>

definition runReturns :: "serving \<Rightarrow> serve_err option option" where
  "runReturns s = (if shutdownTask s \<noteq> Running \<and> grpcTask s \<noteq> Running \<and> httpTask s \<noteq> Running
     then Some (firstErr s) else None)"

end
