(* ===== verification/Settings.thy ===== *)
theory Settings
  imports Driver_Process
begin

text \<open>
  What the processes are told at the start: the environment of the controller
  (\<^verbatim>\<open>images/controller/pkg/config/config.go\<close>) and of the driver
  (\<^verbatim>\<open>images/sds-local-volume-csi/config/config.go\<close>), the flags of the webhooks
  (\<^verbatim>\<open>images/webhooks/cmd/main.go\<close>), and the log level all three take
  (\<^verbatim>\<open>images/controller/pkg/logger/logger.go\<close>, the same code in each image), and the logger the webhooks hand to
  their library (\<^verbatim>\<open>images/webhooks/pkg/logger/kubewebhook.go\<close>).

  The environment, the file with the namespace, the flag package and \<^verbatim>\<open>time.ParseDuration\<close> are arguments.
\<close>

section \<open>Log levels\<close>

datatype log_level = LevelTrace | LevelDebug | LevelInfo | LevelWarn | LevelError

text \<open>The order of \<^verbatim>\<open>log/slog\<close>: a record is emitted when its level is at least that of the logger.\<close>

fun severity :: "log_level \<Rightarrow> int" where
  "severity LevelTrace = - 8"
| "severity LevelDebug = - 4"
| "severity LevelInfo = 0"
| "severity LevelWarn = 4"
| "severity LevelError = 8"

lemma severity_inject [simp]: "severity a = severity b \<longleftrightarrow> a = b"
  by (cases a; cases b) simp_all

instantiation log_level :: linorder
begin

definition less_eq_log_level :: "log_level \<Rightarrow> log_level \<Rightarrow> bool" where
  "less_eq_log_level a b \<longleftrightarrow> severity a \<le> severity b"

definition less_log_level :: "log_level \<Rightarrow> log_level \<Rightarrow> bool" where
  "less_log_level a b \<longleftrightarrow> severity a < severity b"

instance
  by standard (auto simp: less_eq_log_level_def less_log_level_def)

end

type_synonym Verbosity = string

definition ErrorLevel :: Verbosity where "ErrorLevel = ''0''"
definition WarningLevel :: Verbosity where "WarningLevel = ''1''"
definition InfoLevel :: Verbosity where "InfoLevel = ''2''"
definition DebugLevel :: Verbosity where "DebugLevel = ''3''"
definition TraceLevel :: Verbosity where "TraceLevel = ''4''"

datatype verbosity_err = NotANumber string | NegativeVerbosity int

text \<open>Go returns the level beside the error.\<close>

definition Level :: "Verbosity \<Rightarrow> log_level \<times> verbosity_err option" where
  "Level v = (case strconv_Atoi v of
     None \<Rightarrow> (LevelInfo, Some (NotANumber v))
   | Some n \<Rightarrow>
       if n = 0 then (LevelError, None)
       else if n = 1 then (LevelWarn, None)
       else if n = 2 then (LevelInfo, None)
       else if n = 3 then (LevelDebug, None)
       else if n < 0 then (LevelInfo, Some (NegativeVerbosity n))
       else (LevelTrace, None))"

definition NewLogger :: "Verbosity \<Rightarrow> verbosity_err + log_level" where
  "NewLogger level = (case Level level of (lvl, Some err) \<Rightarrow> Inl err | (lvl, None) \<Rightarrow> Inr lvl)"

text \<open>The level of the loggers after a change, and what is emitted.\<close>

definition SetVerbosity :: "log_level \<Rightarrow> Verbosity \<Rightarrow> log_level \<times> verbosity_err option" where
  "SetVerbosity l level = (case Level level of (lvl, Some err) \<Rightarrow> (l, Some err) | (lvl, None) \<Rightarrow> (lvl, None))"

definition Enabled :: "log_level \<Rightarrow> log_level \<Rightarrow> bool" where
  "Enabled l record_level \<longleftrightarrow> l \<le> record_level"

definition Trace :: "log_level \<Rightarrow> string \<Rightarrow> (log_level \<times> string) list" where
  "Trace l message = (if \<not> Enabled l LevelTrace then [] else [(LevelTrace, message)])"

section \<open>The logger of kubewebhook\<close>

text \<open>
  \<^verbatim>\<open>images/webhooks/pkg/logger/kubewebhook.go\<close>: the library's messages become records of the module's logger.  A record is
  its level, the dotted name of the logger, the message, which the library has formatted, and the fields;
  the values come in the order Go ranges over their map.
\<close>

record 'v logged =
  rec_Level :: log_level
  rec_Logger :: "string list"
  rec_Message :: string
  rec_Fields :: "(string \<times> 'v) list"

record 'v kubewebhookAdapter =
  ka_level :: log_level
  ka_name :: "string list"
  ka_values :: "(string, 'v) fmap"

definition NewKubewebhookLogger :: "log_level \<Rightarrow> string list \<Rightarrow> 'v kubewebhookAdapter" where
  "NewKubewebhookLogger lvl name = \<lparr>ka_level = lvl, ka_name = name @ [''kubewebhook''], ka_values = fmempty\<rparr>"

definition WithValues :: "'v kubewebhookAdapter \<Rightarrow> (string, 'v) fmap \<Rightarrow> 'v kubewebhookAdapter" where
  "WithValues a values = (if values = fmempty then a else a\<lparr>ka_values := fmadd (ka_values a) values\<rparr>)"

definition fields :: "((string, 'v) fmap \<Rightarrow> (string \<times> 'v) list) \<Rightarrow> 'v kubewebhookAdapter \<Rightarrow> (string \<times> 'v) list" where
  "fields rangeOf a = (if ka_values a = fmempty then [] else rangeOf (ka_values a))"

definition adapterLog :: "log_level \<Rightarrow> ((string, 'v) fmap \<Rightarrow> (string \<times> 'v) list) \<Rightarrow> 'v kubewebhookAdapter \<Rightarrow> string \<Rightarrow> 'v logged list" where
  "adapterLog lvl rangeOf a message =
    (if Enabled (ka_level a) lvl
     then [\<lparr>rec_Level = lvl, rec_Logger = ka_name a, rec_Message = message, rec_Fields = fields rangeOf a\<rparr>] else [])"

definition Debugf :: "((string, 'v) fmap \<Rightarrow> (string \<times> 'v) list) \<Rightarrow> 'v kubewebhookAdapter \<Rightarrow> string \<Rightarrow> 'v logged list" where
  "Debugf = adapterLog LevelDebug"
definition Infof :: "((string, 'v) fmap \<Rightarrow> (string \<times> 'v) list) \<Rightarrow> 'v kubewebhookAdapter \<Rightarrow> string \<Rightarrow> 'v logged list" where
  "Infof = adapterLog LevelInfo"
definition Warningf :: "((string, 'v) fmap \<Rightarrow> (string \<times> 'v) list) \<Rightarrow> 'v kubewebhookAdapter \<Rightarrow> string \<Rightarrow> 'v logged list" where
  "Warningf = adapterLog LevelWarn"
definition Errorf :: "((string, 'v) fmap \<Rightarrow> (string \<times> 'v) list) \<Rightarrow> 'v kubewebhookAdapter \<Rightarrow> string \<Rightarrow> 'v logged list" where
  "Errorf = adapterLog LevelError"

definition rangesOver :: "((string, 'v) fmap \<Rightarrow> (string \<times> 'v) list) \<Rightarrow> bool" where
  "rangesOver rangeOf \<longleftrightarrow> (\<forall>m. distinct (map fst (rangeOf m)) \<and> map_of (rangeOf m) = fmlookup m)"

lemma fmadd_empty_iff: "fmadd m1 m2 = fmempty \<longleftrightarrow> m1 = fmempty \<and> m2 = fmempty"
proof
  assume "fmadd m1 m2 = fmempty"
  then have "fmdom m1 |\<union>| fmdom m2 = {||}" by (metis fmdom_add fmdom_empty)
  then show "m1 = fmempty \<and> m2 = fmempty"
    by (auto intro!: fmap_ext simp: fmdom_notD)
qed simp

text \<open>Values given one after the other are those given at once, a later one replacing an earlier one of the same
  key, and every record carries each key once with the last value it was given.\<close>

lemma WithValues_compose: "WithValues (WithValues a m1) m2 = WithValues a (fmadd m1 m2)"
  by (auto simp: WithValues_def fmadd_assoc fmadd_empty_iff)

lemma record_fields:
  assumes "rangesOver rangeOf" "record \<in> set (adapterLog lvl rangeOf (WithValues a m) message)"
  shows "distinct (map fst (rec_Fields record)) \<and>
    map_of (rec_Fields record) k = (case fmlookup m k of None \<Rightarrow> fmlookup (ka_values a) k | Some x \<Rightarrow> Some x)"
  using assms
  by (auto simp: adapterLog_def fields_def WithValues_def rangesOver_def fmadd_empty_iff fmdom_notD
      split: if_splits option.splits)

section \<open>Settings of the controller\<close>

definition DefaultHealthProbeBindAddress :: string where
  "DefaultHealthProbeBindAddress = '':8081''"
definition DefaultMetricsBindAddress :: string where
  "DefaultMetricsBindAddress = '':8080''"
definition HardcodedControllerNS :: string where
  "HardcodedControllerNS = ''d8-sds-local-volume''"
definition ConfigSecretName :: string where
  "ConfigSecretName = ''d8-sds-local-volume-controller-config''"
definition DefaultLLVSweepInterval :: duration where
  "DefaultLLVSweepInterval = 60 * time_Second"
definition DefaultLLVOrphanGracePeriod :: duration where
  "DefaultLLVOrphanGracePeriod = 30 * time_Second"

record controller_Options =
  Loglevel :: Verbosity
  opt_RequeueStorageClassInterval :: duration
  opt_RequeueSecretInterval :: duration
  opt_ConfigSecretName :: string
  opt_ControllerNamespace :: string
  HealthProbeBindAddress :: string
  MetricsBindAddress :: string
  LLVSweepInterval :: duration
  LLVOrphanGracePeriod :: duration

text \<open>The file read instead of the environment has its contents or an error as answer.\<close>

record process_env =
  os_Getenv :: "string \<Rightarrow> string"
  readNamespaceFile :: "string + string"
  time_ParseDuration :: "string \<Rightarrow> string + duration"

definition envOr :: "process_env \<Rightarrow> string \<Rightarrow> string \<Rightarrow> string" where
  "envOr w name dflt = (if os_Getenv w name = '''' then dflt else os_Getenv w name)"

definition durationFromEnv :: "process_env \<Rightarrow> string \<Rightarrow> duration \<Rightarrow> duration" where
  "durationFromEnv w name dflt =
    (let raw = strings_TrimSpace (os_Getenv w name)
     in if raw = '''' then dflt
        else case time_ParseDuration w raw of
               Inl _ \<Rightarrow> dflt
             | Inr d \<Rightarrow> if d \<le> 0 then dflt else d)"

definition NewConfig :: "process_env \<Rightarrow> controller_Options" where
  "NewConfig w = \<lparr>
     Loglevel = envOr w ''LOG_LEVEL'' DebugLevel,
     opt_RequeueStorageClassInterval = 10,
     opt_RequeueSecretInterval = 10,
     opt_ConfigSecretName = ConfigSecretName,
     opt_ControllerNamespace =
       (if os_Getenv w ''CONTROLLER_NAMESPACE'' = ''''
        then (case readNamespaceFile w of Inl _ \<Rightarrow> HardcodedControllerNS | Inr namespace \<Rightarrow> namespace)
        else os_Getenv w ''CONTROLLER_NAMESPACE''),
     HealthProbeBindAddress = envOr w ''HEALTH_PROBE_BIND_ADDRESS'' DefaultHealthProbeBindAddress,
     MetricsBindAddress = envOr w ''METRICS_BIND_ADDRESS'' DefaultMetricsBindAddress,
     LLVSweepInterval = DefaultLLVSweepInterval,
     LLVOrphanGracePeriod = durationFromEnv w ''LLV_ORPHAN_GRACE_PERIOD'' DefaultLLVOrphanGracePeriod\<rparr>"

section \<open>Settings of the driver\<close>

record csi_Options =
  co_NodeName :: string
  co_Version :: string
  co_Loglevel :: Verbosity
  co_HealthProbeBindAddress :: string
  co_MetricsBindAddress :: string
  CsiAddress :: string
  DriverName :: string
  Address :: string

text \<open>\<^verbatim>\<open>fl.Parse\<close> gives every declared flag the value from the command line or its default.\<close>

type_synonym flag_parser = "(string \<times> string) list \<Rightarrow> string + strmap"

definition csiFlags :: "(string \<times> string) list" where
  "csiFlags =
    [(''csi-address'', ''unix:///var/lib/kubelet/plugins/'' @ DefaultDriverName @ ''/csi.sock''),
     (''driver-name'', DefaultDriverName), (''address'', DefaultAddress)]"

definition csi_NewConfig :: "process_env \<Rightarrow> flag_parser \<Rightarrow> string + csi_Options" where
  "csi_NewConfig w parse =
    (if os_Getenv w ''KUBE_NODE_NAME'' = '''' then Inl ''KUBE_NODE_NAME''
     else case parse csiFlags of
       Inl e \<Rightarrow> Inl e
     | Inr flags \<Rightarrow> Inr \<lparr>
         co_NodeName = os_Getenv w ''KUBE_NODE_NAME'',
         co_Version = ''dev'',
         co_Loglevel = envOr w ''LOG_LEVEL'' DebugLevel,
         co_HealthProbeBindAddress = envOr w ''HEALTH_PROBE_BIND_ADDRESS'' DefaultHealthProbeBindAddress,
         co_MetricsBindAddress = envOr w ''METRICS_BIND_ADDRESS'' DefaultMetricsBindAddress,
         CsiAddress = mget flags ''csi-address'',
         DriverName = mget flags ''driver-name'',
         Address = mget flags ''address''\<rparr>)"

section \<open>Flags of the webhooks\<close>

record webhook_config =
  certFile :: string
  keyFile :: string
  logLevel :: Verbosity

datatype flags_err = BadFlags string | BadVerbosity verbosity_err

definition initFlags :: "flag_parser \<Rightarrow> webhook_config \<times> flags_err option" where
  "initFlags parse =
    (case parse [(''tls-cert-file'', ''''), (''tls-key-file'', ''''), (''log-level'', InfoLevel)] of
       Inl e \<Rightarrow> (\<lparr>certFile = '''', keyFile = '''', logLevel = ''''\<rparr>, Some (BadFlags e))
     | Inr flags \<Rightarrow>
         (let cfg = \<lparr>certFile = mget flags ''tls-cert-file'', keyFile = mget flags ''tls-key-file'',
                logLevel = mget flags ''log-level''\<rparr>
          in (cfg, map_option BadVerbosity (snd (Level (logLevel cfg))))))"

section \<open>What can be relied on\<close>

definition accepts :: "Verbosity \<Rightarrow> int option" where
  "accepts v = (case strconv_Atoi v of Some n \<Rightarrow> if 0 \<le> n then Some n else None | None \<Rightarrow> None)"

text \<open>A log level means the same in every component.  A verbosity is accepted exactly when it is a
  non-negative number; otherwise no logger is made and a running one keeps its level.  An accepted verbosity
  \<^verbatim>\<open>n\<close> lets errors through always, warnings from 1, information from 2, debugging from 3 and tracing from 4 on, so a
  higher number never hides a record.\<close>

theorem verbosity_thresholds:
  "case accepts v of
     None \<Rightarrow> (\<exists>err. NewLogger v = Inl err) \<and> fst (SetVerbosity l v) = l
   | Some n \<Rightarrow> let lvl = fst (Level v) in NewLogger v = Inr lvl \<and> SetVerbosity l v = (lvl, None) \<and>
       Enabled lvl LevelError \<and> (Enabled lvl LevelWarn \<longleftrightarrow> 1 \<le> n) \<and> (Enabled lvl LevelInfo \<longleftrightarrow> 2 \<le> n) \<and>
       (Enabled lvl LevelDebug \<longleftrightarrow> 3 \<le> n) \<and> (Trace lvl msg \<noteq> [] \<longleftrightarrow> 4 \<le> n)"
  by (auto simp: accepts_def NewLogger_def SetVerbosity_def Level_def Enabled_def Trace_def less_eq_log_level_def Let_def
      split: option.split)

lemma durationFromEnv_positive: "0 < dflt \<Longrightarrow> 0 < durationFromEnv w name dflt"
  by (auto simp: durationFromEnv_def Let_def split: sum.split)

lemma NewConfig_durations:
  "0 < LLVOrphanGracePeriod (NewConfig w)" "LLVSweepInterval (NewConfig w) = 60 * time_Second"
  by (simp_all add: NewConfig_def durationFromEnv_positive DefaultLLVOrphanGracePeriod_def DefaultLLVSweepInterval_def
      time_Second_def)

end
