(* ===== verification/GC_Process.thy ===== *)
theory GC_Process
  imports GC_Properties Settings
begin

text \<open>
  The garbage collector as the controller runs it: \<^verbatim>\<open>RunLVMLogicalVolumeGCController\<close> with its settings, its watches,
  the sweep at start-up and the work queue with the single key that every watch maps to.

  The queue belongs to controller-runtime; the step relation uses what it documents: a key is in the queue at most
  once, an error puts it back, a positive \<^verbatim>\<open>RequeueAfter\<close> puts it back after that time, and of two pending times the
  earlier one counts.
\<close>

section \<open>The history only grows\<close>

text \<open>Routines that only append to the history and leave \<^verbatim>\<open>lastSweep\<close> alone.\<close>

definition ext :: "gc_event list \<Rightarrow> time \<Rightarrow> gc_state \<Rightarrow> bool" where
  "ext h0 t s \<longleftrightarrow> suffix h0 (hist s) \<and> lastSweep s = t"

definition grows :: "'a gc \<Rightarrow> bool" where
  "grows m \<longleftrightarrow> (\<forall>h0 t s. ext h0 t s \<longrightarrow> wp m (\<lambda>_. ext h0 t) s)"

named_theorems grows_intros

lemma ext_hist [simp]: "ext h0 t (s\<lparr>hist := e # hist s\<rparr>) \<longleftrightarrow> suffix h0 (e # hist s) \<and> lastSweep s = t"
  by (simp add: ext_def)

lemma suffix_event: "suffix h0 h \<Longrightarrow> suffix h0 (e # h)"
  by (simp add: suffix_Cons)

lemma grows_return [grows_intros]: "grows (State_Monad.return x)"
  by (simp add: grows_def)

lemma grows_get [grows_intros]: "grows State_Monad.get"
  by (simp add: grows_def)

lemma grows_bind [grows_intros]: "grows m \<Longrightarrow> (\<And>a. grows (f a)) \<Longrightarrow> grows (State_Monad.bind m f)"
  unfolding grows_def wp_bind by (blast intro: wp_mono)

lemma grows_ask [grows_intros]: "grows (ask q ev)"
  by (auto simp: grows_def ext_def intro: suffix_event)

lemma grows_emit [grows_intros]: "grows (emit e)"
  by (auto simp: grows_def ext_def intro: suffix_event)

lemma grows_now [grows_intros]: "grows (now g)"
  unfolding now_def by (rule grows_ask)

lemma grows_update: "(\<And>s. hist (f s) = hist s \<and> lastSweep (f s) = lastSweep s) \<Longrightarrow> grows (State_Monad.update f)"
  by (simp add: grows_def ext_def)

lemma grows_upd_picture [grows_intros]: "grows (upd_picture f)"
  unfolding upd_picture_def by (rule grows_update) simp

lemma grows_if [grows_intros]: "grows m \<Longrightarrow> grows n \<Longrightarrow> grows (if b then m else n)"
  by simp

lemma grows_option [grows_intros]: "grows m \<Longrightarrow> (\<And>a. grows (f a)) \<Longrightarrow> grows (case x of None \<Rightarrow> m | Some a \<Rightarrow> f a)"
  by (cases x) simp_all

lemma grows_sum [grows_intros]: "(\<And>e. grows (f e)) \<Longrightarrow> (\<And>a. grows (k a)) \<Longrightarrow> grows (case x of Inl e \<Rightarrow> f e | Inr a \<Rightarrow> k a)"
  by (cases x) simp_all

lemma grows_prod [grows_intros]: "(\<And>a b. grows (f a b)) \<Longrightarrow> grows (case x of (a, b) \<Rightarrow> f a b)"
  by (cases x) simp

lemma grows_foldM [grows_intros]: "(\<And>x acc. grows (f x acc)) \<Longrightarrow> grows (foldM f xs acc)"
  by (induction xs arbitrary: acc) (auto intro!: grows_intros)

lemma grows_retry:
  assumes "retry_ok retry" "grows m"
  shows "grows (retry p m)"
  using wp_retry_inv [OF assms(1)] assms(2) unfolding grows_def by blast

lemma grows_spend [grows_intros]: "grows spend"
  by (simp add: grows_def spend_def ext_def Let_def wp_rules)

lemma grows_load [grows_intros]: "grows (load g)"
  unfolding load_def liveReload_def referencingPersistentVolumes_def snapshotContentHandles_def
  by (intro grows_intros grows_update) simp

lemma grows_removeCSIFinalizer:
  assumes "retry_ok (retry_OnError g)"
  shows "grows (removeCSIFinalizer g kind cached)"
proof -
  have "grows (removeAttempt g kind cached)"
    unfolding removeAttempt_def Let_def by (intro grows_intros grows_update) simp_all
  then have "grows (retry_OnError g retriableWrite (removeAttempt g kind cached))"
    by (rule grows_retry [OF assms])
  then show ?thesis
    unfolding removeCSIFinalizer_def by (intro grows_intros grows_update) simp_all
qed

lemma grows_reportRemoval [grows_intros]: "grows (reportRemoval g kind result)"
proof -
  obtain rem err where result: "result = (rem, err)" by (cases result)
  have failed: "grows (do {
      cancelled \<leftarrow> ask (ctx_Err g) ECtxErr;
      if cancelled then State_Monad.return (OrphanStateTerminating, '''', 0)
      else do {
        emit (EObserveRemoval kind ResultError);
        State_Monad.return (OrphanStateBlocked, BlockReasonRemovalFailed, 0)
      }
    })"
    by (intro grows_intros)
  show ?thesis
  proof (cases err)
    case None
    then show ?thesis
      unfolding reportRemoval_def result prod.case None option.case by (intro grows_intros)
  next
    case (Some e)
    then show ?thesis
      unfolding reportRemoval_def result prod.case Some option.case
      by (cases e; simp only: gc_err.case failed grows_return)
  qed
qed

lemma grows_reclaim: "retry_ok (retry_OnError g) \<Longrightarrow> grows (reclaim g llv names)"
  unfolding reclaim_def reclaimConfirmed_def Let_def by (intro grows_intros grows_removeCSIFinalizer)

lemma grows_reclaimSnapshot: "retry_ok (retry_OnError g) \<Longrightarrow> grows (reclaimSnapshot g llvs d)"
  unfolding reclaimSnapshot_def reclaimSnapshotConfirmed_def Let_def
  by (intro grows_intros grows_removeCSIFinalizer)

lemma grows_halves:
  assumes "retry_ok (retry_OnError g)"
  shows "grows (sweepVolumes g llvs snaps refd)" "grows (sweepSnapshots g snaps)"
  unfolding sweepVolumes_def sweepVolume_def sweepSnapshots_def sweepSnapshot_def
  by (intro grows_intros grows_reclaim grows_reclaimSnapshot assms)+

lemma grows_lists [grows_intros]: "grows (sweepLists g)"
  unfolding sweepLists_def referencingPersistentVolumes_def by (intro grows_intros)

text \<open>A clock that does not run backwards.\<close>

definition clockOk :: "gc_env \<Rightarrow> bool" where
  "clockOk g \<longleftrightarrow> 0 \<le> g_now g [] \<and> (\<forall>h e. g_now g h \<le> g_now g (e # h))"

lemma clock_mono: "clockOk g \<Longrightarrow> suffix h0 h \<Longrightarrow> g_now g h0 \<le> g_now g h"
  by (induction h) (auto simp: clockOk_def suffix_Cons intro: order_trans)

definition inPast :: "gc_env \<Rightarrow> gc_state \<Rightarrow> bool" where
  "inPast g s \<longleftrightarrow> lastSweep s \<le> g_now g (hist s)"

lemma grows_inPast:
  assumes "clockOk g" "grows m" "inPast g s"
  shows "wp m (\<lambda>_. inPast g) s"
proof -
  have "wp m (\<lambda>_. ext (hist s) (lastSweep s)) s"
    using assms(2) by (simp add: grows_def ext_def)
  then show ?thesis
    by (rule wp_mono) (use assms(3) clock_mono [OF assms(1)] in \<open>fastforce simp: inPast_def ext_def\<close>)
qed

lemma sweepBody_inPast:
  assumes "clockOk g" "retry_ok (retry_OnError g)"
  shows "wp (sweepBody g llvs snaps refd) (\<lambda>_. inPast g) s"
proof -
  let ?stamp = "\<lambda>s. let t = g_now g (ESetSweep (picture s) # hist s) in
    s\<lparr>hist := ENow t # ESetSweep (picture s) # hist s, lastSweep := t\<rparr>"
  have stamp: "inPast g (?stamp s)" for s
    using assms(1) by (simp add: inPast_def clockOk_def Let_def)
  show ?thesis
    unfolding sweepBody_def wp_bind wp_update
    by (rule wp_mono [OF wp_trivial], rule wp_mono [OF wp_trivial]) (use stamp in \<open>simp add: wp_now Let_def\<close>)
qed

lemma sweep_inPast:
  assumes "clockOk g" "retry_ok (retry_OnError g)" "inPast g s"
  shows "wp (sweep g) (\<lambda>_. inPast g) s"
proof -
  have run: "wp (sweepRun g) (\<lambda>_. inPast g) s" if "inPast g s" for s
    unfolding sweepRun_def wp_bind
    by (rule wp_mono [OF grows_inPast [OF assms(1) grows_lists that]])
      (auto simp: wp_rules intro: wp_mono [OF sweepBody_inPast [OF assms(1,2)]] split: sum.split prod.split)
  have "grows (throttled g)" unfolding throttled_def Let_def by (intro grows_intros)
  from grows_inPast [OF assms(1) this assms(3)] show ?thesis
    unfolding sweep_def wp_bind by (rule wp_mono) (simp add: wp_rules run split: option.split)
qed

lemma reconcile_inPast:
  assumes "clockOk g" "retry_ok (retry_OnError g)" "inPast g s"
  shows "wp (gcReconcile g interval) (\<lambda>_. inPast g) s"
proof -
  have observed: "inPast g (s\<lparr>hist := EObserveReconcile c r # hist s\<rparr>)" if "inPast g s" for s c r
    using that assms(1) by (fastforce simp: inPast_def clockOk_def intro: order_trans)
  show ?thesis
    unfolding gcReconcile_def wp_bind
    by (rule wp_mono [OF sweep_inPast [OF assms]]) (auto simp: wp_rules Let_def intro: observed split: prod.split)
qed

section \<open>Settings, watches and the queue\<close>

text \<open>The collector that the controller starts: the settings decide over the parameters of \<^verbatim>\<open>gc_env\<close>.\<close>

definition newGC :: "controller_Options \<Rightarrow> gc_env \<Rightarrow> gc_env" where
  "newGC cfg world = world\<lparr>gracePeriod := LLVOrphanGracePeriod cfg,
     minInterval := min minSweepInterval (LLVSweepInterval cfg), maxReclaims := maxReclaimsPerSweep\<rparr>"

datatype 'o watch_ev = Created 'o | Updated 'o 'o | Deleted 'o | Generic 'o

datatype gc_watch = OnLLV "LLV watch_ev" | OnPV "PV watch_ev" | OnLLVS "LLVS watch_ev"

fun typedFuncs :: "('o \<Rightarrow> 'o \<Rightarrow> bool) \<Rightarrow> 'o watch_ev \<Rightarrow> bool" where
  "typedFuncs update (Created x) = True"
| "typedFuncs update (Deleted x) = True"
| "typedFuncs update (Generic x) = True"
| "typedFuncs update (Updated old new) = update old new"

fun gcWatches :: "gc_watch \<Rightarrow> bool" where
  "gcWatches (OnLLV ev) = typedFuncs llvSweepInputChanged ev"
| "gcWatches (OnPV ev) = typedFuncs (\<lambda>_ _. False) ev"
| "gcWatches (OnLLVS ev) = typedFuncs llvsSweepInputChanged ev"

definition lvmLogicalVolumeSweepKey :: string where
  "lvmLogicalVolumeSweepKey = ''lvm-logical-volume-sweep''"

definition enqueueLVMLogicalVolumeSweep :: "gc_watch \<Rightarrow> string list" where
  "enqueueLVMLogicalVolumeSweep ev = (if gcWatches ev then [lvmLogicalVolumeSweepKey] else [])"

text \<open>The runnable of the start: a sweep whose error is only logged.\<close>

definition initialSweep :: "gc_env \<Rightarrow> unit gc" where
  "initialSweep g = do {
     _ \<leftarrow> sweep g;
     State_Monad.return ()
   }"

record gc_process =
  collector :: gc_state
  queued :: bool
  wakeAfter :: "duration option"
  started :: bool
  woken :: bool

definition processStart :: gc_process where
  "processStart = \<lparr>collector = gcStart, queued = False, wakeAfter = None, started = False, woken = False\<rparr>"

definition requeue :: "reconcile_Result \<times> gc_err option \<Rightarrow> gc_process \<Rightarrow> gc_process" where
  "requeue out p = (case out of
     (_, Some _) \<Rightarrow> p\<lparr>queued := True\<rparr>
   | (res, None) \<Rightarrow>
       if 0 < RequeueAfter res
       then p\<lparr>wakeAfter := Some (case wakeAfter p of None \<Rightarrow> RequeueAfter res | Some d \<Rightarrow> min d (RequeueAfter res))\<rparr>
       else p)"

inductive process_step :: "gc_env \<Rightarrow> duration \<Rightarrow> gc_process \<Rightarrow> gc_process \<Rightarrow> bool" for g interval where
  watch: "enqueueLVMLogicalVolumeSweep ev \<noteq> [] \<Longrightarrow> process_step g interval p (p\<lparr>queued := True, woken := True\<rparr>)"
| wakes: "wakeAfter p = Some d \<Longrightarrow> process_step g interval p (p\<lparr>wakeAfter := None, queued := True\<rparr>)"
| starts: "\<not> started p \<Longrightarrow>
    process_step g interval p (p\<lparr>collector := snd (run_state (initialSweep g) (collector p)), started := True\<rparr>)"
| works: "queued p \<Longrightarrow> run_state (gcReconcile g interval) (collector p) = (out, s') \<Longrightarrow>
    process_step g interval p (requeue out (p\<lparr>collector := s', queued := False\<rparr>))"

inductive_cases process_stepE: "process_step g interval p q"

definition processOk :: "gc_env \<Rightarrow> duration \<Rightarrow> gc_process \<Rightarrow> bool" where
  "processOk g interval p \<longleftrightarrow> safeHist g (hist (collector p)) \<and> inPast g (collector p) \<and>
     (case wakeAfter p of None \<Rightarrow> True | Some d \<Rightarrow> 0 < d \<and> d \<le> interval) \<and>
     (if woken p then queued p \<or> wakeAfter p \<noteq> None else \<not> queued p \<and> wakeAfter p = None)"

lemma processOk_step:
  assumes g: "clockOk g" "retry_ok (retry_OnError g)" "0 < interval" "in_i64 (minInterval g)" "minInterval g \<le> interval"
    and "process_step g interval p q" "processOk g interval p"
  shows "processOk g interval q"
  using assms(6)
proof (cases rule: process_step.cases)
  case (watch ev)
  then show ?thesis using assms(7) by (simp add: processOk_def)
next
  case (wakes d)
  then show ?thesis using assms(7) by (auto simp: processOk_def split: if_splits)
next
  case starts
  have "wp (initialSweep g) (\<lambda>_ s. safeHist g (hist s) \<and> inPast g s) (collector p)"
    unfolding initialSweep_def wp_bind
    by (rule wp_mono [OF wp_conj [OF sweep_ok [OF g(2)] sweep_inPast [OF g(1,2)]]])
      (use assms(7) in \<open>auto simp: processOk_def sweepPost_def split: prod.splits\<close>)
  then show ?thesis using assms(7) starts by (auto simp: processOk_def wp_run split: if_splits)
next
  case (works out s')
  obtain res err where out: "out = (res, err)" by (cases out)
  have "safeHist g (hist s')" "inPast g s'"
    using reconcile_safe [OF g(2), of "collector p" interval] wp_runD [OF reconcile_inPast [OF g(1,2)] works(3)]
      assms(7) works(3) by (simp_all add: processOk_def)
  moreover have "0 < RequeueAfter res \<and> RequeueAfter res \<le> interval" if "err = None"
    using reconcile_requeues [OF g(3,4), of "collector p" res s'] works(3) g(5) assms(7) that
    by (simp add: processOk_def inPast_def out max_def split: if_splits)
  moreover have "woken p" using assms(7) works(2) by (auto simp: processOk_def split: if_splits)
  ultimately show ?thesis
    using assms(7) works(1) by (auto simp: processOk_def requeue_def out split: option.splits)
qed


definition demoSettings :: process_env where
  "demoSettings = \<lparr>os_Getenv = (\<lambda>name. if name = ''LLV_ORPHAN_GRACE_PERIOD'' then ''45s'' else ''''),
     readNamespaceFile = Inl ''missing'', time_ParseDuration = (\<lambda>s. if s = ''45s'' then Inr (45 * time_Second) else Inl s)\<rparr>"

definition demoGC :: gc_env where
  "demoGC = demoEnv\<lparr>gracePeriod := 45 * time_Second\<rparr>"

lemma demo_settings: "newGC (NewConfig demoSettings) demoEnv = demoGC" "LLVSweepInterval (NewConfig demoSettings) = 60 * time_Second"
proof -
  have "LLVOrphanGracePeriod (NewConfig demoSettings) = 45 * time_Second" by code_simp
  then show "newGC (NewConfig demoSettings) demoEnv = demoGC"
    by (simp add: newGC_def demoGC_def NewConfig_durations demoEnv_def minSweepInterval_def maxReclaimsPerSweep_def time_Second_def)
  show "LLVSweepInterval (NewConfig demoSettings) = 60 * time_Second" by (rule NewConfig_durations)
qed

definition demoRun :: "(reconcile_Result \<times> gc_err option) \<times> gc_state" where
  "demoRun = run_state (gcReconcile demoGC (60 * time_Second)) gcStart"


end
