(* ===== verification/LSC_Watches.thy ===== *)
theory LSC_Watches
  imports LSC_Properties LSC_Reconcile
begin

text \<open>
  Which events of the cluster reach the LocalStorageClass controller: the handlers and predicates that
  \<^verbatim>\<open>RunLocalStorageClassWatcherController\<close> registers, as one function from events to requests, and what a dropped event
  cannot have changed.
\<close>

section \<open>Events and requests\<close>

datatype lsc_watch =
    LSCCreated LocalStorageClass
  | LSCUpdated LocalStorageClass LocalStorageClass
  | LSCDeleted LocalStorageClass
  | LSCGeneric LocalStorageClass
  | SecretEvent "okey option"
  | LVGCreated LVG
  | LVGUpdated LVG LVG
  | LVGDeleted LVG
  | LVGGeneric LVG

definition localStorageClassEventHandler :: "lsc_watch \<Rightarrow> okey list" where
  "localStorageClassEventHandler ev = (case ev of
     LSCCreated lsc \<Rightarrow> [ObjectKeyFromObject lsc]
   | LSCUpdated old new \<Rightarrow> lscUpdateEnqueues old new
   | LSCDeleted lsc \<Rightarrow> [ObjectKeyFromObject lsc]
   | _ \<Rightarrow> [])"

definition lvgPredicate :: "lsc_watch \<Rightarrow> bool" where
  "lvgPredicate ev = (case ev of
     LVGCreated _ \<Rightarrow> True
   | LVGDeleted _ \<Rightarrow> True
   | LVGUpdated old new \<Rightarrow> lvgUpdatePredicate old new
   | _ \<Rightarrow> False)"

text \<open>\<^term>\<open>found\<close> is the answer to the listing of the LocalStorageClasses when the event is handled.\<close>

definition lscRequests :: "lsc_env \<Rightarrow> kerr + LocalStorageClass list \<Rightarrow> lsc_watch \<Rightarrow> okey list" where
  "lscRequests v found ev = (case ev of
     SecretEvent secret \<Rightarrow> secretRequests v secret found
   | _ \<Rightarrow> localStorageClassEventHandler ev @ (if lvgPredicate ev then lvgRequests found else []))"

section \<open>What the requests do not miss\<close>

text \<open>The volume groups of the cluster before and after an event about one of them.\<close>

inductive lvg_change :: "LVG list \<Rightarrow> lsc_watch \<Rightarrow> LVG list \<Rightarrow> bool" where
  created: "lvg_change (xs @ ys) (LVGCreated lvg) (xs @ lvg # ys)"
| deleted: "lvg_change (xs @ lvg # ys) (LVGDeleted lvg) (xs @ ys)"
| updated: "Name new = Name old \<Longrightarrow> lvg_change (xs @ old # ys) (LVGUpdated old new) (xs @ new # ys)"

inductive_cases lvg_changeE: "lvg_change before ev after"

lemma foldE_cong: "(\<And>x acc. x \<in> set xs \<Longrightarrow> f x acc = g x acc) \<Longrightarrow> foldE f xs acc = foldE g xs acc"
  by (induction xs arbitrary: acc) (auto split: sum.split)

lemma foldE_append: "foldE f (xs @ ys) acc = (case foldE f xs acc of Inl e \<Rightarrow> Inl e | Inr acc' \<Rightarrow> foldE f ys acc')"
  by (induction xs arbitrary: acc) (auto split: sum.split)

text \<open>Without selectors the volume groups do not matter, and of a volume group only name and labels do.\<close>

lemma resolve_without_selectors:
  assumes "\<not> lscUsesLabelSelector lsc"
  shows "resolveEffectiveLVGs p lsc lvgs = resolveEffectiveLVGs p lsc lvgs'"
proof (cases "LVM lsc")
  case (Some lvm)
  have "foldE (resolveEntry p lvgs) (LVMVolumeGroups lvm) acc = foldE (resolveEntry p lvgs') (LVMVolumeGroups lvm) acc" for acc
    by (rule foldE_cong) (use assms Some in \<open>auto simp: lscUsesLabelSelector_def resolveEntry_def list_ex_iff split: option.split\<close>)
  then show ?thesis by (simp add: resolveEffectiveLVGs_def Some)
qed (simp add: resolveEffectiveLVGs_def)

lemma resolve_same_labels:
  assumes "Name new = Name old" "Labels new = Labels old"
  shows "resolveEffectiveLVGs p lsc (xs @ old # ys) = resolveEffectiveLVGs p lsc (xs @ new # ys)"
proof -
  have "resolveEntry p (xs @ old # ys) = resolveEntry p (xs @ new # ys)"
    by (intro ext) (simp add: resolveEntry_def foldE_append assms split: option.split sum.split)
  then show ?thesis by (simp only: resolveEffectiveLVGs_def)
qed



end
