(* ===== verification/LSC_Convergence.thy ===== *)
theory LSC_Convergence
  imports LSC_Pass_Properties
begin

text \<open>
  Progress of the LocalStorageClass controller: against an API server that accepts its calls, one pass over
  an admitted LocalStorageClass reaches the state in which the next pass has nothing to do.  The safety
  properties of \<^verbatim>\<open>LSC_Pass_Properties\<close> say that a pass does nothing wrong; the one here says that it does
  something.

  The laws of the condition library are the documented behaviour of \<^verbatim>\<open>meta.SetStatusCondition\<close>: the condition just
  set is the one that is found afterwards.
\<close>

section \<open>What the environment is relied on for\<close>

definition serverAccepts :: "lsc_env \<Rightarrow> bool" where
  "serverAccepts v \<longleftrightarrow>
     (\<forall>key h. \<exists>lsc. cl_Get_LSC v key h = Inr lsc) \<and>
     (\<forall>key h. \<exists>sc. cl_Get_SC v key h = Inr sc) \<and>
     (\<forall>lsc h. \<exists>rv. cl_Update_LSC v lsc h = Inr rv) \<and>
     (\<forall>sc h. \<exists>rv. cl_Update_SC v sc h = Inr rv) \<and>
     (\<forall>sc h. \<exists>rv. cl_Create_SC v sc h = Inr (sc\<lparr>ResourceVersion := rv\<rparr>)) \<and>
     (\<forall>sc h. cl_Delete_SC v sc h = None) \<and>
     (\<forall>lsc f h. conditions_UpdateStatus v lsc f h = None)"

definition condLaws :: "condLib \<Rightarrow> bool" where
  "condLaws conds \<longleftrightarrow> (\<forall>cs c.
     \<not> IsStale conds (SetCond conds cs c) (cond_Type c) (cond_ObservedGeneration c) \<and>
     IsTrue conds (SetCond conds cs c) (cond_Type c) = cond_Status c)"

lemma serverAcceptsD:
  assumes "serverAccepts v"
  shows "\<exists>lsc. cl_Get_LSC v key h = Inr lsc" "\<exists>sc. cl_Get_SC v key h = Inr sc"
    "\<exists>rv. cl_Update_LSC v lsc h = Inr rv" "\<exists>rv. cl_Update_SC v sc h = Inr rv"
    "\<exists>rv. cl_Create_SC v sc h = Inr (sc\<lparr>ResourceVersion := rv\<rparr>)"
    "cl_Delete_SC v sc h = None" "conditions_UpdateStatus v lsc f h = None"
  using assms unfolding serverAccepts_def by blast+

section \<open>What a pass leaves of a LocalStorageClass\<close>

text \<open>A pass changes the finalizers, the resource version and the status of its copy; no decision reads
  the first two, and only the choice of the pass reads the third.\<close>

definition sameSpec :: "LocalStorageClass \<Rightarrow> LocalStorageClass \<Rightarrow> bool" where
  "sameSpec l l' \<longleftrightarrow> (\<exists>fs rv st. l' = l\<lparr>Finalizers := fs, ResourceVersion := rv, lsc_Status := st\<rparr>)"

lemma sameSpec_refl [simp]: "sameSpec l l"
proof -
  have "l = l\<lparr>Finalizers := Finalizers l, ResourceVersion := ResourceVersion l, lsc_Status := lsc_Status l\<rparr>"
    by simp
  then show ?thesis unfolding sameSpec_def by blast
qed

lemma sameSpecI: "l' = l\<lparr>Finalizers := fs, ResourceVersion := rv, lsc_Status := st\<rparr> \<Longrightarrow> sameSpec l l'"
  unfolding sameSpec_def by blast

lemma sameSpec_update:
  assumes "sameSpec l l'"
  shows "sameSpec l (l'\<lparr>Finalizers := fs, ResourceVersion := rv\<rparr>)"
    "sameSpec l (applyStatus conds cond phase reason l')"
proof -
  obtain fs0 rv0 st0 where l': "l' = l\<lparr>Finalizers := fs0, ResourceVersion := rv0, lsc_Status := st0\<rparr>"
    using assms unfolding sameSpec_def by blast
  show "sameSpec l (l'\<lparr>Finalizers := fs, ResourceVersion := rv\<rparr>)"
    unfolding l' by (rule sameSpecI [where fs = fs and rv = rv and st = st0]) simp
  have "sameSpec l (l'\<lparr>lsc_Status := st\<rparr>)" for st
    unfolding l' by (rule sameSpecI [where fs = fs0 and rv = rv0 and st = st]) simp
  then show "sameSpec l (applyStatus conds cond phase reason l')"
    unfolding applyStatus_def Let_def .
qed

lemma sameSpec_fields:
  assumes "sameSpec l l'"
  shows "Name l' = Name l" "Namespace l' = Namespace l" "DeletionTimestamp l' = DeletionTimestamp l"
    "Generation l' = Generation l" "Labels l' = Labels l" "LVM l' = LVM l"
  using assms by (auto simp: sameSpec_def)

lemma sameSpec_decisions:
  assumes "sameSpec l l'"
  shows "resolveEffectiveLVGs sel l' lvgs = resolveEffectiveLVGs sel l lvgs"
    "validateLocalStorageClass sel ord scs l' lvgs effective = validateLocalStorageClass sel ord scs l lvgs effective"
    "configureStorageClass yaml l' effective ignored = configureStorageClass yaml l effective ignored"
    "updateStorageClass yaml l' oldSC effective ignored = updateStorageClass yaml l oldSC effective ignored"
    "hasSCDiff yaml sc l' effective ignored = hasSCDiff yaml sc l effective ignored"
proof -
  note same = sameSpec_fields [OF assms] resolveEffectiveLVGs_def validateLocalStorageClass_def
    findUnmanagedDuplicatedSC_def configureLabels_def hasSCDiff_def
  have params: "configureParams l' = configureParams l"
    using assms by (auto simp: sameSpec_def configureParams_def fun_eq_iff)
  show "resolveEffectiveLVGs sel l' lvgs = resolveEffectiveLVGs sel l lvgs"
    "validateLocalStorageClass sel ord scs l' lvgs effective = validateLocalStorageClass sel ord scs l lvgs effective"
    "hasSCDiff yaml sc l' effective ignored = hasSCDiff yaml sc l effective ignored"
    by (simp_all only: same)
  show conf: "configureStorageClass yaml l' effective ignored = configureStorageClass yaml l effective ignored"
    using assms unfolding configureStorageClass_def params configureLabels_def
    by (auto simp: sameSpec_def split: option.splits sum.splits)
  show "updateStorageClass yaml l' oldSC effective ignored = updateStorageClass yaml l oldSC effective ignored"
    by (simp add: updateStorageClass_def conf)
qed

definition readyFor :: "condLib \<Rightarrow> LocalStorageClass \<Rightarrow> bool" where
  "readyFor conds lsc \<longleftrightarrow> (\<exists>st. lsc_Status lsc = Some st \<and>
     \<not> IsStale conds (Conditions st) ConditionTypeReady (Generation lsc) \<and>
     IsTrue conds (Conditions st) ConditionTypeReady)"

lemma createdStatus_ready:
  assumes "condLaws (condsOf v)" "createdStatus v (Generation (cur s)) s"
  shows "readyFor (condsOf v) (cur s)"
proof -
  have "\<not> IsStale (condsOf v) (SetCond (condsOf v) cs c) (cond_Type c) (cond_ObservedGeneration c)"
    "IsTrue (condsOf v) (SetCond (condsOf v) cs c) (cond_Type c) = cond_Status c" for cs c
    using assms(1) by (simp_all add: condLaws_def)
  from this [where c = "\<lparr>cond_Type = ConditionTypeReady, cond_Status = True, cond_Reason = _,
      cond_Message = _, cond_ObservedGeneration = Generation (cur s)\<rparr>"]
  show ?thesis
    using assms(2) by (auto simp: createdStatus_def readyFor_def)
qed

text \<open>The copy has the specification of the pass's LocalStorageClass, and the given events have happened.\<close>

definition passInv :: "LocalStorageClass \<Rightarrow> lsc_event set \<Rightarrow> lsc_state \<Rightarrow> bool" where
  "passInv l E s \<longleftrightarrow> sameSpec l (cur s) \<and> E \<subseteq> set (lhist s)"

lemma passInv_sub [simp]:
  "passInv l E s \<Longrightarrow> passInv l E (s\<lparr>lhist := e # lhist s\<rparr>)"
  "passInv l E (s\<lparr>curSC := sc\<rparr>) = passInv l E s" "passInv l E (s\<lparr>fremoved := b\<rparr>) = passInv l E s"
  by (auto simp: passInv_def)

section \<open>Steps that succeed\<close>

lemma accepted_ensureFinalizer:
  assumes "retry_ok (retry_OnConflict v)" "serverAccepts v" "passInv l E s"
  shows "wp (ensureFinalizer v) (\<lambda>r s'. r = None \<and> passInv l E s') s"
proof -
  have att: "wp (ensureFinalizerAttempt v) (\<lambda>r s'. r = None \<and> passInv l E s') s" if "passInv l E s" for s
  proof -
    let ?key = "ObjectKeyFromObject (cur s)"
    obtain fresh where fresh: "cl_Get_LSC v ?key (lhist s) = Inr fresh"
      using serverAcceptsD(1) [OF assms(2)] by blast
    obtain rv where "cl_Update_LSC v (fresh\<lparr>Finalizers := Finalizers fresh @ [LocalStorageClassFinalizerName]\<rparr>)
        (LGetLSC ?key (Inr fresh) # lhist s) = Inr rv"
      using serverAcceptsD(3) [OF assms(2)] by blast
    with fresh that show ?thesis
      unfolding ensureFinalizerAttempt_def
      by (auto simp: wp_rules Let_def passInv_def intro: sameSpec_update)
  qed
  have "wp (retry_OnConflict v isConflict (ensureFinalizerAttempt v)) (\<lambda>r s'. r = None \<and> passInv l E s') s"
    by (rule wp_retry [where I = "passInv l E", OF assms(1,3)]) (rule wp_mono [OF att], auto)
  with assms(3) show ?thesis
    unfolding ensureFinalizer_def by (simp add: wp_rules)
qed

lemma accepted_finishCreated:
  assumes "retry_ok (retry_OnConflict v)" "serverAccepts v" "condLaws (condsOf v)" "passInv l E s"
  shows "wp (finishCreated v)
    (\<lambda>r s'. r = (False, None) \<and> passInv l E s' \<and> readyFor (condsOf v) (cur s')) s"
proof -
  have inv: "wp (finishCreated v) (\<lambda>r s'. r = (False, None) \<and> passInv l E s') s"
    unfolding finishCreated_def updateLocalStorageClassPhase_def wp_bind
    by (rule wp_mono [OF accepted_ensureFinalizer [OF assms(1,2,4)]])
      (auto simp: wp_rules Let_def publishLocalStorageClassStatus_def serverAcceptsD [OF assms(2)] passInv_def
        intro: sameSpec_update)
  have "sameGen (Generation l) s"
    using assms(4) by (simp add: sameGen_def passInv_def sameSpec_fields)
  from wp_conj [OF inv finishCreated_status [OF assms(1) this]] show ?thesis
    by (rule wp_mono) (auto simp: passInv_def sameSpec_fields intro!: createdStatus_ready [OF assms(3)])
qed

lemma accepted_deleteStorageClass:
  assumes "retry_ok (retry_OnConflict v)" "serverAccepts v" "passInv l E s"
    and "Provisioner sc = LocalStorageClassProvisioner"
  shows "wp (deleteStorageClass v sc) (\<lambda>r s'. r = None \<and> passInv l E s') s"
proof -
  have att: "wp (removeFinalizersAttempt (lask (cl_Get_SC v key) (LGetSC key))
       (\<lambda>fresh. lask (cl_Update_SC v fresh) (LUpdateSC fresh))
       (\<lambda>fs rv s. s\<lparr>curSC := (curSC s)\<lparr>Finalizers := fs, ResourceVersion := rv\<rparr>\<rparr>))
     (\<lambda>r s'. r = None \<and> passInv l E s') s" if "passInv l E s" for key s
  proof -
    obtain fresh where fresh: "cl_Get_SC v key (lhist s) = Inr fresh"
      using serverAcceptsD(2) [OF assms(2)] by blast
    obtain rv where "cl_Update_SC v (fresh\<lparr>Finalizers := keptFinalizers (Finalizers fresh)\<rparr>)
        (LGetSC key (Inr fresh) # lhist s) = Inr rv"
      using serverAcceptsD(4) [OF assms(2)] by blast
    with fresh that show ?thesis
      unfolding removeFinalizersAttempt_def by (auto simp: wp_rules Let_def passInv_def)
  qed
  have "wp (removeSCFinalizers v) (\<lambda>r s'. (\<exists>b. r = Inr b) \<and> passInv l E s') s" if "passInv l E s" for s
    unfolding removeSCFinalizers_def removeControllerFinalizers_def wp_bind wp_get wp_update Let_def
    by (rule wp_mono [OF wp_retry [where I = "passInv l E" and Q = "\<lambda>r s'. r = None \<and> passInv l E s'",
          OF assms(1) _ wp_mono [OF att]]])
      (use that in auto)
  from this [of "s\<lparr>curSC := sc\<rparr>"] show ?thesis
    using assms(3,4) unfolding deleteStorageClass_def
    by (auto simp: wp_rules serverAcceptsD [OF assms(2)] elim!: wp_mono)
qed

text \<open>The object the server stores for a created StorageClass.\<close>

definition stored :: "StorageClass \<Rightarrow> string \<Rightarrow> StorageClass" where
  "stored sc rv = sc\<lparr>ResourceVersion := rv\<rparr>"

lemma accepted_recreate:
  assumes "retry_ok (retry_OnConflict v)" "serverAccepts v" "passInv l E s"
    and "Provisioner oldSC = LocalStorageClassProvisioner"
  shows "wp (recreateStorageClass v oldSC newSC)
    (\<lambda>r s'. r = None \<and> (\<exists>rv. passInv l {LCreateSC newSC (Inr (stored newSC rv))} s')) s"
proof -
  have "wp (lask (cl_Create_SC v newSC) (LCreateSC newSC))
      (\<lambda>r. wp (State_Monad.return (case r of Inl e \<Rightarrow> Some (Wrapped (Name newSC) e) | Inr _ \<Rightarrow> None))
        (\<lambda>r s'. r = None \<and> (\<exists>rv. passInv l {LCreateSC newSC (Inr (stored newSC rv))} s'))) s'"
    if "passInv l E s'" for s'
  proof -
    obtain rv where "cl_Create_SC v newSC (lhist s') = Inr (stored newSC rv)"
      using serverAcceptsD(5) [OF assms(2)] unfolding stored_def by blast
    with that show ?thesis by (auto simp: passInv_def intro!: exI [of _ rv])
  qed
  then show ?thesis
    unfolding recreateStorageClass_def wp_bind
    by (intro wp_mono [OF accepted_deleteStorageClass [OF assms]]) simp
qed

lemma accepted_create:
  assumes "serverAccepts v" "passInv l E s" "\<not> list_ex (\<lambda>c. Name c = Name sc) scs"
  shows "wp (createStorageClassIfNotExists v scs sc)
    (\<lambda>r s'. \<exists>rv. r = Inr (Some (stored sc rv)) \<and> passInv l {LCreateSC sc (Inr (stored sc rv))} s') s"
  using serverAcceptsD(5) [OF assms(1), of sc "lhist s"] assms(2,3)
  unfolding createStorageClassIfNotExists_def by (auto simp: passInv_def stored_def)

section \<open>A pass over an admitted LocalStorageClass\<close>

definition admitted :: "lsc_env \<Rightarrow> StorageClass list \<Rightarrow> LVG list \<Rightarrow> LocalStorageClassLVG list \<Rightarrow> LocalStorageClass \<Rightarrow> bool" where
  "admitted v scs lvgs effective lsc \<longleftrightarrow> Name lsc \<noteq> '''' \<and> DeletionTimestamp lsc = None \<and>
     resolveEffectiveLVGs (asSel v) lsc lvgs = Inr effective \<and>
     fst (validateLocalStorageClass (asSel v) (rangeOrd v) scs lsc lvgs effective)"

lemma admitted_facts:
  assumes "admitted v scs lvgs effective lsc"
  obtains lvm where "LVM lsc = Some lvm" "distinct (map le_Name effective)"
    "lvm_Type lvm = LVMThinType \<Longrightarrow> \<forall>e\<in>set effective. Thin e \<noteq> None"
    "\<And>sc. find (\<lambda>c. Name c = Name lsc) scs = Some sc \<Longrightarrow> Provisioner sc = LocalStorageClassProvisioner"
proof -
  have adm: "Name lsc \<noteq> ''''" "resolveEffectiveLVGs (asSel v) lsc lvgs = Inr effective"
    "snd (validateLocalStorageClass (asSel v) (rangeOrd v) scs lsc lvgs effective) = []"
    using assms by (simp_all add: admitted_def validateLocalStorageClass_def Let_def)
  obtain lvm where lvm: "LVM lsc = Some lvm"
    using adm(3) by (cases "LVM lsc") (simp_all add: validateLocalStorageClass_def Let_def)
  have "distinct (map le_Name effective)"
    using adm(2) resolve_iff [OF lvm] by (auto simp: lists_def)
  moreover have "\<forall>e\<in>set effective. Thin e \<noteq> None" if "lvm_Type lvm = LVMThinType"
  proof -
    have "findNonexistentThinPools lvgs effective = []"
      using adm(3) lvm that
      by (simp add: validateLocalStorageClass_def validateLVM_def Let_def split: if_splits)
    then show ?thesis
      by (auto simp: findNonexistentThinPools_def filter_empty_conv split: option.splits dest!: bspec)
  qed
  moreover have "Provisioner sc = LocalStorageClassProvisioner"
    if "find (\<lambda>c. Name c = Name lsc) scs = Some sc" for sc
  proof -
    have sc: "sc \<in> set scs" "Name sc = Name lsc"
      using that by (auto simp: find_Some_iff)
    have "findUnmanagedDuplicatedSC scs lsc = ''''"
      using adm(3) by (simp add: validateLocalStorageClass_def Let_def split: if_splits)
    with adm(1) sc show ?thesis
      by (auto simp: findUnmanagedDuplicatedSC_def find_None_iff find_Some_iff split: option.splits)
  qed
  ultimately show ?thesis
    using that [OF lvm] by blast
qed

lemma admitted_valid:
  assumes "admitted v scs lvgs effective lsc"
  shows "\<exists>msgs. validateLocalStorageClass (asSel v) (rangeOrd v) scs lsc lvgs effective = (True, msgs)"
  using assms unfolding admitted_def
  by (cases "validateLocalStorageClass (asSel v) (rangeOrd v) scs lsc lvgs effective") simp

text \<open>The StorageClass that a pass over \<^term>\<open>l\<close> leaves behind: it agrees with \<^term>\<open>l\<close>, and either it was
  there before or the pass created it.\<close>

definition leaves :: "lsc_env \<Rightarrow> StorageClass list \<Rightarrow> LocalStorageClass \<Rightarrow> LocalStorageClassLVG list \<Rightarrow>
    string list \<Rightarrow> StorageClass \<Rightarrow> lsc_state \<Rightarrow> bool" where
  "leaves v scs l effective ignored sc s \<longleftrightarrow>
     hasSCDiff (yamlOf v) sc l effective ignored = Inr False \<and> Provisioner sc = LocalStorageClassProvisioner \<and>
     (find (\<lambda>c. Name c = Name l) scs = Some sc \<or> (\<exists>c. LCreateSC c (Inr sc) \<in> set (lhist s)))"

definition settles :: "lsc_env \<Rightarrow> StorageClass list \<Rightarrow> LocalStorageClass \<Rightarrow> LocalStorageClassLVG list \<Rightarrow>
    string list \<Rightarrow> passResult \<Rightarrow> lsc_state \<Rightarrow> bool" where
  "settles v scs l effective ignored r s \<longleftrightarrow> r = (False, None) \<and> sameSpec l (cur s) \<and>
     readyFor (condsOf v) (cur s) \<and> (\<exists>sc. leaves v scs l effective ignored sc s)"

lemma settles_finish:
  assumes "retry_ok (retry_OnConflict v)" "serverAccepts v" "condLaws (condsOf v)" "passInv l E s"
    and "\<And>s'. passInv l E s' \<Longrightarrow> \<exists>sc. leaves v scs l effective ignored sc s'"
  shows "wp (finishCreated v) (settles v scs l effective ignored) s"
  by (rule wp_mono [OF accepted_finishCreated [OF assms(1-4)]])
    (auto simp: settles_def assms(5), simp add: passInv_def)

lemma built_leaves:
  assumes "yamlRoundTrip (yamlOf v)" "admitted v scs lvgs effective l"
    and "configureStorageClass (yamlOf v) l effective ignored = Inr sc \<or>
         updateStorageClass (yamlOf v) l oldSC effective ignored = Inr sc"
    and "passInv l {LCreateSC sc (Inr (stored sc rv))} s"
  shows "leaves v scs l effective ignored (stored sc rv) s"
proof -
  obtain sc0 where sc0: "configureStorageClass (yamlOf v) l effective ignored = Inr sc0"
    "Parameters sc = Parameters sc0" "Labels sc = Labels sc0" "Provisioner sc = Provisioner sc0"
    using assms(3) by (auto simp: updateStorageClass_def split: sum.splits option.splits)
  show ?thesis
  proof (rule admitted_facts [OF assms(2)])
    fix lvm assume "LVM l = Some lvm" "distinct (map le_Name effective)"
      "lvm_Type lvm = LVMThinType \<Longrightarrow> \<forall>e\<in>set effective. Thin e \<noteq> None"
    from no_diff_after_configure [OF assms(1) sc0(1) this(2,1,3), of "stored sc rv"]
    have "hasSCDiff (yamlOf v) (stored sc rv) l effective ignored = Inr False"
      using sc0 by (simp add: stored_def)
    then show ?thesis
      using assms(4) sc0(4) configure_props(1) [OF sc0(1)]
      by (auto simp: leaves_def passInv_def) (simp_all add: stored_def)
  qed
qed

lemma createPass_settles:
  assumes "retry_ok (retry_OnConflict v)" "serverAccepts v" "condLaws (condsOf v)" "yamlRoundTrip (yamlOf v)"
    and "admitted v scs lvgs effective l" "yaml_Marshal (yamlOf v) effective = Inr param"
    and "\<not> list_ex (\<lambda>c. Name c = Name l) scs" "passInv l {} s"
  shows "wp (reconcileLSCCreateFunc v scs lvgs effective ignored) (settles v scs l effective ignored) s"
proof -
  obtain lvm where lvm: "LVM l = Some lvm" by (rule admitted_facts [OF assms(5)])
  obtain sc where sc: "configureStorageClass (yamlOf v) l effective ignored = Inr sc"
    using lvm assms(6) by (simp add: configureStorageClass_def)
  note props = configure_props [OF sc]
  have finish: "wp (finishCreated v) (settles v scs l effective ignored) s'"
    if "passInv l {LCreateSC sc (Inr (stored sc rv))} s'" for s' rv
    by (rule settles_finish [OF assms(1-3) that]) (use built_leaves [OF assms(4,5)] sc in blast)
  have added: "addFinalizerIfNotExistsForSC v (stored sc rv) = State_Monad.return (Inr False)" for rv
    using props(3) by (simp add: addFinalizerIfNotExistsForSC_def stored_def)
  have create: "wp (createStorageClassIfNotExists v scs sc) (\<lambda>c. wp (case c of
       Inl e \<Rightarrow> do {
         up \<leftarrow> updateLocalStorageClassPhase v FailedStatusPhase (errText v e);
         State_Monad.return (case up of Some ue \<Rightarrow> (True, Some ue) | None \<Rightarrow> (True, Some e))
       }
     | Inr None \<Rightarrow> State_Monad.return (True, None)
     | Inr (Some created) \<Rightarrow> do {
         a \<leftarrow> addFinalizerIfNotExistsForSC v created;
         (case a of Inl e \<Rightarrow> State_Monad.return (True, Some e) | Inr _ \<Rightarrow> finishCreated v)
       }) (settles v scs l effective ignored)) s1" if "passInv l {} s1" for s1
    by (rule wp_mono [OF accepted_create [OF assms(2) that]])
      (use assms(7) props(2) in \<open>auto simp: added intro: finish\<close>)
  obtain msgs where
    valid: "validateLocalStorageClass (asSel v) (rangeOrd v) scs l lvgs effective = (True, msgs)"
    using admitted_valid [OF assms(5)] by blast
  show ?thesis
    unfolding reconcileLSCCreateFunc_def wp_bind [of "ensureFinalizer v"]
  proof (rule wp_mono [OF accepted_ensureFinalizer [OF assms(1,2,8)]], elim conjE, hypsubst, goal_cases)
    case (1 r s1)
    then have "sameSpec l (cur s1)" by (simp add: passInv_def)
    from create [OF 1] show ?case
      by (simp only: option.case wp_bind wp_get Let_def sameSpec_decisions [OF \<open>sameSpec l (cur s1)\<close>]
          valid sc prod.case sum.case simp_thms if_False)
  qed
qed

lemma updatePass_settles:
  assumes "retry_ok (retry_OnConflict v)" "serverAccepts v" "condLaws (condsOf v)" "yamlRoundTrip (yamlOf v)"
    and "admitted v scs lvgs effective l" "yaml_Marshal (yamlOf v) effective = Inr param"
    and "find (\<lambda>c. Name c = Name l) scs = Some oldSC" "hasSCDiff (yamlOf v) oldSC l effective ignored = Inr d"
    and "passInv l {} s"
  shows "wp (reconcileLSCUpdateFunc v scs lvgs effective ignored) (settles v scs l effective ignored) s"
proof -
  obtain lvm where lvm: "LVM l = Some lvm" and old: "Provisioner oldSC = LocalStorageClassProvisioner"
    using admitted_facts [OF assms(5)] assms(7) by metis
  obtain newSC where newSC: "updateStorageClass (yamlOf v) l oldSC effective ignored = Inr newSC"
    using lvm assms(6) by (simp add: updateStorageClass_def configureStorageClass_def)
  have rebuilt: "wp (finishCreated v) (settles v scs l effective ignored) s'"
    if "passInv l {LCreateSC newSC (Inr (stored newSC rv))} s'" for s' rv
    by (rule settles_finish [OF assms(1-3) that]) (use built_leaves [OF assms(4,5)] newSC in blast)
  have recreate: "wp (recreateStorageClass v oldSC newSC) (\<lambda>r. wp (case r of
      Some e \<Rightarrow> failWith v (errText v e) e | None \<Rightarrow> finishCreated v) (settles v scs l effective ignored)) s"
    by (rule wp_mono [OF accepted_recreate [OF assms(1,2,9) old]]) (auto intro: rebuilt)
  have keep: "wp (finishCreated v) (settles v scs l effective ignored) s" if "\<not> d"
    by (rule settles_finish [OF assms(1-3,9)]) (use assms(7,8) old that in \<open>auto simp: leaves_def\<close>)
  have same: "sameSpec l (cur s)" using assms(9) by (simp add: passInv_def)
  obtain msgs where
    valid: "validateLocalStorageClass (asSel v) (rangeOrd v) scs l lvgs effective = (True, msgs)"
    using admitted_valid [OF assms(5)] by blast
  show ?thesis
    unfolding reconcileLSCUpdateFunc_def wp_bind wp_get Let_def sameSpec_decisions [OF same]
      sameSpec_fields [OF same] assms(7) valid
    using keep recreate by (cases d) (simp_all add: assms(8) newSC)
qed

lemma RunEventReconcile_settles:
  assumes "retry_ok (retry_OnConflict v)" "serverAccepts v" "condLaws (condsOf v)" "yamlRoundTrip (yamlOf v)"
    and "\<And>h. cl_List_LVG v h = Inr lvgs" "admitted v scs lvgs effective l" "l = cur s"
    and "yaml_Marshal (yamlOf v) effective = Inr param"
    and "\<And>old. find (\<lambda>c. Name c = Name l) scs = Some old \<Longrightarrow>
           \<exists>d. hasSCDiff (yamlOf v) old l effective ignored = Inr d"
  shows "wp (RunEventReconcile v scs ignored) (settles v scs l effective ignored) s"
proof -
  let ?s = "s\<lparr>lhist := LListLVG (Inr lvgs) # lhist s\<rparr>"
  have inv: "passInv l {} ?s" and adm: "DeletionTimestamp l = None"
    "resolveEffectiveLVGs (asSel v) l lvgs = Inr effective"
    using assms(6,7) by (simp_all add: passInv_def admitted_def)
  have "wp (dispatch v scs l lvgs effective ignored) (settles v scs l effective ignored) ?s"
  proof (cases "find (\<lambda>c. Name c = Name l) scs")
    case None
    then have "\<not> list_ex (\<lambda>c. Name c = Name l) scs" by (auto simp: find_None_iff list_ex_iff)
    with createPass_settles [OF assms(1-4,6,8) this inv] adm(1) show ?thesis
      by (simp add: dispatch_def identifyReconcileFunc_def shouldReconcileByDeleteFunc_def
          shouldReconcileByCreateFunc_def)
  next
    case (Some old)
    then have ex: "list_ex (\<lambda>c. Name c = Name l) scs" by (auto simp: find_Some_iff list_ex_length)
    have ours: "Provisioner old = LocalStorageClassProvisioner"
      using admitted_facts [OF assms(6)] Some by metis
    obtain d where d: "hasSCDiff (yamlOf v) old l effective ignored = Inr d"
      using assms(9) [OF Some] by blast
    note upd = updatePass_settles [OF assms(1-4,6,8) Some d inv]
    have idle: "settles v scs l effective ignored (False, None) ?s" if "\<not> d" "readyFor (condsOf v) l"
      using that d ours Some assms(7) by (auto simp: settles_def leaves_def)
    show ?thesis
      using upd idle adm(1) ex ours Some d
      by (auto simp: dispatch_def identifyReconcileFunc_def shouldReconcileByDeleteFunc_def readyFor_def
          shouldReconcileByCreateFunc_def shouldReconcileByUpdateFunc_def split: option.splits)
  qed
  then show ?thesis
    unfolding RunEventReconcile_def using adm assms(5,7) by (simp add: Let_def)
qed

lemma second_pass_idle:
  assumes "\<And>h. cl_List_LVG v h = Inr lvgs" "admitted v scs lvgs effective l" "sameSpec l (cur s)"
    and "readyFor (condsOf v) (cur s)" "leaves v scs l effective ignored sc s0"
    and "find (\<lambda>c. Name c = Name l) scs' = Some sc"
  shows "run_state (RunEventReconcile v scs' ignored) s =
    ((False, None), s\<lparr>lhist := LListLVG (Inr lvgs) # lhist s\<rparr>)"
proof -
  have ex: "list_ex (\<lambda>c. Name c = Name l) scs'"
    using assms(6) by (auto simp: find_Some_iff list_ex_length)
  have "identifyReconcileFunc (yamlOf v) (condsOf v) scs' (cur s) effective ignored = Inr NoReconcile"
    using assms(2,4,5,6) ex
    by (auto simp: identifyReconcileFunc_def shouldReconcileByDeleteFunc_def shouldReconcileByCreateFunc_def
        shouldReconcileByUpdateFunc_def sameSpec_fields [OF assms(3)] sameSpec_decisions [OF assms(3)]
        admitted_def leaves_def readyFor_def)
  then have "wp (RunEventReconcile v scs' ignored)
      (\<lambda>r s'. r = (False, None) \<and> s' = s\<lparr>lhist := LListLVG (Inr lvgs) # lhist s\<rparr>) s"
    using assms(1,2) unfolding RunEventReconcile_def dispatch_def
    by (simp add: Let_def admitted_def sameSpec_fields [OF assms(3)] sameSpec_decisions [OF assms(3)])
  then show ?thesis by (simp add: wp_run prod_eq_iff)
qed

text \<open>C4: The controller converges in one pass.  Take an API server that accepts its calls, and a
  LocalStorageClass that is not being deleted and passes the validation, whose StorageClass is missing or is any
  one whose parameters can be read.  Then a pass ends without error and without requeue, leaves the
  LocalStorageClass with a true Ready condition for its generation, and either found the StorageClass as it has to
  be or created it; and the next pass, in which the server lists that StorageClass, makes no call but the
  listing of the groups.\<close>

theorem admitted_class_converges:
  assumes "retry_ok (retry_OnConflict v)" "serverAccepts v" "condLaws (condsOf v)" "yamlRoundTrip (yamlOf v)"
    and "\<And>h. cl_List_LVG v h = Inr lvgs" "admitted v scs lvgs effective (cur s)" "lhist s = []"
    and "yaml_Marshal (yamlOf v) effective = Inr param"
    and "\<And>old. find (\<lambda>c. Name c = Name (cur s)) scs = Some old \<Longrightarrow>
           \<exists>d. hasSCDiff (yamlOf v) old (cur s) effective ignored = Inr d"
  shows "case run_state (RunEventReconcile v scs ignored) s of (r, s') \<Rightarrow>
    r = (False, None) \<and> readyFor (condsOf v) (cur s') \<and>
    (\<exists>sc. (find (\<lambda>c. Name c = Name (cur s)) scs = Some sc \<or> (\<exists>c. LCreateSC c (Inr sc) \<in> set (lhist s'))) \<and>
      (\<forall>scs'. find (\<lambda>c. Name c = Name (cur s)) scs' = Some sc \<longrightarrow>
         run_state (RunEventReconcile v scs' ignored) s' =
           ((False, None), s'\<lparr>lhist := LListLVG (Inr lvgs) # lhist s'\<rparr>)))"
proof -
  obtain r s' where run: "run_state (RunEventReconcile v scs ignored) s = (r, s')" by fastforce
  have "settles v scs (cur s) effective ignored r s'"
    by (rule wp_runD [OF RunEventReconcile_settles [OF assms(1-6) refl assms(8,9)] run])
  then obtain sc where settled: "r = (False, None)" "sameSpec (cur s) (cur s')" "readyFor (condsOf v) (cur s')"
    "leaves v scs (cur s) effective ignored sc s'"
    unfolding settles_def by blast
  from second_pass_idle [OF assms(5,6) this(2-4)] this show ?thesis
    unfolding run by (auto simp: leaves_def)
qed

lemma demoLsc_accepts: "serverAccepts demoLscEnv" "condLaws (condsOf demoLscEnv)" "yamlRoundTrip (yamlOf demoLscEnv)"
proof -
  have "\<exists>rv. sc = sc\<lparr>ResourceVersion := rv\<rparr>" for sc :: StorageClass
    by (rule exI [of _ "ResourceVersion sc"]) simp
  then show "serverAccepts demoLscEnv"
    by (simp add: serverAccepts_def demoLscEnv_def)
  show "condLaws (condsOf demoLscEnv)"
    by (auto simp: condLaws_def demoLscEnv_def demoConds_def list_ex_iff)
qed (simp add: demoLscEnv_def)

lemma demoLSC_admitted:
  "admitted demoLscEnv [] [demoLVG ''vg-1'' ''n1''] [namedEntry ''vg-1'' None] demoLSC"
proof -
  have "fst (validateLocalStorageClass demoSelector (\<lambda>xs. xs) [] demoLSC [demoLVG ''vg-1'' ''n1'']
      [namedEntry ''vg-1'' None])"
    "resolveEffectiveLVGs demoSelector demoLSC [demoLVG ''vg-1'' ''n1''] = Inr [namedEntry ''vg-1'' None]"
    by code_simp+
  then show ?thesis
    by (simp add: admitted_def demoLscEnv_def) (simp add: demoLSC_def objmeta.extend_def meta0_def)
qed

theorem admitted_class_converges_witness:
  "fst (run_state (RunEventReconcile demoLscEnv [] []) (demoLscStart demoLSC)) = (False, None) \<and>
   readyFor demoConds (cur (snd (run_state (RunEventReconcile demoLscEnv [] []) (demoLscStart demoLSC))))"
proof -
  have "cl_List_LVG demoLscEnv h = Inr [demoLVG ''vg-1'' ''n1'']" for h
    by (simp add: demoLscEnv_def)
  moreover have "yaml_Marshal (yamlOf demoLscEnv) [namedEntry ''vg-1'' None] = Inr ''one''"
    by (simp add: demoLscEnv_def demoYaml_def)
  ultimately show ?thesis
    using admitted_class_converges [OF demoLsc_retry demoLsc_accepts, where s = "demoLscStart demoLSC" and scs = "[]"
      and ignored = "[]" and lvgs = "[demoLVG ''vg-1'' ''n1'']" and effective = "[namedEntry ''vg-1'' None]"
      and param = "''one''"] demoLSC_admitted
    by (simp add: demoLscStart_def split: prod.splits) (simp add: demoLscEnv_def)
qed

end
