(* ===== verification/Process_Start.thy ===== *)
theory Process_Start
  imports Settings GC_Process Watcher_Model LSC_Reconcile
begin

text \<open>
  How the three processes start: the \<^verbatim>\<open>main\<close> functions of the controller, the CSI driver and the webhooks, with the
  construction of their clients (\<^verbatim>\<open>pkg/kubutils/kubernetes.go\<close> of the first two, \<^verbatim>\<open>handlers/func.go\<close> of the
  last).

  Each call of a library is a step; the world answers it with an error or none, seeing the steps so far, and the
  history keeps both.  What a library builds (a client, a manager, a handler) is opaque; a step that takes
  something another step built says whether it was built, where the code can get that far without it.
\<close>

section \<open>Steps\<close>

text \<open>The options of the manager and of its cache that the controller sets.\<close>

record 'o manager_Options =
  LeaderElection :: bool
  LeaderElectionNamespace :: string
  LeaderElectionID :: string
  mo_HealthProbeBindAddress :: string
  Metrics_BindAddress :: string
  DefaultNamespaces :: "string list"
  PersistentVolume_Transform :: "'o cacheItem \<Rightarrow> 'o cacheItem"

datatype 'o start_step =
    StInClusterConfig
  | StClientConfig
  | StBuildConfig string
  | StAddToScheme string
  | StRegisterMetric metric_decl
  | StAddCollector
  | StNewManager bool "'o manager_Options"
  | StRunController string
  | StAddHealthzCheck
  | StAddReadyzCheck
  | StManagerStart
  | StNewClient
  | StGoServe string "string list"
  | StDriverRun bool csi_driver
  | StNewMutatingWebhook string string
  | StNewValidatingWebhook string string
  | StHandlerFor string
  | StListenAndServeTLS string string string "(string \<times> string) list"

type_synonym 'o start_events = "('o start_step \<times> string option) list"
type_synonym 'o start_world = "'o start_step \<Rightarrow> 'o start_events \<Rightarrow> string option"
type_synonym ('o, 'a) starter = "('o start_events, 'a) state"

datatype exit = MainReturns | OsExit nat | KlogFatal | NilDereference

definition sask :: "'o start_world \<Rightarrow> 'o start_step \<Rightarrow> ('o, string option) starter" where
  "sask v st = State (\<lambda>h. let x = v st h in (x, (st, x) # h))"

lemma wp_sask [simp, wp_rules]: "wp (sask v st) Q = (\<lambda>h. Q (v st h) ((st, v st h) # h))"
  by (rule ext) (simp add: sask_def wp_State Let_def)

text \<open>\<^verbatim>\<open>if err := step; err != nil { leave }\<close>, and a row of such steps.\<close>

definition must :: "'o start_world \<Rightarrow> (string \<Rightarrow> 'a) \<Rightarrow> 'o start_step \<Rightarrow> ('o, 'a) starter \<Rightarrow> ('o, 'a) starter" where
  "must v leave st k = do {
     x \<leftarrow> sask v st;
     case x of Some e \<Rightarrow> State_Monad.return (leave e) | None \<Rightarrow> k
   }"

definition musts :: "'o start_world \<Rightarrow> (string \<Rightarrow> 'a) \<Rightarrow> 'o start_step list \<Rightarrow> ('o, 'a) starter \<Rightarrow> ('o, 'a) starter" where
  "musts v leave sts k = foldr (must v leave) sts k"

definition exit1 :: "string \<Rightarrow> exit" where
  "exit1 e = OsExit 1"

section \<open>The controller\<close>

definition ControllerName :: string where "ControllerName = ''d8-controller''"

definition resourcesSchemeFuncs :: "string list" where
  "resourcesSchemeFuncs = [''snc'', ''slv'', ''clientgoscheme'', ''extv1'', ''v1'', ''sv1'']"

definition managerOpts :: "controller_Options \<Rightarrow> 'o manager_Options" where
  "managerOpts cfg = \<lparr>
     LeaderElection = True,
     LeaderElectionNamespace = opt_ControllerNamespace cfg,
     LeaderElectionID = ControllerName,
     mo_HealthProbeBindAddress = HealthProbeBindAddress cfg,
     Metrics_BindAddress = MetricsBindAddress cfg,
     DefaultNamespaces = [opt_ControllerNamespace cfg],
     PersistentVolume_Transform = StripPersistentVolume\<rparr>"

definition KubernetesDefaultConfigCreate :: "'o start_world \<Rightarrow> ('o, string option) starter" where
  "KubernetesDefaultConfigCreate v = sask v StClientConfig"

text \<open>A failure to find the configuration of the cluster is only logged.\<close>

definition controller_main :: "process_env \<Rightarrow> 'o start_world \<Rightarrow> ('o, exit) starter" where
  "controller_main w v =
    (let cfgParams = NewConfig w in
     case NewLogger (Loglevel cfgParams) of
       Inl _ \<Rightarrow> State_Monad.return (OsExit 1)
     | Inr _ \<Rightarrow> do {
         kErr \<leftarrow> KubernetesDefaultConfigCreate v;
         musts v exit1 (map StAddToScheme resourcesSchemeFuncs) (
         musts v exit1 (map StRegisterMetric Metrics_Model.declarations) (
         must v exit1 StAddCollector (
         must v exit1 (StNewManager (kErr = None) (managerOpts cfgParams)) (
         must v exit1 (StRunController LocalStorageClassCtrlName) (
         must v exit1 (StRunController LocalCSINodeWatcherCtrl) (
         must v exit1 (StRunController LVMLogicalVolumeGCCtrlName) (
         must v exit1 StAddHealthzCheck (
         must v exit1 StAddReadyzCheck (
         must v exit1 StManagerStart (
         State_Monad.return MainReturns))))))))))
       })"

section \<open>The CSI driver\<close>

definition csi_KubernetesDefaultConfigCreate :: "'o start_world \<Rightarrow> ('o, string option) starter" where
  "csi_KubernetesDefaultConfigCreate v = do {
     x \<leftarrow> sask v StInClusterConfig;
     case x of
       None \<Rightarrow> State_Monad.return None
     | Some _ \<Rightarrow> sask v StClientConfig
   }"

text \<open>
  From the making of the client on.  A server in a goroutine of its own is a step whose failure is only logged.
  The error of \<^verbatim>\<open>client.New\<close> is not looked at; \<^verbatim>\<open>Run\<close> gets the driver either way.  \<^verbatim>\<open>NewDriver\<close> cannot fail on the
  address of a variable.  The signal handler, which cancels the context of \<^verbatim>\<open>Run\<close>, is the step \<^verbatim>\<open>cancel\<close> of
  \<^term>\<open>serve_step\<close>.
\<close>

definition csi_serve :: "csi_Options \<Rightarrow> 'o start_world \<Rightarrow> ('o, exit) starter" where
  "csi_serve cfgParams v = do {
     clErr \<leftarrow> sask v StNewClient;
     _ \<leftarrow> sask v (StGoServe (co_HealthProbeBindAddress cfgParams) [''/healthz'', ''/readyz'']);
     musts v exit1 (map StRegisterMetric csiDeclarations) (do {
       _ \<leftarrow> sask v (StGoServe (co_MetricsBindAddress cfgParams) [''/metrics'']);
       (case NewDriver (CsiAddress cfgParams) (DriverName cfgParams) (Address cfgParams)
              (Some (co_NodeName cfgParams)) of
         None \<Rightarrow> State_Monad.return NilDereference
       | Some drv \<Rightarrow> do {
           _ \<leftarrow> sask v (StDriverRun (clErr = None) drv);
           State_Monad.return MainReturns
         })
     })
   }"

definition csi_main :: "process_env \<Rightarrow> flag_parser \<Rightarrow> 'o start_world \<Rightarrow> ('o, exit) starter" where
  "csi_main w parse v =
    (case csi_NewConfig w parse of
       Inl _ \<Rightarrow> State_Monad.return KlogFatal
     | Inr cfgParams \<Rightarrow> (case NewLogger (co_Loglevel cfgParams) of
         Inl _ \<Rightarrow> State_Monad.return (OsExit 1)
       | Inr _ \<Rightarrow> do {
           kErr \<leftarrow> csi_KubernetesDefaultConfigCreate v;
           (case kErr of
             Some _ \<Rightarrow> State_Monad.return (OsExit 1)
           | None \<Rightarrow> musts v exit1 (map StAddToScheme resourcesSchemeFuncs) (csi_serve cfgParams v))
         }))"

section \<open>The webhooks\<close>

definition port :: string where "port = '':8443''"
definition PodSchedulerMutatorID :: string where "PodSchedulerMutatorID = ''PodSchedulerMutation''"
definition LSCValidatorID :: string where "LSCValidatorID = ''LSCValidator''"
definition SCValidatorID :: string where "SCValidatorID = ''SCValidator''"

definition webhookSchemeFuncs :: "string list" where
  "webhookSchemeFuncs = [''d8commonapi'', ''snc'', ''clientgoscheme'', ''extv1'', ''v1'', ''sv1'']"

text \<open>The client a validation makes for itself; the result is the error.\<close>

definition NewKubeClient :: "process_env \<Rightarrow> 'o start_world \<Rightarrow> string \<Rightarrow> ('o, string option) starter" where
  "NewKubeClient w v kubeconfigPath =
    (let kubeconfigPath = (if kubeconfigPath = '''' then os_Getenv w ''kubeconfig'' else kubeconfigPath) in
     must v Some (StBuildConfig kubeconfigPath) (
     musts v Some (map StAddToScheme webhookSchemeFuncs) (
     sask v StNewClient)))"

definition GetMutatingWebhookHandler :: "'o start_world \<Rightarrow> string \<Rightarrow> string \<Rightarrow> ('o, string option) starter" where
  "GetMutatingWebhookHandler v mutatorID obj =
     must v Some (StNewMutatingWebhook mutatorID obj) (sask v (StHandlerFor mutatorID))"

definition GetValidatingWebhookHandler :: "'o start_world \<Rightarrow> string \<Rightarrow> string \<Rightarrow> ('o, string option) starter" where
  "GetValidatingWebhookHandler v validatorID obj =
     must v Some (StNewValidatingWebhook validatorID obj) (sask v (StHandlerFor validatorID))"

definition webhook_routes :: "(string \<times> string) list" where
  "webhook_routes = [(''/pod-scheduler-mutate'', PodSchedulerMutatorID), (''/lsc-validate'', LSCValidatorID),
     (''/sc-validate'', SCValidatorID), (''/healthz'', ''httpHandlerHealthz'')]"

definition orExit :: "('o, string option) starter \<Rightarrow> ('o, exit) starter \<Rightarrow> ('o, exit) starter" where
  "orExit m k = do {
     x \<leftarrow> m;
     case x of Some _ \<Rightarrow> State_Monad.return (OsExit 1) | None \<Rightarrow> k
   }"

definition webhooks_main :: "flag_parser \<Rightarrow> 'o start_world \<Rightarrow> ('o, exit) starter" where
  "webhooks_main parse v =
    (case initFlags parse of
       (cfg, Some _) \<Rightarrow> State_Monad.return (OsExit 1)
     | (cfg, None) \<Rightarrow> (case NewLogger (logLevel cfg) of
         Inl _ \<Rightarrow> State_Monad.return (OsExit 1)
       | Inr _ \<Rightarrow>
           orExit (GetMutatingWebhookHandler v PodSchedulerMutatorID ''Pod'') (
           orExit (GetValidatingWebhookHandler v LSCValidatorID ''LocalStorageClass'') (
           orExit (GetValidatingWebhookHandler v SCValidatorID ''StorageClass'') (
           must v exit1 (StListenAndServeTLS port (certFile cfg) (keyFile cfg) webhook_routes) (
           State_Monad.return MainReturns))))))"

section \<open>What a start does\<close>

text \<open>
  A process that follows a plan takes its steps in this order, each once, and leaves at the first one
  that fails; the events are the oldest first.
\<close>

fun follows :: "'o start_step list \<Rightarrow> 'o start_events \<Rightarrow> exit \<Rightarrow> bool" where
  "follows [] evs r \<longleftrightarrow> evs = [] \<and> r = MainReturns"
| "follows (p # ps) [] r \<longleftrightarrow> False"
| "follows (p # ps) ((st, x) # evs) r \<longleftrightarrow> st = p \<and>
     (case x of None \<Rightarrow> follows ps evs r | Some _ \<Rightarrow> evs = [] \<and> r = OsExit 1)"

lemma must_Nil_append: "musts v leave [] k = k" "musts v leave (st # sts) k = must v leave st (musts v leave sts k)"
  by (simp_all add: musts_def)

lemma musts_append: "musts v leave (xs @ ys) k = musts v leave xs (musts v leave ys k)"
  by (simp add: musts_def)

lemma musts_follows:
  "wp (musts v exit1 plan (State_Monad.return MainReturns)) (\<lambda>r h. \<exists>evs. h = rev evs @ h0 \<and> follows plan evs r) h0"
proof (induction plan arbitrary: h0)
  case (Cons p ps)
  let ?x = "v p h0"
  show ?case
  proof (cases ?x)
    case None
    have "wp (musts v exit1 ps (State_Monad.return MainReturns))
        (\<lambda>r h. \<exists>evs. h = rev evs @ h0 \<and> follows (p # ps) evs r) ((p, None) # h0)"
    proof (rule wp_mono [OF Cons.IH], elim exE conjE)
      fix r h evs assume "h = rev evs @ (p, None) # h0" "follows ps evs r"
      then show "\<exists>evs. h = rev evs @ h0 \<and> follows (p # ps) evs r"
        by (intro exI [of _ "(p, None) # evs"]) simp
    qed
    then show ?thesis
      by (simp add: must_Nil_append must_def None)
  next
    case (Some e)
    then show ?thesis
      by (auto simp: must_Nil_append must_def exit1_def intro!: exI [of _ "[(p, Some e)]"])
  qed
qed (simp add: must_Nil_append)

lemma follows_started:
  "follows (ps @ [p]) evs r \<Longrightarrow> (p, x) \<in> set evs \<Longrightarrow> p \<notin> set ps \<Longrightarrow>
     evs = map (\<lambda>st. (st, None)) ps @ [(p, x)] \<and> r = (case x of None \<Rightarrow> MainReturns | Some _ \<Rightarrow> OsExit 1)"
  by (induction ps evs r rule: follows.induct) (auto split: option.splits elim: follows.elims)

lemma follows_prefix: "follows ps evs r \<Longrightarrow> prefix (map fst evs) ps"
  by (induction ps evs r rule: follows.induct) (auto split: option.splits)

text \<open>The steps of the controller after the configuration of the cluster was looked up.\<close>

definition controllerPlan :: "controller_Options \<Rightarrow> bool \<Rightarrow> 'o start_step list" where
  "controllerPlan cfg found = map StAddToScheme resourcesSchemeFuncs @
     map StRegisterMetric Metrics_Model.declarations @
     [StAddCollector, StNewManager found (managerOpts cfg), StRunController LocalStorageClassCtrlName,
      StRunController LocalCSINodeWatcherCtrl, StRunController LVMLogicalVolumeGCCtrlName,
      StAddHealthzCheck, StAddReadyzCheck, StManagerStart]"

lemma orExit_handler:
  "orExit (must v Some a (sask v b)) k = must v exit1 a (must v exit1 b k)"
  unfolding orExit_def must_def exit1_def
  by (rule state.expand, rule ext)
    (simp add: State_Monad.bind_def sask_def State_Monad.return_def Let_def split: option.splits)

text \<open>The controller follows its plan: nothing happens without a logger, and otherwise the schemes, the metrics,
  the manager, the three controllers and the probes are set up in this order before the manager is
  started; the first failure ends the process with code 1.\<close>

theorem controller_starts_in_order:
  "case run_state (controller_main w v) [] of (r, h) \<Rightarrow>
    (case NewLogger (Loglevel (NewConfig w)) of
      Inl _ \<Rightarrow> r = OsExit 1 \<and> h = []
    | Inr _ \<Rightarrow> \<exists>x evs. h = rev evs @ [(StClientConfig, x)] \<and>
        follows (controllerPlan (NewConfig w) (x = None)) evs r)"
proof (cases "NewLogger (Loglevel (NewConfig w))")
  case (Inr l)
  let ?x = "v StClientConfig []"
  have "controller_main w v = do {
      kErr \<leftarrow> sask v StClientConfig;
      musts v exit1 (controllerPlan (NewConfig w) (kErr = None)) (State_Monad.return MainReturns)
    }"
    by (simp add: controller_main_def Inr KubernetesDefaultConfigCreate_def controllerPlan_def musts_append must_Nil_append Let_def)
  with musts_follows [of v "controllerPlan (NewConfig w) (?x = None)" "[(StClientConfig, ?x)]"]
  have "wp (controller_main w v) (\<lambda>r h. \<exists>x evs. h = rev evs @ [(StClientConfig, x)] \<and>
      follows (controllerPlan (NewConfig w) (x = None)) evs r) []"
    by (auto elim!: wp_mono)
  then show ?thesis by (simp add: wp_def Inr split: prod.splits)
qed (simp add: controller_main_def Let_def State_Monad.return_def)

text \<open>When the manager is started, everything it needs is there, and it leads and watches the configured namespace.\<close>

lemma manager_starts_complete:
  assumes "run_state (controller_main w v) [] = (r, h)" "(StManagerStart, x) \<in> set h"
  shows "\<exists>found. set (controllerPlan (NewConfig w) found) \<subseteq> fst ` set h \<and>
    (\<forall>st y. (st, y) \<in> set h \<longrightarrow> st \<notin> {StClientConfig, StManagerStart} \<longrightarrow> y = None) \<and>
    r = (case x of None \<Rightarrow> MainReturns | Some _ \<Rightarrow> OsExit 1)"
proof -
  have "NewLogger (Loglevel (NewConfig w)) \<noteq> Inl e" for e
    using controller_starts_in_order [of w v] assms by (auto split: sum.splits)
  then obtain c evs where h: "h = rev evs @ [(StClientConfig, c)]"
    and evs: "follows (controllerPlan (NewConfig w) (c = None)) evs r"
    using controller_starts_in_order [of w v] assms(1) by (cases "NewLogger (Loglevel (NewConfig w))") auto
  let ?plan = "controllerPlan (NewConfig w) (c = None) :: 'a start_step list"
  have "?plan = butlast ?plan @ [StManagerStart]" "StManagerStart \<notin> set (butlast ?plan)"
    by (auto simp: controllerPlan_def butlast_append)
  then obtain ps where plan: "?plan = ps @ [StManagerStart]" "StManagerStart \<notin> set ps"
    by blast
  have "evs = map (\<lambda>st. (st, None)) ps @ [(StManagerStart, x)] \<and> r = (case x of None \<Rightarrow> MainReturns | Some _ \<Rightarrow> OsExit 1)"
    by (rule follows_started) (use evs plan assms(2) h in auto)
  then show ?thesis
    using plan(1) h by (intro exI [of _ "c = None"]) (force simp: image_Un image_image)
qed

definition webhooksPlan :: "webhook_config \<Rightarrow> 'o start_step list" where
  "webhooksPlan cfg =
    [StNewMutatingWebhook PodSchedulerMutatorID ''Pod'', StHandlerFor PodSchedulerMutatorID,
     StNewValidatingWebhook LSCValidatorID ''LocalStorageClass'', StHandlerFor LSCValidatorID,
     StNewValidatingWebhook SCValidatorID ''StorageClass'', StHandlerFor SCValidatorID,
     StListenAndServeTLS port (certFile cfg) (keyFile cfg) webhook_routes]"

text \<open>The webhooks follow theirs: they listen only when the flags are valid and all three handlers exist, and
  every path they serve belongs to one of these handlers or to the probe.\<close>

theorem webhooks_start_in_order:
  "case run_state (webhooks_main parse v) [] of (r, h) \<Rightarrow>
    if snd (initFlags parse) \<noteq> None then r = OsExit 1 \<and> h = []
    else follows (webhooksPlan (fst (initFlags parse))) (rev h) r"
proof (cases "initFlags parse")
  case (Pair cfg err)
  have "\<exists>l. NewLogger (logLevel cfg) = Inr l" if "err = None"
    using Pair that by (auto simp: initFlags_def NewLogger_def Let_def split: sum.splits option.splits prod.splits)
  moreover have "webhooks_main parse v = musts v exit1 (webhooksPlan cfg) (State_Monad.return MainReturns)"
    if "err = None" "NewLogger (logLevel cfg) = Inr l" for l
    by (simp add: webhooks_main_def Pair that GetMutatingWebhookHandler_def GetValidatingWebhookHandler_def
        orExit_handler webhooksPlan_def must_Nil_append)
  moreover have "webhooks_main parse v = State_Monad.return (OsExit 1)" if "err \<noteq> None"
    using that by (auto simp: webhooks_main_def Pair)
  moreover note musts_follows [of v "webhooksPlan cfg :: 'a start_step list" "[]"]
  ultimately show ?thesis
    by (cases err) (auto simp: Pair wp_def State_Monad.return_def split: prod.splits)
qed

text \<open>The CSI driver runs only with the configuration of the cluster and with its schemes and metrics
  registered, and then \<^verbatim>\<open>main\<close> returns whatever \<^verbatim>\<open>Run\<close> answers; but nothing makes it have a client.\<close>

lemma musts_inv:
  assumes "\<And>h st. st \<in> set plan \<Longrightarrow> I h \<Longrightarrow> I ((st, v st h) # h)" "I h"
    and "\<And>h e. I h \<Longrightarrow> Q (leave e) h" "\<And>h. I h \<Longrightarrow> (\<forall>st \<in> set plan. (st, None) \<in> set h) \<Longrightarrow> wp k Q h"
  shows "wp (musts v leave plan k) Q h"
  using assms
proof (induction plan arbitrary: I h)
  case (Cons p ps)
  show ?case
    unfolding must_Nil_append must_def wp_bind wp_sask
  proof (cases "v p h")
    case None
    have "wp (musts v leave ps k) Q ((p, None) # h)"
      by (rule Cons.IH [where I = "\<lambda>h. I h \<and> (p, None) \<in> set h"])
        (use Cons.prems(1) [of p h] Cons.prems None in auto)
    then show "wp (case v p h of None \<Rightarrow> musts v leave ps k | Some e \<Rightarrow> State_Monad.return (leave e)) Q ((p, v p h) # h)"
      by (simp add: None)
  next
    case (Some e)
    then show "wp (case v p h of None \<Rightarrow> musts v leave ps k | Some e \<Rightarrow> State_Monad.return (leave e)) Q ((p, v p h) # h)"
      using Cons.prems(1) [of p h] Cons.prems(2,3) by simp
  qed
qed (simp add: must_Nil_append)

definition ran :: "'o start_events \<Rightarrow> bool" where
  "ran h \<longleftrightarrow> (\<exists>b drv x. (StDriverRun b drv, x) \<in> set h)"

definition configured :: "'o start_events \<Rightarrow> bool" where
  "configured h \<longleftrightarrow> (StInClusterConfig, None) \<in> set h \<or> (StClientConfig, None) \<in> set h"

lemma ran_simps [simp]:
  "\<not> ran []" "ran ((st, x) # h) \<longleftrightarrow> (\<exists>b drv. st = StDriverRun b drv) \<or> ran h"
  by (auto simp: ran_def)

lemma configured_Cons [simp]: "configured h \<Longrightarrow> configured (e # h)"
  by (auto simp: configured_def)

text \<open>What holds when \<^verbatim>\<open>main\<close> has called \<^verbatim>\<open>Run\<close>.\<close>

definition csiRunOk :: "csi_Options \<Rightarrow> exit \<Rightarrow> 'o start_events \<Rightarrow> bool" where
  "csiRunOk cfg r h \<longleftrightarrow> (ran h \<longrightarrow> r = MainReturns \<and> configured h \<and>
     (\<forall>st \<in> set (map StAddToScheme resourcesSchemeFuncs @ map StRegisterMetric csiDeclarations). (st, None) \<in> set h) \<and>
     (\<exists>drv x h'. h = (StDriverRun ((StNewClient, None) \<in> set h') drv, x) # h' \<and> \<not> ran h' \<and>
        drv_csiAddress drv = CsiAddress cfg \<and> drv_hostID drv = co_NodeName cfg \<and> \<not> drv_ready drv))"

lemma csiRunOk_idle: "\<not> ran h \<Longrightarrow> csiRunOk cfg r h"
  by (simp add: csiRunOk_def)

lemma csi_run_ok:
  assumes "\<not> ran h" "configured h" "b \<longleftrightarrow> (StNewClient, None) \<in> set h"
    and "\<forall>st \<in> set (map StAddToScheme resourcesSchemeFuncs @ map StRegisterMetric csiDeclarations). (st, None) \<in> set h"
  shows "wp (case NewDriver (CsiAddress cfg) (DriverName cfg) (Address cfg) (Some (co_NodeName cfg)) of
      None \<Rightarrow> State_Monad.return NilDereference
    | Some drv \<Rightarrow> do { _ \<leftarrow> sask v (StDriverRun b drv); State_Monad.return MainReturns }) (csiRunOk cfg) h"
proof -
  obtain drv where drv: "NewDriver (CsiAddress cfg) (DriverName cfg) (Address cfg) (Some (co_NodeName cfg)) = Some drv"
    "drv_csiAddress drv = CsiAddress cfg" "drv_hostID drv = co_NodeName cfg" "\<not> drv_ready drv"
    by (simp add: NewDriver_def Let_def)
  have "csiRunOk cfg MainReturns ((StDriverRun b drv, x) # h)" for x
    unfolding csiRunOk_def using assms drv(2-4)
    by (intro impI conjI exI [of _ drv] exI [of _ x] exI [of _ h]) auto
  then show ?thesis by (simp add: drv(1))
qed

lemma csi_serve_ok:
  fixes v :: "'o start_world"
  assumes "\<not> ran h" "configured h" "\<forall>st \<in> set (map StAddToScheme resourcesSchemeFuncs). (st, None) \<in> set h"
    and "StNewClient \<notin> fst ` set h"
  shows "wp (csi_serve cfg v) (csiRunOk cfg) h"
proof -
  let ?c = "v StNewClient h"
  let ?I = "\<lambda>h' :: 'o start_events. \<not> ran h' \<and> configured h' \<and>
    (\<forall>st \<in> set (map StAddToScheme resourcesSchemeFuncs). (st, None) \<in> set h') \<and>
    ((StNewClient, None) \<in> set h' \<longleftrightarrow> ?c = None)"
  show ?thesis
    unfolding csi_serve_def wp_bind wp_sask
  proof (rule musts_inv [where I = ?I])
    fix h' and st :: "'o start_step" assume "st \<in> set (map StRegisterMetric csiDeclarations)" "?I h'"
    then show "?I ((st, v st h') # h')" by auto
  next
    show "?I ((StGoServe (co_HealthProbeBindAddress cfg) [''/healthz'', ''/readyz''],
        v (StGoServe (co_HealthProbeBindAddress cfg) [''/healthz'', ''/readyz'']) ((StNewClient, ?c) # h)) #
        (StNewClient, ?c) # h)"
      using assms by (force simp: image_iff)
  next
    fix h' :: "'o start_events"
    assume "?I h'" "\<forall>st \<in> set (map StRegisterMetric csiDeclarations). (st, None) \<in> set h'"
    then show "wp (do {
          _ \<leftarrow> sask v (StGoServe (co_MetricsBindAddress cfg) [''/metrics'']);
          (case NewDriver (CsiAddress cfg) (DriverName cfg) (Address cfg) (Some (co_NodeName cfg)) of
            None \<Rightarrow> State_Monad.return NilDereference
          | Some drv \<Rightarrow> do { _ \<leftarrow> sask v (StDriverRun (?c = None) drv); State_Monad.return MainReturns })
        }) (csiRunOk cfg) h'"
      unfolding wp_bind wp_sask by (intro csi_run_ok [unfolded wp_bind wp_sask]) auto
  qed (simp add: csiRunOk_idle)
qed

lemma csi_schemes_ok:
  fixes v :: "'o start_world"
  assumes "\<not> ran h" "configured h" "StNewClient \<notin> fst ` set h"
  shows "wp (musts v exit1 (map StAddToScheme resourcesSchemeFuncs) (csi_serve cfg v)) (csiRunOk cfg) h"
proof (rule musts_inv [where I = "\<lambda>h. \<not> ran h \<and> configured h \<and> StNewClient \<notin> fst ` set h"])
  fix h' :: "'o start_events" and st :: "'o start_step"
  assume "st \<in> set (map StAddToScheme resourcesSchemeFuncs)" "\<not> ran h' \<and> configured h' \<and> StNewClient \<notin> fst ` set h'"
  then show "\<not> ran ((st, v st h') # h') \<and> configured ((st, v st h') # h') \<and> StNewClient \<notin> fst ` set ((st, v st h') # h')"
    by auto
next
  fix h' :: "'o start_events"
  assume "\<not> ran h' \<and> configured h' \<and> StNewClient \<notin> fst ` set h'"
    "\<forall>st \<in> set (map StAddToScheme resourcesSchemeFuncs). (st, None) \<in> set h'"
  then show "wp (csi_serve cfg v) (csiRunOk cfg) h'"
    by (intro csi_serve_ok) blast+
qed (use assms in \<open>simp_all add: csiRunOk_idle\<close>)

text \<open>The driver is run only with the configuration of the cluster found, and with the schemes and metrics
  registered; it listens where the flags say and is not ready before \<^verbatim>\<open>Run\<close> makes it so.  What \<^verbatim>\<open>Run\<close> returns
  does not change how \<^verbatim>\<open>main\<close> ends.  Whether it has a client is exactly whether \<^verbatim>\<open>client.New\<close> succeeded, which is no
  condition of the run.\<close>

theorem csi_runs_in_order:
  "case run_state (csi_main w parse v) [] of (r, h) \<Rightarrow>
    (case csi_NewConfig w parse of
      Inl _ \<Rightarrow> r = KlogFatal \<and> h = []
    | Inr cfg \<Rightarrow> csiRunOk cfg r h)"
proof (cases "csi_NewConfig w parse")
  case (Inr cfg)
  have "wp (csi_main w parse v) (csiRunOk cfg) []"
    unfolding csi_main_def Inr csi_KubernetesDefaultConfigCreate_def
    by (auto simp: csiRunOk_idle wp_rules configured_def split: sum.split option.split
        intro!: csi_schemes_ok)
  then show ?thesis by (simp add: wp_def Inr split: prod.splits)
qed (simp add: csi_main_def State_Monad.return_def)

definition demoStartEnv :: process_env where
  "demoStartEnv = \<lparr>os_Getenv = (\<lambda>n. if n = ''KUBE_NODE_NAME'' then ''n1'' else ''''),
     readNamespaceFile = Inr ''d8-sds-local-volume'', time_ParseDuration = (\<lambda>s. Inl ''bad'')\<rparr>"

text \<open>A world in which only \<^verbatim>\<open>client.New\<close> fails: the driver is run without a client.\<close>

definition noClient :: "unit start_world" where
  "noClient st h = (case st of StNewClient \<Rightarrow> Some ''no server'' | _ \<Rightarrow> None)"

definition ranWithoutClient :: "'o start_events \<Rightarrow> bool" where
  "ranWithoutClient h \<longleftrightarrow> list_ex (\<lambda>(st, x). case st of StDriverRun found _ \<Rightarrow> \<not> found | _ \<Rightarrow> False) h"

lemma driver_runs_without_client:
  "ranWithoutClient (snd (run_state (csi_main demoStartEnv (\<lambda>flags. Inr (fmap_of_list flags)) noClient) []))"
  by code_simp

end
