(* ===== verification/Metrics_Properties.thy ===== *)
theory Metrics_Properties
  imports Metrics_Model
begin

text \<open>
  The calls of the recorder fit the declared metrics, and what a scrape shows after a sweep is published is the
  picture of that sweep, for every metrics library that honours its documented contract.
\<close>

section \<open>Calls and declarations\<close>

definition declaredAs :: "metric_decl list \<Rightarrow> metric_kind \<Rightarrow> string \<Rightarrow> strmap \<Rightarrow> int list \<Rightarrow> bool" where
  "declaredAs decls kind name labels buckets \<longleftrightarrow> list_ex (\<lambda>d. decl_Kind d = kind \<and> decl_Name d = name \<and>
     fmdom labels = fset_of_list (decl_Labels d) \<and> decl_Buckets d = buckets) decls"

definition conforms :: "metric_decl list \<Rightarrow> metric_call \<Rightarrow> bool" where
  "conforms decls call = (case call of
     CounterAdd name _ labels \<Rightarrow> declaredAs decls CounterMetric name labels []
   | HistogramObserve name _ labels buckets \<Rightarrow> declaredAs decls HistogramMetric name labels buckets
   | GaugeSet _ name _ labels \<Rightarrow> declaredAs decls GaugeMetric name labels []
   | ExpireGroupMetrics _ \<Rightarrow> True
   | ExpireGroupMetricByName _ name \<Rightarrow> list_ex (\<lambda>d. decl_Kind d = GaugeMetric \<and> decl_Name d = name) decls)"

definition wellDeclared :: "metric_decl list \<Rightarrow> bool" where
  "wellDeclared decls \<longleftrightarrow> distinct (map decl_Name decls) \<and> list_all (\<lambda>d. distinct (decl_Labels d)) decls \<and>
     list_all (\<lambda>d. decl_Kind d = HistogramMetric \<longrightarrow> decl_Buckets d \<noteq> [] \<and> sorted_wrt (<) (decl_Buckets d)) decls"

lemma conforms_recording [simp]: "list_all (conforms ds) (recording st cs) \<longleftrightarrow> (st \<longrightarrow> list_all (conforms ds) cs)"
  by (simp add: recording_def)

lemma declared_labels:
  "declaredAs declarations GaugeMetric LVMLogicalVolumeCount (keyLabels k) []"
  "declaredAs declarations GaugeMetric LVMLogicalVolumeAllocatedBytes (keyLabels k) []"
  "declaredAs declarations GaugeMetric OrphanedLVMLogicalVolumeAllocatedBytes (orphanLabels orphan) []"
  "declaredAs declarations GaugeMetric OrphanedLVMLogicalVolumeCount (stateLabels s) []"
  "declaredAs declarations GaugeMetric OrphanedLVMLogicalVolumeSnapshotUsedBytes (snapshotLabels snapshot) []"
  "declaredAs declarations GaugeMetric OrphanedLVMLogicalVolumeSnapshotCount (stateLabels s) []"
  "declaredAs declarations GaugeMetric AwaitingAgentCount (kindLabels kind) []"
  by (auto simp: declaredAs_def declarations_def gauge_def counter_def histogram_def keyLabels_def orphanLabels_def
      snapshotLabels_def stateLabels_def kindLabels_def)

lemma sweep_calls_conform: "list_all (conforms declarations) (SetLVMLogicalVolumeSweep r st sweep)"
  by (simp add: SetLVMLogicalVolumeSweep_def list_all_iff conforms_def declared_labels recording_def ball_Un)

lemma declarations_wellDeclared: "wellDeclared declarations"
  by code_simp


text \<open>C35: The metrics of the controller are well typed.  The declarations have distinct names, distinct labels and
  increasing buckets, and every call of the recorder, for all arguments, names a declared metric of the
  right kind with exactly the declared labels (and buckets), so no recording can be refused or create a
  second layout of a metric.\<close>

theorem controller_metrics_are_well_typed:
  "wellDeclared declarations \<and>
   list_all (conforms declarations) (SetLVMLogicalVolumeSweep r st sweep) \<and>
   list_all (conforms declarations) (ObserveReconcile st ctrl since res err) \<and>
   list_all (conforms declarations) (ObserveCSIFinalizerRemoval st kind result) \<and>
   list_all (conforms declarations) (SetLocalStorageClassPhase st name phase) \<and>
   list_all (conforms declarations) (SetLocalStorageClassReady st name ready) \<and>
   list_all (conforms declarations) (ForgetLocalStorageClass st name)"
  using declarations_wellDeclared sweep_calls_conform
  by (auto simp: ObserveReconcile_def ObserveCSIFinalizerRemoval_def SetLocalStorageClassPhase_def
      SetLocalStorageClassReady_def ForgetLocalStorageClass_def conforms_def declaredAs_def declarations_def
      gauge_def counter_def histogram_def)

section \<open>What the library shows\<close>

text \<open>
  The contract of the metrics library for grouped gauges: \<^term>\<open>act\<close> performs a call, \<^term>\<open>series s g m l\<close> is
  the value exported for metric \<^term>\<open>m\<close> with labels \<^term>\<open>l\<close> in group \<^term>\<open>g\<close>.
\<close>

definition storageLaws :: "(metric_call \<Rightarrow> 's \<Rightarrow> 's) \<Rightarrow> ('s \<Rightarrow> string \<Rightarrow> string \<Rightarrow> strmap \<Rightarrow> int option) \<Rightarrow> bool" where
  "storageLaws act series \<longleftrightarrow> (\<forall>s g m l.
     (\<forall>g1 m1 x l1. series (act (GaugeSet g1 m1 x l1) s) g m l =
        (if g = g1 \<and> m = m1 \<and> l = l1 then Some x else series s g m l)) \<and>
     (\<forall>g1. series (act (ExpireGroupMetrics g1) s) g m l = (if g = g1 then None else series s g m l)) \<and>
     (\<forall>g1 m1. series (act (ExpireGroupMetricByName g1 m1) s) g m l =
        (if g = g1 \<and> m = m1 then None else series s g m l)))"

text \<open>A map that is ranged over, every key once or more, with labels from which the key can be read back.\<close>

lemma map_of_range:
  assumes "\<And>k. key (lab k) = k"
  shows "map_of (rev (map (\<lambda>k. (lab k, val k)) ks)) l = (if l = lab (key l) \<and> key l \<in> set ks then Some (val (key l)) else None)"
proof -
  have "map_of (rev (map (\<lambda>k. (lab k, val k)) ks)) l = None \<longleftrightarrow> \<not> (l = lab (key l) \<and> key l \<in> set ks)"
    using assms by (auto simp: map_of_eq_None_iff image_iff)
  moreover have "y = val (key l)" if "map_of (rev (map (\<lambda>k. (lab k, val k)) ks)) l = Some y" for y
    using that assms by (auto dest!: map_of_SomeD)
  ultimately show ?thesis by (auto split: if_splits)
qed

definition keyOf :: "strmap \<Rightarrow> PhaseAndType" where
  "keyOf l = \<lparr>key_Phase = mget l LabelPhase, key_Type = mget l LabelLVMType\<rparr>"

lemma labels_read_back [simp]:
  "keyOf (keyLabels k) = k" "mget (stateLabels s) LabelState = s" "mget (kindLabels s) LabelKind = s"
  by (simp_all add: keyOf_def keyLabels_def stateLabels_def kindLabels_def label_defs)

lemma counts_by_state:
  "iget (fold (\<lambda>x. addTo (f x) 1) xs m) s = iget m s + int (count_list (map f xs) s)"
  by (induction xs arbitrary: m) auto

lemma keys_by_state: "fmdom (fold (\<lambda>x. addTo (f x) 1) xs m) = fmdom m |\<union>| fset_of_list (map f xs)"
  by (induction xs arbitrary: m) (auto simp: addTo_def)


definition rangeOk :: "map_range \<Rightarrow> bool" where
  "rangeOk r \<longleftrightarrow> (\<forall>m. set (rangeKeys r m) = fmdom' m) \<and> (\<forall>m. set (rangeStates r m) = fmdom' m)"

text \<open>
  The picture of a sweep as series: one per key and per orphan (the last one of equal labels), one per state and kind,
  zeros included for the known states and kinds.
\<close>

definition countedState :: "string list \<Rightarrow> string list \<Rightarrow> strmap \<Rightarrow> int option" where
  "countedState known states l = (let s = mget l LabelState in
     if l = stateLabels s \<and> (s \<in> set known \<or> s \<in> set states) then Some (int (count_list states s)) else None)"

definition publishedSweep :: "LVMLogicalVolumeSweep \<Rightarrow> string \<Rightarrow> strmap \<Rightarrow> int option" where
  "publishedSweep sweep m l =
    (if m = LVMLogicalVolumeCount then (if l = keyLabels (keyOf l) then fmlookup (CountBy sweep) (keyOf l) else None)
     else if m = LVMLogicalVolumeAllocatedBytes then
       (if l = keyLabels (keyOf l) then fmlookup (AllocatedBytesBy sweep) (keyOf l) else None)
     else if m = OrphanedLVMLogicalVolumeAllocatedBytes then
       map_of (rev (map (\<lambda>orphan. (orphanLabels orphan, AllocatedBytes orphan)) (Orphans sweep))) l
     else if m = OrphanedLVMLogicalVolumeCount then
       countedState [OrphanStateActive, OrphanStateRetained, OrphanStateTerminating, OrphanStateBlocked]
         (map orphan_State (Orphans sweep)) l
     else if m = OrphanedLVMLogicalVolumeSnapshotUsedBytes then
       map_of (rev (map (\<lambda>snapshot. (snapshotLabels snapshot, UsedBytes snapshot)) (OrphanedSnapshots sweep))) l
     else if m = OrphanedLVMLogicalVolumeSnapshotCount then
       countedState [OrphanStateTerminating, OrphanStateBlocked] (map osnap_State (OrphanedSnapshots sweep)) l
     else if m = AwaitingAgentCount then
       (let kind = mget l LabelKind in
        if l = kindLabels kind \<and> kind \<in> {KindLVMLogicalVolume, KindLVMLogicalVolumeSnapshot}
        then Some (iget (AwaitingAgentByKind sweep) kind) else None)
     else None)"

lemma ranged_map:
  assumes "set (rng m) = fmdom' m"
  shows "map_of (rev (map (\<lambda>k. (keyLabels k, iget m k)) (rng m))) l =
    (if l = keyLabels (keyOf l) then fmlookup m (keyOf l) else None)"
  unfolding map_of_range [where key = keyOf, OF labels_read_back(1)] assms
  by (auto simp: iget_def fmdom'_notI fmlookup_dom'_iff)

lemma ranged_states:
  assumes "rangeOk r"
  shows "map_of (rev (map (\<lambda>s. (stateLabels s, iget (orphansByState os) s)) (rangeStates r (orphansByState os)))) l =
      countedState [OrphanStateActive, OrphanStateRetained, OrphanStateTerminating, OrphanStateBlocked] (map orphan_State os) l"
    and "map_of (rev (map (\<lambda>s. (stateLabels s, iget (snapshotsByState ss) s)) (rangeStates r (snapshotsByState ss)))) l =
      countedState [OrphanStateTerminating, OrphanStateBlocked] (map osnap_State ss) l"
proof -
  have dom: "set (rangeStates r m) = fset (fmdom m)" for m
    using assms by (simp add: rangeOk_def fmdom'_alt_def)
  show "map_of (rev (map (\<lambda>s. (stateLabels s, iget (orphansByState os) s)) (rangeStates r (orphansByState os)))) l =
      countedState [OrphanStateActive, OrphanStateRetained, OrphanStateTerminating, OrphanStateBlocked] (map orphan_State os) l"
    unfolding map_of_range [where key = "\<lambda>l. mget l LabelState", OF labels_read_back(2)] dom orphansByState_def counts_by_state keys_by_state
    by (auto simp: countedState_def Let_def iget_def fset_of_list.rep_eq)
  show "map_of (rev (map (\<lambda>s. (stateLabels s, iget (snapshotsByState ss) s)) (rangeStates r (snapshotsByState ss)))) l =
      countedState [OrphanStateTerminating, OrphanStateBlocked] (map osnap_State ss) l"
    unfolding map_of_range [where key = "\<lambda>l. mget l LabelState", OF labels_read_back(2)] dom snapshotsByState_def counts_by_state keys_by_state
    by (auto simp: countedState_def Let_def iget_def fset_of_list.rep_eq)
qed

lemma ranged_kinds:
  "map_of (rev (map (\<lambda>kind. (kindLabels kind, iget m kind)) kinds)) l =
    (let kind = mget l LabelKind in if l = kindLabels kind \<and> kind \<in> set kinds then Some (iget m kind) else None)"
  unfolding map_of_range [where key = "\<lambda>l. mget l LabelKind", OF labels_read_back(3)] by (simp add: Let_def)


text \<open>The gauges of a sweep, metric by metric, each with its labels and values.\<close>

definition gaugeCalls :: "string \<Rightarrow> (string \<times> (strmap \<times> int) list) list \<Rightarrow> metric_call list" where
  "gaugeCalls g secs = concat (map (\<lambda>(m, xs). map (\<lambda>(l, x). GaugeSet g m x l) xs) secs)"

lemma series_section:
  assumes "storageLaws act series"
  shows "series (fold act (map (\<lambda>(l, x). GaugeSet g m x l) xs) s) g' m' l =
    (if g' = g \<and> m' = m then (case map_of (rev xs) l of Some y \<Rightarrow> Some y | None \<Rightarrow> series s g' m' l)
     else series s g' m' l)"
proof (induction xs arbitrary: s)
  case (Cons x xs)
  show ?case
    unfolding list.map fold.simps comp_apply Cons.IH
    using assms by (cases x) (auto simp: storageLaws_def map_add_def split: option.split)
qed simp

lemma series_gaugeCalls:
  assumes "storageLaws act series" "distinct (map fst secs)"
  shows "series (fold act (gaugeCalls g secs) s) g' m l =
    (if g' = g then (case map_of secs m of
       Some xs \<Rightarrow> (case map_of (rev xs) l of Some y \<Rightarrow> Some y | None \<Rightarrow> series s g' m l)
     | None \<Rightarrow> series s g' m l) else series s g' m l)"
  using assms(2)
proof (induction secs arbitrary: s)
  case (Cons sec secs)
  obtain n xs where sec: "sec = (n, xs)" by (cases sec)
  have "map_of secs n = None" using Cons.prems by (simp add: sec map_of_eq_None_iff)
  with Cons show ?case
    by (auto simp: gaugeCalls_def sec series_section [OF assms(1)] split: option.split)
qed (simp add: gaugeCalls_def)

definition sweepSections :: "map_range \<Rightarrow> LVMLogicalVolumeSweep \<Rightarrow> (string \<times> (strmap \<times> int) list) list" where
  "sweepSections r sweep =
    [(LVMLogicalVolumeCount, map (\<lambda>k. (keyLabels k, iget (CountBy sweep) k)) (rangeKeys r (CountBy sweep))),
     (LVMLogicalVolumeAllocatedBytes, map (\<lambda>k. (keyLabels k, iget (AllocatedBytesBy sweep) k)) (rangeKeys r (AllocatedBytesBy sweep))),
     (OrphanedLVMLogicalVolumeAllocatedBytes, map (\<lambda>orphan. (orphanLabels orphan, AllocatedBytes orphan)) (Orphans sweep)),
     (OrphanedLVMLogicalVolumeCount, map (\<lambda>s. (stateLabels s, iget (orphansByState (Orphans sweep)) s))
        (rangeStates r (orphansByState (Orphans sweep)))),
     (OrphanedLVMLogicalVolumeSnapshotUsedBytes, map (\<lambda>snapshot. (snapshotLabels snapshot, UsedBytes snapshot)) (OrphanedSnapshots sweep)),
     (OrphanedLVMLogicalVolumeSnapshotCount, map (\<lambda>s. (stateLabels s, iget (snapshotsByState (OrphanedSnapshots sweep)) s))
        (rangeStates r (snapshotsByState (OrphanedSnapshots sweep)))),
     (AwaitingAgentCount, map (\<lambda>kind. (kindLabels kind, iget (AwaitingAgentByKind sweep) kind))
        [KindLVMLogicalVolume, KindLVMLogicalVolumeSnapshot])]"

lemma sweep_calls:
  "SetLVMLogicalVolumeSweep r True sweep =
     ExpireGroupMetrics lvmLogicalVolumeSweepGroup # gaugeCalls lvmLogicalVolumeSweepGroup (sweepSections r sweep)"
  by (simp add: SetLVMLogicalVolumeSweep_def recording_def gaugeCalls_def sweepSections_def comp_def)

lemma sections_distinct: "distinct (map fst (sweepSections r sweep))"
proof -
  have "distinct [LVMLogicalVolumeCount, LVMLogicalVolumeAllocatedBytes, OrphanedLVMLogicalVolumeAllocatedBytes,
    OrphanedLVMLogicalVolumeCount, OrphanedLVMLogicalVolumeSnapshotUsedBytes, OrphanedLVMLogicalVolumeSnapshotCount,
    AwaitingAgentCount]" by code_simp
  then show ?thesis by (simp only: sweepSections_def list.map fst_conv)
qed

lemma published_sections:
  assumes "rangeOk r"
  shows "(case map_of (sweepSections r sweep) m of Some xs \<Rightarrow> map_of (rev xs) l | None \<Rightarrow> None) = publishedSweep sweep m l"
proof -
  have keys: "set (rangeKeys r m) = fmdom' m" for m using assms by (simp add: rangeOk_def)
  have cases: "(case map_of ((n, xs) # secs) m of Some xs \<Rightarrow> map_of (rev xs) l | None \<Rightarrow> None) =
      (if m = n then map_of (rev xs) l else (case map_of secs m of Some xs \<Rightarrow> map_of (rev xs) l | None \<Rightarrow> None))"
    for n xs and secs :: "(string \<times> (strmap \<times> int) list) list"
    by simp
  show ?thesis
    unfolding sweepSections_def cases ranged_map [where rng = "rangeKeys r", OF keys] ranged_states [OF assms] ranged_kinds
    by (simp only: publishedSweep_def map_of.simps option.case list.set)
qed

text \<open>C6: Publishing a sweep makes the exported series of its group exactly the picture of that sweep, whatever
  was published before and in whatever order Go ranges over the maps: the counts and sizes per phase and type,
  one series per orphan and per held-up snapshot, the number of orphans in every state, zeros included, and the
  number of resources waiting for the agent.  Nothing of the previous sweep is left, and no other group
  changes.\<close>

theorem published_picture_is_exact:
  assumes "storageLaws act series" "rangeOk r"
  shows "series (fold act (SetLVMLogicalVolumeSweep r True sweep) s) g m l =
    (if g = lvmLogicalVolumeSweepGroup then publishedSweep sweep m l else series s g m l)"
proof -
  have "series (act (ExpireGroupMetrics g1) s) g m l = (if g = g1 then None else series s g m l)" for g1
    using assms(1) by (simp add: storageLaws_def)
  then show ?thesis
    unfolding sweep_calls fold.simps comp_apply series_gaugeCalls [OF assms(1) sections_distinct]
      published_sections [OF assms(2), symmetric]
    by (auto split: option.split)
qed


text \<open>A storage that keeps a table of series, and maps ranged over in ascending order of their keys.\<close>

definition tableStorage :: "metric_call \<Rightarrow> (string \<Rightarrow> string \<Rightarrow> strmap \<Rightarrow> int option) \<Rightarrow> string \<Rightarrow> string \<Rightarrow> strmap \<Rightarrow> int option" where
  "tableStorage call s g m l = (case call of
     GaugeSet g1 m1 x l1 \<Rightarrow> if g = g1 \<and> m = m1 \<and> l = l1 then Some x else s g m l
   | ExpireGroupMetrics g1 \<Rightarrow> if g = g1 then None else s g m l
   | ExpireGroupMetricByName g1 m1 \<Rightarrow> if g = g1 \<and> m = m1 then None else s g m l
   | _ \<Rightarrow> s g m l)"

definition ascending :: map_range where
  "ascending = \<lparr>
     rangeKeys = (\<lambda>m. filter (\<lambda>k. k \<in> fmdom' m)
       (map (\<lambda>(p, t). \<lparr>key_Phase = p, key_Type = t\<rparr>)
         (List.product (sorted_list_of_set (key_Phase ` fmdom' m)) (sorted_list_of_set (key_Type ` fmdom' m))))),
     rangeStates = (\<lambda>m. sorted_list_of_set (fmdom' m))\<rparr>"

lemma ascending_ok: "rangeOk ascending"
proof -
  have "k \<in> (\<lambda>(p, t). \<lparr>key_Phase = p, key_Type = t\<rparr>) ` (key_Phase ` A \<times> key_Type ` A)" if "k \<in> A" for k and A
    using that by (intro image_eqI [where x = "(key_Phase k, key_Type k)"]) auto
  then have "set (rangeKeys ascending m) = fmdom' m" for m
    by (auto simp: ascending_def)
  then show ?thesis by (simp add: rangeOk_def ascending_def)
qed

lemma tableStorage_ok: "storageLaws tableStorage (\<lambda>s. s)"
  by (simp add: storageLaws_def tableStorage_def)

definition demoSweep :: LVMLogicalVolumeSweep where
  "demoSweep = emptySweep\<lparr>
     CountBy := fmupd \<lparr>key_Phase = ''Created'', key_Type = ''Thick''\<rparr> 3 fmempty,
     Orphans := [\<lparr>orphan_Name = ''llv-1'', orphan_LVMVolumeGroup = ''vg-a'', orphan_Type = ''Thick'',
       orphan_State = OrphanStateActive, orphan_Reason = '''', AllocatedBytes = 7\<rparr>]\<rparr>"

theorem published_picture_is_exact_witness:
  "let series = fold tableStorage (SetLVMLogicalVolumeSweep ascending True demoSweep) (\<lambda>_ _ _. Some 99) in
   series lvmLogicalVolumeSweepGroup LVMLogicalVolumeCount (keyLabels \<lparr>key_Phase = ''Created'', key_Type = ''Thick''\<rparr>) = Some 3 \<and>
   series lvmLogicalVolumeSweepGroup OrphanedLVMLogicalVolumeCount (stateLabels OrphanStateActive) = Some 1 \<and>
   series lvmLogicalVolumeSweepGroup OrphanedLVMLogicalVolumeCount (stateLabels OrphanStateBlocked) = Some 0 \<and>
   series lvmLogicalVolumeSweepGroup OrphanedLVMLogicalVolumeCount (stateLabels ''lost'') = None \<and>
   series (localStorageClassGroup ''a'') LocalStorageClassReady fmempty = Some 99"
proof -
  have pic: "publishedSweep demoSweep LVMLogicalVolumeCount (keyLabels \<lparr>key_Phase = ''Created'', key_Type = ''Thick''\<rparr>) = Some 3"
    "publishedSweep demoSweep OrphanedLVMLogicalVolumeCount (stateLabels OrphanStateActive) = Some 1"
    "publishedSweep demoSweep OrphanedLVMLogicalVolumeCount (stateLabels OrphanStateBlocked) = Some 0"
    "publishedSweep demoSweep OrphanedLVMLogicalVolumeCount (stateLabels ''lost'') = None"
    by code_simp+
  have grp: "localStorageClassGroup ''a'' \<noteq> lvmLogicalVolumeSweepGroup" by code_simp
  show ?thesis
    unfolding Let_def published_picture_is_exact [OF tableStorage_ok ascending_ok, where s = "\<lambda>_ _ _. Some 99"] pic
    using grp by simp
qed

end
