(* ===== verification/Driver_Properties.thy ===== *)
theory Driver_Properties
  imports Driver_Process Metrics_Properties
begin

text \<open>
  The driver process: the interceptor changes no answer and counts every call, the sockets are prepared before
  the driver says that it is ready, and the process ends exactly when its context is done.
\<close>

section \<open>Metrics of the driver\<close>

lemma short_method:
  "CHR ''/'' \<notin> set (ShortMethodName fullMethod)"
  "CHR ''/'' \<notin> set method \<Longrightarrow> ShortMethodName (service @ CHR ''/'' # method) = method"
  "CHR ''/'' \<notin> set fullMethod \<Longrightarrow> ShortMethodName fullMethod = fullMethod"
proof -
  show "CHR ''/'' \<notin> set (ShortMethodName fullMethod)"
    by (auto simp: ShortMethodName_def after_LastIndex Let_def dest: set_takeWhileD)
  show "ShortMethodName (service @ CHR ''/'' # method) = method" if "CHR ''/'' \<notin> set method"
  proof -
    have "takeWhile (\<lambda>d. d \<noteq> CHR ''/'') (rev method @ CHR ''/'' # rev service) = rev method"
      using that by (auto simp: takeWhile_append)
    moreover have "CHR ''/'' \<in> set (service @ CHR ''/'' # method)" by simp
    ultimately show ?thesis
      unfolding ShortMethodName_def Let_def by (simp only: LastIndex_nonneg after_LastIndex if_True) simp
  qed
  show "ShortMethodName fullMethod = fullMethod" if "CHR ''/'' \<notin> set fullMethod"
    using that by (simp add: ShortMethodName_def Let_def)
qed

lemma csiDeclarations_wellDeclared: "wellDeclared csiDeclarations"
  by code_simp

lemma observation_conforms: "list_all (conforms csiDeclarations) (ObserveOperation st sc m d e)"
  by (auto simp: ObserveOperation_def Let_def conforms_def declaredAs_def csiDeclarations_def counter_def histogram_def)

text \<open>What a counter shows after the calls, and calls served one after the other, with and without the interceptor.\<close>

primrec counted :: "metric_call list \<Rightarrow> string \<Rightarrow> strmap \<Rightarrow> int" where
  "counted [] m l = 0"
| "counted (c # cs) m l = counted cs m l +
    (case c of CounterAdd m1 x l1 \<Rightarrow> if m1 = m \<and> l1 = l then x else 0 | _ \<Rightarrow> 0)"

lemma counted_append [simp]: "counted (xs @ ys) m l = counted xs m l + counted ys m l"
  by (induction xs) auto

type_synonym ('s, 'r, 'e) rpc = "string \<times> duration \<times> ('s, 'r \<times> 'e option) state"

primrec serveAll :: "bool \<Rightarrow> ('e option \<Rightarrow> string) \<Rightarrow> ('s, 'r, 'e) rpc list \<Rightarrow>
    ('s \<times> metric_call list, ('r \<times> 'e option) list) state" where
  "serveAll st sc [] = State_Monad.return []"
| "serveAll st sc (op # ops) = do {
     r \<leftarrow> errHandler st sc (fst op) (fst (snd op)) (snd (snd op));
     rs \<leftarrow> serveAll st sc ops;
     State_Monad.return (r # rs)
   }"

primrec handleAll :: "('s, 'r, 'e) rpc list \<Rightarrow> ('s, ('r \<times> 'e option) list) state" where
  "handleAll [] = State_Monad.return []"
| "handleAll (op # ops) = do {
     r \<leftarrow> snd (snd op);
     rs \<leftarrow> handleAll ops;
     State_Monad.return (r # rs)
   }"

definition opLabels :: "string \<Rightarrow> string \<Rightarrow> strmap" where
  "opLabels method code = fmupd LabelGRPCCode code (fmupd LabelMethod method fmempty)"

lemma opLabels_eq [simp]: "opLabels m c = opLabels m' c' \<longleftrightarrow> m = m' \<and> c = c'"
proof
  assume eq: "opLabels m c = opLabels m' c'"
  have "mget (opLabels m c) LabelMethod = m" "mget (opLabels m c) LabelGRPCCode = c" for m c
    by (simp_all add: opLabels_def LabelMethod_def LabelGRPCCode_def)
  with eq show "m = m' \<and> c = c'" by metis
qed simp

definition observations :: "('e option \<Rightarrow> string) \<Rightarrow> ('s, 'r, 'e) rpc list \<Rightarrow> ('r \<times> 'e option) list \<Rightarrow> metric_call list" where
  "observations sc ops rs = concat (map (\<lambda>(op, r). ObserveOperation True sc (fst op) (fst (snd op)) (snd r)) (zip ops rs))"

lemma serveAll_run:
  "run_state (serveAll True sc ops) (s, calls) =
    (case run_state (handleAll ops) s of (rs, s') \<Rightarrow> (rs, s', calls @ observations sc ops rs))"
  by (induction ops arbitrary: s calls)
    (auto simp: observations_def errHandler_def State_Monad.bind_def State_Monad.return_def split: prod.splits)

lemma counted_observations:
  "counted (observations sc ops rs) OperationsTotal (opLabels m c) =
    int (length (filter (\<lambda>(op, r). ShortMethodName (fst op) = m \<and> sc (snd r) = c) (zip ops rs)))"
proof (induction ops arbitrary: rs)
  case (Cons op ops)
  have "counted (ObserveOperation True sc f d e) OperationsTotal (opLabels m c) =
      (if ShortMethodName f = m \<and> sc e = c then 1 else 0)" for f d e
    by (simp add: ObserveOperation_def Let_def recording_def flip: opLabels_def)
  then show ?case
    using Cons.IH by (cases rs) (auto simp: observations_def)
qed (simp add: observations_def)

text \<open>C36: The interceptor is invisible to the calls it observes and counts each of them once.  For any handlers,
  serving a sequence of calls through it gives the same answers and the same final state as running the
  handlers alone; the counter of a method and a gRPC code grows by exactly the number of calls of this
  method that ended with this code; and every metric call fits the declarations of the driver.\<close>

theorem interceptor_observes_every_call_once:
  fixes ops :: "('s, 'r, 'e) rpc list"
  shows "case run_state (handleAll ops) s of (rs, s') \<Rightarrow> \<exists>calls.
    run_state (serveAll True sc ops) (s, []) = (rs, s', calls) \<and>
    list_all (conforms csiDeclarations) calls \<and>
    (\<forall>m c. counted calls OperationsTotal (opLabels m c) =
       int (length (filter (\<lambda>(op, r). ShortMethodName (fst op) = m \<and> sc (snd r) = c) (zip ops rs))))"
proof -
  have "list_all (conforms csiDeclarations) (observations sc ops rs)" for rs
    using observation_conforms by (fastforce simp: observations_def list_all_iff)
  then show ?thesis
    by (auto simp: serveAll_run counted_observations split: prod.split)
qed

section \<open>Starting\<close>

lemma runSetup_spec:
  "wp (runSetup v) (\<lambda>r s'. if r = None
     then (\<exists>u x. url_Parse v (drv_csiAddress d) = Inr u \<and> Scheme u = ''unix'' \<and>
        (case x of Some (missing, _) \<Rightarrow> missing | None \<Rightarrow> True) \<and>
        rhist s' = [RListen ''tcp'' (drv_address d) None, RListen ''unix'' (grpcAddrOf u) None, RRemove (grpcAddrOf u) x] \<and>
        driver s' = d\<lparr>drv_ready := True\<rparr>)
     else driver s' = d \<and> (case url_Parse v (drv_csiAddress d) of
        Inl _ \<Rightarrow> rhist s' = []
      | Inr u \<Rightarrow> if Scheme u \<noteq> ''unix'' then rhist s' = []
          else list_all (\<lambda>ev. case ev of RRemove a _ \<Rightarrow> a = grpcAddrOf u
            | RListen net a _ \<Rightarrow> (net, a) \<in> {(''unix'', grpcAddrOf u), (''tcp'', drv_address d)}) (rhist s')))
   \<lparr>rhist = [], driver = d\<rparr>"
  unfolding runSetup_def
  by (auto simp: wp_rules Let_def split: sum.split option.split bool.split prod.split)

text \<open>The driver says that it is ready only when it can be reached.  \<^verbatim>\<open>Run\<close> begins to serve exactly after the
  old socket was removed (or found missing) and both listeners were opened, the one of CSI on a unix socket at the
  parsed address; whenever it returns an error instead, the driver stays as it was, not ready, and nothing
  outside the two addresses was touched, nothing at all when the address is malformed or no unix socket.\<close>

theorem driver_ready_when_reachable:
  "case run_state (runSetup v) \<lparr>rhist = [], driver = d\<rparr> of (r, s') \<Rightarrow>
    if r = None
    then (\<exists>u x. url_Parse v (drv_csiAddress d) = Inr u \<and> Scheme u = ''unix'' \<and>
       (case x of Some (missing, _) \<Rightarrow> missing | None \<Rightarrow> True) \<and>
       rhist s' = [RListen ''tcp'' (drv_address d) None, RListen ''unix'' (grpcAddrOf u) None, RRemove (grpcAddrOf u) x] \<and>
       driver s' = d\<lparr>drv_ready := True\<rparr>)
    else driver s' = d \<and> (case url_Parse v (drv_csiAddress d) of
       Inl _ \<Rightarrow> rhist s' = []
     | Inr u \<Rightarrow> if Scheme u \<noteq> ''unix'' then rhist s' = []
         else list_all (\<lambda>ev. case ev of RRemove a _ \<Rightarrow> a = grpcAddrOf u
           | RListen net a _ \<Rightarrow> (net, a) \<in> {(''unix'', grpcAddrOf u), (''tcp'', drv_address d)}) (rhist s'))"
  using runSetup_spec [of v d] by (simp only: wp_def)

section \<open>Stopping\<close>

text \<open>The invariant of the goroutines.\<close>

definition taskErr :: "task \<Rightarrow> serve_err option" where
  "taskErr t = (case t of Running \<Rightarrow> None | Finished r \<Rightarrow> r)"

definition servingOk :: "csi_driver \<Rightarrow> serving \<Rightarrow> bool" where
  "servingOk d s \<longleftrightarrow>
    (httpShutdown s \<longrightarrow> ctxDone s) \<and>
    (shutdownTask s \<noteq> Running \<longrightarrow> httpShutdown s) \<and>
    (if stopper s = AwaitsContext then ready s = drv_ready d else ctxDone s \<and> \<not> ready s) \<and>
    (firstErr s = None \<longleftrightarrow> taskErr (shutdownTask s) = None \<and> taskErr (grpcTask s) = None \<and> taskErr (httpTask s) = None) \<and>
    (case firstErr s of None \<Rightarrow> True | Some e \<Rightarrow> Some e \<in> taskErr ` {shutdownTask s, grpcTask s, httpTask s})"

lemma servingOk_start: "servingOk d (startServing d)"
  by (simp add: servingOk_def startServing_def taskErr_def)

lemma servingOk_step: "serve_step s t \<Longrightarrow> servingOk d s \<Longrightarrow> servingOk d t"
  by (erule serve_stepE) (auto simp: servingOk_def noteErr_def taskErr_def split: option.splits if_splits)

lemma servingOk_reachable: "serve_step\<^sup>*\<^sup>* (startServing d) s \<Longrightarrow> servingOk d s"
  by (induction rule: rtranclp_induct) (auto intro: servingOk_start servingOk_step)

text \<open>Once the context is done, each of the goroutines can take its remaining steps without an error.\<close>

lemma noteErr_None [simp]: "noteErr None s = s"
  by (simp add: noteErr_def split: option.split)

lemma can_shut_down:
  assumes "ctxDone s" "shutdownTask s \<noteq> Running \<longrightarrow> httpShutdown s"
  shows "\<exists>t r. serve_step\<^sup>*\<^sup>* s t \<and> t = s\<lparr>httpShutdown := True, shutdownTask := Finished r\<rparr>"
proof (cases "shutdownTask s")
  case Running
  let ?s1 = "s\<lparr>httpShutdown := True\<rparr>"
  have "serve_step s ?s1" using assms(1) Running by (rule shutdown_begins)
  moreover have "serve_step ?s1 (noteErr None (?s1\<lparr>shutdownTask := Finished None\<rparr>))"
    by (rule shutdown_ends) (simp_all add: Running shutdownMayReturn_def)
  ultimately have "serve_step\<^sup>*\<^sup>* s (?s1\<lparr>shutdownTask := Finished None\<rparr>)"
    by (simp add: converse_rtranclp_into_rtranclp r_into_rtranclp)
  then show ?thesis by fastforce
next
  case (Finished r)
  with assms(2) have "s = s\<lparr>httpShutdown := True, shutdownTask := Finished r\<rparr>" by (cases s) simp
  then show ?thesis by (metis rtranclp.rtrancl_refl)
qed

lemma can_stop:
  assumes "ctxDone s"
  shows "\<exists>t rd. serve_step\<^sup>*\<^sup>* s t \<and> t = s\<lparr>ready := rd, stopper := Stopping\<rparr>"
proof -
  have stop: "serve_step\<^sup>*\<^sup>* t (t\<lparr>stopper := Stopping\<rparr>)" if "stopper t = Lowered" for t
    using serve_step.stop [OF that] by blast
  show ?thesis
  proof (cases "stopper s")
    case AwaitsContext
    have "serve_step s (s\<lparr>ready := False, stopper := Lowered\<rparr>)" using assms AwaitsContext by (rule lower)
    then have "serve_step\<^sup>*\<^sup>* s ((s\<lparr>ready := False, stopper := Lowered\<rparr>)\<lparr>stopper := Stopping\<rparr>)"
      using stop [of "s\<lparr>ready := False, stopper := Lowered\<rparr>"] by (simp add: converse_rtranclp_into_rtranclp)
    then show ?thesis by fastforce
  next
    case Lowered
    then have "serve_step\<^sup>*\<^sup>* s (s\<lparr>ready := ready s, stopper := Stopping\<rparr>)" using stop by simp
    then show ?thesis by blast
  next
    case Stopping
    then have "s = s\<lparr>ready := ready s, stopper := Stopping\<rparr>" by simp
    then show ?thesis by (metis rtranclp.rtrancl_refl)
  qed
qed

lemma can_finish_servers:
  assumes "shutdownTask s \<noteq> Running" "httpShutdown s" "stopper s = Stopping"
  shows "\<exists>t. serve_step\<^sup>*\<^sup>* s t \<and> runReturns t = Some (firstErr s)"
proof -
  obtain r where grpc: "serve_step\<^sup>*\<^sup>* s (s\<lparr>grpcTask := Finished r\<rparr>)"
  proof (cases "grpcTask s")
    case Running
    have "serve_step s (noteErr None (s\<lparr>grpcTask := Finished None\<rparr>))"
      using Running by (rule grpc_returns) (simp add: grpcMayReturn_def assms(3))
    then show ?thesis using that [of None] by auto
  next
    case (Finished r)
    then have "s = s\<lparr>grpcTask := Finished r\<rparr>" by simp
    then show ?thesis using that [of r] by simp
  qed
  let ?t = "s\<lparr>grpcTask := Finished r\<rparr>"
  obtain q where "serve_step\<^sup>*\<^sup>* ?t (?t\<lparr>httpTask := Finished q\<rparr>)"
  proof (cases "httpTask s")
    case Running
    have "serve_step ?t (noteErr (httpResult ErrServerClosed) (?t\<lparr>httpTask := Finished (httpResult ErrServerClosed)\<rparr>))"
      by (rule http_returns) (simp_all add: Running httpMayReturn_def assms(2))
    then show ?thesis using that [of None] by (auto simp: httpResult_def)
  next
    case (Finished q)
    then have "?t = ?t\<lparr>httpTask := Finished q\<rparr>" by simp
    then show ?thesis using that [of q] by simp
  qed
  with grpc have "serve_step\<^sup>*\<^sup>* s (?t\<lparr>httpTask := Finished q\<rparr>)" by simp
  then show ?thesis
    using assms(1) by (intro exI [of _ "?t\<lparr>httpTask := Finished q\<rparr>"]) (simp add: runReturns_def)
qed

lemma can_return:
  assumes "ctxDone s" "shutdownTask s \<noteq> Running \<longrightarrow> httpShutdown s"
  shows "\<exists>t. serve_step\<^sup>*\<^sup>* s t \<and> runReturns t = Some (firstErr s)"
proof -
  from can_shut_down [OF assms] obtain r where
    sd: "serve_step\<^sup>*\<^sup>* s (s\<lparr>httpShutdown := True, shutdownTask := Finished r\<rparr>)" by blast
  let ?t = "s\<lparr>httpShutdown := True, shutdownTask := Finished r\<rparr>"
  from can_stop [of ?t] assms(1) obtain rd where
    st: "serve_step\<^sup>*\<^sup>* ?t (?t\<lparr>ready := rd, stopper := Stopping\<rparr>)" by auto
  from can_finish_servers [of "?t\<lparr>ready := rd, stopper := Stopping\<rparr>"] obtain u
    where "serve_step\<^sup>*\<^sup>* (?t\<lparr>ready := rd, stopper := Stopping\<rparr>) u" "runReturns u = Some (firstErr s)"
    by auto
  with sd st show ?thesis by (metis (no_types, lifting) rtranclp_trans)
qed


text \<open>A gRPC server that fails at once: the probe still answers that the driver is ready.\<close>

definition demoServing :: serving where
  "demoServing = startServing \<lparr>drv_name = '''', drv_publishInfoVolumeName = '''', drv_csiAddress = '''', drv_address = '''', drv_hostID = ''node'',
     drv_waitActionTimeout = 0, drv_ready = True, drv_inFlight = NewInFlight\<rparr>"


end
