(* ===== verification/Module_Hook.thy ===== *)
theory Module_Hook
  imports Kube_Types
begin

text \<open>
  The hook that runs after the module was deleted
  (\<^verbatim>\<open>hooks/go/030-remove-finalizers-on-module-delete/remove-finalizers-on-module-delete.go\<close> with the lists of
  \<^verbatim>\<open>hooks/go/consts/consts.go\<close>): it takes the finalizers off what the module leaves behind.

  The state is the history of API calls, the API server a record of functions that see it.  Joined errors are
  the list of their parts, \<^term>\<open>[]\<close> is nil.
\<close>

section \<open>Constants\<close>

definition ModuleNamespace :: string where
  "ModuleNamespace = ''d8-sds-local-volume''"

definition AllowedProvisioners :: "string list" where
  "AllowedProvisioners = [''local.csi.storage.deckhouse.io'']"

definition WebhookConfigurationsToDelete :: "string list" where
  "WebhookConfigurationsToDelete = []"

record CRGVK =
  gvk_Group :: string
  gvk_Version :: string
  gvk_Kind :: string
  Namespaced :: bool

definition CRGVKsForFinalizerRemoval :: "CRGVK list" where
  "CRGVKsForFinalizerRemoval =
    [\<lparr>gvk_Group = ''storage.deckhouse.io'', gvk_Version = ''v1alpha1'', gvk_Kind = ''LocalStorageClass'', Namespaced = False\<rparr>]"

section \<open>State and environment\<close>

text \<open>An object is its metadata and, for a StorageClass, the provisioner.\<close>

record hook_obj = objmeta +
  obj_Provisioner :: string

datatype list_kind = SecretList | ConfigMapList | StorageClassList | CRList string string string

datatype hook_err =
    NoClient string
  | CannotList list_kind kerr
  | CannotPatch string kerr
  | CannotDelete string kerr

datatype hook_event =
    HNewClient "string option"
  | HList list_kind string "kerr + hook_obj list"
  | HPatch hook_obj hook_obj "kerr option"
  | HGetWebhook string "kerr option"
  | HDeleteWebhook string "kerr option"

type_synonym 'a hookm = "(hook_event list, 'a) state"

record hook_env =
  kubeclient_New :: "hook_event list \<Rightarrow> string option"
  hcl_List :: "list_kind \<Rightarrow> string \<Rightarrow> hook_event list \<Rightarrow> kerr + hook_obj list"
  hcl_Patch :: "hook_obj \<Rightarrow> hook_obj \<Rightarrow> hook_event list \<Rightarrow> kerr option"
  hcl_Get_VWC :: "string \<Rightarrow> hook_event list \<Rightarrow> kerr option"
  hcl_Delete_VWC :: "string \<Rightarrow> hook_event list \<Rightarrow> kerr option"

definition hask :: "(hook_event list \<Rightarrow> 'a) \<Rightarrow> ('a \<Rightarrow> hook_event) \<Rightarrow> 'a hookm" where
  "hask q ev = State (\<lambda>h. let a = q h in (a, ev a # h))"

lemma wp_hask [simp, wp_rules]: "wp (hask q ev) Q = (\<lambda>h. Q (q h) (ev (q h) # h))"
  by (rule ext) (simp add: hask_def wp_State Let_def)

section \<open>The hook\<close>

definition removeFinalizersFromObject :: "hook_env \<Rightarrow> hook_obj \<Rightarrow> hook_err option hookm" where
  "removeFinalizersFromObject v obj = do {
     let obj' = obj\<lparr>Finalizers := []\<rparr>;
     r \<leftarrow> hask (hcl_Patch v obj obj') (HPatch obj obj');
     State_Monad.return (map_option (CannotPatch (Name obj)) r)
   }"

definition errors_Join :: "hook_err list \<Rightarrow> hook_err option \<Rightarrow> hook_err list" where
  "errors_Join errs r = (case r of None \<Rightarrow> errs | Some e \<Rightarrow> errs @ [e])"

text \<open>The loop over the items of a list; \<^term>\<open>skip\<close> is its \<^verbatim>\<open>continue\<close>.\<close>

definition stripItems :: "hook_env \<Rightarrow> (hook_obj \<Rightarrow> bool) \<Rightarrow> hook_obj list \<Rightarrow> hook_err list \<Rightarrow> hook_err list hookm" where
  "stripItems v skip = foldM (\<lambda>item resultErr.
     if skip item then State_Monad.return resultErr
     else do {
       err \<leftarrow> removeFinalizersFromObject v item;
       State_Monad.return (errors_Join resultErr err)
     })"

definition stripList :: "hook_env \<Rightarrow> list_kind \<Rightarrow> hook_err list \<Rightarrow> hook_err list hookm" where
  "stripList v kind resultErr = do {
     l \<leftarrow> hask (hcl_List v kind ModuleNamespace) (HList kind ModuleNamespace);
     case l of
       Inl e \<Rightarrow> State_Monad.return (errors_Join resultErr (Some (CannotList kind e)))
     | Inr items \<Rightarrow> stripItems v (\<lambda>_. False) items resultErr
   }"

definition deleteWebhook :: "hook_env \<Rightarrow> string \<Rightarrow> hook_err list \<Rightarrow> hook_err list hookm" where
  "deleteWebhook v name resultErr = do {
     got \<leftarrow> hask (hcl_Get_VWC v name) (HGetWebhook name);
     if got = None then do {
       r \<leftarrow> hask (hcl_Delete_VWC v name) (HDeleteWebhook name);
       State_Monad.return (errors_Join resultErr (map_option (CannotDelete name) r))
     } else State_Monad.return resultErr
   }"

primrec stripStorageClasses :: "hook_env \<Rightarrow> string list \<Rightarrow> hook_err list \<Rightarrow> hook_err list hookm" where
  "stripStorageClasses v [] resultErr = State_Monad.return resultErr"
| "stripStorageClasses v (provisioner # rest) resultErr = do {
     l \<leftarrow> hask (hcl_List v StorageClassList '''') (HList StorageClassList '''');
     case l of
       Inl e \<Rightarrow> State_Monad.return (errors_Join resultErr (Some (CannotList StorageClassList e)))
     | Inr items \<Rightarrow> do {
         resultErr \<leftarrow> stripItems v (\<lambda>sc. obj_Provisioner sc \<noteq> provisioner) items resultErr;
         stripStorageClasses v rest resultErr
       }
   }"

definition stripCRs :: "hook_env \<Rightarrow> CRGVK \<Rightarrow> hook_err list \<Rightarrow> hook_err list hookm" where
  "stripCRs v crgvk resultErr = do {
     let ns = (if Namespaced crgvk then ModuleNamespace else '''');
     let kind = CRList (gvk_Group crgvk) (gvk_Version crgvk) (gvk_Kind crgvk @ ''List'');
     l \<leftarrow> hask (hcl_List v kind ns) (HList kind ns);
     case l of
       Inl _ \<Rightarrow> State_Monad.return resultErr
     | Inr items \<Rightarrow> stripItems v (\<lambda>cr. length (Finalizers cr) = 0) items resultErr
   }"

definition handlerRemoveFinalizersOnModuleDelete :: "hook_env \<Rightarrow> hook_err list hookm" where
  "handlerRemoveFinalizersOnModuleDelete v = do {
     c \<leftarrow> hask (kubeclient_New v) HNewClient;
     case c of
       Some e \<Rightarrow> State_Monad.return [NoClient e]
     | None \<Rightarrow> do {
         resultErr \<leftarrow> stripList v SecretList [];
         resultErr \<leftarrow> stripList v ConfigMapList resultErr;
         resultErr \<leftarrow> foldM (deleteWebhook v) WebhookConfigurationsToDelete resultErr;
         resultErr \<leftarrow> stripStorageClasses v AllowedProvisioners resultErr;
         foldM (stripCRs v) CRGVKsForFinalizerRemoval resultErr
       }
   }"

section \<open>What the hook leaves behind\<close>

text \<open>
  Read from an event: the list it asked for, the objects a list obliges the hook to release, the object it
  released, and the error that has to be reported.
\<close>

definition asked :: "hook_event \<Rightarrow> (list_kind \<times> string) list" where
  "asked ev = (case ev of HList kind ns _ \<Rightarrow> [(kind, ns)] | _ \<Rightarrow> [])"

definition owed :: "hook_event \<Rightarrow> hook_obj list" where
  "owed ev = (case ev of
     HList StorageClassList _ (Inr items) \<Rightarrow> filter (\<lambda>sc. obj_Provisioner sc = LocalStorageClassProvisioner) items
   | HList (CRList _ _ _) _ (Inr items) \<Rightarrow> filter (\<lambda>cr. Finalizers cr \<noteq> []) items
   | HList _ _ (Inr items) \<Rightarrow> items
   | _ \<Rightarrow> [])"

definition released :: "hook_event \<Rightarrow> hook_obj list" where
  "released ev = (case ev of HPatch obj obj' _ \<Rightarrow> if obj' = obj\<lparr>Finalizers := []\<rparr> then [obj] else [] | _ \<Rightarrow> [])"

definition failure :: "hook_event \<Rightarrow> hook_err list" where
  "failure ev = (case ev of
     HNewClient (Some e) \<Rightarrow> [NoClient e]
   | HList (CRList _ _ _) _ (Inl e) \<Rightarrow> []
   | HList kind _ (Inl e) \<Rightarrow> [CannotList kind e]
   | HPatch obj _ (Some e) \<Rightarrow> [CannotPatch (Name obj) e]
   | HDeleteWebhook name (Some e) \<Rightarrow> [CannotDelete name e]
   | _ \<Rightarrow> [])"

definition writes :: "hook_event \<Rightarrow> hook_event list" where
  "writes ev = (case ev of HPatch _ _ _ \<Rightarrow> [ev] | HDeleteWebhook _ _ \<Rightarrow> [ev] | _ \<Rightarrow> [])"

definition inOrder :: "(hook_event \<Rightarrow> 'x list) \<Rightarrow> hook_event list \<Rightarrow> 'x list" where
  "inOrder f h = concat (map f (rev h))"

lemma inOrder_simps [simp]: "inOrder f [] = []" "inOrder f (ev # h) = inOrder f h @ f ev"
  by (simp_all add: inOrder_def)

lemmas event_views = asked_def owed_def released_def failure_def writes_def

text \<open>A loop over the items of a list releases the wanted ones and adds its failures.\<close>

definition keepsPace :: "hook_err list \<Rightarrow> hook_event list \<Rightarrow> hook_obj list \<Rightarrow> hook_err list \<Rightarrow> hook_event list \<Rightarrow> bool" where
  "keepsPace errs0 h0 objs errs h \<longleftrightarrow>
     inOrder released h = inOrder released h0 @ objs \<and> inOrder owed h = inOrder owed h0 \<and>
     inOrder asked h = inOrder asked h0 \<and>
     (errs0 = inOrder failure h0 \<longrightarrow> errs = inOrder failure h) \<and>
     length (inOrder writes h) = length (inOrder writes h0) + length objs"

lemma stripItems_keepsPace:
  "wp (stripItems v skip items errs) (keepsPace errs h (filter (\<lambda>x. \<not> skip x) items)) h"
proof -
  have "wp (stripItems v skip items errs) ((\<lambda>done. keepsPace errs h (filter (\<lambda>x. \<not> skip x) done)) items) h"
    unfolding stripItems_def
    by (rule wp_foldM_prefix)
      (auto simp: keepsPace_def removeFinalizersFromObject_def errors_Join_def Let_def wp_rules event_views split: option.split)
  then show ?thesis .
qed

definition hookOk :: "(list_kind \<times> string) list \<Rightarrow> hook_err list \<Rightarrow> hook_event list \<Rightarrow> bool" where
  "hookOk ks errs h \<longleftrightarrow> inOrder asked h = ks \<and> inOrder released h = inOrder owed h \<and> errs = inOrder failure h \<and>
     length (inOrder writes h) = length (inOrder released h)"

lemma stripItems_ok:
  assumes "hookOk ks errs h" "filter (\<lambda>x. \<not> skip x) items = owed (HList kind ns (Inr items))"
  shows "wp (stripItems v skip items errs) (hookOk (ks @ [(kind, ns)])) (HList kind ns (Inr items) # h)"
proof (rule wp_mono [OF stripItems_keepsPace])
  have none: "released (HList kind ns (Inr items)) = []" "failure (HList kind ns (Inr items)) = []"
    "writes (HList kind ns (Inr items)) = []" "asked (HList kind ns (Inr items)) = [(kind, ns)]"
    by (simp_all add: event_views split: list_kind.split)
  show "hookOk (ks @ [(kind, ns)]) a s'"
    if "keepsPace errs (HList kind ns (Inr items) # h) (filter (\<lambda>x. \<not> skip x) items) a s'" for a s'
    using that assms by (simp add: keepsPace_def hookOk_def none)
qed

lemma hookOk_list_failed:
  assumes "hookOk ks errs h"
  shows "hookOk (ks @ [(kind, ns)]) (errs @ failure (HList kind ns (Inl e))) (HList kind ns (Inl e) # h)"
  using assms by (simp add: hookOk_def event_views split: list_kind.split)

lemma stripList_ok:
  assumes "hookOk ks errs h" "kind = SecretList \<or> kind = ConfigMapList"
  shows "wp (stripList v kind errs) (hookOk (ks @ [(kind, ModuleNamespace)])) h"
proof -
  have "filter (\<lambda>x. \<not> False) items = owed (HList kind ModuleNamespace (Inr items))" for items
    using assms(2) by (auto simp: owed_def)
  moreover have "failure (HList kind ModuleNamespace (Inl e)) = [CannotList kind e]" for e
    using assms(2) by (auto simp: failure_def)
  ultimately show ?thesis
    unfolding stripList_def wp_bind wp_hask
    using hookOk_list_failed [OF assms(1), of kind ModuleNamespace] stripItems_ok [OF assms(1), where kind = kind]
    by (auto simp: wp_rules errors_Join_def split: sum.split)
qed

lemma stripStorageClasses_ok:
  assumes "hookOk ks errs h"
  shows "wp (stripStorageClasses v AllowedProvisioners errs) (hookOk (ks @ [(StorageClassList, '''')])) h"
proof -
  have owed: "filter (\<lambda>sc. \<not> obj_Provisioner sc \<noteq> ''local.csi.storage.deckhouse.io'') items =
      owed (HList StorageClassList '''' (Inr items))" for items
    by (simp add: owed_def LocalStorageClassProvisioner_def)
  show ?thesis
    unfolding AllowedProvisioners_def stripStorageClasses.simps wp_bind wp_hask
    using hookOk_list_failed [OF assms, of StorageClassList "''''"] stripItems_ok [OF assms owed]
    by (auto simp: wp_rules errors_Join_def failure_def split: sum.split)
qed

lemma stripCRs_ok:
  assumes "hookOk ks errs h"
  shows "wp (foldM (stripCRs v) CRGVKsForFinalizerRemoval errs)
    (hookOk (ks @ [(CRList ''storage.deckhouse.io'' ''v1alpha1'' ''LocalStorageClassList'', '''')])) h"
proof -
  let ?kind = "CRList ''storage.deckhouse.io'' ''v1alpha1'' ''LocalStorageClassList''"
  have owed: "filter (\<lambda>cr. \<not> length (Finalizers cr) = 0) items = owed (HList ?kind '''' (Inr items))" for items
    by (simp add: owed_def)
  show ?thesis
    unfolding CRGVKsForFinalizerRemoval_def foldM.simps wp_bind
    using hookOk_list_failed [OF assms, of ?kind "''''"] stripItems_ok [OF assms owed]
    by (auto simp: stripCRs_def Let_def wp_rules failure_def split: sum.split)
qed

lemma handler_ok:
  "wp (handlerRemoveFinalizersOnModuleDelete v) (\<lambda>errs h. hookOk (if kubeclient_New v [] = None then
     [(SecretList, ModuleNamespace), (ConfigMapList, ModuleNamespace), (StorageClassList, ''''),
      (CRList ''storage.deckhouse.io'' ''v1alpha1'' ''LocalStorageClassList'', '''')] else []) errs h) []"
proof (cases "kubeclient_New v []")
  case None
  have start: "hookOk [] [] [HNewClient None]" by (simp add: hookOk_def event_views)
  show ?thesis
    unfolding handlerRemoveFinalizersOnModuleDelete_def wp_bind wp_hask None option.case WebhookConfigurationsToDelete_def
      foldM.simps wp_return
    by (rule wp_mono [OF stripList_ok [OF start]], simp)
      (erule wp_mono [OF stripList_ok] | erule wp_mono [OF stripStorageClasses_ok] | erule wp_mono [OF stripCRs_ok] | simp)+
next
  case (Some e)
  then show ?thesis
    by (simp add: handlerRemoveFinalizersOnModuleDelete_def wp_rules hookOk_def event_views)
qed


end
