(* ===== verification/Release_Notes.thy ===== *)
theory Release_Notes
  imports Go_Strings "HOL-Library.Multiset"
begin

text \<open>
  \<^verbatim>\<open>hack/generate_release_notes.go\<close>: the tool that turns the change log files of the repository into the two pages of
  release notes.

  A YAML document is a finite tree of nodes; an alias carries the node it stands for, so a document whose alias
  contains itself, on which the tool would recurse for ever, is outside the model.  The parser and the file
  system are functions of the environment; what the tool prints to the terminal is left out.
\<close>

section \<open>File names and versions\<close>

definition parseVersionFromFilename :: "string \<Rightarrow> string" where
  "parseVersionFromFilename filename = strings_TrimSuffix (strings_TrimSuffix filename ''.ru.yml'') ''.yml''"

text \<open>\<^verbatim>\<open>strconv.Atoi\<close> of digits beyond the range gives the largest integer, and its error is ignored.\<close>

definition digitsValue :: "string \<Rightarrow> int" where
  "digitsValue s = (case parseDigits 0 s of None \<Rightarrow> 0 | Some n \<Rightarrow> min n (2 ^ 63 - 1))"

definition versionPart :: "string \<Rightarrow> int" where
  "versionPart p = (let m = takeWhile (\<lambda>c. digitOf c \<noteq> None) p in if m = '''' then 0 else digitsValue m)"

definition versionKey :: "string \<Rightarrow> int list" where
  "versionKey path =
    (let v = strings_TrimPrefix (parseVersionFromFilename (path_Base path)) ''v''
     in map versionPart (strings_Split (CHR ''.'') v))"

fun compareVersionKeys :: "int list \<Rightarrow> int list \<Rightarrow> int" where
  "compareVersionKeys [] [] = 0"
| "compareVersionKeys (a # as) [] = (if a \<noteq> 0 then (if a < 0 then - 1 else 1) else compareVersionKeys as [])"
| "compareVersionKeys [] (b # bs) = (if 0 \<noteq> b then (if 0 < b then - 1 else 1) else compareVersionKeys [] bs)"
| "compareVersionKeys (a # as) (b # bs) = (if a \<noteq> b then (if a < b then - 1 else 1) else compareVersionKeys as bs)"

text \<open>\<^verbatim>\<open>sort.SliceStable\<close>: a stable sort for a strict weak order.\<close>

primrec insertStable :: "('a \<Rightarrow> 'a \<Rightarrow> bool) \<Rightarrow> 'a \<Rightarrow> 'a list \<Rightarrow> 'a list" where
  "insertStable before x [] = [x]"
| "insertStable before x (y # ys) = (if before y x then y # insertStable before x ys else x # y # ys)"

definition sort_SliceStable :: "('a \<Rightarrow> 'a \<Rightarrow> bool) \<Rightarrow> 'a list \<Rightarrow> 'a list" where
  "sort_SliceStable before xs = foldr (insertStable before) xs []"

definition sortFilesByVersion :: "string list \<Rightarrow> string list" where
  "sortFilesByVersion files = sort_SliceStable (\<lambda>a b. compareVersionKeys (versionKey a) (versionKey b) < 0) files"

record dir_entry =
  entry_Name :: string
  entry_IsDir :: bool

definition getChangelogFiles :: "string \<Rightarrow> dir_entry list \<Rightarrow> string list \<times> string list" where
  "getChangelogFiles dir entries =
    (let names = map entry_Name (filter (\<lambda>e. \<not> entry_IsDir e) entries);
         full = (\<lambda>name. path_Join [dir, name]);
         ru = map full (filter (\<lambda>name. strings_HasSuffix name ''.ru.yml'') names);
         en = map full (filter (\<lambda>name. \<not> strings_HasSuffix name ''.ru.yml'' \<and> strings_HasSuffix name ''.yml'') names)
     in (sortFilesByVersion en, sortFilesByVersion ru))"

section \<open>Values\<close>

definition quote1 :: char where "quote1 = char_of (39 :: nat)"
definition quote2 :: char where "quote2 = char_of (34 :: nat)"
definition backslash :: char where "backslash = char_of (92 :: nat)"

definition pyQuote :: "string \<Rightarrow> string" where
  "pyQuote s =
    (let hasSingle = quote1 \<in> set s; hasDouble = quote2 \<in> set s
     in if hasSingle \<and> \<not> hasDouble
        then [quote2] @ replaceChar quote2 [backslash, quote2] (replaceChar backslash [backslash, backslash] s) @ [quote2]
        else [quote1] @ replaceChar quote1 [backslash, quote1] (replaceChar backslash [backslash, backslash] s) @ [quote1])"

datatype yaml_kind = DocumentNode | ScalarNode | MappingNode | SequenceNode | AliasNode | ZeroNode

datatype yaml_node = Node (Kind: yaml_kind) (Value: string) (Content: "yaml_node list") (Alias: "yaml_node option")

text \<open>The loops over the pairs of a mapping and over the items of a sequence are the functions beside the formatter.\<close>

function (sequential) formatPyValue :: "yaml_node \<Rightarrow> string"
  and pyPairs :: "yaml_node list \<Rightarrow> string list" and pyItems :: "yaml_node list \<Rightarrow> string list" where
  "formatPyValue (Node k v c a) = (case k of
     DocumentNode \<Rightarrow> (case c of [] \<Rightarrow> ''None'' | d # _ \<Rightarrow> formatPyValue d)
   | ScalarNode \<Rightarrow> pyQuote v
   | MappingNode \<Rightarrow> ''{'' @ strings_Join '', '' (pyPairs c) @ ''}''
   | SequenceNode \<Rightarrow> ''['' @ strings_Join '', '' (pyItems c) @ '']''
   | AliasNode \<Rightarrow> (case a of Some n \<Rightarrow> formatPyValue n | None \<Rightarrow> v)
   | ZeroNode \<Rightarrow> v)"
| "pyPairs (x # y # rest) = (formatPyValue x @ '': '' @ formatPyValue y) # pyPairs rest"
| "pyPairs _ = []"
| "pyItems [] = []"
| "pyItems (x # rest) = formatPyValue x # pyItems rest"
  by pat_completeness auto
termination
  by (relation "measure (\<lambda>x. case x of Inl n \<Rightarrow> size n | Inr (Inl l) \<Rightarrow> size_list size l | Inr (Inr l) \<Rightarrow> size_list size l)")
    auto

function (sequential) formatChange :: "yaml_node \<Rightarrow> string"
  and changePairs :: "yaml_node list \<Rightarrow> string list" and changeItems :: "yaml_node list \<Rightarrow> string list" where
  "formatChange (Node k v c a) = (case k of
     ScalarNode \<Rightarrow> v
   | MappingNode \<Rightarrow> strings_Join '', '' (changePairs c)
   | SequenceNode \<Rightarrow> strings_Join '', '' (changeItems c)
   | DocumentNode \<Rightarrow> (case c of [] \<Rightarrow> '''' | d # _ \<Rightarrow> formatChange d)
   | AliasNode \<Rightarrow> (case a of Some n \<Rightarrow> formatChange n | None \<Rightarrow> formatPyValue (Node k v c a))
   | ZeroNode \<Rightarrow> formatPyValue (Node k v c a))"
| "changePairs (x # y # rest) = (Value x @ '': '' @ formatChange y) # changePairs rest"
| "changePairs _ = []"
| "changeItems [] = []"
| "changeItems (x # rest) = formatChange x # changeItems rest"
  by pat_completeness auto
termination
  by (relation "measure (\<lambda>x. case x of Inl n \<Rightarrow> size n | Inr (Inl l) \<Rightarrow> size_list size l | Inr (Inr l) \<Rightarrow> size_list size l)")
    auto

section \<open>The pages\<close>

text \<open>The Russian words in UTF-8.\<close>

definition utf8 :: "nat list \<Rightarrow> string" where
  "utf8 bs = map char_of bs"

definition russianTitle :: string where
  "russianTitle = utf8 [0xD0, 0xA0, 0xD0, 0xB5, 0xD0, 0xBB, 0xD0, 0xB8, 0xD0, 0xB7, 0xD1, 0x8B]"

definition russianChanges :: string where
  "russianChanges = utf8 [0xD0, 0x98, 0xD0, 0xB7, 0xD0, 0xBC, 0xD0, 0xB5, 0xD0, 0xBD, 0xD0, 0xB5, 0xD0, 0xBD, 0xD0, 0xB8, 0xD1, 0x8F]"

definition pageHead :: "bool \<Rightarrow> string list" where
  "pageHead isRussian = [''---'', ''title: '' @ [quote2] @ (if isRussian then russianTitle else ''Release Notes'') @ [quote2], ''---'', '''']"

definition changesKey :: "bool \<Rightarrow> string" where
  "changesKey isRussian = (if isRussian then russianChanges else ''Changes'')"

fun valueOf :: "string \<Rightarrow> yaml_node list \<Rightarrow> yaml_node option" where
  "valueOf key (k # v # rest) = (if Value k = key then Some v else valueOf key rest)"
| "valueOf key _ = None"

definition bullets :: "yaml_node option \<Rightarrow> string list" where
  "bullets changes = (case changes of
     None \<Rightarrow> []
   | Some n \<Rightarrow> if Kind n = SequenceNode then map (\<lambda>c. ''* '' @ formatChange c) (Content n) else [''* '' @ formatChange n])"

text \<open>The mapping at the top of a file, \<^term>\<open>None\<close> when the file is skipped; its section.\<close>

definition topMapping :: "(string \<Rightarrow> 'e + string) \<Rightarrow> (string \<Rightarrow> 'e + yaml_node) \<Rightarrow> string \<Rightarrow> yaml_node list option" where
  "topMapping readFile unmarshal fp = (case readFile fp of
     Inl _ \<Rightarrow> None
   | Inr data \<Rightarrow> (case unmarshal data of
       Inl _ \<Rightarrow> None
     | Inr root \<Rightarrow> if Kind root \<noteq> DocumentNode then None
         else (case Content root of
           [] \<Rightarrow> None
         | t # _ \<Rightarrow> if Kind t \<noteq> MappingNode then None else Some (Content t))))"

definition fileSection :: "(string \<Rightarrow> 'e + string) \<Rightarrow> (string \<Rightarrow> 'e + yaml_node) \<Rightarrow> bool \<Rightarrow> string \<Rightarrow> string list" where
  "fileSection readFile unmarshal isRussian fp = (case topMapping readFile unmarshal fp of
     None \<Rightarrow> []
   | Some content \<Rightarrow>
       [''## '' @ parseVersionFromFilename (path_Base fp), ''''] @ bullets (valueOf (changesKey isRussian) content) @ [''''])"

definition generateMarkdownContent ::
  "(string \<Rightarrow> 'e + string) \<Rightarrow> (string \<Rightarrow> 'e + yaml_node) \<Rightarrow> string list \<Rightarrow> bool \<Rightarrow> string" where
  "generateMarkdownContent readFile unmarshal files isRussian =
    strings_Join [CHR 0x0A] (pageHead isRussian @ concat (map (fileSection readFile unmarshal isRussian) (rev files)))"

section \<open>The run\<close>

datatype fs_err = FSNotExist | FSOther string

datatype notes_event =
    RNStat string "fs_err option"
  | RNReadDir string "fs_err + dir_entry list"
  | RNRemove string "fs_err option"
  | RNMkdirAll string "fs_err option"
  | RNWriteFile string string "fs_err option"

record notes_env =
  rn_Getenv :: "string \<Rightarrow> string"
  rn_Executable :: "string + string"
  rn_EvalSymlinks :: "string \<Rightarrow> string + string"
  rn_Stat :: "string \<Rightarrow> notes_event list \<Rightarrow> fs_err option"
  rn_ReadDir :: "string \<Rightarrow> notes_event list \<Rightarrow> fs_err + dir_entry list"
  rn_Remove :: "string \<Rightarrow> notes_event list \<Rightarrow> fs_err option"
  rn_MkdirAll :: "string \<Rightarrow> notes_event list \<Rightarrow> fs_err option"
  rn_ReadFile :: "string \<Rightarrow> notes_event list \<Rightarrow> fs_err + string"
  rn_WriteFile :: "string \<Rightarrow> string \<Rightarrow> notes_event list \<Rightarrow> fs_err option"
  rn_Unmarshal :: "string \<Rightarrow> fs_err + yaml_node"

type_synonym 'a notesm = "(notes_event list, 'a) state"

definition rnask :: "(notes_event list \<Rightarrow> 'a) \<Rightarrow> ('a \<Rightarrow> notes_event) \<Rightarrow> 'a notesm" where
  "rnask q ev = State (\<lambda>h. let a = q h in (a, ev a # h))"

lemma wp_rnask [simp, wp_rules]: "wp (rnask q ev) Q = (\<lambda>h. Q (q h) (ev (q h) # h))"
  by (rule ext) (simp add: rnask_def wp_State Let_def)

definition resolveProjectRoot :: "notes_env \<Rightarrow> string + string" where
  "resolveProjectRoot v =
    (if rn_Getenv v ''RELEASE_NOTES_ROOT'' \<noteq> '''' then Inr (rn_Getenv v ''RELEASE_NOTES_ROOT'')
     else case rn_Executable v of
       Inl e \<Rightarrow> Inl e
     | Inr exe \<Rightarrow> (let exe = (case rn_EvalSymlinks v exe of Inl _ \<Rightarrow> exe | Inr resolved \<Rightarrow> resolved)
                    in Inr (path_Dir (path_Dir exe))))"

definition removeOld :: "notes_env \<Rightarrow> string \<Rightarrow> string \<Rightarrow> unit notesm" where
  "removeOld v outputDir name = do {
     let fp = path_Join [outputDir, name];
     st \<leftarrow> rnask (rn_Stat v fp) (RNStat fp);
     if st = None then do {
       _ \<leftarrow> rnask (rn_Remove v fp) (RNRemove fp);
       State_Monad.return ()
     } else State_Monad.return ()
   }"

text \<open>One page; \<^term>\<open>True\<close> when it was written or there was nothing to write.\<close>

definition writePage :: "notes_env \<Rightarrow> string \<Rightarrow> string \<Rightarrow> string list \<Rightarrow> bool \<Rightarrow> bool notesm" where
  "writePage v outputDir name files isRussian =
    (if files = [] then State_Monad.return True
     else do {
       h \<leftarrow> State_Monad.get;
       let content = generateMarkdownContent (\<lambda>fp. rn_ReadFile v fp h) (rn_Unmarshal v) files isRussian;
       let out = path_Join [outputDir, name];
       w \<leftarrow> rnask (rn_WriteFile v out content) (RNWriteFile out content);
       State_Monad.return (w = None)
     })"

definition writeNotes :: "notes_env \<Rightarrow> string \<Rightarrow> string list \<Rightarrow> string list \<Rightarrow> int notesm" where
  "writeNotes v outputDir enFiles ruFiles = do {
     removeOld v outputDir ''RELEASE_NOTES.md'';
     removeOld v outputDir ''RELEASE_NOTES.ru.md'';
     mk \<leftarrow> rnask (rn_MkdirAll v outputDir) (RNMkdirAll outputDir);
     if mk \<noteq> None then State_Monad.return 1
     else do {
       en \<leftarrow> writePage v outputDir ''RELEASE_NOTES.md'' enFiles False;
       if \<not> en then State_Monad.return 1
       else do {
         ru \<leftarrow> writePage v outputDir ''RELEASE_NOTES.ru.md'' ruFiles True;
         State_Monad.return (if \<not> ru then 1 else 0)
       }
     }
   }"

definition run :: "notes_env \<Rightarrow> int notesm" where
  "run v = (case resolveProjectRoot v of
     Inl _ \<Rightarrow> State_Monad.return 1
   | Inr projectRoot \<Rightarrow> do {
       let changelogDir = path_Join [projectRoot, ''CHANGELOG''];
       let outputDir = path_Join [projectRoot, ''docs''];
       st \<leftarrow> rnask (rn_Stat v changelogDir) (RNStat changelogDir);
       if st = Some FSNotExist then State_Monad.return 1
       else do {
         entries \<leftarrow> rnask (rn_ReadDir v changelogDir) (RNReadDir changelogDir);
         case entries of
           Inl _ \<Rightarrow> State_Monad.return 1
         | Inr es \<Rightarrow> (case getChangelogFiles changelogDir es of (enFiles, ruFiles) \<Rightarrow>
             if length enFiles = 0 \<and> length ruFiles = 0 then State_Monad.return 1
             else if length enFiles \<noteq> length ruFiles then State_Monad.return 1
             else writeNotes v outputDir enFiles ruFiles)
       }
     })"

section \<open>Versions\<close>

text \<open>A key without its trailing zeros: two keys compare as these do in the lexicographic order.\<close>

fun significant :: "int list \<Rightarrow> int list" where
  "significant [] = []"
| "significant (x # xs) = (let rest = significant xs in if x = 0 \<and> rest = [] then [] else x # rest)"

lemma nil_less: "[] < xs \<longleftrightarrow> xs \<noteq> []" for xs :: "int list"
  by (cases xs) simp_all

lemma compare_significant:
  assumes "\<forall>x \<in> set as. 0 \<le> x" "\<forall>x \<in> set bs. 0 \<le> x"
  shows "compareVersionKeys as bs < 0 \<longleftrightarrow> significant as < significant bs"
  using assms by (induction as bs rule: compareVersionKeys.induct) (auto simp: Let_def nil_less)

lemma digitOf_nonneg: "digitOf c = Some d \<Longrightarrow> 0 \<le> d"
  by (auto simp: digitOf_def split: if_splits)

lemma parseDigits_nonneg: "0 \<le> acc \<Longrightarrow> parseDigits acc s = Some n \<Longrightarrow> 0 \<le> n"
proof (induction s arbitrary: acc)
  case (Cons c s)
  then obtain d where "digitOf c = Some d" "parseDigits (10 * acc + d) s = Some n" by (auto split: option.splits)
  with Cons.IH [of "10 * acc + d"] Cons.prems(1) digitOf_nonneg show ?case by simp
qed simp

lemma versionKey_nonneg: "x \<in> set (versionKey path) \<Longrightarrow> 0 \<le> x"
  by (auto simp: versionKey_def versionPart_def digitsValue_def Let_def split: option.splits dest: parseDigits_nonneg [OF order_refl])

definition versionRank :: "string \<Rightarrow> int list" where
  "versionRank path = significant (versionKey path)"

lemma sortFilesByVersion_key: "sortFilesByVersion files = sort_key versionRank files"
proof -
  have cmp: "compareVersionKeys (versionKey a) (versionKey b) < 0 \<longleftrightarrow> versionRank a < versionRank b" for a b
    unfolding versionRank_def by (rule compare_significant) (auto simp: versionKey_nonneg)
  have "insertStable (\<lambda>a b. compareVersionKeys (versionKey a) (versionKey b) < 0) x ys = insort_key versionRank x ys" for x ys
    by (induction ys) (auto simp: cmp not_le)
  then have "insertStable (\<lambda>a b. compareVersionKeys (versionKey a) (versionKey b) < 0) = insort_key versionRank"
    by blast
  then show ?thesis
    by (simp add: sortFilesByVersion_def sort_SliceStable_def sort_key_def)
qed

text \<open>The sorted files are the given ones, in the order of their versions, equal versions in the given order.\<close>

lemma files_sorted_by_version:
  "mset (sortFilesByVersion files) = mset files" "sorted (map versionRank (sortFilesByVersion files))"
  "filter (\<lambda>f. versionRank f = r) (sortFilesByVersion files) = filter (\<lambda>f. versionRank f = r) files"
  unfolding sortFilesByVersion_key by (simp_all add: sort_key_stable)

section \<open>Quoting\<close>

text \<open>Reading a quoted string back.\<close>

fun unescape :: "char \<Rightarrow> string \<Rightarrow> string option" where
  "unescape q [] = None"
| "unescape q (c # s) =
    (if c = q then (if s = [] then Some [] else None)
     else if c = backslash then (case s of [] \<Rightarrow> None | d # s' \<Rightarrow> map_option (Cons d) (unescape q s'))
     else map_option (Cons c) (unescape q s))"

fun unquote :: "string \<Rightarrow> string option" where
  "unquote [] = None"
| "unquote (q # s) = unescape q s"

lemma quotes_distinct [simp]: "quote1 \<noteq> backslash" "quote2 \<noteq> backslash" "backslash \<noteq> quote1" "backslash \<noteq> quote2"
  by (simp_all add: quote1_def quote2_def backslash_def)

lemma replaceChar_simps [simp]:
  "replaceChar c new [] = []" "replaceChar c new (d # s) = (if d = c then new else [d]) @ replaceChar c new s"
  "replaceChar c new (s @ t) = replaceChar c new s @ replaceChar c new t"
  by (simp_all add: replaceChar_def)

lemma unescape_escaped:
  assumes "q \<noteq> backslash"
  shows "unescape q (replaceChar q [backslash, q] (replaceChar backslash [backslash, backslash] s) @ [q]) = Some s"
  using assms by (induction s) auto

lemma unquote_pyQuote: "unquote (pyQuote s) = Some s"
  by (auto simp: pyQuote_def Let_def unescape_escaped)

section \<open>Successful runs\<close>

definition pageWritten :: "notes_env \<Rightarrow> string \<Rightarrow> string list \<Rightarrow> bool \<Rightarrow> notes_event list \<Rightarrow> bool" where
  "pageWritten v out files isRussian h \<longleftrightarrow>
    (\<exists>h0. RNWriteFile out (generateMarkdownContent (\<lambda>fp. rn_ReadFile v fp h0) (rn_Unmarshal v) files isRussian) None \<in> set h)"

lemma writePage_written:
  assumes "files \<noteq> []"
  shows "wp (writePage v dir name files isRussian)
    (\<lambda>ok h'. (ok \<longrightarrow> pageWritten v (path_Join [dir, name]) files isRussian h') \<and> set h \<subseteq> set h') h"
  using assms by (auto simp: writePage_def wp_rules Let_def pageWritten_def)

lemma pageWritten_mono: "pageWritten v out files b h \<Longrightarrow> set h \<subseteq> set h' \<Longrightarrow> pageWritten v out files b h'"
  by (auto simp: pageWritten_def)

definition runOk :: "notes_env \<Rightarrow> int \<Rightarrow> notes_event list \<Rightarrow> bool" where
  "runOk v code h \<longleftrightarrow> code \<in> {0, 1} \<and> (code = 0 \<longrightarrow> (\<exists>root entries en ru.
     resolveProjectRoot v = Inr root \<and>
     (en, ru) = getChangelogFiles (path_Join [root, ''CHANGELOG'']) entries \<and>
     RNReadDir (path_Join [root, ''CHANGELOG'']) (Inr entries) \<in> set h \<and>
     0 < length en \<and> length en = length ru \<and>
     pageWritten v (path_Join [path_Join [root, ''docs''], ''RELEASE_NOTES.md'']) en False h \<and>
     pageWritten v (path_Join [path_Join [root, ''docs''], ''RELEASE_NOTES.ru.md'']) ru True h))"

lemma removeOld_grows: "wp (removeOld v dir name) (\<lambda>_ h'. set h \<subseteq> set h') h"
  by (auto simp: removeOld_def wp_rules Let_def)

lemma writeNotes_ok:
  assumes "en \<noteq> []" "ru \<noteq> []"
  shows "wp (writeNotes v out en ru) (\<lambda>code h'. set h \<subseteq> set h' \<and> code \<in> {0, 1} \<and>
     (code = 0 \<longrightarrow> pageWritten v (path_Join [out, ''RELEASE_NOTES.md'']) en False h' \<and>
        pageWritten v (path_Join [out, ''RELEASE_NOTES.ru.md'']) ru True h')) h"
proof -
  let ?Q = "\<lambda>(code :: int) h'. set h \<subseteq> set h' \<and> code \<in> {0, 1} \<and>
     (code = 0 \<longrightarrow> pageWritten v (path_Join [out, ''RELEASE_NOTES.md'']) en False h' \<and>
        pageWritten v (path_Join [out, ''RELEASE_NOTES.ru.md'']) ru True h')"
  have second: "wp (writePage v out ''RELEASE_NOTES.ru.md'' ru True) (\<lambda>ok. ?Q (if \<not> ok then 1 else 0)) h1"
    if "set h \<subseteq> set h1" "pageWritten v (path_Join [out, ''RELEASE_NOTES.md'']) en False h1" for h1
    by (rule wp_mono [OF writePage_written [OF assms(2)]]) (use that in \<open>auto dest: pageWritten_mono\<close>)
  have first: "wp (writePage v out ''RELEASE_NOTES.md'' en False) (\<lambda>ok h'. if \<not> ok then ?Q 1 h' else
      wp (writePage v out ''RELEASE_NOTES.ru.md'' ru True) (\<lambda>ok. ?Q (if \<not> ok then 1 else 0)) h') h1"
    if "set h \<subseteq> set h1" for h1
    by (rule wp_mono [OF writePage_written [OF assms(1)]]) (use that second in auto)
  show ?thesis
    unfolding writeNotes_def wp_bind
  proof (rule wp_mono [OF removeOld_grows [of v out _ h]], rule wp_mono [OF removeOld_grows])
    fix h1 h2 assume "set h \<subseteq> set h1" "set h1 \<subseteq> set h2"
    then have mk: "set h \<subseteq> set (RNMkdirAll out (rn_MkdirAll v out h2) # h2)" by auto
    have "wp (writePage v out ''RELEASE_NOTES.md'' en False) (\<lambda>ok. wp (if \<not> ok then State_Monad.return 1 else do {
         ru \<leftarrow> writePage v out ''RELEASE_NOTES.ru.md'' ru True;
         State_Monad.return (if \<not> ru then 1 else 0)
       }) ?Q) (RNMkdirAll out (rn_MkdirAll v out h2) # h2)"
      by (rule wp_mono [OF first [OF mk]]) (simp add: wp_rules split: if_splits)
    with mk
    show "wp (rnask (rn_MkdirAll v out) (RNMkdirAll out)) (\<lambda>mk. wp (if mk \<noteq> None then State_Monad.return 1 else do {
         en \<leftarrow> writePage v out ''RELEASE_NOTES.md'' en False;
         if \<not> en then State_Monad.return 1
         else do {
           ru \<leftarrow> writePage v out ''RELEASE_NOTES.ru.md'' ru True;
           State_Monad.return (if \<not> ru then 1 else 0)
         }
       }) ?Q) h2"
      by (auto simp: wp_rules)
  qed
qed

lemma run_ok: "wp (run v) (runOk v) []"
proof (cases "resolveProjectRoot v")
  case (Inr root)
  let ?dir = "path_Join [root, ''CHANGELOG'']"
  have "wp (writeNotes v (path_Join [root, ''docs'']) en ru) (runOk v) h"
    if "getChangelogFiles ?dir es = (en, ru)" "RNReadDir ?dir (Inr es) \<in> set h" "en \<noteq> [] \<or> ru \<noteq> []" "length en = length ru"
    for en ru es h
  proof (rule wp_mono [OF writeNotes_ok])
    show "en \<noteq> []" "ru \<noteq> []" using that(3,4) by auto
  next
    fix code :: int and h'
    assume post: "set h \<subseteq> set h' \<and> code \<in> {0, 1} \<and>
      (code = 0 \<longrightarrow> pageWritten v (path_Join [path_Join [root, ''docs''], ''RELEASE_NOTES.md'']) en False h' \<and>
        pageWritten v (path_Join [path_Join [root, ''docs''], ''RELEASE_NOTES.ru.md'']) ru True h')"
    show "runOk v code h'"
      unfolding runOk_def using post that Inr
      by (intro conjI impI exI [of _ root] exI [of _ es] exI [of _ en] exI [of _ ru]) auto
  qed
  then show ?thesis
    unfolding run_def by (auto simp: Inr wp_rules Let_def runOk_def split: sum.split prod.split)
qed (simp add: run_def runOk_def)

text \<open>A run that reports success has written both pages from the whole change log.  It ends with 0 or 1, and with
  0 only if the change log has as many English as Russian files, at least one, and each page was written with
  the sections of its files, newest version first: the files of a page are those of the directory with its
  suffix, sorted by version, of which the page shows the reverse.\<close>

theorem successful_run_writes_both_pages:
  "case run_state (run v) [] of (code, h) \<Rightarrow> code \<in> {0, 1} \<and>
    (if code = 0 then \<exists>root entries en ru.
       resolveProjectRoot v = Inr root \<and>
       (en, ru) = getChangelogFiles (path_Join [root, ''CHANGELOG'']) entries \<and>
       RNReadDir (path_Join [root, ''CHANGELOG'']) (Inr entries) \<in> set h \<and>
       0 < length en \<and> length en = length ru \<and>
       sorted (map versionRank en) \<and> sorted (map versionRank ru) \<and>
       pageWritten v (path_Join [path_Join [root, ''docs''], ''RELEASE_NOTES.md'']) en False h \<and>
       pageWritten v (path_Join [path_Join [root, ''docs''], ''RELEASE_NOTES.ru.md'']) ru True h
     else True)"
proof -
  obtain code h where run: "run_state (run v) [] = (code, h)" by fastforce
  have sorted: "sorted (map versionRank (fst (getChangelogFiles dir es)))" "sorted (map versionRank (snd (getChangelogFiles dir es)))"
    for dir es
    by (simp_all add: getChangelogFiles_def Let_def files_sorted_by_version)
  have "runOk v code h" using wp_runD [OF run_ok run] .
  then show ?thesis
    unfolding run prod.case runOk_def by (metis sorted fst_conv snd_conv)
qed

end
