(* ===== verification/Shared_Objects.thy ===== *)
theory Shared_Objects
  imports LSC_Pass_Properties Watcher_Properties GC_Properties
begin

text \<open>
  The controllers, the driver and the users write the same objects of the API server concurrently.  This
  theory composes the routines with the documented optimistic concurrency of the server: what is stored
  is a function of the moment, changed by anyone, reads may be stale, and an update that carries a
  resource version is only accepted while that version is still the stored one.
\<close>

section \<open>Optimistic concurrency of the API server\<close>

text \<open>
  \<^term>\<open>versions key\<close> are all states the object ever has, \<^term>\<open>stored h key\<close> is the state at the moment of
  the call made after the history \<^term>\<open>h\<close>.
\<close>

definition versioned :: "(okey \<Rightarrow> 'a objmeta_scheme set) \<Rightarrow> bool" where
  "versioned versions \<longleftrightarrow> (\<forall>key. \<forall>a \<in> versions key.
     ObjectKeyFromObject a = key \<and> ResourceVersion a \<noteq> '''' \<and>
     (\<forall>b \<in> versions key. ResourceVersion a = ResourceVersion b \<longrightarrow> a = b))"

definition lockedWrites :: "(okey \<Rightarrow> 'a objmeta_scheme set) \<Rightarrow> ('h \<Rightarrow> okey \<Rightarrow> 'a objmeta_scheme option) \<Rightarrow>
    ('a objmeta_scheme \<Rightarrow> 'h \<Rightarrow> bool) \<Rightarrow> bool" where
  "lockedWrites versions stored accepted \<longleftrightarrow> versioned versions \<and>
     (\<forall>h key o0. stored h key = Some o0 \<longrightarrow> o0 \<in> versions key) \<and>
     (\<forall>o1 h. accepted o1 h \<longrightarrow> ResourceVersion o1 \<noteq> '''' \<longrightarrow>
        (\<exists>o0. stored h (ObjectKeyFromObject o1) = Some o0 \<and> ResourceVersion o0 = ResourceVersion o1))"

text \<open>A write derived from a version that was read replaces exactly that version.\<close>

lemma lockedWritesD:
  assumes "lockedWrites versions stored accepted" "fresh \<in> versions key" "accepted o1 h"
    and "ResourceVersion o1 = ResourceVersion fresh" "ObjectKeyFromObject o1 = ObjectKeyFromObject fresh"
  shows "stored h (ObjectKeyFromObject o1) = Some fresh"
proof -
  have key: "ObjectKeyFromObject fresh = key" "ResourceVersion fresh \<noteq> ''''"
    and same: "\<And>b. b \<in> versions key \<Longrightarrow> ResourceVersion fresh = ResourceVersion b \<Longrightarrow> fresh = b"
    using assms(1,2) unfolding lockedWrites_def versioned_def by blast+
  obtain o0 where o0: "stored h (ObjectKeyFromObject o1) = Some o0" "ResourceVersion o0 = ResourceVersion o1"
    using assms(1,3,4) key(2) unfolding lockedWrites_def by metis
  then have "o0 \<in> versions key"
    using assms(1,5) key(1) unfolding lockedWrites_def by metis
  with same o0 assms(4) show ?thesis by metis
qed

lemma suffix_safe: "lscSafe v n scs (post @ e # h) \<Longrightarrow> lscWriteOk v n scs e h \<and> lscSafe v n scs h"
  by (induction post) auto

section \<open>The LocalStorageClass controller\<close>

definition lscServer :: "lsc_env \<Rightarrow> (okey \<Rightarrow> LocalStorageClass set) \<Rightarrow>
    (lsc_event list \<Rightarrow> okey \<Rightarrow> LocalStorageClass option) \<Rightarrow> bool" where
  "lscServer v versions stored \<longleftrightarrow>
     lockedWrites versions stored (\<lambda>o1 h. \<exists>rv. cl_Update_LSC v o1 h = Inr rv) \<and>
     (\<forall>key h o1. cl_Get_LSC v key h = Inr o1 \<longrightarrow> o1 \<in> versions key)"

definition scServer :: "lsc_env \<Rightarrow> (okey \<Rightarrow> StorageClass set) \<Rightarrow>
    (lsc_event list \<Rightarrow> okey \<Rightarrow> StorageClass option) \<Rightarrow> bool" where
  "scServer v versions stored \<longleftrightarrow>
     lockedWrites versions stored (\<lambda>o1 h. \<exists>rv. cl_Update_SC v o1 h = Inr rv) \<and>
     (\<forall>key h o1. cl_Get_SC v key h = Inr o1 \<longrightarrow> o1 \<in> versions key) \<and>
     (\<forall>sc h o1. cl_Create_SC v sc h = Inr o1 \<longrightarrow> o1 \<in> versions (ObjectKeyFromObject o1))"

text \<open>What a write makes of the object it replaces: our finalizers are taken off, or ours is added.\<close>

definition finalizersOnly :: "'a objmeta_scheme option \<Rightarrow> 'a objmeta_scheme \<Rightarrow> bool" where
  "finalizersOnly before o1 \<longleftrightarrow> (case before of
     None \<Rightarrow> False
   | Some o0 \<Rightarrow> o1 = o0\<lparr>Finalizers := keptFinalizers (Finalizers o0)\<rparr> \<or>
       o1 = o0\<lparr>Finalizers := Finalizers o0 @ [LocalStorageClassFinalizerName]\<rparr>)"

lemma finalizersOnly_locked:
  assumes "lockedWrites versions stored accepted" "fresh \<in> versions key" "accepted o1 h"
    and "o1 = fresh\<lparr>Finalizers := keptFinalizers (Finalizers fresh)\<rparr> \<or>
      o1 = fresh\<lparr>Finalizers := Finalizers fresh @ [LocalStorageClassFinalizerName]\<rparr>"
  shows "finalizersOnly (stored h (ObjectKeyFromObject o1)) o1"
proof -
  have "ResourceVersion o1 = ResourceVersion fresh" "ObjectKeyFromObject o1 = ObjectKeyFromObject fresh"
    using assms(4) by (auto simp: ObjectKeyFromObject_def)
  from lockedWritesD [OF assms(1-3) this] assms(4) show ?thesis
    by (simp add: finalizersOnly_def)
qed

lemma lsc_write_locked:
  assumes "lscServer v versions stored" "lscWriteOk v n scs (LUpdateLSC o1 (Inr rv)) h"
  shows "finalizersOnly (stored h (ObjectKeyFromObject o1)) o1"
proof -
  from assms(2) obtain key fresh h' where "cl_Update_LSC v o1 h = Inr rv" "cl_Get_LSC v key h' = Inr fresh"
    "o1 = fresh\<lparr>Finalizers := keptFinalizers (Finalizers fresh)\<rparr> \<or>
     o1 = fresh\<lparr>Finalizers := Finalizers fresh @ [LocalStorageClassFinalizerName]\<rparr>"
    by (auto simp: lscWriteOk_def)
  with assms(1) finalizersOnly_locked [of versions stored _ fresh key o1 h] show ?thesis
    unfolding lscServer_def by blast
qed

lemma sc_write_locked:
  assumes "scServer v versions stored" "lscSafe v n scs (LUpdateSC o1 (Inr rv) # h)"
  shows "finalizersOnly (stored h (ObjectKeyFromObject o1)) o1"
proof -
  from assms(2) have accepted: "cl_Update_SC v o1 h = Inr rv" and safe: "lscSafe v n scs h"
    and cases: "(\<exists>key fresh h'. h = LGetSC key (Inr fresh) # h' \<and> cl_Get_SC v key h' = Inr fresh \<and>
          o1 = fresh\<lparr>Finalizers := keptFinalizers (Finalizers fresh)\<rparr>) \<or>
       (\<exists>c fresh h'. h = LCreateSC c (Inr fresh) # h' \<and>
          o1 = fresh\<lparr>Finalizers := Finalizers fresh @ [LocalStorageClassFinalizerName]\<rparr>)"
    by (simp_all add: lscWriteOk_def)
  from cases obtain key fresh where "fresh \<in> versions key"
    "o1 = fresh\<lparr>Finalizers := keptFinalizers (Finalizers fresh)\<rparr> \<or>
     o1 = fresh\<lparr>Finalizers := Finalizers fresh @ [LocalStorageClassFinalizerName]\<rparr>"
  proof (elim disjE exE conjE)
    fix key fresh h'
    assume "cl_Get_SC v key h' = Inr fresh" "o1 = fresh\<lparr>Finalizers := keptFinalizers (Finalizers fresh)\<rparr>"
    with assms(1) that [of fresh key] show thesis unfolding scServer_def by blast
  next
    fix c fresh h'
    assume h: "h = LCreateSC c (Inr fresh) # h'"
      and o1: "o1 = fresh\<lparr>Finalizers := Finalizers fresh @ [LocalStorageClassFinalizerName]\<rparr>"
    from safe h have "cl_Create_SC v c h' = Inr fresh" by (simp add: lscWriteOk_def)
    with assms(1) have "fresh \<in> versions (ObjectKeyFromObject fresh)"
      unfolding scServer_def by blast
    with that o1 show thesis by blast
  qed
  with assms(1) accepted finalizersOnly_locked [of versions stored _ fresh key o1 h] show ?thesis
    unfolding scServer_def by blast
qed

text \<open>C11: A pass over a LocalStorageClass never undoes what another client wrote.  Reads may come from a
  stale cache and anybody may write between a read and a write of the pass; still every update of the
  LocalStorageClass or of the StorageClass that the API server accepts differs from the state stored at
  that moment only in that the controller's finalizers are taken off or its finalizer is added.\<close>

theorem pass_loses_no_update:
  assumes "retry_ok (retry_OnConflict v)" "lhist s = []"
    and "lscServer v lscVersions lscStored" "scServer v scVersions scStored"
    and "run_state (RunEventReconcile v scs ignored) s = (r, s')"
  shows "(\<forall>post o1 rv h. lhist s' = post @ LUpdateLSC o1 (Inr rv) # h \<longrightarrow>
       finalizersOnly (lscStored h (ObjectKeyFromObject o1)) o1) \<and>
    (\<forall>post o1 rv h. lhist s' = post @ LUpdateSC o1 (Inr rv) # h \<longrightarrow>
       finalizersOnly (scStored h (ObjectKeyFromObject o1)) o1)"
proof -
  have "lscInv v (Name (cur s)) scs s" using assms(2) by (simp add: lscInv_def)
  from wp_runD [OF RunEventReconcile_inv [OF assms(1) this] assms(5)]
  have safe: "lscSafe v (Name (cur s)) scs (lhist s')" by (simp add: lscInv_def)
  show ?thesis
    using suffix_safe [of v "Name (cur s)" scs] safe lsc_write_locked [OF assms(3)] sc_write_locked [OF assms(4)]
    by (metis lscSafe.simps(2))
qed

section \<open>The node watcher\<close>

definition moduleLabels :: "string set" where
  "moduleLabels = {localCsiNodeSelectorLabel, nodeManualEvictionLabel, candidateManualEvictionLabel}"

text \<open>What a write makes of the object it replaces: labels of the module are set or deleted.\<close>

definition labelsOnly :: "'a objmeta_scheme option \<Rightarrow> 'a objmeta_scheme \<Rightarrow> bool" where
  "labelsOnly before o1 \<longleftrightarrow> (case before of
     None \<Rightarrow> False
   | Some o0 \<Rightarrow> o1 = o0\<lparr>Labels := Labels o1\<rparr> \<and>
       (\<forall>k. k \<notin> moduleLabels \<longrightarrow> fmlookup (labels_of o1) k = fmlookup (labels_of o0) k))"

definition relabelled :: "'a objmeta_scheme \<Rightarrow> 'a objmeta_scheme \<Rightarrow> bool" where
  "relabelled o0 o1 \<longleftrightarrow> labelsOnly (Some o0) o1"

lemma relabelled_set [simp]: "label \<in> moduleLabels \<Longrightarrow> relabelled o0 (setLabel label o0)"
  by (auto simp: relabelled_def labelsOnly_def setLabel_def)

lemma relabelled_delete [simp]: "label \<in> moduleLabels \<Longrightarrow> relabelled o0 (deleteLabel label o0)"
  by (cases "Labels o0") (auto simp: relabelled_def labelsOnly_def deleteLabel_def)

lemma relabelled_delete2 [simp]:
  "l1 \<in> moduleLabels \<Longrightarrow> l2 \<in> moduleLabels \<Longrightarrow> relabelled o0 (deleteLabel l1 (deleteLabel l2 o0))"
  by (cases "Labels o0") (auto simp: relabelled_def labelsOnly_def deleteLabel_def)

lemma moduleLabels_mem [simp]:
  "localCsiNodeSelectorLabel \<in> moduleLabels" "nodeManualEvictionLabel \<in> moduleLabels"
  "candidateManualEvictionLabel \<in> moduleLabels"
  by (simp_all add: moduleLabels_def)

definition listsVersions :: "(okey \<Rightarrow> 'a objmeta_scheme set) \<Rightarrow> kerr + 'a objmeta_scheme list \<Rightarrow> bool" where
  "listsVersions versions r \<longleftrightarrow> (case r of
     Inl _ \<Rightarrow> True | Inr os \<Rightarrow> list_all (\<lambda>o1. o1 \<in> versions (ObjectKeyFromObject o1)) os)"

lemma listsVersionsD:
  "listsVersions versions r \<Longrightarrow> r = Inr os \<Longrightarrow> list_all (\<lambda>n. n \<in> versions (ObjectKeyFromObject n)) os"
  by (simp add: listsVersions_def)

lemma labelsOnly_locked:
  assumes "lockedWrites versions stored accepted" "o0 \<in> versions (ObjectKeyFromObject o0)" "accepted o1 h"
    and "relabelled o0 o1"
  shows "labelsOnly (stored h (ObjectKeyFromObject o1)) o1"
proof -
  obtain ls where "o1 = o0\<lparr>Labels := ls\<rparr>"
    using assms(4) unfolding relabelled_def labelsOnly_def by auto
  then have "ResourceVersion o1 = ResourceVersion o0" "ObjectKeyFromObject o1 = ObjectKeyFromObject o0"
    by (simp_all add: ObjectKeyFromObject_def)
  from lockedWritesD [OF assms(1-3) this] assms(4) show ?thesis
    by (simp add: relabelled_def)
qed

definition nodeServer :: "watch_env \<Rightarrow> (okey \<Rightarrow> objmeta set) \<Rightarrow>
    (watch_event list \<Rightarrow> okey \<Rightarrow> objmeta option) \<Rightarrow> bool" where
  "nodeServer v versions stored \<longleftrightarrow>
     lockedWrites versions stored (\<lambda>o1 h. wcl_Update_Node v o1 h = None) \<and>
     (\<forall>sel h. listsVersions versions (wcl_List_Selected v sel h)) \<and>
     (\<forall>h. listsVersions versions (wcl_List_Nodes v h))"

definition lvgServer :: "watch_env \<Rightarrow> (okey \<Rightarrow> LVG set) \<Rightarrow>
    (watch_event list \<Rightarrow> okey \<Rightarrow> LVG option) \<Rightarrow> bool" where
  "lvgServer v versions stored \<longleftrightarrow>
     lockedWrites versions stored (\<lambda>o1 h. wcl_Update_LVG v o1 h = None) \<and>
     (\<forall>h. listsVersions versions (wcl_List_LVG v h))"

definition watchedLscServer :: "watch_env \<Rightarrow> (okey \<Rightarrow> LocalStorageClass set) \<Rightarrow>
    (watch_event list \<Rightarrow> okey \<Rightarrow> LocalStorageClass option) \<Rightarrow> bool" where
  "watchedLscServer v versions stored \<longleftrightarrow>
     lockedWrites versions stored (\<lambda>o1 h. wcl_Update_LSC v o1 h = None) \<and>
     (\<forall>h. listsVersions versions (wcl_List_LSC v h))"

lemma seen_nodes:
  assumes "nodeServer v versions stored" "watchSafe v h"
  shows "list_all (\<lambda>n. n \<in> versions (ObjectKeyFromObject n)) (lastSelected h @ lastNodes h)"
  using assms(2)
proof (induction h)
  case (Cons e h)
  have "list_all (\<lambda>n. n \<in> versions (ObjectKeyFromObject n)) os"
    if "wcl_List_Selected v sel h = Inr os \<or> wcl_List_Nodes v h = Inr os" for sel os
    using assms(1) that listsVersionsD [of versions _ os] unfolding nodeServer_def by metis
  with Cons show ?case by (cases e) (auto split: sum.splits)
qed simp

lemma seen_groups:
  assumes "lvgServer v versions stored" "watchSafe v h"
  shows "list_all (\<lambda>n. n \<in> versions (ObjectKeyFromObject n)) (lastLVGs h)"
  using assms(2)
proof (induction h)
  case (Cons e h)
  have "listsVersions versions (wcl_List_LVG v h)" using assms(1) by (simp add: lvgServer_def)
  with Cons show ?case by (cases e) (auto simp: listsVersions_def split: sum.splits)
qed simp

lemma seen_classes:
  assumes "watchedLscServer v versions stored" "watchSafe v h"
  shows "list_all (\<lambda>n. n \<in> versions (ObjectKeyFromObject n)) (lastLSCs h)"
  using assms(2)
proof (induction h)
  case (Cons e h)
  have "listsVersions versions (wcl_List_LSC v h)" using assms(1) by (simp add: watchedLscServer_def)
  with Cons show ?case by (cases e) (auto simp: listsVersions_def split: sum.splits)
qed simp

lemma watch_suffix_safe: "watchSafe v (post @ e # h) \<Longrightarrow> watchWriteOk v e h \<and> watchSafe v h"
  by (induction post) auto

lemma node_write_locked:
  assumes "nodeServer v versions stored" "watchSafe v (post @ WUpdateNode n None # h)"
  shows "labelsOnly (stored h (ObjectKeyFromObject n)) n"
proof -
  from watch_suffix_safe [OF assms(2)] have safe: "watchSafe v h" "nodeWriteOk v n h"
    and accepted: "wcl_Update_Node v n h = None" by simp_all
  from safe(2) obtain o0 where o0: "o0 \<in> set (lastSelected h @ lastNodes h)" "relabelled o0 n"
    unfolding nodeWriteOk_def staying_def leaving_def by fastforce
  with seen_nodes [OF assms(1) safe(1)] have "o0 \<in> versions (ObjectKeyFromObject o0)"
    by (simp only: list_all_iff)
  with assms(1) accepted o0(2) show ?thesis
    unfolding nodeServer_def by (blast intro: labelsOnly_locked)
qed

lemma lvg_write_locked:
  assumes "lvgServer v versions stored" "watchSafe v (post @ WUpdateLVG g None # h)"
  shows "labelsOnly (stored h (ObjectKeyFromObject g)) g"
proof -
  from watch_suffix_safe [OF assms(2)] have safe: "watchSafe v h" "lvgWriteOk v g h"
    and accepted: "wcl_Update_LVG v g h = None" by simp_all
  from safe(2) obtain o0 where o0: "o0 \<in> set (lastLVGs h)" "relabelled o0 g"
    unfolding lvgWriteOk_def by fastforce
  with seen_groups [OF assms(1) safe(1)] have "o0 \<in> versions (ObjectKeyFromObject o0)"
    by (simp only: list_all_iff)
  with assms(1) accepted o0(2) show ?thesis
    unfolding lvgServer_def by (blast intro: labelsOnly_locked)
qed

lemma class_write_locked:
  assumes "watchedLscServer v versions stored" "watchSafe v (post @ WUpdateLSC l None # h)"
  shows "labelsOnly (stored h (ObjectKeyFromObject l)) l"
proof -
  from watch_suffix_safe [OF assms(2)] have safe: "watchSafe v h" "lscLabelOk v l h"
    and accepted: "wcl_Update_LSC v l h = None" by simp_all
  from safe(2) obtain o0 where o0: "o0 \<in> set (lastLSCs h)" "relabelled o0 l"
    unfolding lscLabelOk_def by fastforce
  with seen_classes [OF assms(1) safe(1)] have "o0 \<in> versions (ObjectKeyFromObject o0)"
    by (simp only: list_all_iff)
  with assms(1) accepted o0(2) show ?thesis
    unfolding watchedLscServer_def by (blast intro: labelsOnly_locked)
qed

text \<open>C16: The node watcher never undoes what another client wrote, and it stays within its own labels: every
  update of a Node, an LVMVolumeGroup or a LocalStorageClass that the API server accepts, in any
  sequence of passes and for lists of any age, differs from the state stored at that moment only in the
  three labels of this module.  In particular it keeps the finalizers and the specification that the
  LocalStorageClass controller and the users write.\<close>

theorem watcher_loses_no_update:
  assumes "mapOrderOk v" "uniqueNames v" "watchSafe v h0"
    and "nodeServer v nodeVersions nodeStored" "lvgServer v lvgVersions lvgStored"
      "watchedLscServer v lscVersions lscStored"
    and "h1 = snd (run_state (watcherReconcile v request) h0)"
  shows "(\<forall>post n h. h1 = post @ WUpdateNode n None # h \<longrightarrow>
       labelsOnly (nodeStored h (ObjectKeyFromObject n)) n) \<and>
    (\<forall>post g h. h1 = post @ WUpdateLVG g None # h \<longrightarrow>
       labelsOnly (lvgStored h (ObjectKeyFromObject g)) g) \<and>
    (\<forall>post l h. h1 = post @ WUpdateLSC l None # h \<longrightarrow>
       labelsOnly (lscStored h (ObjectKeyFromObject l)) l)"
proof -
  have "wp (watcherReconcile v request) (\<lambda>_. watchSafe v) h0"
    by (rule watcherReconcile_safe [OF assms(1-3)])
  then have "watchSafe v h1" using assms(7) by (simp add: wp_run)
  with assms(4-6) show ?thesis
    using node_write_locked lvg_write_locked class_write_locked by blast
qed

section \<open>The garbage collector\<close>

definition gcServer :: "gc_env \<Rightarrow> string \<Rightarrow> (okey \<Rightarrow> objmeta set) \<Rightarrow>
    (gc_event list \<Rightarrow> okey \<Rightarrow> objmeta option) \<Rightarrow> bool" where
  "gcServer g kind versions stored \<longleftrightarrow>
     lockedWrites versions stored (\<lambda>o1 h. \<exists>base. cl_Patch g kind base o1 h = None) \<and>
     (\<forall>key h o1. liveReader_Get g kind key h = Inr o1 \<longrightarrow> o1 \<in> versions key)"

lemma gc_suffix_safe: "safeHist g (post @ e # h) \<Longrightarrow> safeHist g (e # h)"
  by (induction post) auto

text \<open>Every patch of the collector that the API server accepts, in any number of reconciles, replaces
  exactly the object that was read live: no write of the driver, of the node agent or of a user in between is overwritten, and
  only the CSI finalizer goes.\<close>

theorem collector_loses_no_update:
  assumes "retry_ok (retry_OnError g)" "gcServer g kind versions stored"
    and "hist (reconciles g interval n) = post @ EPatch kind base o1 None # h"
  shows "stored h (ObjectKeyFromObject o1) = Some base \<and>
    o1 = base\<lparr>Finalizers := filter (\<lambda>f. f \<noteq> SDSLocalVolumeCSIFinalizer) (Finalizers base)\<rparr>"
proof -
  have "safeHist g (hist (reconciles g interval n))"
    by (induction n) (simp_all add: gcStart_def reconcile_safe [OF assms(1)])
  with assms(3) gc_suffix_safe have safe: "safeHist g (EPatch kind base o1 None # h)" by metis
  then have accepted: "cl_Patch g kind base o1 h = None" and just: "patchJustified g kind base o1 h"
    and hist: "safeHist g h" by simp_all
  from just have o1: "o1 = base\<lparr>Finalizers := filter (\<lambda>f. f \<noteq> SDSLocalVolumeCSIFinalizer) (Finalizers base)\<rparr>"
    by (simp add: patchJustified_def)
  from just obtain key h' where "h = EGet kind key (Inr base) # h'"
    unfolding patchJustified_def by (metis list.collapse)
  with hist have "liveReader_Get g kind key h' = Inr base" by simp
  with assms(2) have "base \<in> versions key" unfolding gcServer_def by blast
  moreover have "ResourceVersion o1 = ResourceVersion base" "ObjectKeyFromObject o1 = ObjectKeyFromObject base"
    using o1 by (simp_all add: ObjectKeyFromObject_def)
  ultimately show ?thesis
    using o1 accepted assms(2) lockedWritesD [of versions stored _ base key o1 h] unfolding gcServer_def by blast
qed

section \<open>Races\<close>

text \<open>A pass that reads a stale LocalStorageClass, is refused, and succeeds with the one relabelled meanwhile.\<close>

definition staleDying :: LocalStorageClass where
  "staleDying = demoDying\<lparr>ResourceVersion := ''1''\<rparr>"

definition freshDying :: LocalStorageClass where
  "freshDying = demoDying\<lparr>ResourceVersion := ''2'', Labels := Some (fmupd ''team'' ''b'' fmempty)\<rparr>"

definition liveSC :: StorageClass where
  "liveSC = demoSC\<lparr>ResourceVersion := ''7''\<rparr>"

definition isLscUpdate :: "lsc_event \<Rightarrow> bool" where
  "isLscUpdate e \<longleftrightarrow> (case e of LUpdateLSC _ _ \<Rightarrow> True | _ \<Rightarrow> False)"

definition racingEnv :: lsc_env where
  "racingEnv = demoLscEnv\<lparr>
     cl_Get_LSC := \<lambda>key h. if key \<noteq> ObjectKeyFromObject demoDying then Inl NotFound
       else if list_ex isLscUpdate h then Inr freshDying else Inr staleDying,
     cl_Update_LSC := \<lambda>o1 h. if ObjectKeyFromObject o1 = ObjectKeyFromObject demoDying \<and> ResourceVersion o1 = ''2''
       then Inr ''3'' else Inl Conflict,
     cl_Get_SC := \<lambda>key h. if key = ObjectKeyFromObject demoSC then Inr liveSC else Inl NotFound,
     cl_Update_SC := \<lambda>o1 h. if ObjectKeyFromObject o1 = ObjectKeyFromObject demoSC \<and> ResourceVersion o1 = ''7''
       then Inr ''8'' else Inl Conflict,
     cl_Create_SC := \<lambda>o1 h. Inl AlreadyExists\<rparr>"

lemma demoSC_facts [simp]:
  "Name demoSC = ''local''" "Namespace demoSC = ''''" "Provisioner demoSC = LocalStorageClassProvisioner"
  "Finalizers demoSC = [LocalStorageClassFinalizerName]"
  by (simp_all add: demoSC_def configureStorageClass_def demoLSC_def demoYaml_def objmeta.extend_def meta0_def)

lemma demoDying_facts [simp]:
  "Name demoDying = ''local''" "Namespace demoDying = ''''" "DeletionTimestamp demoDying = Some 5"
  "Finalizers demoDying = [''a'', LocalStorageClassFinalizerNameOld, LocalStorageClassFinalizerName, ''b'']"
  by (simp_all add: demoDying_def demoLSC_def objmeta.extend_def meta0_def)

lemma racing_dispatch:
  "wp (dispatch racingEnv [liveSC] staleDying lvgs es []) (\<lambda>_ s'. \<exists>e h.
     lhist s' = e # LUpdateLSC (freshDying\<lparr>Finalizers := [''a'', ''b'']\<rparr>) (Inr ''3'') # h) (demoLscStart staleDying)"
  by (simp add: dispatch_def identifyReconcileFunc_def shouldReconcileByDeleteFunc_def
      reconcileLSCDeleteFunc_def deleteStorageClass_def removeSCFinalizers_def removeLSCFinalizers_def
      removeControllerFinalizers_def removeFinalizersAttempt_def setLocalStorageClassDeleting_def
      publishLocalStorageClassStatus_def keptFinalizers_def localStorageClassFinalizers_def
      racingEnv_def demoLscEnv_def demoLscStart_def staleDying_def freshDying_def liveSC_def ObjectKeyFromObject_def
      LocalStorageClassFinalizerName_def LocalStorageClassFinalizerNameOld_def
      numeral_eq_Suc Let_def wp_rules isConflict_def isLscUpdate_def)

definition racingOut :: "passResult \<times> lsc_state" where
  "racingOut = run_state (RunEventReconcile racingEnv [liveSC] []) (demoLscStart staleDying)"

lemma racing_update:
  "\<exists>e h. lhist (snd racingOut) = e # LUpdateLSC (freshDying\<lparr>Finalizers := [''a'', ''b'']\<rparr>) (Inr ''3'') # h"
proof -
  have cur: "cur (demoLscStart staleDying) = staleDying" "DeletionTimestamp staleDying = Some 5"
    by (simp_all add: demoLscStart_def staleDying_def)
  have "wp (RunEventReconcile racingEnv [liveSC] []) (\<lambda>_ s'. \<exists>e h.
     lhist s' = e # LUpdateLSC (freshDying\<lparr>Finalizers := [''a'', ''b'']\<rparr>) (Inr ''3'') # h) (demoLscStart staleDying)"
    using racing_dispatch unfolding RunEventReconcile_def by (simp add: cur wp_rules Let_def split: sum.split)
  then show ?thesis by (simp add: wp_run racingOut_def)
qed

lemma racing_servers:
  "lscServer racingEnv (\<lambda>key. if key = ObjectKeyFromObject demoDying then {staleDying, freshDying} else {})
     (\<lambda>h key. if key = ObjectKeyFromObject demoDying then Some freshDying else None)"
  "scServer racingEnv (\<lambda>key. if key = ObjectKeyFromObject demoSC then {liveSC} else {})
     (\<lambda>h key. if key = ObjectKeyFromObject demoSC then Some liveSC else None)"
  by (auto simp: lscServer_def scServer_def lockedWrites_def versioned_def racingEnv_def staleDying_def
      freshDying_def liveSC_def ObjectKeyFromObject_def split: if_splits)

theorem pass_loses_no_update_witness:
  "\<exists>e h. lhist (snd racingOut) = e # LUpdateLSC (freshDying\<lparr>Finalizers := [''a'', ''b'']\<rparr>) (Inr ''3'') # h \<and>
     finalizersOnly (Some freshDying) (freshDying\<lparr>Finalizers := [''a'', ''b'']\<rparr>)"
proof -
  have start: "retry_ok (retry_OnConflict racingEnv)" "lhist (demoLscStart staleDying) = []"
    by (simp_all add: racingEnv_def demoLscEnv_def demoLscStart_def)
  have run: "run_state (RunEventReconcile racingEnv [liveSC] []) (demoLscStart staleDying) =
      (fst racingOut, snd racingOut)"
    by (simp add: racingOut_def)
  obtain e h where eh: "lhist (snd racingOut) = [e] @ LUpdateLSC (freshDying\<lparr>Finalizers := [''a'', ''b'']\<rparr>) (Inr ''3'') # h"
    using racing_update by auto
  with pass_loses_no_update [OF start racing_servers run, THEN conjunct1] have
    "finalizersOnly (Some freshDying) (freshDying\<lparr>Finalizers := [''a'', ''b'']\<rparr>)"
    by (fastforce simp: freshDying_def ObjectKeyFromObject_def)
  with eh show ?thesis by simp
qed

text \<open>The same for the watcher: node \<^verbatim>\<open>b\<close> was changed after the list, so only the write to \<^verbatim>\<open>a\<close> is accepted.\<close>

definition listedNode :: "string \<Rightarrow> objmeta" where
  "listedNode n = (demoNode n)\<lparr>ResourceVersion := ''1''\<rparr>"

definition changedNode :: objmeta where
  "changedNode = (demoNode ''b'')\<lparr>ResourceVersion := ''2'', UID := ''u''\<rparr>"

definition racingWatch :: watch_env where
  "racingWatch = demoWatch\<lparr>wcl_List_Nodes := \<lambda>_. Inr [listedNode ''a'', listedNode ''b''],
     wcl_List_LVG := \<lambda>_. Inr [], wcl_List_LSC := \<lambda>_. Inr [],
     wcl_Update_Node := \<lambda>o1 _. if o1 = deleteLabel nodeManualEvictionLabel
         (deleteLabel localCsiNodeSelectorLabel (listedNode ''a'')) then None else Some Conflict,
     wcl_Update_LVG := \<lambda>_ _. Some Conflict, wcl_Update_LSC := \<lambda>_ _. Some Conflict\<rparr>"

definition acceptedNodes :: "watch_event list \<Rightarrow> objmeta list" where
  "acceptedNodes h = concat (map (\<lambda>e. case e of WUpdateNode n None \<Rightarrow> [n] | _ \<Rightarrow> []) h)"

lemma acceptedNodes_event:
  assumes "n \<in> set (acceptedNodes h)"
  shows "\<exists>post h'. h = post @ WUpdateNode n None # h'"
proof -
  from assms have "WUpdateNode n None \<in> set h"
    by (auto simp: acceptedNodes_def split: watch_event.splits option.splits)
  then show ?thesis by (rule split_list)
qed

lemma racing_watch_servers:
  "nodeServer racingWatch (\<lambda>key. if key = ('''', ''a'') then {listedNode ''a''}
       else if key = ('''', ''b'') then {listedNode ''b'', changedNode} else {})
     (\<lambda>h key. if key = ('''', ''a'') then Some (listedNode ''a'')
       else if key = ('''', ''b'') then Some changedNode else None)"
  "lvgServer racingWatch (\<lambda>key. {}) (\<lambda>h key. None)"
  "watchedLscServer racingWatch (\<lambda>key. {}) (\<lambda>h key. None)"
  by (auto simp: nodeServer_def lvgServer_def watchedLscServer_def lockedWrites_def versioned_def racingWatch_def
      demoWatch_def listedNode_def changedNode_def demoNode_def ObjectKeyFromObject_def listsVersions_def
      meta0_def deleteLabel_def split: if_splits)

theorem watcher_loses_no_update_witness:
  "\<exists>n. acceptedNodes (snd (run_state (watcherReconcile racingWatch ('''', ''cfg'')) [])) = [n] \<and>
     labelsOnly (Some (listedNode ''a'')) n"
proof -
  let ?h = "snd (run_state (watcherReconcile racingWatch ('''', ''cfg'')) [])"
  let ?n = "deleteLabel nodeManualEvictionLabel (deleteLabel localCsiNodeSelectorLabel (listedNode ''a''))"
  have ok: "mapOrderOk racingWatch" "uniqueNames racingWatch" "watchSafe racingWatch []"
    by (simp_all add: mapOrderOk_def uniqueNames_def racingWatch_def demoWatch_def)
  have accepted: "acceptedNodes ?h = [?n]"
    by code_simp
  then obtain post h' where "?h = post @ WUpdateNode ?n None # h'"
    using acceptedNodes_event [of ?n ?h] by auto
  with watcher_loses_no_update [OF ok racing_watch_servers refl, of "('''', ''cfg'')", THEN conjunct1]
  have "labelsOnly (Some (listedNode ''a'')) ?n"
    by (fastforce simp: ObjectKeyFromObject_def deleteLabel_def listedNode_def demoNode_def meta0_def)
  with accepted show ?thesis by blast
qed

end
