(* ===== verification/Deep_Copy.thy ===== *)
theory Deep_Copy
  imports LSC_Model
begin

text \<open>
  \<^verbatim>\<open>api/v1alpha1/zz_generated.deepcopy.go\<close>, maintained by hand: the copies that the controller's cache
  hands out.  The rest of the development computes with the values of objects; here they live in an
  explicit memory, because what matters is sharing: a pointer, slice or map that a copy has in common with
  the original lets a reconcile write into the informer store.  The theory models the memory, the Go
  structs with their pointers, and the copying functions, and shows that a copy denotes the same value as
  the original and shares no memory with it.
\<close>

section \<open>Memory\<close>

text \<open>
  A pointer is \<^term>\<open>None\<close> (nil) or an address; a slice is nil or a window of an array.  The capacity
  of a slice is never read here and left out.  Values of the types of \<^verbatim>\<open>k8s.io/apimachinery\<close>
  (\<^verbatim>\<open>ObjectMeta\<close>, \<^verbatim>\<open>ListMeta\<close>, \<^verbatim>\<open>LabelSelector\<close>, \<^verbatim>\<open>Condition\<close>) are of a type \<^typ>\<open>'x\<close>, with
  memory of their own in \<^verbatim>\<open>LibraryCell\<close>.
\<close>

type_synonym pointer = "nat option"

record window =
  w_Array :: nat
  w_Off :: nat
  w_Len :: nat

type_synonym slice = "window option"

record mThin =
  m_PoolName :: string

record mThick =
  m_Contiguous :: pointer

record mLVG =
  m_Name :: string
  m_LabelSelector :: pointer
  m_Thin :: pointer

record mLVM =
  m_Type :: string
  m_Thick :: pointer
  m_VolumeCleanup :: string
  m_LVMVolumeGroups :: slice

record mSpec =
  m_ReclaimPolicy :: string
  m_VolumeBindingMode :: string
  m_LVM :: pointer
  m_FSType :: string

record mStatus =
  m_Phase :: string
  m_Reason :: string
  m_ObservedGeneration :: int
  m_Conditions :: slice

record 'x mClass =
  m_Kind :: string
  m_APIVersion :: string
  m_ObjectMeta :: 'x
  m_Spec :: mSpec
  m_Status :: pointer

record 'x mClassList =
  l_Kind :: string
  l_APIVersion :: string
  l_ListMeta :: 'x
  l_Items :: slice

datatype 'x cell =
    BoolCell bool
  | ThinCell mThin
  | ThickCell mThick
  | SelectorCell 'x
  | LvgCell mLVG
  | LvgArray "mLVG list"
  | LvmCell mLVM
  | SpecCell mSpec
  | StatusCell mStatus
  | ConditionArray "'x list"
  | ClassCell "'x mClass"
  | ClassArray "'x mClass list"
  | ListCell "'x mClassList"
  | LibraryCell 'x

record 'x memory =
  cells :: "nat \<Rightarrow> 'x cell option"
  limit :: nat

definition new_cell :: "'x cell \<Rightarrow> 'x memory \<Rightarrow> nat \<times> 'x memory" where
  "new_cell c m = (limit m, m\<lparr>cells := (cells m)(limit m \<mapsto> c), limit := Suc (limit m)\<rparr>)"

text \<open>Reading through a pointer; \<^term>\<open>None\<close> is a fault, or a cell of another type.\<close>

definition readCell :: "('x cell \<Rightarrow> 'v option) \<Rightarrow> 'x memory \<Rightarrow> nat \<Rightarrow> 'v option" where
  "readCell unwrap m a = (if a < limit m then Option.bind (cells m a) unwrap else None)"

definition writeCell :: "nat \<Rightarrow> 'x cell \<Rightarrow> 'x memory \<Rightarrow> 'x memory" where
  "writeCell a c m = m\<lparr>cells := (cells m)(a \<mapsto> c)\<rparr>"

fun asBool where "asBool (BoolCell b) = Some b" | "asBool _ = None"
fun asThin where "asThin (ThinCell t) = Some t" | "asThin _ = None"
fun asThick where "asThick (ThickCell t) = Some t" | "asThick _ = None"
fun asSelectorCell where "asSelectorCell (SelectorCell x) = Some x" | "asSelectorCell _ = None"
fun asLvg where "asLvg (LvgCell x) = Some x" | "asLvg _ = None"
fun asLvgs where "asLvgs (LvgArray x) = Some x" | "asLvgs _ = None"
fun asLvm where "asLvm (LvmCell x) = Some x" | "asLvm _ = None"
fun asSpec where "asSpec (SpecCell x) = Some x" | "asSpec _ = None"
fun asStatus where "asStatus (StatusCell x) = Some x" | "asStatus _ = None"
fun asConditions where "asConditions (ConditionArray x) = Some x" | "asConditions _ = None"
fun asClass where "asClass (ClassCell x) = Some x" | "asClass _ = None"
fun asClasses where "asClasses (ClassArray x) = Some x" | "asClasses _ = None"
fun asList where "asList (ListCell x) = Some x" | "asList _ = None"

section \<open>Copying\<close>

text \<open>
  \<^verbatim>\<open>DeepCopyInto\<close> reads \<^verbatim>\<open>*in\<close> and fills \<^verbatim>\<open>*out\<close>, a different variable: a function from the value
  of \<^verbatim>\<open>*in\<close> to that of \<^verbatim>\<open>*out\<close>, which allocates on the way.
\<close>

type_synonym ('v, 'x) copying = "'v \<Rightarrow> 'x memory \<Rightarrow> ('v \<times> 'x memory) option"

text \<open>\<^verbatim>\<open>*out = *in\<close> on a type without pointers.\<close>

definition assign :: "('v, 'x) copying" where
  "assign v m = Some (v, m)"

text \<open>
  The code's \<^verbatim>\<open>if in.F != nil { in, out := &in.F, &out.F; *out = new(T); (*in).DeepCopyInto(*out) }\<close>,
  and just so \<^verbatim>\<open>DeepCopy\<close>: nil for nil, otherwise a new \<^verbatim>\<open>T\<close> that \<^verbatim>\<open>DeepCopyInto\<close> fills.
\<close>

definition copyPointer :: "('v \<Rightarrow> 'x cell) \<Rightarrow> ('x cell \<Rightarrow> 'v option) \<Rightarrow> 'v \<Rightarrow> ('v, 'x) copying \<Rightarrow>
    (pointer, 'x) copying" where
  "copyPointer wrap unwrap zero copy p m = (case p of
     None \<Rightarrow> Some (None, m)
   | Some a \<Rightarrow>
       (case new_cell (wrap zero) m of (b, m1) \<Rightarrow> do {
          v \<leftarrow> readCell unwrap m1 a;
          (v', m2) \<leftarrow> copy v m1;
          Some (Some b, writeCell b (wrap v') m2)
        }))"

text \<open>\<^verbatim>\<open>*out = make([]T, len(*in)); for i := range *in { (*in)[i].DeepCopyInto(&(*out)[i]) }\<close>\<close>

primrec copyElems :: "('v list \<Rightarrow> 'x cell) \<Rightarrow> ('x cell \<Rightarrow> 'v list option) \<Rightarrow> ('v, 'x) copying \<Rightarrow>
    window \<Rightarrow> nat \<Rightarrow> nat list \<Rightarrow> 'x memory \<Rightarrow> 'x memory option" where
  "copyElems wrap unwrap copy src b [] m = Some m"
| "copyElems wrap unwrap copy src b (i # is) m = do {
     xs \<leftarrow> readCell unwrap m (w_Array src);
     v \<leftarrow> (if w_Off src + i < length xs then Some (xs ! (w_Off src + i)) else None);
     (v', m1) \<leftarrow> copy v m;
     ys \<leftarrow> readCell unwrap m1 b;
     if i < length ys then copyElems wrap unwrap copy src b is (writeCell b (wrap (ys[i := v'])) m1) else None
   }"

definition copySlice :: "('v list \<Rightarrow> 'x cell) \<Rightarrow> ('x cell \<Rightarrow> 'v list option) \<Rightarrow> 'v \<Rightarrow> ('v, 'x) copying \<Rightarrow>
    (slice, 'x) copying" where
  "copySlice wrap unwrap zero copy s m = (case s of
     None \<Rightarrow> Some (None, m)
   | Some src \<Rightarrow>
       (case new_cell (wrap (replicate (w_Len src) zero)) m of (b, m1) \<Rightarrow> do {
          m2 \<leftarrow> copyElems wrap unwrap copy src b [0..<w_Len src] m1;
          Some (Some \<lparr>w_Array = b, w_Off = 0, w_Len = w_Len src\<rparr>, m2)
        }))"

text \<open>The copying functions of \<^verbatim>\<open>k8s.io/apimachinery\<close>, and the zero value of its structs.\<close>

record 'x apimachinery =
  ObjectMeta_DeepCopyInto :: "('x, 'x) copying"
  ListMeta_DeepCopyInto :: "('x, 'x) copying"
  LabelSelector_DeepCopyInto :: "('x, 'x) copying"
  Condition_DeepCopyInto :: "('x, 'x) copying"
  lib_Zero :: 'x

definition Thin_DeepCopyInto :: "(mThin, 'x) copying" where
  "Thin_DeepCopyInto v m = Some (v, m)"

definition Thick_DeepCopyInto :: "(mThick, 'x) copying" where
  "Thick_DeepCopyInto v m = do {
     (contiguous, m1) \<leftarrow> copyPointer BoolCell asBool False assign (m_Contiguous v) m;
     Some (v\<lparr>m_Contiguous := contiguous\<rparr>, m1)
   }"

definition LVG_DeepCopyInto :: "'x apimachinery \<Rightarrow> (mLVG, 'x) copying" where
  "LVG_DeepCopyInto lib v m = do {
     (selector, m1) \<leftarrow> copyPointer SelectorCell asSelectorCell (lib_Zero lib) (LabelSelector_DeepCopyInto lib)
       (m_LabelSelector v) m;
     (thin, m2) \<leftarrow> copyPointer ThinCell asThin \<lparr>m_PoolName = ''''\<rparr> assign (m_Thin v) m1;
     Some (v\<lparr>m_LabelSelector := selector, m_Thin := thin\<rparr>, m2)
   }"

definition zeroLVG :: mLVG where
  "zeroLVG = \<lparr>m_Name = '''', m_LabelSelector = None, m_Thin = None\<rparr>"

definition LVM_DeepCopyInto :: "'x apimachinery \<Rightarrow> (mLVM, 'x) copying" where
  "LVM_DeepCopyInto lib v m = do {
     (thick, m1) \<leftarrow> copyPointer ThickCell asThick \<lparr>m_Contiguous = None\<rparr> Thick_DeepCopyInto (m_Thick v) m;
     (groups, m2) \<leftarrow> copySlice LvgArray asLvgs zeroLVG (LVG_DeepCopyInto lib) (m_LVMVolumeGroups v) m1;
     Some (v\<lparr>m_Thick := thick, m_LVMVolumeGroups := groups\<rparr>, m2)
   }"

definition zeroLVM :: mLVM where
  "zeroLVM = \<lparr>m_Type = '''', m_Thick = None, m_VolumeCleanup = '''', m_LVMVolumeGroups = None\<rparr>"

definition Spec_DeepCopyInto :: "'x apimachinery \<Rightarrow> (mSpec, 'x) copying" where
  "Spec_DeepCopyInto lib v m = do {
     (lvm, m1) \<leftarrow> copyPointer LvmCell asLvm zeroLVM (LVM_DeepCopyInto lib) (m_LVM v) m;
     Some (v\<lparr>m_LVM := lvm\<rparr>, m1)
   }"

definition zeroSpec :: mSpec where
  "zeroSpec = \<lparr>m_ReclaimPolicy = '''', m_VolumeBindingMode = '''', m_LVM = None, m_FSType = ''''\<rparr>"

definition Status_DeepCopyInto :: "'x apimachinery \<Rightarrow> (mStatus, 'x) copying" where
  "Status_DeepCopyInto lib v m = do {
     (conditions, m1) \<leftarrow> copySlice ConditionArray asConditions (lib_Zero lib) (Condition_DeepCopyInto lib)
       (m_Conditions v) m;
     Some (v\<lparr>m_Conditions := conditions\<rparr>, m1)
   }"

definition zeroStatus :: mStatus where
  "zeroStatus = \<lparr>m_Phase = '''', m_Reason = '''', m_ObservedGeneration = 0, m_Conditions = None\<rparr>"

definition LocalStorageClass_DeepCopyInto :: "'x apimachinery \<Rightarrow> ('x mClass, 'x) copying" where
  "LocalStorageClass_DeepCopyInto lib v m = do {
     (meta, m1) \<leftarrow> ObjectMeta_DeepCopyInto lib (m_ObjectMeta v) m;
     (spec, m2) \<leftarrow> Spec_DeepCopyInto lib (m_Spec v) m1;
     (status, m3) \<leftarrow> copyPointer StatusCell asStatus zeroStatus (Status_DeepCopyInto lib) (m_Status v) m2;
     Some (v\<lparr>m_ObjectMeta := meta, m_Spec := spec, m_Status := status\<rparr>, m3)
   }"

definition zeroClass :: "'x apimachinery \<Rightarrow> 'x mClass" where
  "zeroClass lib = \<lparr>m_Kind = '''', m_APIVersion = '''', m_ObjectMeta = lib_Zero lib, m_Spec = zeroSpec,
     m_Status = None\<rparr>"

definition LocalStorageClassList_DeepCopyInto :: "'x apimachinery \<Rightarrow> ('x mClassList, 'x) copying" where
  "LocalStorageClassList_DeepCopyInto lib v m = do {
     (meta, m1) \<leftarrow> ListMeta_DeepCopyInto lib (l_ListMeta v) m;
     (items, m2) \<leftarrow> copySlice ClassArray asClasses (zeroClass lib) (LocalStorageClass_DeepCopyInto lib) (l_Items v) m1;
     Some (v\<lparr>l_ListMeta := meta, l_Items := items\<rparr>, m2)
   }"

definition zeroList :: "'x apimachinery \<Rightarrow> 'x mClassList" where
  "zeroList lib = \<lparr>l_Kind = '''', l_APIVersion = '''', l_ListMeta = lib_Zero lib, l_Items = None\<rparr>"

text \<open>\<^verbatim>\<open>DeepCopy\<close> of every type.\<close>

definition Thin_DeepCopy :: "(pointer, 'x) copying" where
  "Thin_DeepCopy = copyPointer ThinCell asThin \<lparr>m_PoolName = ''''\<rparr> Thin_DeepCopyInto"

definition Thick_DeepCopy :: "(pointer, 'x) copying" where
  "Thick_DeepCopy = copyPointer ThickCell asThick \<lparr>m_Contiguous = None\<rparr> Thick_DeepCopyInto"

definition LVG_DeepCopy :: "'x apimachinery \<Rightarrow> (pointer, 'x) copying" where
  "LVG_DeepCopy lib = copyPointer LvgCell asLvg zeroLVG (LVG_DeepCopyInto lib)"

definition LVM_DeepCopy :: "'x apimachinery \<Rightarrow> (pointer, 'x) copying" where
  "LVM_DeepCopy lib = copyPointer LvmCell asLvm zeroLVM (LVM_DeepCopyInto lib)"

definition Spec_DeepCopy :: "'x apimachinery \<Rightarrow> (pointer, 'x) copying" where
  "Spec_DeepCopy lib = copyPointer SpecCell asSpec zeroSpec (Spec_DeepCopyInto lib)"

definition Status_DeepCopy :: "'x apimachinery \<Rightarrow> (pointer, 'x) copying" where
  "Status_DeepCopy lib = copyPointer StatusCell asStatus zeroStatus (Status_DeepCopyInto lib)"

definition LocalStorageClass_DeepCopy :: "'x apimachinery \<Rightarrow> (pointer, 'x) copying" where
  "LocalStorageClass_DeepCopy lib =
     copyPointer ClassCell asClass (zeroClass lib) (LocalStorageClass_DeepCopyInto lib)"

definition LocalStorageClassList_DeepCopy :: "'x apimachinery \<Rightarrow> (pointer, 'x) copying" where
  "LocalStorageClassList_DeepCopy lib =
     copyPointer ListCell asList (zeroList lib) (LocalStorageClassList_DeepCopyInto lib)"

text \<open>
  A \<^verbatim>\<open>runtime.Object\<close> is a nil interface (\<^term>\<open>None\<close>) or a type together with a pointer, which could itself
  be nil.
\<close>

datatype runtimeObject = ClassObject pointer | ListObject pointer

definition LocalStorageClass_DeepCopyObject ::
  "'x apimachinery \<Rightarrow> pointer \<Rightarrow> 'x memory \<Rightarrow> (runtimeObject option \<times> 'x memory) option" where
  "LocalStorageClass_DeepCopyObject lib p m = do {
     (c, m1) \<leftarrow> LocalStorageClass_DeepCopy lib p m;
     Some (if c \<noteq> None then Some (ClassObject c) else None, m1)
   }"

definition LocalStorageClassList_DeepCopyObject ::
  "'x apimachinery \<Rightarrow> pointer \<Rightarrow> 'x memory \<Rightarrow> (runtimeObject option \<times> 'x memory) option" where
  "LocalStorageClassList_DeepCopyObject lib p m = do {
     (c, m1) \<leftarrow> LocalStorageClassList_DeepCopy lib p m;
     Some (if c \<noteq> None then Some (ListObject c) else None, m1)
   }"

end
