(* ===== verification/Deep_Copy_Properties.thy ===== *)
theory Deep_Copy_Properties
  imports Deep_Copy
begin

text \<open>
  What a deep copy promises, as an interface that every copying function of the package provides, how the
  interface passes from the parts of a struct to the struct, and the independence of a copied object.
\<close>

section \<open>The interface\<close>

text \<open>
  \<^term>\<open>views m v w\<close>: in memory \<^term>\<open>m\<close> the Go value \<^term>\<open>v\<close> denotes \<^term>\<open>w\<close>; \<^term>\<open>reach m v\<close> is the memory
  it can be changed through.
\<close>

locale copier =
  fixes copy :: "'v \<Rightarrow> 'x memory \<Rightarrow> ('v \<times> 'x memory) option"
    and views :: "'x memory \<Rightarrow> 'v \<Rightarrow> 'w \<Rightarrow> bool"
    and reach :: "'x memory \<Rightarrow> 'v \<Rightarrow> nat set"
  assumes allocated: "views m v w \<Longrightarrow> reach m v \<subseteq> {..<limit m}"
    and frame: "views m v w \<Longrightarrow> (\<And>a. a \<in> reach m v \<Longrightarrow> cells m' a = cells m a) \<Longrightarrow> limit m \<le> limit m' \<Longrightarrow>
      views m' v w \<and> reach m' v = reach m v"
    and copied: "views m v w \<Longrightarrow> \<exists>v' m'. copy v m = Some (v', m') \<and> views m' v' w \<and>
      reach m' v' \<subseteq> {limit m..<limit m'} \<and> limit m \<le> limit m' \<and> (\<forall>a < limit m. cells m' a = cells m a)"
begin

end

section \<open>Pointers\<close>

definition viewsPointer :: "('x cell \<Rightarrow> 'v option) \<Rightarrow> ('x memory \<Rightarrow> 'v \<Rightarrow> 'w \<Rightarrow> bool) \<Rightarrow>
    'x memory \<Rightarrow> pointer \<Rightarrow> 'w option \<Rightarrow> bool" where
  "viewsPointer unwrap views m p w \<longleftrightarrow> (case (p, w) of
     (None, None) \<Rightarrow> True
   | (Some a, Some w') \<Rightarrow> (case readCell unwrap m a of None \<Rightarrow> False | Some v \<Rightarrow> views m v w')
   | _ \<Rightarrow> False)"

definition reachPointer :: "('x cell \<Rightarrow> 'v option) \<Rightarrow> ('x memory \<Rightarrow> 'v \<Rightarrow> nat set) \<Rightarrow>
    'x memory \<Rightarrow> pointer \<Rightarrow> nat set" where
  "reachPointer unwrap reach m p = (case p of
     None \<Rightarrow> {}
   | Some a \<Rightarrow> insert a (case readCell unwrap m a of None \<Rightarrow> {} | Some v \<Rightarrow> reach m v))"

lemma readCell_Some: "readCell unwrap m a = Some v \<Longrightarrow> a < limit m"
  by (simp add: readCell_def split: if_splits)

lemma readCell_cong: "cells m' a = cells m a \<Longrightarrow> limit m \<le> limit m' \<Longrightarrow> readCell unwrap m a = Some v \<Longrightarrow> readCell unwrap m' a = Some v"
  by (auto simp: readCell_def split: if_splits)

lemma limit_writeCell [simp]: "limit (writeCell a c m) = limit m"
  by (simp add: writeCell_def)

lemma cells_writeCell [simp]: "cells (writeCell a c m) = (cells m)(a \<mapsto> c)"
  by (simp add: writeCell_def)

lemma readCell_writeCell [simp]: "a < limit m \<Longrightarrow> readCell unwrap (writeCell a c m) a = unwrap c"
  by (simp add: readCell_def)

lemma new_cell_facts:
  assumes "new_cell c m = (b, m1)"
  shows "b = limit m" "limit m1 = Suc (limit m)" "cells m1 b = Some c" "\<And>a. a < limit m \<Longrightarrow> cells m1 a = cells m a"
  using assms by (auto simp: new_cell_def)

context copier
begin

lemma frame_writeCell:
  assumes "views m v w" "b \<notin> reach m v"
  shows "views (writeCell b c m) v w \<and> reach (writeCell b c m) v = reach m v"
  by (rule frame [OF assms(1)]) (use assms(2) in auto)

lemma frame_extend:
  assumes "views m v w" "limit m \<le> limit m'" "\<And>a. a < limit m \<Longrightarrow> cells m' a = cells m a"
  shows "views m' v w \<and> reach m' v = reach m v"
  by (rule frame [OF assms(1) _ assms(2)]) (use assms(3) allocated [OF assms(1)] in auto)

lemma pointer_copied:
  assumes "viewsPointer unwrap views m p w" and wrap: "\<And>v. unwrap (wrap v) = Some v"
  shows "\<exists>p' m'. copyPointer wrap unwrap zero copy p m = Some (p', m') \<and> viewsPointer unwrap views m' p' w \<and>
      reachPointer unwrap reach m' p' \<subseteq> {limit m..<limit m'} \<and> limit m \<le> limit m' \<and>
      (\<forall>a < limit m. cells m' a = cells m a)"
proof (cases p)
  case (Some a)
  with assms(1) obtain v w' where v: "readCell unwrap m a = Some v" "views m v w'" and w: "w = Some w'"
    by (auto simp: viewsPointer_def split: option.splits)
  obtain b m1 where new: "new_cell (wrap zero) m = (b, m1)" by fastforce
  note facts = new_cell_facts [OF new]
  have "readCell unwrap m1 a = Some v"
    using readCell_cong [OF facts(4) _ v(1)] readCell_Some [OF v(1)] facts(2) by simp
  moreover have "views m1 v w'"
    using frame_extend [OF v(2) _ facts(4)] facts(2) by simp
  from copied [OF this] obtain v' m2 where copy: "copy v m1 = Some (v', m2)" "views m2 v' w'"
    "reach m2 v' \<subseteq> {limit m1..<limit m2}" "limit m1 \<le> limit m2" "\<forall>a < limit m1. cells m2 a = cells m1 a"
    by blast
  let ?m = "writeCell b (wrap v') m2"
  have "b \<notin> reach m2 v'" using copy(3) facts(1,2) by auto
  with frame_writeCell [OF copy(2), of b "wrap v'"] have "views ?m v' w'" "reach ?m v' = reach m2 v'" by blast+
  with copy facts have "viewsPointer unwrap views ?m (Some b) w"
    "reachPointer unwrap reach ?m (Some b) \<subseteq> {limit m..<limit ?m}"
    by (auto simp: viewsPointer_def reachPointer_def wrap w)
  ultimately show ?thesis
    using Some new copy facts by (auto simp: copyPointer_def)
qed (use assms(1) in \<open>auto simp: copyPointer_def viewsPointer_def reachPointer_def split: option.splits\<close>)

lemma pointer:
  assumes "\<And>v. unwrap (wrap v) = Some v"
  shows "copier (copyPointer wrap unwrap zero copy) (viewsPointer unwrap views) (reachPointer unwrap reach)"
proof (rule copier.intro)
  fix m p w assume "viewsPointer unwrap views m p w"
  then show "reachPointer unwrap reach m p \<subseteq> {..<limit m}"
    using allocated by (fastforce simp: viewsPointer_def reachPointer_def dest: readCell_Some split: option.splits)
next
  fix m m' :: "'x memory" and p w
  assume "viewsPointer unwrap views m p w" "\<And>a. a \<in> reachPointer unwrap reach m p \<Longrightarrow> cells m' a = cells m a"
    "limit m \<le> limit m'"
  then show "viewsPointer unwrap views m' p w \<and> reachPointer unwrap reach m' p = reachPointer unwrap reach m p"
    using frame [of m _ _ m'] readCell_cong [of m' _ m unwrap]
    by (cases p; cases w) (fastforce simp: viewsPointer_def reachPointer_def split: option.splits)+
qed (rule pointer_copied [OF _ assms])

end

section \<open>Slices\<close>

definition viewsSlice :: "('x cell \<Rightarrow> 'v list option) \<Rightarrow> ('x memory \<Rightarrow> 'v \<Rightarrow> 'w \<Rightarrow> bool) \<Rightarrow>
    'x memory \<Rightarrow> slice \<Rightarrow> 'w list \<Rightarrow> bool" where
  "viewsSlice unwrap views m s ws \<longleftrightarrow> (case s of
     None \<Rightarrow> ws = []
   | Some win \<Rightarrow> (case readCell unwrap m (w_Array win) of
       None \<Rightarrow> False
     | Some xs \<Rightarrow> w_Off win + w_Len win \<le> length xs \<and>
         list_all2 (views m) (take (w_Len win) (drop (w_Off win) xs)) ws))"

definition reachSlice :: "('x cell \<Rightarrow> 'v list option) \<Rightarrow> ('x memory \<Rightarrow> 'v \<Rightarrow> nat set) \<Rightarrow>
    'x memory \<Rightarrow> slice \<Rightarrow> nat set" where
  "reachSlice unwrap reach m s = (case s of
     None \<Rightarrow> {}
   | Some win \<Rightarrow> insert (w_Array win) (case readCell unwrap m (w_Array win) of
       None \<Rightarrow> {}
     | Some xs \<Rightarrow> \<Union>v \<in> set (take (w_Len win) (drop (w_Off win) xs)). reach m v))"

text \<open>The loop of a slice copy after \<^term>\<open>k\<close> elements, started in memory \<^term>\<open>m0\<close> with the new array at \<^term>\<open>limit m0\<close>.\<close>

definition copiedUpTo :: "('v list \<Rightarrow> 'x cell) \<Rightarrow> ('x memory \<Rightarrow> 'v \<Rightarrow> 'w \<Rightarrow> bool) \<Rightarrow> ('x memory \<Rightarrow> 'v \<Rightarrow> nat set) \<Rightarrow>
    'x memory \<Rightarrow> 'w list \<Rightarrow> nat \<Rightarrow> 'x memory \<Rightarrow> bool" where
  "copiedUpTo wrap views reach m0 ws k m \<longleftrightarrow> limit m0 < limit m \<and> (\<forall>a < limit m0. cells m a = cells m0 a) \<and>
     (\<exists>ys. cells m (limit m0) = Some (wrap ys) \<and> length ys = length ws \<and>
        (\<forall>j < k. views m (ys ! j) (ws ! j) \<and> reach m (ys ! j) \<subseteq> {limit m0 <..< limit m}))"

context copier
begin

lemma element_copied:
  assumes "copiedUpTo wrap views reach m0 ws k m" "views m0 v (ws ! k)" "k < length ws"
    and wrap: "\<And>vs. unwrap (wrap vs) = Some vs"
  shows "\<exists>v' m1 ys. copy v m = Some (v', m1) \<and> readCell unwrap m1 (limit m0) = Some ys \<and> length ys = length ws \<and>
    copiedUpTo wrap views reach m0 ws (Suc k) (writeCell (limit m0) (wrap (ys[k := v'])) m1)"
proof -
  let ?b = "limit m0"
  from assms(1) obtain ys where m: "?b < limit m" "\<And>a. a < ?b \<Longrightarrow> cells m a = cells m0 a"
    and ys: "cells m ?b = Some (wrap ys)" "length ys = length ws"
    and seen: "\<And>j. j < k \<Longrightarrow> views m (ys ! j) (ws ! j) \<and> reach m (ys ! j) \<subseteq> {?b <..< limit m}"
    unfolding copiedUpTo_def by blast
  have "views m v (ws ! k)"
    using frame_extend [OF assms(2), of m] m by simp
  from copied [OF this] obtain v' m1 where copy: "copy v m = Some (v', m1)" "views m1 v' (ws ! k)"
    "reach m1 v' \<subseteq> {limit m..<limit m1}" "limit m \<le> limit m1" and old: "\<And>a. a < limit m \<Longrightarrow> cells m1 a = cells m a"
    by blast
  let ?ys = "ys[k := v']" let ?m = "writeCell ?b (wrap (ys[k := v'])) m1"
  have "views ?m (?ys ! j) (ws ! j) \<and> reach ?m (?ys ! j) \<subseteq> {?b <..< limit ?m}" if "j < Suc k" for j
  proof (cases "j = k")
    case True
    have "?b \<notin> reach m1 v'" using copy(3) m(1) by auto
    from frame_writeCell [OF copy(2) this, of "wrap ?ys"] True copy(3) m(1) ys(2) assms(3) show ?thesis by auto
  next
    case False
    with that have j: "views m (ys ! j) (ws ! j)" "reach m (ys ! j) \<subseteq> {?b <..< limit m}" using seen by auto
    have "views m1 (ys ! j) (ws ! j)" "reach m1 (ys ! j) = reach m (ys ! j)"
      using frame_extend [OF j(1) copy(4) old] by simp_all
    moreover have "?b \<notin> reach m (ys ! j)" using j(2) by auto
    ultimately have "views ?m (ys ! j) (ws ! j)" "reach ?m (ys ! j) = reach m (ys ! j)"
      using frame_writeCell [of m1 "ys ! j" "ws ! j" ?b "wrap ?ys"] by simp_all
    with j(2) copy(4) False show ?thesis by auto
  qed
  with m copy(4) old ys(2) have "copiedUpTo wrap views reach m0 ws (Suc k) ?m"
    unfolding copiedUpTo_def by (intro conjI exI [of _ ?ys]) auto
  moreover have "readCell unwrap m1 ?b = Some ys"
    using m(1) copy(4) old ys(1) by (simp add: readCell_def wrap)
  ultimately show ?thesis using copy(1) ys(2) by blast
qed

lemma elements_copied:
  assumes "readCell unwrap m0 (w_Array src) = Some xs" "w_Off src + w_Len src \<le> length xs"
    and "list_all2 (views m0) (take (w_Len src) (drop (w_Off src) xs)) ws"
    and wrap: "\<And>vs. unwrap (wrap vs) = Some vs"
    and "copiedUpTo wrap views reach m0 ws (length ws - n) m" "n \<le> length ws"
  shows "\<exists>m'. copyElems wrap unwrap copy src (limit m0) [length ws - n..<w_Len src] m = Some m' \<and>
    copiedUpTo wrap views reach m0 ws (length ws) m'"
  using assms(5,6)
proof (induction n arbitrary: m)
  case 0
  from assms(2,3) have "length ws = w_Len src" by (auto dest!: list_all2_lengthD)
  with 0 show ?case by simp
next
  case (Suc n)
  let ?k = "length ws - Suc n"
  have len: "length ws = w_Len src" using assms(2,3) by (auto dest!: list_all2_lengthD)
  have k: "?k < length ws" "Suc ?k = length ws - n" using Suc.prems(2) by simp_all
  have "views m0 (xs ! (w_Off src + ?k)) (ws ! ?k)"
    using list_all2_nthD2 [OF assms(3) k(1)] k(1) len assms(2) by simp
  from element_copied [where unwrap = unwrap, OF Suc.prems(1) this k(1) wrap] obtain v' m1 ys where
    step: "copy (xs ! (w_Off src + ?k)) m = Some (v', m1)" "readCell unwrap m1 (limit m0) = Some ys" "length ys = length ws"
      "copiedUpTo wrap views reach m0 ws (Suc ?k) (writeCell (limit m0) (wrap (ys[?k := v'])) m1)"
    by blast
  have "readCell unwrap m (w_Array src) = Some xs"
    using Suc.prems(1) readCell_cong [OF _ _ assms(1), of m] readCell_Some [OF assms(1)] unfolding copiedUpTo_def by simp
  moreover have "[?k..<w_Len src] = ?k # [length ws - n..<w_Len src]"
    using k len by (simp add: upt_conv_Cons)
  moreover obtain m' where "copyElems wrap unwrap copy src (limit m0) [length ws - n..<w_Len src]
      (writeCell (limit m0) (wrap (ys[?k := v'])) m1) = Some m'" "copiedUpTo wrap views reach m0 ws (length ws) m'"
    using Suc.IH [of "writeCell (limit m0) (wrap (ys[?k := v'])) m1"] step(4) k(2) Suc.prems(2) by auto
  ultimately show ?case using step k len assms(2) by auto
qed

end

lemma list_all2_framed:
  assumes "list_all2 P vs ws" "\<And>v w. v \<in> set vs \<Longrightarrow> P v w \<Longrightarrow> Q v w \<and> f v = g v"
  shows "list_all2 Q vs ws \<and> (\<forall>v \<in> set vs. f v = g v)"
  using assms by (induction rule: list_all2_induct) auto

context copier
begin

lemma slice_copied:
  assumes "viewsSlice unwrap views m s ws" and wrap: "\<And>vs. unwrap (wrap vs) = Some vs"
  shows "\<exists>s' m'. copySlice wrap unwrap zero copy s m = Some (s', m') \<and> viewsSlice unwrap views m' s' ws \<and>
      reachSlice unwrap reach m' s' \<subseteq> {limit m..<limit m'} \<and> limit m \<le> limit m' \<and>
      (\<forall>a < limit m. cells m' a = cells m a)"
proof (cases s)
  case (Some src)
  with assms(1) obtain xs where xs: "readCell unwrap m (w_Array src) = Some xs" "w_Off src + w_Len src \<le> length xs"
    "list_all2 (views m) (take (w_Len src) (drop (w_Off src) xs)) ws"
    by (auto simp: viewsSlice_def split: option.splits)
  then have len: "length ws = w_Len src" by (auto dest!: list_all2_lengthD)
  obtain b m1 where new: "new_cell (wrap (replicate (w_Len src) zero)) m = (b, m1)" by fastforce
  note facts = new_cell_facts [OF new]
  have "copiedUpTo wrap views reach m ws (length ws - length ws) m1"
    unfolding copiedUpTo_def using facts len by (auto intro!: exI [of _ "replicate (w_Len src) zero"])
  from elements_copied [OF xs wrap this] obtain m2 where
    m2: "copyElems wrap unwrap copy src (limit m) [0..<w_Len src] m1 = Some m2" "copiedUpTo wrap views reach m ws (length ws) m2"
    by auto
  then obtain ys where ys: "limit m < limit m2" "\<forall>a < limit m. cells m2 a = cells m a"
    "cells m2 (limit m) = Some (wrap ys)" "length ys = length ws"
    "\<forall>j < length ws. views m2 (ys ! j) (ws ! j) \<and> reach m2 (ys ! j) \<subseteq> {limit m <..< limit m2}"
    unfolding copiedUpTo_def by blast
  let ?s = "Some \<lparr>w_Array = b, w_Off = 0, w_Len = w_Len src\<rparr>"
  have read: "readCell unwrap m2 b = Some ys" using ys facts(1) by (simp add: readCell_def wrap)
  have "viewsSlice unwrap views m2 ?s ws"
    using ys(4,5) len by (simp add: viewsSlice_def read list_all2_conv_all_nth)
  moreover have "reachSlice unwrap reach m2 ?s \<subseteq> {limit m..<limit m2}"
  proof -
    have "reach m2 y \<subseteq> {limit m..<limit m2}" if "y \<in> set ys" for y
    proof -
      from that obtain j where "j < length ws" "y = ys ! j" using ys(4) by (auto simp: in_set_conv_nth)
      with ys(5) have "reach m2 y \<subseteq> {limit m <..< limit m2}" by blast
      then show ?thesis by auto
    qed
    moreover have "reachSlice unwrap reach m2 ?s = insert b (\<Union>y \<in> set ys. reach m2 y)"
      using ys(4) len by (simp add: reachSlice_def read)
    ultimately show ?thesis using ys(1) facts(1) by auto
  qed
  ultimately show ?thesis
    using Some new m2(1) facts(1) ys(1,2) by (auto simp: copySlice_def)
qed (use assms(1) in \<open>simp add: copySlice_def viewsSlice_def reachSlice_def\<close>)

lemma slice:
  assumes "\<And>vs. unwrap (wrap vs) = Some vs"
  shows "copier (copySlice wrap unwrap zero copy) (viewsSlice unwrap views) (reachSlice unwrap reach)"
proof (rule copier.intro)
  fix m s ws assume views: "viewsSlice unwrap views m s ws"
  show "reachSlice unwrap reach m s \<subseteq> {..<limit m}"
  proof (cases s)
    case (Some win)
    with views obtain xs where xs: "readCell unwrap m (w_Array win) = Some xs"
      "list_all2 (views m) (take (w_Len win) (drop (w_Off win) xs)) ws"
      by (auto simp: viewsSlice_def split: option.splits)
    have "reach m v \<subseteq> {..<limit m}" if "v \<in> set (take (w_Len win) (drop (w_Off win) xs))" for v
    proof -
      from that obtain i where "i < length (take (w_Len win) (drop (w_Off win) xs))"
        "v = take (w_Len win) (drop (w_Off win) xs) ! i" by (metis in_set_conv_nth)
      with list_all2_nthD [OF xs(2)] have "views m v (ws ! i)" by simp
      then show ?thesis by (rule allocated)
    qed
    with Some xs(1) readCell_Some [OF xs(1)] show ?thesis by (auto simp: reachSlice_def)
  qed (simp add: reachSlice_def)
next
  fix m m' :: "'x memory" and s ws
  assume views: "viewsSlice unwrap views m s ws" and
    same: "\<And>a. a \<in> reachSlice unwrap reach m s \<Longrightarrow> cells m' a = cells m a" "limit m \<le> limit m'"
  show "viewsSlice unwrap views m' s ws \<and> reachSlice unwrap reach m' s = reachSlice unwrap reach m s"
  proof (cases s)
    case (Some win)
    with views obtain xs where xs: "readCell unwrap m (w_Array win) = Some xs" "w_Off win + w_Len win \<le> length xs"
      "list_all2 (views m) (take (w_Len win) (drop (w_Off win) xs)) ws"
      by (auto simp: viewsSlice_def split: option.splits)
    let ?vs = "take (w_Len win) (drop (w_Off win) xs)"
    have reach: "reachSlice unwrap reach m s = insert (w_Array win) (\<Union>v \<in> set ?vs. reach m v)"
      using Some xs(1) by (simp add: reachSlice_def)
    have "readCell unwrap m' (w_Array win) = Some xs"
      using readCell_cong [OF _ same(2) xs(1)] same(1) reach by simp
    moreover have "views m' v w \<and> reach m' v = reach m v" if "v \<in> set ?vs" "views m v w" for v w
      using frame [OF that(2) _ same(2)] same(1) that(1) unfolding reach by blast
    then have "list_all2 (views m') ?vs ws" "\<forall>v \<in> set ?vs. reach m' v = reach m v"
      using list_all2_framed [OF xs(3), of "views m'" "reach m'" "reach m"] by blast+
    ultimately show ?thesis using Some xs(2) reach by (simp add: viewsSlice_def reachSlice_def)
  qed (use views in \<open>simp add: viewsSlice_def reachSlice_def\<close>)
qed (rule slice_copied [OF _ assms])

end

section \<open>Structs\<close>

text \<open>Plain data, and a struct that copies its own data and then one or two fields of other types.\<close>

definition viewsPlain :: "('v \<Rightarrow> 'w) \<Rightarrow> 'x memory \<Rightarrow> 'v \<Rightarrow> 'w \<Rightarrow> bool" where
  "viewsPlain f m v w \<longleftrightarrow> f v = w"

definition reachPlain :: "'x memory \<Rightarrow> 'v \<Rightarrow> nat set" where
  "reachPlain m v = {}"

lemma copier_plain: "copier assign (viewsPlain f) reachPlain"
  by (rule copier.intro) (simp_all add: assign_def viewsPlain_def reachPlain_def)

lemma copier_struct:
  fixes copy :: "'v \<Rightarrow> 'b memory \<Rightarrow> ('v \<times> 'b memory) option"
  assumes c1: "copier copy1 views1 reach1" and c2: "copier copy2 views2 reach2"
    and copy: "\<And>v m. copy v m = Option.bind (copy1 (get1 v) m) (\<lambda>(a, m1).
      Option.bind (copy2 (get2 v) m1) (\<lambda>(b, m2). Some (put v a b, m2)))"
    and views: "\<And>m v w. views m v w \<longleftrightarrow> plain v w \<and> views1 m (get1 v) (f1 w) \<and> views2 m (get2 v) (f2 w)"
    and reach: "\<And>m v. reach m v = reach1 m (get1 v) \<union> reach2 m (get2 v)"
    and fields: "\<And>v a b. get1 (put v a b) = a" "\<And>v a b. get2 (put v a b) = b" "\<And>v a b w. plain (put v a b) w = plain v w"
  shows "copier copy views reach"
proof (rule copier.intro)
  fix m v w assume "views m v w"
  then show "reach m v \<subseteq> {..<limit m}"
    using copier.allocated [OF c1] copier.allocated [OF c2] by (fastforce simp: views reach)
next
  fix m m' :: "'b memory" and v w
  assume "views m v w" "\<And>a. a \<in> reach m v \<Longrightarrow> cells m' a = cells m a" "limit m \<le> limit m'"
  then show "views m' v w \<and> reach m' v = reach m v"
    using copier.frame [OF c1, of m "get1 v" "f1 w" m'] copier.frame [OF c2, of m "get2 v" "f2 w" m']
    by (simp add: views reach)
next
  fix m v w assume v: "views m v w"
  from v copier.copied [OF c1, of m "get1 v" "f1 w"] obtain a m1 where m1: "copy1 (get1 v) m = Some (a, m1)"
    "views1 m1 a (f1 w)" "reach1 m1 a \<subseteq> {limit m..<limit m1}" "limit m \<le> limit m1" "\<forall>a < limit m. cells m1 a = cells m a"
    by (auto simp: views)
  have "views2 m1 (get2 v) (f2 w)"
    using copier.frame_extend [OF c2, of m "get2 v" "f2 w" m1] v m1(4,5) by (simp add: views)
  from copier.copied [OF c2 this] obtain b m2 where m2: "copy2 (get2 v) m1 = Some (b, m2)"
    "views2 m2 b (f2 w)" "reach2 m2 b \<subseteq> {limit m1..<limit m2}" "limit m1 \<le> limit m2" "\<forall>a < limit m1. cells m2 a = cells m1 a"
    by blast
  have "views1 m2 a (f1 w)" "reach1 m2 a = reach1 m1 a"
    using copier.frame_extend [OF c1 m1(2) m2(4)] m2(5) by simp_all
  with v m1 m2 show "\<exists>v' m'. copy v m = Some (v', m') \<and> views m' v' w \<and> reach m' v' \<subseteq> {limit m..<limit m'} \<and>
      limit m \<le> limit m' \<and> (\<forall>a < limit m. cells m' a = cells m a)"
    by (intro exI [of _ "put v a b"] exI [of _ m2]) (fastforce simp: copy views reach fields)
qed

section \<open>The types of the package\<close>

text \<open>
  What the library's values denote, and the contract of its copying functions: they keep the same interface.
\<close>

record 'x denotation =
  den_Meta :: "'x memory \<Rightarrow> 'x \<Rightarrow> objmeta \<Rightarrow> bool"
  den_ListMeta :: "'x memory \<Rightarrow> 'x \<Rightarrow> string \<Rightarrow> bool"
  den_Selector :: "'x memory \<Rightarrow> 'x \<Rightarrow> labelSelector \<Rightarrow> bool"
  den_Condition :: "'x memory \<Rightarrow> 'x \<Rightarrow> condition \<Rightarrow> bool"
  den_Reach :: "'x memory \<Rightarrow> 'x \<Rightarrow> nat set"

definition apimachineryCopies :: "'x apimachinery \<Rightarrow> 'x denotation \<Rightarrow> bool" where
  "apimachineryCopies lib den \<longleftrightarrow>
     copier (ObjectMeta_DeepCopyInto lib) (den_Meta den) (den_Reach den) \<and>
     copier (ListMeta_DeepCopyInto lib) (den_ListMeta den) (den_Reach den) \<and>
     copier (LabelSelector_DeepCopyInto lib) (den_Selector den) (den_Reach den) \<and>
     copier (Condition_DeepCopyInto lib) (den_Condition den) (den_Reach den)"

interpretation thinCopy: copier Thin_DeepCopyInto "viewsPlain m_PoolName" reachPlain
  by unfold_locales (simp_all add: Thin_DeepCopyInto_def viewsPlain_def reachPlain_def)

definition viewsThick :: "'x memory \<Rightarrow> mThick \<Rightarrow> bool option \<Rightarrow> bool" where
  "viewsThick m v w \<longleftrightarrow> viewsPointer asBool (viewsPlain id) m (m_Contiguous v) w"

definition reachThick :: "'x memory \<Rightarrow> mThick \<Rightarrow> nat set" where
  "reachThick m v = reachPointer asBool reachPlain m (m_Contiguous v)"

lemma copier_bool: "copier (copyPointer BoolCell asBool zero assign) (viewsPointer asBool (viewsPlain id)) (reachPointer asBool reachPlain)"
  by (rule copier.pointer [OF copier_plain]) simp

interpretation thickCopy: copier Thick_DeepCopyInto viewsThick reachThick
  by (rule copier_struct [OF copier_bool copier_plain, where ?get1.0 = m_Contiguous and ?get2.0 = "\<lambda>_. ()"
        and put = "\<lambda>v a b. v\<lparr>m_Contiguous := a\<rparr>" and plain = "\<lambda>v w. True" and ?f1.0 = "\<lambda>w. w" and ?f2.0 = "\<lambda>w. ()"])
    (simp_all add: Thick_DeepCopyInto_def viewsThick_def reachThick_def assign_def viewsPlain_def reachPlain_def)

definition viewsLVG :: "'x denotation \<Rightarrow> 'x memory \<Rightarrow> mLVG \<Rightarrow> LocalStorageClassLVG \<Rightarrow> bool" where
  "viewsLVG den m v w \<longleftrightarrow> m_Name v = le_Name w \<and>
     viewsPointer asSelectorCell (den_Selector den) m (m_LabelSelector v) (LabelSelector w) \<and>
     viewsPointer asThin (viewsPlain m_PoolName) m (m_Thin v) (Thin w)"

definition reachLVG :: "'x denotation \<Rightarrow> 'x memory \<Rightarrow> mLVG \<Rightarrow> nat set" where
  "reachLVG den m v = reachPointer asSelectorCell (den_Reach den) m (m_LabelSelector v) \<union>
     reachPointer asThin reachPlain m (m_Thin v)"

lemma copier_LVG:
  assumes "apimachineryCopies lib den"
  shows "copier (LVG_DeepCopyInto lib) (viewsLVG den) (reachLVG den)"
proof -
  have sel: "copier (LabelSelector_DeepCopyInto lib) (den_Selector den) (den_Reach den)"
    using assms by (simp add: apimachineryCopies_def)
  show ?thesis
    by (rule copier_struct [OF copier.pointer [OF sel, where wrap = SelectorCell and unwrap = asSelectorCell]
          copier.pointer [OF copier_plain, where wrap = ThinCell and unwrap = asThin],
          where ?get1.0 = m_LabelSelector and ?get2.0 = m_Thin and ?f1.0 = LabelSelector and ?f2.0 = Thin
            and put = "\<lambda>(v :: mLVG) a b. v\<lparr>m_LabelSelector := a, m_Thin := b\<rparr>" and plain = "\<lambda>v w. m_Name v = le_Name w"])
      (simp_all add: LVG_DeepCopyInto_def viewsLVG_def reachLVG_def)
qed

definition viewsLVM :: "'x denotation \<Rightarrow> 'x memory \<Rightarrow> mLVM \<Rightarrow> LocalStorageClassLVMSpec \<Rightarrow> bool" where
  "viewsLVM den m v w \<longleftrightarrow> (m_Type v = lvm_Type w \<and> m_VolumeCleanup v = VolumeCleanup w) \<and>
     viewsPointer asThick viewsThick m (m_Thick v) (Thick w) \<and>
     viewsSlice asLvgs (viewsLVG den) m (m_LVMVolumeGroups v) (LVMVolumeGroups w)"

definition reachLVM :: "'x denotation \<Rightarrow> 'x memory \<Rightarrow> mLVM \<Rightarrow> nat set" where
  "reachLVM den m v = reachPointer asThick reachThick m (m_Thick v) \<union>
     reachSlice asLvgs (reachLVG den) m (m_LVMVolumeGroups v)"

lemma copier_LVM:
  assumes "apimachineryCopies lib den"
  shows "copier (LVM_DeepCopyInto lib) (viewsLVM den) (reachLVM den)"
  by (rule copier_struct [OF thickCopy.pointer [where wrap = ThickCell and unwrap = asThick]
        copier.slice [OF copier_LVG [OF assms], where wrap = LvgArray and unwrap = asLvgs],
        where ?get1.0 = m_Thick and ?get2.0 = m_LVMVolumeGroups and ?f1.0 = Thick and ?f2.0 = LVMVolumeGroups
          and put = "\<lambda>(v :: mLVM) a b. v\<lparr>m_Thick := a, m_LVMVolumeGroups := b\<rparr>"
          and plain = "\<lambda>v w. m_Type v = lvm_Type w \<and> m_VolumeCleanup v = VolumeCleanup w"])
    (simp_all add: LVM_DeepCopyInto_def viewsLVM_def reachLVM_def)

definition viewsSpec :: "'x denotation \<Rightarrow> 'x memory \<Rightarrow> mSpec \<Rightarrow> LocalStorageClass \<Rightarrow> bool" where
  "viewsSpec den m v w \<longleftrightarrow> (m_ReclaimPolicy v = ReclaimPolicy w \<and> m_VolumeBindingMode v = VolumeBindingMode w \<and>
     m_FSType v = FSType w) \<and> viewsPointer asLvm (viewsLVM den) m (m_LVM v) (LVM w)"

definition reachSpec :: "'x denotation \<Rightarrow> 'x memory \<Rightarrow> mSpec \<Rightarrow> nat set" where
  "reachSpec den m v = reachPointer asLvm (reachLVM den) m (m_LVM v)"

lemma copier_Spec:
  assumes "apimachineryCopies lib den"
  shows "copier (Spec_DeepCopyInto lib) (viewsSpec den) (reachSpec den)"
  by (rule copier_struct [OF copier.pointer [OF copier_LVM [OF assms], where wrap = LvmCell and unwrap = asLvm] copier_plain,
        where ?get1.0 = m_LVM and ?get2.0 = "\<lambda>_. ()" and ?f1.0 = LVM and put = "\<lambda>(v :: mSpec) a b. v\<lparr>m_LVM := a\<rparr>" and ?f2.0 = "\<lambda>w. ()"
          and plain = "\<lambda>v w. m_ReclaimPolicy v = ReclaimPolicy w \<and> m_VolumeBindingMode v = VolumeBindingMode w \<and>
            m_FSType v = FSType w"])
    (simp_all add: Spec_DeepCopyInto_def viewsSpec_def reachSpec_def assign_def viewsPlain_def reachPlain_def)

definition viewsStatus :: "'x denotation \<Rightarrow> 'x memory \<Rightarrow> mStatus \<Rightarrow> LocalStorageClassStatus \<Rightarrow> bool" where
  "viewsStatus den m v w \<longleftrightarrow> (m_Phase v = lsc_Phase w \<and> m_Reason v = lsc_Reason w \<and>
     m_ObservedGeneration v = ObservedGeneration w) \<and>
     viewsSlice asConditions (den_Condition den) m (m_Conditions v) (Conditions w)"

definition reachStatus :: "'x denotation \<Rightarrow> 'x memory \<Rightarrow> mStatus \<Rightarrow> nat set" where
  "reachStatus den m v = reachSlice asConditions (den_Reach den) m (m_Conditions v)"

lemma copier_Status:
  assumes "apimachineryCopies lib den"
  shows "copier (Status_DeepCopyInto lib) (viewsStatus den) (reachStatus den)"
proof -
  have cond: "copier (Condition_DeepCopyInto lib) (den_Condition den) (den_Reach den)"
    using assms by (simp add: apimachineryCopies_def)
  show ?thesis
    by (rule copier_struct [OF copier.slice [OF cond, where wrap = ConditionArray and unwrap = asConditions] copier_plain,
          where ?get1.0 = m_Conditions and ?get2.0 = "\<lambda>_. ()" and ?f1.0 = Conditions
            and put = "\<lambda>(v :: mStatus) a b. v\<lparr>m_Conditions := a\<rparr>" and ?f2.0 = "\<lambda>w. ()"
            and plain = "\<lambda>v w. m_Phase v = lsc_Phase w \<and> m_Reason v = lsc_Reason w \<and>
              m_ObservedGeneration v = ObservedGeneration w"])
      (simp_all add: Status_DeepCopyInto_def viewsStatus_def reachStatus_def assign_def viewsPlain_def reachPlain_def)
qed

text \<open>An object: kind and API version, which the value of a LocalStorageClass does not hold, and that value.\<close>

type_synonym classValue = "string \<times> string \<times> LocalStorageClass"

definition viewsBody :: "'x denotation \<Rightarrow> 'x memory \<Rightarrow> mSpec \<times> pointer \<Rightarrow> LocalStorageClass \<Rightarrow> bool" where
  "viewsBody den m v w \<longleftrightarrow> viewsSpec den m (fst v) w \<and>
     viewsPointer asStatus (viewsStatus den) m (snd v) (lsc_Status w)"

definition reachBody :: "'x denotation \<Rightarrow> 'x memory \<Rightarrow> mSpec \<times> pointer \<Rightarrow> nat set" where
  "reachBody den m v = reachSpec den m (fst v) \<union> reachPointer asStatus (reachStatus den) m (snd v)"

definition copyBody :: "'x apimachinery \<Rightarrow> (mSpec \<times> pointer, 'x) copying" where
  "copyBody lib v m = do {
     (spec, m1) \<leftarrow> Spec_DeepCopyInto lib (fst v) m;
     (status, m2) \<leftarrow> copyPointer StatusCell asStatus zeroStatus (Status_DeepCopyInto lib) (snd v) m1;
     Some ((spec, status), m2)
   }"

lemma copier_body:
  assumes "apimachineryCopies lib den"
  shows "copier (copyBody lib) (viewsBody den) (reachBody den)"
  by (rule copier_struct [OF copier_Spec [OF assms] copier.pointer [OF copier_Status [OF assms],
          where wrap = StatusCell and unwrap = asStatus],
        where ?get1.0 = fst and ?get2.0 = snd and put = "\<lambda>v a b. (a, b)" and ?f1.0 = "\<lambda>w. w"
          and ?f2.0 = lsc_Status and plain = "\<lambda>v w. True"])
    (simp_all add: copyBody_def viewsBody_def reachBody_def)

definition viewsClass :: "'x denotation \<Rightarrow> 'x memory \<Rightarrow> 'x mClass \<Rightarrow> classValue \<Rightarrow> bool" where
  "viewsClass den m v w \<longleftrightarrow> (m_Kind v = fst w \<and> m_APIVersion v = fst (snd w)) \<and>
     den_Meta den m (m_ObjectMeta v) (objmeta.truncate (snd (snd w))) \<and>
     viewsBody den m (m_Spec v, m_Status v) (snd (snd w))"

definition reachClass :: "'x denotation \<Rightarrow> 'x memory \<Rightarrow> 'x mClass \<Rightarrow> nat set" where
  "reachClass den m v = den_Reach den m (m_ObjectMeta v) \<union> reachBody den m (m_Spec v, m_Status v)"

lemma copier_class:
  fixes lib :: "'x apimachinery"
  assumes "apimachineryCopies lib den"
  shows "copier (LocalStorageClass_DeepCopyInto lib) (viewsClass den) (reachClass den)"
proof -
  have meta: "copier (ObjectMeta_DeepCopyInto lib) (den_Meta den) (den_Reach den)"
    using assms by (simp add: apimachineryCopies_def)
  show ?thesis
    by (rule copier_struct [OF meta copier_body [OF assms], where ?get1.0 = m_ObjectMeta
          and ?get2.0 = "\<lambda>v. (m_Spec v, m_Status v)" and ?f1.0 = "\<lambda>w. objmeta.truncate (snd (snd w))"
          and ?f2.0 = "\<lambda>w. snd (snd w)"
          and put = "\<lambda>(v :: 'x mClass) a b. v\<lparr>m_ObjectMeta := a, m_Spec := fst b, m_Status := snd b\<rparr>"
          and plain = "\<lambda>v w. m_Kind v = fst w \<and> m_APIVersion v = fst (snd w)"])
      (simp_all add: LocalStorageClass_DeepCopyInto_def copyBody_def viewsClass_def reachClass_def
        case_prod_unfold Option.bind_assoc)
qed

definition viewsList :: "'x denotation \<Rightarrow> 'x memory \<Rightarrow> 'x mClassList \<Rightarrow>
    (string \<times> string) \<times> string \<times> classValue list \<Rightarrow> bool" where
  "viewsList den m v w \<longleftrightarrow> (l_Kind v, l_APIVersion v) = fst w \<and>
     den_ListMeta den m (l_ListMeta v) (fst (snd w)) \<and>
     viewsSlice asClasses (viewsClass den) m (l_Items v) (snd (snd w))"

definition reachList :: "'x denotation \<Rightarrow> 'x memory \<Rightarrow> 'x mClassList \<Rightarrow> nat set" where
  "reachList den m v = den_Reach den m (l_ListMeta v) \<union> reachSlice asClasses (reachClass den) m (l_Items v)"

lemma copier_list:
  fixes lib :: "'x apimachinery"
  assumes "apimachineryCopies lib den"
  shows "copier (LocalStorageClassList_DeepCopyInto lib) (viewsList den) (reachList den)"
proof -
  have meta: "copier (ListMeta_DeepCopyInto lib) (den_ListMeta den) (den_Reach den)"
    using assms by (simp add: apimachineryCopies_def)
  show ?thesis
    by (rule copier_struct [OF meta copier.slice [OF copier_class [OF assms], where wrap = ClassArray and unwrap = asClasses],
          where ?get1.0 = l_ListMeta and ?get2.0 = l_Items and ?f1.0 = "\<lambda>w. fst (snd w)" and ?f2.0 = "\<lambda>w. snd (snd w)"
          and put = "\<lambda>(v :: 'x mClassList) a b. v\<lparr>l_ListMeta := a, l_Items := b\<rparr>"
          and plain = "\<lambda>v w. (l_Kind v, l_APIVersion v) = fst w"])
      (simp_all add: LocalStorageClassList_DeepCopyInto_def viewsList_def reachList_def)
qed

section \<open>Independence\<close>

text \<open>
  What another goroutine may do that only holds the value whose memory is \<^term>\<open>A\<close>: write there, and allocate.
\<close>

definition changesOnly :: "nat set \<Rightarrow> 'x memory \<Rightarrow> 'x memory \<Rightarrow> bool" where
  "changesOnly A m m' \<longleftrightarrow> limit m \<le> limit m' \<and> (\<forall>a. a < limit m \<longrightarrow> a \<notin> A \<longrightarrow> cells m' a = cells m a)"

definition independentCopy :: "('x memory \<Rightarrow> 'v \<Rightarrow> 'w \<Rightarrow> bool) \<Rightarrow> ('x memory \<Rightarrow> 'v \<Rightarrow> nat set) \<Rightarrow>
    'x memory \<Rightarrow> 'v \<Rightarrow> 'v \<Rightarrow> 'w \<Rightarrow> bool" where
  "independentCopy views reach m v v' w \<longleftrightarrow>
     reach m v \<inter> reach m v' = {} \<and>
     (\<forall>m2. changesOnly (reach m v) m m2 \<longrightarrow> views m2 v' w) \<and>
     (\<forall>m2. changesOnly (reach m v') m m2 \<longrightarrow> views m2 v w)"

context copier
begin

lemma unaffected:
  assumes "views m v w" "reach m v \<inter> A = {}" "changesOnly A m m'"
  shows "views m' v w"
  using frame [OF assms(1), of m'] allocated [OF assms(1)] assms(2,3) unfolding changesOnly_def by blast

lemma independent:
  assumes "views m v w"
  shows "\<exists>v' m'. copy v m = Some (v', m') \<and> views m' v' w \<and> independentCopy views reach m' v v' w"
proof -
  from copied [OF assms] obtain v' m' where copy: "copy v m = Some (v', m')" "views m' v' w"
    "reach m' v' \<subseteq> {limit m..<limit m'}" "limit m \<le> limit m'" "\<And>a. a < limit m \<Longrightarrow> cells m' a = cells m a"
    by blast
  have old: "views m' v w" "reach m' v = reach m v"
    using frame_extend [OF assms copy(4,5)] by simp_all
  then have disjoint: "reach m' v \<inter> reach m' v' = {}"
    using allocated [OF assms] copy(3) by fastforce
  then show ?thesis
    using copy(1,2) old(1) unaffected unfolding independentCopy_def by blast
qed

end

lemma deep_copy_pointer:
  assumes "apimachineryCopies lib den"
  shows "copier (LocalStorageClass_DeepCopy lib) (viewsPointer asClass (viewsClass den)) (reachPointer asClass (reachClass den))"
    and "copier (LocalStorageClassList_DeepCopy lib) (viewsPointer asList (viewsList den)) (reachPointer asList (reachList den))"
  unfolding LocalStorageClass_DeepCopy_def LocalStorageClassList_DeepCopy_def
  by (rule copier.pointer [OF copier_class [OF assms]], simp) (rule copier.pointer [OF copier_list [OF assms]], simp)

lemma viewsPointer_Some: "viewsPointer unwrap views m p (Some w) \<Longrightarrow> \<exists>a. p = Some a"
  by (cases p) (simp_all add: viewsPointer_def)

text \<open>C17: \<^verbatim>\<open>DeepCopyObject\<close> returns an independent object: for every LocalStorageClass in memory (any nesting of
  nil and non-nil pointers, any slices) and a library that keeps the same contract for its own types, it
  does not fault, the result is not a typed nil pointer, denotes the same value, and no write through one
  of the two objects, by whoever holds it, changes the value of the other.\<close>

theorem deep_copy_is_independent:
  assumes "apimachineryCopies lib den" "viewsPointer asClass (viewsClass den) m (Some p) (Some w)"
  shows "\<exists>q m'. LocalStorageClass_DeepCopyObject lib (Some p) m = Some (Some (ClassObject (Some q)), m') \<and>
    viewsPointer asClass (viewsClass den) m' (Some q) (Some w) \<and>
    independentCopy (viewsPointer asClass (viewsClass den)) (reachPointer asClass (reachClass den)) m'
      (Some p) (Some q) (Some w)"
proof -
  from copier.independent [OF deep_copy_pointer(1) [OF assms(1)] assms(2)] obtain p' m' where
    copy: "LocalStorageClass_DeepCopy lib (Some p) m = Some (p', m')"
      "viewsPointer asClass (viewsClass den) m' p' (Some w)"
      "independentCopy (viewsPointer asClass (viewsClass den)) (reachPointer asClass (reachClass den)) m' (Some p) p' (Some w)"
    by blast
  from viewsPointer_Some [OF copy(2)] obtain q where "p' = Some q" by blast
  with copy show ?thesis by (simp add: LocalStorageClass_DeepCopyObject_def)
qed

theorem list_copy_is_independent:
  assumes "apimachineryCopies lib den" "viewsPointer asList (viewsList den) m (Some p) (Some w)"
  shows "\<exists>q m'. LocalStorageClassList_DeepCopyObject lib (Some p) m = Some (Some (ListObject (Some q)), m') \<and>
    viewsPointer asList (viewsList den) m' (Some q) (Some w) \<and>
    independentCopy (viewsPointer asList (viewsList den)) (reachPointer asList (reachList den)) m'
      (Some p) (Some q) (Some w)"
proof -
  from copier.independent [OF deep_copy_pointer(2) [OF assms(1)] assms(2)] obtain p' m' where
    copy: "LocalStorageClassList_DeepCopy lib (Some p) m = Some (p', m')"
      "viewsPointer asList (viewsList den) m' p' (Some w)"
      "independentCopy (viewsPointer asList (viewsList den)) (reachPointer asList (reachList den)) m' (Some p) p' (Some w)"
    by blast
  from viewsPointer_Some [OF copy(2)] obtain q where "p' = Some q" by blast
  with copy show ?thesis by (simp add: LocalStorageClassList_DeepCopyObject_def)
qed

text \<open>A nil pointer becomes a nil interface, never an interface that holds a nil pointer.\<close>

lemma nil_object:
  "LocalStorageClass_DeepCopyObject lib None m = Some (None, m)"
  "LocalStorageClassList_DeepCopyObject lib None m = Some (None, m)"
  by (simp_all add: LocalStorageClass_DeepCopyObject_def LocalStorageClassList_DeepCopyObject_def
      LocalStorageClass_DeepCopy_def LocalStorageClassList_DeepCopy_def copyPointer_def)

section \<open>A library and an object\<close>

text \<open>
  A library whose values are a name, or a pointer to a name; the object has an \<^verbatim>\<open>ObjectMeta\<close> with memory of
  its own, a thick spec with a window of a larger array of groups, and a status with one condition.
\<close>

datatype libValue = Inline string | Indirect pointer

definition libName :: "libValue memory \<Rightarrow> libValue \<Rightarrow> string option" where
  "libName m x = (case x of Inline n \<Rightarrow> Some n
     | Indirect p \<Rightarrow> (case p of None \<Rightarrow> None
        | Some a \<Rightarrow> (case readCell (\<lambda>c. Some c) m a of Some (LibraryCell (Inline n)) \<Rightarrow> Some n | _ \<Rightarrow> None)))"

definition libReach :: "libValue memory \<Rightarrow> libValue \<Rightarrow> nat set" where
  "libReach m x = (case x of Indirect (Some a) \<Rightarrow> {a} | _ \<Rightarrow> {})"

definition libCopy :: "(libValue, libValue) copying" where
  "libCopy x m = (case x of
     Inline n \<Rightarrow> Some (x, m)
   | Indirect _ \<Rightarrow> (case libName m x of
       None \<Rightarrow> None
     | Some n \<Rightarrow> (case new_cell (LibraryCell (Inline n)) m of (b, m1) \<Rightarrow> Some (Indirect (Some b), m1))))"

definition libViews :: "(string \<Rightarrow> 'w) \<Rightarrow> libValue memory \<Rightarrow> libValue \<Rightarrow> 'w \<Rightarrow> bool" where
  "libViews f m x w \<longleftrightarrow> (case libName m x of None \<Rightarrow> False | Some n \<Rightarrow> f n = w)"

lemma libName_Indirect:
  "libName m (Indirect p) = Some n \<longleftrightarrow> (\<exists>a. p = Some a \<and> a < limit m \<and> cells m a = Some (LibraryCell (Inline n)))"
  by (auto simp: libName_def readCell_def split: option.splits cell.splits libValue.splits)

lemma libName_Inline [simp]: "libName m (Inline n) = Some n"
  by (simp add: libName_def)

lemma libCopier: "copier libCopy (libViews f) libReach"
proof (rule copier.intro)
  fix m x w assume "libViews f m x w"
  then show "libReach m x \<subseteq> {..<limit m}"
    by (cases x) (auto simp: libViews_def libReach_def libName_Indirect split: option.splits)
next
  fix m m' :: "libValue memory" and x w
  assume "libViews f m x w" "\<And>a. a \<in> libReach m x \<Longrightarrow> cells m' a = cells m a" "limit m \<le> limit m'"
  then show "libViews f m' x w \<and> libReach m' x = libReach m x"
    by (cases x) (auto simp: libViews_def libReach_def libName_def readCell_def split: option.splits if_splits
        cell.splits libValue.splits)
next
  fix m x w assume views: "libViews f m x w"
  then obtain n where "libName m x = Some n" "f n = w" by (auto simp: libViews_def split: option.splits)
  then show "\<exists>v' m'. libCopy x m = Some (v', m') \<and> libViews f m' v' w \<and> libReach m' v' \<subseteq> {limit m..<limit m'} \<and>
      limit m \<le> limit m' \<and> (\<forall>a < limit m. cells m' a = cells m a)"
    by (cases x) (auto simp: libCopy_def libViews_def libReach_def new_cell_def libName_def readCell_def)
qed

definition demoLibrary :: "libValue apimachinery" where
  "demoLibrary = \<lparr>ObjectMeta_DeepCopyInto = libCopy, ListMeta_DeepCopyInto = libCopy,
     LabelSelector_DeepCopyInto = libCopy, Condition_DeepCopyInto = libCopy, lib_Zero = Inline ''''\<rparr>"

definition demoSelectorOf :: "string \<Rightarrow> labelSelector" where
  "demoSelectorOf n = \<lparr>matchLabels = fmempty, matchExpressions = [(n, ''Exists'', [])]\<rparr>"

definition demoConditionOf :: "string \<Rightarrow> condition" where
  "demoConditionOf n = \<lparr>cond_Type = n, cond_Status = True, cond_Reason = '''', cond_Message = '''',
     cond_ObservedGeneration = 1\<rparr>"

definition demoDenotation :: "libValue denotation" where
  "demoDenotation = \<lparr>den_Meta = libViews meta0, den_ListMeta = libViews (\<lambda>n. n), den_Selector = libViews demoSelectorOf,
     den_Condition = libViews demoConditionOf, den_Reach = libReach\<rparr>"

lemma demoLibrary_copies [simp]: "apimachineryCopies demoLibrary demoDenotation"
  by (simp add: apimachineryCopies_def demoLibrary_def demoDenotation_def libCopier)

definition demoMemory :: "libValue memory" where
  "demoMemory = \<lparr>cells = map_of (zip [0..<9]
     [LibraryCell (Inline ''local''),
      BoolCell True,
      ThickCell \<lparr>m_Contiguous = Some 1\<rparr>,
      LvgArray [zeroLVG, \<lparr>m_Name = '''', m_LabelSelector = Some 4, m_Thin = None\<rparr>, zeroLVG],
      SelectorCell (Inline ''zone''),
      LvmCell \<lparr>m_Type = ''Thick'', m_Thick = Some 2, m_VolumeCleanup = '''',
        m_LVMVolumeGroups = Some \<lparr>w_Array = 3, w_Off = 1, w_Len = 1\<rparr>\<rparr>,
      ConditionArray [Inline ''Ready''],
      StatusCell \<lparr>m_Phase = ''Created'', m_Reason = '''', m_ObservedGeneration = 1,
        m_Conditions = Some \<lparr>w_Array = 6, w_Off = 0, w_Len = 1\<rparr>\<rparr>,
      ClassCell \<lparr>m_Kind = ''LocalStorageClass'', m_APIVersion = ''v1alpha1'', m_ObjectMeta = Indirect (Some 0),
        m_Spec = \<lparr>m_ReclaimPolicy = ''Delete'', m_VolumeBindingMode = ''Immediate'', m_LVM = Some 5, m_FSType = ''''\<rparr>,
        m_Status = Some 7\<rparr>]), limit = 9\<rparr>"

definition demoObject :: classValue where
  "demoObject = (''LocalStorageClass'', ''v1alpha1'', objmeta.extend (meta0 ''local'')
     \<lparr>ReclaimPolicy = ''Delete'', VolumeBindingMode = ''Immediate'',
      LVM = Some \<lparr>lvm_Type = ''Thick'', Thick = Some (Some True), VolumeCleanup = '''',
        LVMVolumeGroups = [\<lparr>le_Name = '''', LabelSelector = Some (demoSelectorOf ''zone''), Thin = None\<rparr>]\<rparr>,
      FSType = '''',
      lsc_Status = Some \<lparr>lsc_Phase = ''Created'', lsc_Reason = '''', ObservedGeneration = 1,
        Conditions = [demoConditionOf ''Ready'']\<rparr>\<rparr>)"

lemma demo_object: "viewsPointer asClass (viewsClass demoDenotation) demoMemory (Some 8) (Some demoObject)"
  by (simp add: viewsPointer_def readCell_def demoMemory_def upt_rec numeral_eq_Suc viewsClass_def viewsBody_def viewsSpec_def
      viewsLVM_def viewsLVG_def viewsThick_def viewsStatus_def viewsSlice_def viewsPlain_def demoObject_def demoDenotation_def
      libViews_def libName_def objmeta.extend_def objmeta.truncate_def meta0_def)

theorem deep_copy_is_independent_witness:
  "\<exists>q m'. LocalStorageClass_DeepCopyObject demoLibrary (Some 8) demoMemory = Some (Some (ClassObject (Some q)), m') \<and>
    viewsPointer asClass (viewsClass demoDenotation) m' (Some q) (Some demoObject) \<and>
    independentCopy (viewsPointer asClass (viewsClass demoDenotation)) (reachPointer asClass (reachClass demoDenotation)) m'
      (Some 8) (Some q) (Some demoObject)"
  by (rule deep_copy_is_independent [OF demoLibrary_copies demo_object])

end
