(* ===== verification/Registration.thy ===== *)
theory Registration
  imports Module_Hook Deep_Copy
begin

text \<open>
  How the module's kinds and names reach the libraries: \<^verbatim>\<open>api/v1alpha1/register.go\<close>, and the certificate hook
  \<^verbatim>\<open>hooks/go/020-webhook-certs/webhook-certs.go\<close> with the names of \<^verbatim>\<open>hooks/go/consts/consts.go\<close>.
\<close>

section \<open>The API group\<close>

definition APIGroup :: string where "APIGroup = ''storage.deckhouse.io''"
definition APIVersion :: string where "APIVersion = ''v1alpha1''"

definition SchemeGroupVersion :: "string \<times> string" where
  "SchemeGroupVersion = (APIGroup, APIVersion)"

text \<open>
  A scheme of \<^verbatim>\<open>k8s.io/apimachinery/pkg/runtime\<close> maps group, version and kind to the Go type of an object; its
  two operations are parameters.
\<close>

type_synonym scheme = "string \<times> string \<times> string \<Rightarrow> runtimeObject option"

record scheme_lib =
  AddKnownTypes :: "string \<times> string \<Rightarrow> runtimeObject list \<Rightarrow> scheme \<Rightarrow> scheme"
  AddToGroupVersion :: "string \<times> string \<Rightarrow> scheme \<Rightarrow> scheme"

text \<open>The result is the scheme and the error; \<^term>\<open>c\<close> and \<^term>\<open>l\<close> are the addresses of the two empty literals.\<close>

definition addKnownTypes :: "scheme_lib \<Rightarrow> nat \<Rightarrow> nat \<Rightarrow> scheme \<Rightarrow> scheme \<times> string option" where
  "addKnownTypes lib c l s =
    (let s1 = AddKnownTypes lib SchemeGroupVersion [ClassObject (Some c), ListObject (Some l)] s
     in (AddToGroupVersion lib SchemeGroupVersion s1, None))"

text \<open>
  The documented behaviour: each object is registered under the name of its Go type, and the kinds of options and
  watch events that \<^verbatim>\<open>AddToGroupVersion\<close> adds leave the others alone.
\<close>

definition typeName :: "runtimeObject \<Rightarrow> string" where
  "typeName obj = (case obj of ClassObject _ \<Rightarrow> ''LocalStorageClass'' | ListObject _ \<Rightarrow> ''LocalStorageClassList'')"

definition registers :: "scheme_lib \<Rightarrow> bool" where
  "registers lib \<longleftrightarrow>
     (\<forall>gv objs s. distinct (map typeName objs) \<longrightarrow>
        (\<forall>obj \<in> set objs. AddKnownTypes lib gv objs s (fst gv, snd gv, typeName obj) = Some obj)) \<and>
     (\<forall>gv s k. k \<in> {''LocalStorageClass'', ''LocalStorageClassList''} \<longrightarrow>
        AddToGroupVersion lib gv s (fst gv, snd gv, k) = s (fst gv, snd gv, k))"

text \<open>Registration cannot fail, and every kind the hook lists when the module is removed is a registered one,
  with the list type of the module beside it.\<close>

lemma registered_kinds:
  assumes "registers lib" "crgvk \<in> set CRGVKsForFinalizerRemoval"
  shows "snd (addKnownTypes lib c l s) = None \<and>
    fst (addKnownTypes lib c l s) (gvk_Group crgvk, gvk_Version crgvk, gvk_Kind crgvk @ ''List'') = Some (ListObject (Some l)) \<and>
    fst (addKnownTypes lib c l s) (gvk_Group crgvk, gvk_Version crgvk, gvk_Kind crgvk) = Some (ClassObject (Some c))"
proof -
  let ?s = "AddKnownTypes lib SchemeGroupVersion [ClassObject (Some c), ListObject (Some l)] s"
  have "distinct (map typeName [ClassObject (Some c), ListObject (Some l)])"
    by (simp add: typeName_def)
  with assms(1) have "\<forall>obj \<in> set [ClassObject (Some c), ListObject (Some l)].
      ?s (fst SchemeGroupVersion, snd SchemeGroupVersion, typeName obj) = Some obj"
    unfolding registers_def by blast
  then have add: "?s (APIGroup, APIVersion, ''LocalStorageClass'') = Some (ClassObject (Some c))"
    "?s (APIGroup, APIVersion, ''LocalStorageClassList'') = Some (ListObject (Some l))"
    by (simp_all add: SchemeGroupVersion_def typeName_def)
  have keep: "AddToGroupVersion lib SchemeGroupVersion ?s (APIGroup, APIVersion, k) = ?s (APIGroup, APIVersion, k)"
    if "k \<in> {''LocalStorageClass'', ''LocalStorageClassList''}" for k
    using assms(1) that unfolding registers_def SchemeGroupVersion_def by (metis fst_conv snd_conv)
  show ?thesis
    using assms(2) keep [of "''LocalStorageClass''"] keep [of "''LocalStorageClassList''"] add
    by (simp add: addKnownTypes_def CRGVKsForFinalizerRemoval_def APIGroup_def APIVersion_def)
qed

section \<open>The certificate of the webhooks\<close>

definition ModuleName :: string where "ModuleName = ''sdsLocalVolume''"
definition ModulePluralName :: string where "ModulePluralName = ''sds-local-volume''"
definition WebhookCertCn :: string where "WebhookCertCn = ''webhooks''"

record GenSelfSignedTLSHookConf =
  CommonCACanonicalName :: string
  CN :: string
  TLSSecretName :: string
  TLSNamespace :: string
  SANs :: "string list"
  FullValuesPathPrefix :: string

text \<open>\<^verbatim>\<open>tlscertificate.DefaultSANs\<close> is the module SDK's, a parameter.\<close>

definition webhookCertificate :: "(string list \<Rightarrow> string list) \<Rightarrow> GenSelfSignedTLSHookConf" where
  "webhookCertificate DefaultSANs = \<lparr>
     CommonCACanonicalName = ModulePluralName @ ''-'' @ WebhookCertCn,
     CN = WebhookCertCn,
     TLSSecretName = WebhookCertCn @ ''-https-certs'',
     TLSNamespace = ModuleNamespace,
     SANs = DefaultSANs [
       WebhookCertCn,
       WebhookCertCn @ ''.'' @ ModuleNamespace,
       WebhookCertCn @ ''.'' @ ModuleNamespace @ ''.svc'',
       ''%CLUSTER_DOMAIN%://'' @ WebhookCertCn @ ''.'' @ ModuleNamespace @ ''.svc''],
     FullValuesPathPrefix = ModuleName @ ''.internal.customWebhookCert''\<rparr>"

text \<open>The API server calls a webhook as \<^verbatim>\<open>service.namespace.svc\<close>; the certificate is valid for that name.\<close>

lemma certificate_covers_service:
  assumes "\<And>names. set names \<subseteq> set (DefaultSANs names)"
  shows "''webhooks.d8-sds-local-volume.svc'' \<in> set (SANs (webhookCertificate DefaultSANs))"
  using assms unfolding webhookCertificate_def
  by (fastforce simp: WebhookCertCn_def ModuleNamespace_def)

end
