(* ===== verification/Spec2Isabelle.thy ===== *)
theory Spec2Isabelle
  imports End_To_End CSI_Resize_Snapshot Node_Properties Watcher_Properties GC_Process LSC_Watches LSC_Convergence Process_Start
    Driver_Properties Module_Hook Release_Notes Shared_Objects Deep_Copy_Properties Registration
begin

text \<open>
  Verification of sds-local-volume, the Deckhouse module that provisions local LVM volumes in a Kubernetes
  cluster.

  \<^bold>\<open>The program.\<close> A \<^emph>\<open>controller\<close> (\<^verbatim>\<open>images/controller\<close>) turns each LocalStorageClass into a StorageClass, decides
  which nodes run the driver, and collects LVMLogicalVolumes and snapshots whose owner is gone.  A
  \<^emph>\<open>CSI driver\<close> (\<^verbatim>\<open>images/sds-local-volume-csi\<close>) serves the controller calls (create, delete, expand,
  snapshot), which become LVMLogicalVolume objects for the node agent of another module, and the node calls (stage,
  publish, expand, statistics), which mount what the agent made.  \<^emph>\<open>Webhooks\<close> (\<^verbatim>\<open>images/webhooks\<close>) admit
  LocalStorageClasses, protect StorageClasses and choose the scheduler of pods.  A \<^emph>\<open>hook\<close> (\<^verbatim>\<open>hooks/go\<close>) releases what the
  module owned when it is removed, and a \<^emph>\<open>tool\<close> (\<^verbatim>\<open>hack\<close>) writes the release notes.  The parts meet in Kubernetes
  objects: the parameters of the StorageClass go from the controller to the driver, the driver's
  finalizer on a volume is what the garbage collector looks for, the webhooks check what the controller
  later resolves, and the collector's picture of a sweep becomes the exported metrics.

  \<^bold>\<open>How it is modelled.\<close> Pure code is HOL functions with the names of the source; code with effects is in the
  state monad.  The outside world (API server, clock, mount table, retry helpers, YAML, label selectors, the order
  of map iteration) is a record of functions, an argument of every routine that uses it; each call
  sees the history of all earlier calls and is recorded with its answer, so a theorem over that record holds for
  every behaviour of the world.  What the code relies on is a named hypothesis (for instance \<^verbatim>\<open>retry_ok\<close>,
  \<^verbatim>\<open>mapOrderOk\<close>, \<^verbatim>\<open>yamlAgrees\<close>), met by a concrete instance in the witness.  Errors are values; a nil dereference
  is a value too (\<^verbatim>\<open>NilPointer\<close>, \<^verbatim>\<open>Panic\<close>, \<^verbatim>\<open>WPanic\<close>, \<^verbatim>\<open>WebPanic\<close>), after which nothing else runs.  \<^verbatim>\<open>int64\<close> arithmetic wraps
  (\<^verbatim>\<open>i64\<close>) where sizes and durations are computed.  Properties of effectful code are proved with weakest
  preconditions (\<^verbatim>\<open>wp\<close>) and loop rules of the prelude.

  \<^bold>\<open>Theories.\<close>
  \<^item> \<^verbatim>\<open>Prelude\<close>: integers and time, maps and slices, \<^verbatim>\<open>wp\<close>, loops, the contract of client-go's retry.
    \<^verbatim>\<open>Kube_Types\<close>: the Kubernetes objects as records over \<^verbatim>\<open>objmeta\<close>.  \<^verbatim>\<open>Go_Strings\<close>: strings, numbers and paths of Go.
  \<^item> \<^verbatim>\<open>Monitoring\<close>: the sweep's picture and the outcome of a reconcile; \<^verbatim>\<open>Metrics_Model\<close>: the declarations and the
    recorder (both \<^verbatim>\<open>images/controller/pkg/monitoring\<close>).  \<^verbatim>\<open>Metrics_Properties\<close>: every call fits its declaration, and
    publishing a sweep refines \<open>the exported series are this picture\<close> for every metrics library that keeps its contract.
  \<^item> \<^verbatim>\<open>GC_Model\<close> is \<^verbatim>\<open>lvm_logical_volume_gc.go\<close>, one definition per function; \<^verbatim>\<open>GC_History\<close> states over the
    history when a finalizer write is justified, \<^verbatim>\<open>GC_Safety\<close> shows that every routine keeps it, \<^verbatim>\<open>GC_Sweep\<close>
    lifts it to sweeps with the locale \<^verbatim>\<open>sweep_half\<close>, interpreted for volumes and for snapshots.
    \<^verbatim>\<open>GC_Properties\<close>: safety of every write, completeness of the published picture, reclaiming of eligible
    orphans, the budget, throttling, watch predicates.  \<^verbatim>\<open>GC_Process\<close>: the collector inside the controller process, with
    its settings, watches, the sweep at start-up and the queue as a step relation; it never stops sweeping.
  \<^item> \<^verbatim>\<open>LSC_Model\<close> and \<^verbatim>\<open>LSC_Reconcile\<close> are \<^verbatim>\<open>local_storage_class_watcher_func.go\<close> and
    \<^verbatim>\<open>local_storage_class_watcher.go\<close>.  \<^verbatim>\<open>LSC_Resolve\<close>: the resolution of entries refines a specification on maps.
    \<^verbatim>\<open>LSC_Validate\<close>, \<^verbatim>\<open>LSC_Properties\<close>: the validation is sound and complete, a built StorageClass is stable under
    comparison.  \<^verbatim>\<open>LSC_Effects\<close>, \<^verbatim>\<open>LSC_Pass_Properties\<close>: justified writes, order of teardown, published status.
    \<^verbatim>\<open>LSC_Convergence\<close>: one accepted pass over an admitted class leaves nothing to do for the next.
    \<^verbatim>\<open>LSC_Watches\<close>: which events reach the controller, and that the others change nothing it resolves.
  \<^item> \<^verbatim>\<open>Watcher_Model\<close> is \<^verbatim>\<open>local_csi_node_watcher.go\<close>; \<^verbatim>\<open>Watcher_Properties\<close> justifies every label it writes.
  \<^item> \<^verbatim>\<open>CSI_Utils\<close>, \<^verbatim>\<open>CSI_Client\<close>, \<^verbatim>\<open>CSI_Controller\<close> are \<^verbatim>\<open>pkg/utils/func.go\<close>, \<^verbatim>\<open>driver/controller.go\<close> and
    \<^verbatim>\<open>driver/controller_snapshots_ee.go\<close>.  \<^verbatim>\<open>CSI_Selection\<close>: alignment and choice of a group.
    \<^verbatim>\<open>CSI_Effects\<close>: the finalizer loop, once for the interface \<^verbatim>\<open>object_client\<close> of volumes and snapshots, and the
    polling loops.  \<^verbatim>\<open>CSI_Planning\<close>, \<^verbatim>\<open>CSI_Properties\<close>, \<^verbatim>\<open>CSI_Resize_Snapshot\<close>: what each call creates,
    resizes and deletes, that it rolls back and that it returns.
  \<^item> \<^verbatim>\<open>InFlight\<close> is \<^verbatim>\<open>internal/inflight.go\<close> with the interleavings of its users as a step relation, over the
    interface \<^verbatim>\<open>inflight_table\<close>.  \<^verbatim>\<open>Node_Model\<close> and \<^verbatim>\<open>Node_Service\<close> are \<^verbatim>\<open>pkg/utils/node_store_manager.go\<close> and
    \<^verbatim>\<open>driver/node.go\<close>; \<^verbatim>\<open>Node_Properties\<close>: volumes are released, staging formats only what it may,
    device paths correspond.
  \<^item> \<^verbatim>\<open>Driver_Process\<close> is \<^verbatim>\<open>driver/driver.go\<close>, \<^verbatim>\<open>driver/identity.go\<close> and the metrics of the driver; the goroutines that
    serve are a step relation.  \<^verbatim>\<open>Driver_Properties\<close>: the interceptor, readiness, the end of the process.
    \<^verbatim>\<open>Settings\<close>: environment, flags and log levels of all processes, and the logger the webhooks hand to
    kubewebhook.  \<^verbatim>\<open>Process_Start\<close>: the three \<^verbatim>\<open>main\<close> functions as steps that may fail; what is set up before they serve.
  \<^item> \<^verbatim>\<open>Registration\<close>: the API group with its kinds, and the certificate of the webhooks.
  \<^item> \<^verbatim>\<open>Module_Hook\<close> is the hook on the removal of the module, \<^verbatim>\<open>Release_Notes\<close> is \<^verbatim>\<open>hack/generate_release_notes.go\<close>.
  \<^item> \<^verbatim>\<open>Webhooks_Model\<close> is \<^verbatim>\<open>images/webhooks/handlers\<close>; \<^verbatim>\<open>Webhooks_Properties\<close> compares the admission with the
    validation of the controller and says what users may change.
  \<^item> \<^verbatim>\<open>Shared_Objects\<close> lets the controllers race with each other and with every other client on the same objects: under
    the documented optimistic concurrency of the API server (\<^verbatim>\<open>lockedWrites\<close>), with reads of any age, no accepted
    write undoes another client's.
  \<^item> \<^verbatim>\<open>Deep_Copy\<close> is \<^verbatim>\<open>api/v1alpha1/zz_generated.deepcopy.go\<close> over an explicit memory of pointers and arrays;
    \<^verbatim>\<open>Deep_Copy_Properties\<close>: the interface \<^verbatim>\<open>copier\<close>, how it passes to pointers, slices and structs, and that a copied
    object is independent of the original.
  \<^item> \<^verbatim>\<open>End_To_End\<close> holds the contract between controller and driver, and this theory the property that spans
    controller, driver and garbage collector.

  \<^bold>\<open>Bounds.\<close> The polling loops of the driver run until the context of the call is done; they take a number of
  rounds as fuel and \<^term>\<open>None\<close> means that it ran out.  \<^verbatim>\<open>hasDeadline\<close> says that the context is done after some number of
  calls; with more fuel than that every call returns (\<^verbatim>\<open>calls_return_by_deadline\<close>).  The finalizer loops are
  bounded by the constant of the source, all other loops by their input.

  \<^bold>\<open>Not modelled.\<close> The wrappers that hand a log record to the logging library; they keep no state of their own.
  The text of messages and of metric helps is left out or replaced by a constructor.  The libraries themselves
  (the scheme and the copying functions of apimachinery, controller-runtime's queue, gRPC and HTTP servers, the metrics storage, YAML) enter only
  through documented behaviour: as a named hypothesis, an argument, or the steps of a step relation.  The node
  agent that turns an LVMLogicalVolume into an LVM volume belongs to another repository and is part of the world.
  The copies of the logging package in the driver and in the webhooks are textually the controller's, which is the one
  modelled.
\<close>

section \<open>Properties that span components\<close>

lemma resolved_group_origin:
  assumes "LVM lsc = Some lvm" "resolveEffectiveLVGs asSelector lsc lvgs = Inr effective" "entry \<in> set effective"
  shows "groupFrom lvgs (LVMVolumeGroups lvm) (le_Name entry) (Thin entry)"
proof -
  from assms(2) obtain m where "specResolve asSelector lvgs (LVMVolumeGroups lvm) = Some m" "lists effective m"
    by (auto simp: resolve_iff [OF assms(1)])
  then show ?thesis
    using assms(3) specResolve_facts(3) by (fastforce simp: lists_def)
qed


definition demoThinLVM :: LocalStorageClassLVMSpec where
  "demoThinLVM = \<lparr>lvm_Type = ''Thin'', Thick = None, VolumeCleanup = '''', LVMVolumeGroups = [namedEntry ''vg-a'' (Some ''pool'')]\<rparr>"

definition demoThinLSC :: LocalStorageClass where
  "demoThinLSC = objmeta.extend (meta0 ''local-thin'')
     \<lparr>ReclaimPolicy = ''Delete'', VolumeBindingMode = ''Immediate'', LVM = Some demoThinLVM, FSType = '''', lsc_Status = None\<rparr>"

definition demoThinYaml :: yamlLib where
  "demoThinYaml = \<lparr>yaml_Marshal = (\<lambda>es. if es = [namedEntry ''vg-a'' (Some ''pool'')] then Inr ''text'' else Inl ''big''),
     yaml_Unmarshal = (\<lambda>s. Inl ''unused'')\<rparr>"

definition demoThinSC :: StorageClass where
  "demoThinSC = (case configureStorageClass demoThinYaml demoThinLSC [namedEntry ''vg-a'' (Some ''pool'')] [] of Inr sc \<Rightarrow> sc)"


end
